(* ===== verification/Prelude.thy ===== *)
theory Prelude
  imports Main "HOL-Library.Word"
begin

text \<open>
  Shared ground of the development: the machine types of the Win32 build (Unicode,
  little-endian), memory faults as values, bounds-checked reads and writes of C arrays,
  \<open>memcpy\<close>, the little-endian layout of a \<open>DWORD\<close>, NUL-terminated strings, and the
  generic list and word lemmas the components use.
\<close>

unbundle bit_operations_syntax

section \<open>Machine types\<close>

type_synonym byte = "8 word"
type_synonym wchar = "16 word"
type_synonym dword = "32 word"

text \<open>
  A pointer or a \<open>HANDLE\<close> is a natural number; \<open>0\<close> is \<open>NULL\<close>.
\<close>

type_synonym ptr = nat
type_synonym handle = nat

abbreviation (input) NULL :: nat where
  "NULL \<equiv> 0"

named_theorems layout \<open>sizes and offsets of the C structures\<close>
named_theorems res_simps \<open>rewriting of computations that may fault\<close>

section \<open>Faults as values\<close>

text \<open>
  C code that touches memory outside an object has no defined result. The model makes
  each such access a value of the left summand, so that a theorem about a result on the
  right summand is also a theorem that no such access happened.
\<close>

datatype fault =
    Null_Dereference
  | Read_Out_Of_Bounds
  | Buffer_Overflow
  | Buffer_Underflow
  | Use_After_Free
  | Signed_Overflow
  | Index_Wrapped
  | Unterminated_String

type_synonym 'a result = "fault + 'a"

definition res_bind :: "'a result \<Rightarrow> ('a \<Rightarrow> 'b result) \<Rightarrow> 'b result" where
  "res_bind m f = (case m of Inl e \<Rightarrow> Inl e | Inr x \<Rightarrow> f x)"

lemma res_bind_Inl [simp]: "res_bind (Inl e) f = Inl e"
  by (simp add: res_bind_def)

lemma res_bind_Inr [simp]: "res_bind (Inr x) f = f x"
  by (simp add: res_bind_def)

lemma res_bind_eq_Inr [res_simps]:
  "res_bind m f = Inr y \<longleftrightarrow> (\<exists>x. m = Inr x \<and> f x = Inr y)"
  by (cases m) auto

lemma res_bind_eq_Inl [res_simps]:
  "res_bind m f = Inl e \<longleftrightarrow> m = Inl e \<or> (\<exists>x. m = Inr x \<and> f x = Inl e)"
  by (cases m) auto

lemma res_bind_cong [fundef_cong]:
  "m = m' \<Longrightarrow> (\<And>x. m' = Inr x \<Longrightarrow> f x = g x) \<Longrightarrow> res_bind m f = res_bind m' g"
  by (cases m') auto

definition is_fault :: "'a result \<Rightarrow> bool" where
  "is_fault r \<longleftrightarrow> (case r of Inl _ \<Rightarrow> True | Inr _ \<Rightarrow> False)"

lemma is_fault_simps [simp]: "is_fault (Inl e)" "\<not> is_fault (Inr x)"
  by (simp_all add: is_fault_def)

lemma not_is_fault_iff: "\<not> is_fault r \<longleftrightarrow> (\<exists>x. r = Inr x)"
  by (cases r) auto

lemma is_fault_res_bind [res_simps]:
  "is_fault (res_bind m f) \<longleftrightarrow> is_fault m \<or> (\<exists>x. m = Inr x \<and> is_fault (f x))"
  by (cases m) auto

section \<open>Arrays\<close>

text \<open>
  An array is the list of its elements, an index is an \<open>int\<close> because C computes it in
  signed arithmetic and it may be negative.
\<close>

definition rd :: "'a list \<Rightarrow> int \<Rightarrow> 'a result" where
  "rd xs i = (if 0 \<le> i \<and> i < int (length xs) then Inr (xs ! nat i) else Inl Read_Out_Of_Bounds)"

definition wr :: "'a list \<Rightarrow> int \<Rightarrow> 'a \<Rightarrow> 'a list result" where
  "wr xs i v =
     (if i < 0 then Inl Buffer_Underflow
      else if int (length xs) \<le> i then Inl Buffer_Overflow
      else Inr (xs[nat i := v]))"

lemma rd_in [simp]: "i < length xs \<Longrightarrow> rd xs (int i) = Inr (xs ! i)"
  by (simp add: rd_def)

lemma rd_out: "i < 0 \<or> int (length xs) \<le> i \<Longrightarrow> rd xs i = Inl Read_Out_Of_Bounds"
  by (auto simp: rd_def)

lemma rd_eq_Inr [res_simps]:
  "rd xs i = Inr v \<longleftrightarrow> 0 \<le> i \<and> nat i < length xs \<and> v = xs ! nat i"
  by (auto simp: rd_def)

lemma wr_in [simp]: "i < length xs \<Longrightarrow> wr xs (int i) v = Inr (xs[i := v])"
  by (simp add: wr_def)

lemma wr_eq_Inr [res_simps]:
  "wr xs i v = Inr ys \<longleftrightarrow> 0 \<le> i \<and> nat i < length xs \<and> ys = xs[nat i := v]"
  by (auto simp: wr_def)

lemma wr_length: "wr xs i v = Inr ys \<Longrightarrow> length ys = length xs"
  by (simp add: res_simps)

text \<open>\<open>memcpy(dst + off, src, n)\<close>: both the read and the write are checked.\<close>

definition memcpy_at :: "'a list \<Rightarrow> nat \<Rightarrow> 'a list \<Rightarrow> nat \<Rightarrow> 'a list result" where
  "memcpy_at dst off src n =
     (if length src < n then Inl Read_Out_Of_Bounds
      else if length dst < off + n then Inl Buffer_Overflow
      else Inr (take off dst @ take n src @ drop (off + n) dst))"

lemma memcpy_at_eq_Inr [res_simps]:
  "memcpy_at dst off src n = Inr r \<longleftrightarrow>
     n \<le> length src \<and> off + n \<le> length dst \<and> r = take off dst @ take n src @ drop (off + n) dst"
  by (auto simp: memcpy_at_def)

lemma memcpy_at_length: "memcpy_at dst off src n = Inr r \<Longrightarrow> length r = length dst"
  by (auto simp: memcpy_at_eq_Inr)

lemma memcpy_at_take: "memcpy_at dst 0 src n = Inr r \<Longrightarrow> take n r = take n src"
  by (auto simp: memcpy_at_eq_Inr)

section \<open>Little-endian words\<close>

lemma unat_byte: "unat (b :: byte) < 256"
  using unsigned_less [of b] by simp

definition dword_bytes :: "dword \<Rightarrow> byte list" where
  "dword_bytes w = [ucast w, ucast (drop_bit 8 w), ucast (drop_bit 16 w), ucast (drop_bit 24 w)]"

definition bytes_dword :: "byte list \<Rightarrow> dword" where
  "bytes_dword bs =
     ucast (bs ! 0) OR push_bit 8 (ucast (bs ! 1)) OR
     push_bit 16 (ucast (bs ! 2)) OR push_bit 24 (ucast (bs ! 3))"

definition bytes_word16 :: "byte list \<Rightarrow> 16 word" where
  "bytes_word16 bs = ucast (bs ! 0) OR push_bit 8 (ucast (bs ! 1))"

definition word16_bytes :: "16 word \<Rightarrow> byte list" where
  "word16_bytes w = [ucast w, ucast (drop_bit 8 w)]"

lemma length_dword_bytes [simp]: "length (dword_bytes w) = 4"
  by (simp add: dword_bytes_def)

lemma length_word16_bytes [simp]: "length (word16_bytes w) = 2"
  by (simp add: word16_bytes_def)

lemma bit_byte_out: "bit (a :: byte) (k + n) \<Longrightarrow> 8 \<le> k \<Longrightarrow> P"
  using bit_imp_le_length [of a "k + n"] by simp

lemma bytes_dword_bytes [simp]: "bytes_dword (dword_bytes w) = w"
proof (rule bit_word_eqI)
  fix n
  assume "n < LENGTH(32)"
  then consider "n < 8" | "8 \<le> n" "n < 16" | "16 \<le> n" "n < 24" | "24 \<le> n" "n < 32"
    by fastforce
  then show "bit (bytes_dword (dword_bytes w)) n = bit w n"
    by cases (auto simp: bytes_dword_def dword_bytes_def bit_simps)
qed

lemma bytes_word16_bytes [simp]: "bytes_word16 (word16_bytes w) = w"
  by (rule bit_word_eqI) (auto simp: bytes_word16_def word16_bytes_def bit_simps)

lemma list_of_length_4: "length xs = 4 \<Longrightarrow> \<exists>a b c d. xs = [a, b, c, d]"
  by (auto simp: numeral_eq_Suc length_Suc_conv)

lemma list_of_length_2: "length xs = 2 \<Longrightarrow> \<exists>a b. xs = [a, b]"
  by (auto simp: numeral_eq_Suc length_Suc_conv)

lemma dword_bytes_dword: "length bs = 4 \<Longrightarrow> dword_bytes (bytes_dword bs) = bs"
  by (drule list_of_length_4)
     (auto simp: bytes_dword_def dword_bytes_def intro!: bit_word_eqI,
      auto simp: bit_simps elim: bit_byte_out)

lemma word16_bytes_word16: "length bs = 2 \<Longrightarrow> word16_bytes (bytes_word16 bs) = bs"
  by (drule list_of_length_2)
     (auto simp: bytes_word16_def word16_bytes_def intro!: bit_word_eqI,
      auto simp: bit_simps elim: bit_byte_out)

section \<open>Slices\<close>

definition slice :: "nat \<Rightarrow> nat \<Rightarrow> 'a list \<Rightarrow> 'a list" where
  "slice off n xs = take n (drop off xs)"

lemma length_slice: "off + n \<le> length xs \<Longrightarrow> length (slice off n xs) = n"
  by (simp add: slice_def)

lemma slice_append_left: "off + n \<le> length xs \<Longrightarrow> slice off n (xs @ ys) = slice off n xs"
  by (simp add: slice_def)

lemma slice_append_right: "slice (length xs + off) n (xs @ ys) = slice off n ys"
  by (simp add: slice_def)

lemma slice_join: "slice off m xs @ slice (off + m) n xs = slice off (m + n) xs"
  by (simp add: slice_def take_add add.commute)

section \<open>C strings\<close>

text \<open>
  A NUL-terminated string in a character array: the characters before the first NUL; a
  scan that meets the end of the array before a NUL reads out of bounds.
\<close>

fun c_str :: "char list \<Rightarrow> string result" where
  "c_str [] = Inl Unterminated_String"
| "c_str (c # cs) = (if c = CHR 0x00 then Inr [] else res_bind (c_str cs) (\<lambda>s. Inr (c # s)))"

lemma c_str_terminated: "CHR 0x00 \<notin> set s \<Longrightarrow> c_str (s @ CHR 0x00 # rest) = Inr s"
  by (induction s) auto

lemma c_str_unterminated: "CHR 0x00 \<notin> set s \<Longrightarrow> c_str s = Inl Unterminated_String"
  by (induction s) auto

lemma c_str_no_nul: "c_str cs = Inr s \<Longrightarrow> CHR 0x00 \<notin> set s"
  by (induction cs arbitrary: s) (auto simp: res_simps split: if_splits)

section \<open>HRESULT\<close>

text \<open>\<open>FAILED(hr)\<close>: the sign bit of the result code.\<close>

definition FAILED :: "dword \<Rightarrow> bool" where
  "FAILED hr \<longleftrightarrow> sint hr < 0"

lemma FAILED_small:
  assumes "unat w < 2 ^ 31"
  shows "\<not> FAILED w"
proof -
  have "int (unat w) < int (2 ^ 31)"
    using assms by (simp only: of_nat_less_iff)
  then have "uint w < 2 ^ 31" by simp
  then have "signed_take_bit 31 (uint w) = uint w"
    by (intro signed_take_bit_int_eq_self) (simp_all add: order_trans [OF _ uint_ge_0])
  then show ?thesis by (simp add: FAILED_def sint_uint)
qed

lemma FAILED_minus: "FAILED (- 1)" "FAILED (- 2)" "FAILED (- 3)"
  by (simp_all add: FAILED_def)

end
