(* ===== verification/Dhcp_Packet.thy ===== *)
theory Dhcp_Packet
  imports Prelude
begin

text \<open>
  \<open>include/dhcp.h\<close>: the protocol constants, the packet structure and its memory layout, and
  the three argument structures the callout DLL sends to the monitor process. A structure is
  a record; \<open>cast_\<close> and \<open>..._bytes\<close> functions give the C memory layout (little-endian, natural
  alignment, no padding in these structures).
\<close>

section \<open>Constants\<close>

definition DHCP_UDP_OVERHEAD :: nat where [layout]: "DHCP_UDP_OVERHEAD = 20 + 8"
definition DHCP_SNAME_LEN :: nat where [layout]: "DHCP_SNAME_LEN = 64"
definition DHCP_FILE_LEN :: nat where [layout]: "DHCP_FILE_LEN = 128"
definition DHCP_FIXED_NON_UDP :: nat where [layout]: "DHCP_FIXED_NON_UDP = 236"
definition DHCP_FIXED_LEN :: nat where
  [layout]: "DHCP_FIXED_LEN = DHCP_FIXED_NON_UDP + DHCP_UDP_OVERHEAD"
definition BOOTP_MIN_LEN :: nat where [layout]: "BOOTP_MIN_LEN = 300"
definition DHCP_MTU_MAX :: nat where [layout]: "DHCP_MTU_MAX = 1500"
definition DHCP_MTU_MIN :: nat where [layout]: "DHCP_MTU_MIN = 576"
definition DHCP_MAX_OPTION_LEN :: nat where
  [layout]: "DHCP_MAX_OPTION_LEN = DHCP_MTU_MAX - DHCP_FIXED_LEN"
definition DHCP_MIN_OPTION_LEN :: nat where
  [layout]: "DHCP_MIN_OPTION_LEN = DHCP_MTU_MIN - DHCP_FIXED_LEN"

definition BOOTREQUEST :: byte where "BOOTREQUEST = 1"
definition BOOTREPLY :: byte where "BOOTREPLY = 2"
definition BOOTP_BROADCAST :: nat where "BOOTP_BROADCAST = 32768"
definition HTYPE_ETHER :: byte where "HTYPE_ETHER = 1"
definition HTYPE_IEEE802 :: byte where "HTYPE_IEEE802 = 6"
definition HTYPE_FDDI :: byte where "HTYPE_FDDI = 8"

text \<open>The octal escapes 143, 202, 123, 143 of the magic cookie.\<close>

definition DHCP_OPTIONS_COOKIE :: "byte list" where
  "DHCP_OPTIONS_COOKIE = [0x63, 0x82, 0x53, 0x63]"

definition dho_table :: "(string \<times> byte) list" where
  "dho_table = [
    (''DHO_PAD'', 0),
    (''DHO_SUBNET_MASK'', 1),
    (''DHO_TIME_OFFSET'', 2),
    (''DHO_ROUTERS'', 3),
    (''DHO_TIME_SERVERS'', 4),
    (''DHO_NAME_SERVERS'', 5),
    (''DHO_DOMAIN_NAME_SERVERS'', 6),
    (''DHO_LOG_SERVERS'', 7),
    (''DHO_COOKIE_SERVERS'', 8),
    (''DHO_LPR_SERVERS'', 9),
    (''DHO_IMPRESS_SERVERS'', 10),
    (''DHO_RESOURCE_LOCATION_SERVERS'', 11),
    (''DHO_HOST_NAME'', 12),
    (''DHO_BOOT_SIZE'', 13),
    (''DHO_MERIT_DUMP'', 14),
    (''DHO_DOMAIN_NAME'', 15),
    (''DHO_SWAP_SERVER'', 16),
    (''DHO_ROOT_PATH'', 17),
    (''DHO_EXTENSIONS_PATH'', 18),
    (''DHO_IP_FORWARDING'', 19),
    (''DHO_NON_LOCAL_SOURCE_ROUTING'', 20),
    (''DHO_POLICY_FILTER'', 21),
    (''DHO_MAX_DGRAM_REASSEMBLY'', 22),
    (''DHO_DEFAULT_IP_TTL'', 23),
    (''DHO_PATH_MTU_AGING_TIMEOUT'', 24),
    (''DHO_PATH_MTU_PLATEAU_TABLE'', 25),
    (''DHO_INTERFACE_MTU'', 26),
    (''DHO_ALL_SUBNETS_LOCAL'', 27),
    (''DHO_BROADCAST_ADDRESS'', 28),
    (''DHO_PERFORM_MASK_DISCOVERY'', 29),
    (''DHO_MASK_SUPPLIER'', 30),
    (''DHO_ROUTER_DISCOVERY'', 31),
    (''DHO_ROUTER_SOLICITATION_ADDRESS'', 32),
    (''DHO_STATIC_ROUTES'', 33),
    (''DHO_TRAILER_ENCAPSULATION'', 34),
    (''DHO_ARP_CACHE_TIMEOUT'', 35),
    (''DHO_IEEE802_3_ENCAPSULATION'', 36),
    (''DHO_DEFAULT_TCP_TTL'', 37),
    (''DHO_TCP_KEEPALIVE_INTERVAL'', 38),
    (''DHO_TCP_KEEPALIVE_GARBAGE'', 39),
    (''DHO_NIS_DOMAIN'', 40),
    (''DHO_NIS_SERVERS'', 41),
    (''DHO_NTP_SERVERS'', 42),
    (''DHO_VENDOR_ENCAPSULATED_OPTIONS'', 43),
    (''DHO_NETBIOS_NAME_SERVERS'', 44),
    (''DHO_NETBIOS_DD_SERVER'', 45),
    (''DHO_NETBIOS_NODE_TYPE'', 46),
    (''DHO_NETBIOS_SCOPE'', 47),
    (''DHO_FONT_SERVERS'', 48),
    (''DHO_X_DISPLAY_MANAGER'', 49),
    (''DHO_DHCP_REQUESTED_ADDRESS'', 50),
    (''DHO_DHCP_LEASE_TIME'', 51),
    (''DHO_DHCP_OPTION_OVERLOAD'', 52),
    (''DHO_DHCP_MESSAGE_TYPE'', 53),
    (''DHO_DHCP_SERVER_IDENTIFIER'', 54),
    (''DHO_DHCP_PARAMETER_REQUEST_LIST'', 55),
    (''DHO_DHCP_MESSAGE'', 56),
    (''DHO_DHCP_MAX_MESSAGE_SIZE'', 57),
    (''DHO_DHCP_RENEWAL_TIME'', 58),
    (''DHO_DHCP_REBINDING_TIME'', 59),
    (''DHO_VENDOR_CLASS_IDENTIFIER'', 60),
    (''DHO_DHCP_CLIENT_IDENTIFIER'', 61),
    (''DHO_NWIP_DOMAIN_NAME'', 62),
    (''DHO_NWIP_SUBOPTIONS'', 63),
    (''DHO_USER_CLASS'', 77),
    (''DHO_FQDN'', 81),
    (''DHO_DHCP_AGENT_OPTIONS'', 82),
    (''DHO_CLIENT_LAST_TRANSACTION_TIME'', 91),
    (''DHO_ASSOCIATED_IP'', 92),
    (''DHO_SUBNET_SELECTION'', 118),
    (''DHO_DOMAIN_SEARCH'', 119),
    (''DHO_VIVCO_SUBOPTIONS'', 124),
    (''DHO_VIVSO_SUBOPTIONS'', 125),
    (''DHO_AUTHENTICATE'', 210),
    (''DHO_END'', 255)]"

definition DHO_PAD :: byte where "DHO_PAD = 0"
definition DHO_HOST_NAME :: byte where "DHO_HOST_NAME = 12"
definition DHO_DHCP_MESSAGE_TYPE :: byte where "DHO_DHCP_MESSAGE_TYPE = 53"
definition DHO_END :: byte where "DHO_END = 255"

datatype dhcp_message =
    DHCPDISCOVER | DHCPOFFER | DHCPREQUEST | DHCPDECLINE | DHCPACK | DHCPNAK | DHCPRELEASE
  | DHCPINFORM | DHCPLEASEQUERY | DHCPLEASEUNASSIGNED | DHCPLEASEUNKNOWN | DHCPLEASEACTIVE

fun dhcp_message_code :: "dhcp_message \<Rightarrow> byte" where
  "dhcp_message_code DHCPDISCOVER = 1"
| "dhcp_message_code DHCPOFFER = 2"
| "dhcp_message_code DHCPREQUEST = 3"
| "dhcp_message_code DHCPDECLINE = 4"
| "dhcp_message_code DHCPACK = 5"
| "dhcp_message_code DHCPNAK = 6"
| "dhcp_message_code DHCPRELEASE = 7"
| "dhcp_message_code DHCPINFORM = 8"
| "dhcp_message_code DHCPLEASEQUERY = 10"
| "dhcp_message_code DHCPLEASEUNASSIGNED = 11"
| "dhcp_message_code DHCPLEASEUNKNOWN = 12"
| "dhcp_message_code DHCPLEASEACTIVE = 13"

definition rai_table :: "(string \<times> nat) list" where
  "rai_table = [(''RAI_CIRCUIT_ID'', 1), (''RAI_REMOTE_ID'', 2), (''RAI_AGENT_ID'', 3),
     (''RAI_LINK_SELECT'', 5)]"

definition fqdn_table :: "(string \<times> nat) list" where
  "fqdn_table = [(''FQDN_NO_CLIENT_UPDATE'', 1), (''FQDN_SERVER_UPDATE'', 2),
     (''FQDN_ENCODED'', 3), (''FQDN_RCODE1'', 4), (''FQDN_RCODE2'', 5), (''FQDN_HOSTNAME'', 6),
     (''FQDN_DOMAINNAME'', 7), (''FQDN_FQDN'', 8)]"

definition FQDN_SUBOPTION_COUNT :: nat where "FQDN_SUBOPTION_COUNT = 8"
definition VENDOR_ISC_SUBOPTIONS :: nat where "VENDOR_ISC_SUBOPTIONS = 2495"

definition CALLOUT_ADDRESS_OFFER :: dword where "CALLOUT_ADDRESS_OFFER = 1"
definition CALLOUT_ADDRESS_DELETE :: dword where "CALLOUT_ADDRESS_DELETE = 2"
definition CALLOUT_CLIENT_DELETE :: dword where "CALLOUT_CLIENT_DELETE = 3"

lemmas callout_codes = CALLOUT_ADDRESS_OFFER_def CALLOUT_ADDRESS_DELETE_def CALLOUT_CLIENT_DELETE_def

definition SHM_CALLOUT_NAME :: string where
  "SHM_CALLOUT_NAME = ''Global'' @ [CHR 0x5C] @ ''SHM_CALLOUT_NAME_{096DEB52-BA7A-40E9-8A3B-3A528D1243CB}''"
definition SHM_CALLOUT_LOCK :: string where
  "SHM_CALLOUT_LOCK = ''Global'' @ [CHR 0x5C] @ ''SHM_CALLOUT_LOCK_{096DEB52-BA7A-40E9-8A3B-3A528D1243CB}''"
definition SHM_CALLOUT_EVENT_SEND :: string where
  "SHM_CALLOUT_EVENT_SEND = ''Global'' @ [CHR 0x5C] @ ''SHM_CALLOUT_EVENT_SEND_{096DEB52-BA7A-40E9-8A3B-3A528D1243CB}''"

section \<open>The packet structure\<close>

record dhcp_packet =
  pkt_op :: byte
  htype :: byte
  hlen :: byte
  hops :: byte
  xid :: dword
  secs :: "16 word"
  pkt_flags :: "16 word"
  ciaddr :: dword
  yiaddr :: dword
  siaddr :: dword
  giaddr :: dword
  chaddr :: "byte list"
  sname :: "byte list"
  pkt_file :: "byte list"
  pkt_options :: "byte list"

definition OFF_chaddr :: nat where [layout]: "OFF_chaddr = 28"
definition OFF_sname :: nat where [layout]: "OFF_sname = OFF_chaddr + 16"
definition OFF_file :: nat where [layout]: "OFF_file = OFF_sname + DHCP_SNAME_LEN"
definition OFF_options :: nat where [layout]: "OFF_options = OFF_file + DHCP_FILE_LEN"
definition sizeof_DHCP_PACKET :: nat where
  [layout]: "sizeof_DHCP_PACKET = OFF_options + DHCP_MAX_OPTION_LEN"

text \<open>The cast \<open>(PDHCP_PACKET)buf->Packet\<close>: every field read at its offset.\<close>

definition cast_packet :: "byte list \<Rightarrow> dhcp_packet" where
  "cast_packet bs = \<lparr>
     pkt_op = bs ! 0, htype = bs ! 1, hlen = bs ! 2, hops = bs ! 3,
     xid = bytes_dword (slice 4 4 bs),
     secs = bytes_word16 (slice 8 2 bs), pkt_flags = bytes_word16 (slice 10 2 bs),
     ciaddr = bytes_dword (slice 12 4 bs), yiaddr = bytes_dword (slice 16 4 bs),
     siaddr = bytes_dword (slice 20 4 bs), giaddr = bytes_dword (slice 24 4 bs),
     chaddr = slice OFF_chaddr 16 bs,
     sname = slice OFF_sname DHCP_SNAME_LEN bs,
     pkt_file = slice OFF_file DHCP_FILE_LEN bs,
     pkt_options = slice OFF_options DHCP_MAX_OPTION_LEN bs \<rparr>"

definition packet_bytes :: "dhcp_packet \<Rightarrow> byte list" where
  "packet_bytes p =
     [pkt_op p, htype p, hlen p, hops p] @ dword_bytes (xid p) @
     word16_bytes (secs p) @ word16_bytes (pkt_flags p) @
     dword_bytes (ciaddr p) @ dword_bytes (yiaddr p) @ dword_bytes (siaddr p) @
     dword_bytes (giaddr p) @ chaddr p @ sname p @ pkt_file p @ pkt_options p"

definition wf_packet :: "dhcp_packet \<Rightarrow> bool" where
  "wf_packet p \<longleftrightarrow> length (chaddr p) = 16 \<and> length (sname p) = DHCP_SNAME_LEN \<and>
     length (pkt_file p) = DHCP_FILE_LEN \<and> length (pkt_options p) = DHCP_MAX_OPTION_LEN"

section \<open>The hook argument structures\<close>

record offer_args =
  o_HookType :: dword
  o_PacketSize :: dword
  o_ControlCode :: dword
  o_IpAddress :: dword
  o_AltAddress :: dword
  o_AddrType :: dword
  o_LeaseTime :: dword
  o_Packet :: "byte list"

record del_args =
  d_HookType :: dword
  d_PacketSize :: dword
  d_Packet :: "byte list"
  d_ControlCode :: dword
  d_IpAddress :: dword
  d_AltAddress :: dword

record client_args =
  c_HookType :: dword
  c_IpAddress :: dword
  c_HwAddress :: "byte list"
  c_HwAddressLength :: dword
  c_ClientType :: dword

definition sizeof_OFFER_ARGS :: nat where [layout]: "sizeof_OFFER_ARGS = 7 * 4 + DHCP_MTU_MAX"
definition sizeof_DEL_ARGS :: nat where [layout]: "sizeof_DEL_ARGS = 2 * 4 + DHCP_MTU_MAX + 3 * 4"
definition sizeof_CLIENT_ARGS :: nat where [layout]: "sizeof_CLIENT_ARGS = 2 * 4 + 16 + 2 * 4"

definition offer_bytes :: "offer_args \<Rightarrow> byte list" where
  "offer_bytes a = dword_bytes (o_HookType a) @ dword_bytes (o_PacketSize a) @
     dword_bytes (o_ControlCode a) @ dword_bytes (o_IpAddress a) @ dword_bytes (o_AltAddress a) @
     dword_bytes (o_AddrType a) @ dword_bytes (o_LeaseTime a) @ o_Packet a"

definition cast_offer :: "byte list \<Rightarrow> offer_args" where
  "cast_offer bs = \<lparr> o_HookType = bytes_dword (slice 0 4 bs),
     o_PacketSize = bytes_dword (slice 4 4 bs), o_ControlCode = bytes_dword (slice 8 4 bs),
     o_IpAddress = bytes_dword (slice 12 4 bs), o_AltAddress = bytes_dword (slice 16 4 bs),
     o_AddrType = bytes_dword (slice 20 4 bs), o_LeaseTime = bytes_dword (slice 24 4 bs),
     o_Packet = slice 28 DHCP_MTU_MAX bs \<rparr>"

definition del_bytes :: "del_args \<Rightarrow> byte list" where
  "del_bytes a = dword_bytes (d_HookType a) @ dword_bytes (d_PacketSize a) @ d_Packet a @
     dword_bytes (d_ControlCode a) @ dword_bytes (d_IpAddress a) @ dword_bytes (d_AltAddress a)"

definition cast_del :: "byte list \<Rightarrow> del_args" where
  "cast_del bs = \<lparr> d_HookType = bytes_dword (slice 0 4 bs),
     d_PacketSize = bytes_dword (slice 4 4 bs), d_Packet = slice 8 DHCP_MTU_MAX bs,
     d_ControlCode = bytes_dword (slice (8 + DHCP_MTU_MAX) 4 bs),
     d_IpAddress = bytes_dword (slice (12 + DHCP_MTU_MAX) 4 bs),
     d_AltAddress = bytes_dword (slice (16 + DHCP_MTU_MAX) 4 bs) \<rparr>"

definition client_bytes :: "client_args \<Rightarrow> byte list" where
  "client_bytes a = dword_bytes (c_HookType a) @ dword_bytes (c_IpAddress a) @ c_HwAddress a @
     dword_bytes (c_HwAddressLength a) @ dword_bytes (c_ClientType a)"

definition cast_client :: "byte list \<Rightarrow> client_args" where
  "cast_client bs = \<lparr> c_HookType = bytes_dword (slice 0 4 bs),
     c_IpAddress = bytes_dword (slice 4 4 bs), c_HwAddress = slice 8 16 bs,
     c_HwAddressLength = bytes_dword (slice 24 4 bs), c_ClientType = bytes_dword (slice 28 4 bs) \<rparr>"

definition wf_offer :: "offer_args \<Rightarrow> bool" where
  "wf_offer a \<longleftrightarrow> length (o_Packet a) = DHCP_MTU_MAX"

definition wf_del :: "del_args \<Rightarrow> bool" where
  "wf_del a \<longleftrightarrow> length (d_Packet a) = DHCP_MTU_MAX"

definition wf_client :: "client_args \<Rightarrow> bool" where
  "wf_client a \<longleftrightarrow> length (c_HwAddress a) = 16"

section \<open>The codec interface\<close>

text \<open>
  What the two processes rely on: the sender's memory image has the size of the structure,
  and the receiver's cast of a buffer that starts with that image gives the structure back,
  whatever bytes follow.
\<close>

locale msg_codec =
  fixes enc :: "'a \<Rightarrow> byte list" and dec :: "byte list \<Rightarrow> 'a"
    and wf :: "'a \<Rightarrow> bool" and sz :: nat
  assumes length_enc: "wf m \<Longrightarrow> length (enc m) = sz"
    and dec_enc: "wf m \<Longrightarrow> dec (enc m @ rest) = m"
begin

lemma dec_overlay: "wf m \<Longrightarrow> memcpy_at slot 0 (enc m) sz = Inr slot' \<Longrightarrow> dec slot' = m"
  by (auto simp: memcpy_at_eq_Inr length_enc dec_enc)

lemma enc_inj: "wf m \<Longrightarrow> wf n \<Longrightarrow> enc m = enc n \<Longrightarrow> m = n"
  by (metis dec_enc)

end

lemma slice_drop_prefix:
  "length xs = k \<Longrightarrow> k \<le> off \<Longrightarrow> slice off n (xs @ ys) = slice (off - k) n ys"
  by (simp add: slice_def)

lemma slice_take_prefix: "length xs = n \<Longrightarrow> slice 0 n (xs @ ys) = xs"
  by (simp add: slice_def)

lemmas slice_parse = slice_drop_prefix [where k = 4, OF length_dword_bytes]
  slice_drop_prefix [where k = 2, OF length_word16_bytes]
  slice_take_prefix [where n = 4, OF length_dword_bytes]
  slice_take_prefix [where n = 2, OF length_word16_bytes]

interpretation offer_codec: msg_codec offer_bytes cast_offer wf_offer sizeof_OFFER_ARGS
proof
  show "length (offer_bytes m) = sizeof_OFFER_ARGS" if "wf_offer m" for m
    using that by (simp add: offer_bytes_def wf_offer_def layout)
  show "cast_offer (offer_bytes m @ rest) = m" if "wf_offer m" for m rest
    using that
    by (simp add: cast_offer_def offer_bytes_def wf_offer_def slice_parse slice_take_prefix)
qed

interpretation del_codec: msg_codec del_bytes cast_del wf_del sizeof_DEL_ARGS
proof
  show "length (del_bytes m) = sizeof_DEL_ARGS" if "wf_del m" for m
    using that by (simp add: del_bytes_def wf_del_def layout)
  show "cast_del (del_bytes m @ rest) = m" if "wf_del m" for m rest
    using that
    by (simp add: cast_del_def del_bytes_def wf_del_def slice_parse slice_take_prefix
        slice_drop_prefix [where k = DHCP_MTU_MAX])
qed

interpretation client_codec: msg_codec client_bytes cast_client wf_client sizeof_CLIENT_ARGS
proof
  show "length (client_bytes m) = sizeof_CLIENT_ARGS" if "wf_client m" for m
    using that by (simp add: client_bytes_def wf_client_def layout)
  show "cast_client (client_bytes m @ rest) = m" if "wf_client m" for m rest
    using that
    by (simp add: cast_client_def client_bytes_def wf_client_def slice_parse slice_take_prefix
        slice_drop_prefix [where k = 16])
qed

lemma nth_append_byte: "(a # xs) ! 0 = a" "(a # b # xs) ! 1 = b"
  "(a # b # c # xs) ! 2 = c" "(a # b # c # d # xs) ! 3 = d"
  by (simp_all add: numeral_eq_Suc)

lemma slice_skip4: "slice (off + 4) n (a # b # c # d # xs) = slice off n xs"
  by (simp add: slice_def numeral_eq_Suc)

lemma slice_skip4_numeral:
  "4 \<le> k \<Longrightarrow> slice k n (a # b # c # d # xs) = slice (k - 4) n xs"
  using slice_skip4 [of "k - 4"] by simp

interpretation packet_codec: msg_codec packet_bytes cast_packet wf_packet sizeof_DHCP_PACKET
proof
  show "length (packet_bytes m) = sizeof_DHCP_PACKET" if "wf_packet m" for m
    using that by (simp add: packet_bytes_def wf_packet_def layout)
  show "cast_packet (packet_bytes m @ rest) = m" if "wf_packet m" for m rest
    using that
    by (simp add: cast_packet_def packet_bytes_def wf_packet_def nth_append_byte
        slice_skip4_numeral slice_parse slice_take_prefix slice_drop_prefix [where k = 16]
        slice_drop_prefix [where k = 64] slice_drop_prefix [where k = 128] layout)
qed

end
