(* ===== verification/Dhcp.thy ===== *)
theory Dhcp
  imports Dhcp_Packet
begin

text \<open>
  \<open>libdhcp/src/dhcp.c\<close>: the name tables, the hardware-address formatters and the option
  search. The buffer of a formatter and the option area are lists, every access is checked.
\<close>

section \<open>Name tables\<close>

definition dhcp_hw_type_name :: "string list" where
  "dhcp_hw_type_name = [''(Unknown)'', ''Ethernet'', ''(Unknown)'', ''(Unknown)'', ''(Unknown)'',
     ''(Unknown)'', ''IEEE 802'', ''(Unknown)'', ''FDDI'', ''(Unknown)'']"

definition dhcp_msg_type_name :: "string list" where
  "dhcp_msg_type_name = [''(Unknown)'', ''Discovery'', ''Offer'', ''Request'', ''Decline'', ''Ack'',
     ''Nak'', ''Release'', ''Inform'', ''LeaseQuery'', ''LeaseUnassigned'', ''LeaseUnknow'',
     ''LeaseActive'', ''(Unknown)'', ''(Unknown)'']"

text \<open>
  The macros \<open>DHCP_HW_TYPE\<close> (its argument is a \<open>uint8_t\<close>) and \<open>DHCP_MSG_TYPE\<close> (its argument
  is a \<open>char\<close>, signed with this compiler) index the tables without a check.
\<close>

definition DHCP_HW_TYPE :: "byte \<Rightarrow> string result" where
  "DHCP_HW_TYPE t = rd dhcp_hw_type_name (uint t)"

definition DHCP_MSG_TYPE :: "byte \<Rightarrow> string result" where
  "DHCP_MSG_TYPE t = rd dhcp_msg_type_name (sint t)"

section \<open>Hardware addresses as text\<close>

text \<open>
  The ANSI and the Unicode formatter are the same code over two character types: the model
  is one loop with the digit table, the separator and the terminator as arguments.
\<close>

function hw_addr_loop :: "'c list \<Rightarrow> 'c \<Rightarrow> 'c list \<Rightarrow> byte list \<Rightarrow> int \<Rightarrow> int \<Rightarrow> 'c list result" where
  "hw_addr_loop D C buff addr len i =
     (if i < len then
        res_bind (rd addr i) (\<lambda>a.
        res_bind (wr buff (i * 3 + 0) (D ! unat (drop_bit 4 a AND 0x0F))) (\<lambda>b0.
        res_bind (wr b0 (i * 3 + 1) (D ! unat (a AND 0x0F))) (\<lambda>b1.
        res_bind (wr b1 (i * 3 + 2) C) (\<lambda>b2.
        hw_addr_loop D C b2 addr len (i + 1)))))
      else Inr buff)"
  by pat_completeness auto
termination
  by (relation "measure (\<lambda>(D, C, buff, addr, len, i). nat (len - i))") auto

declare hw_addr_loop.simps [simp del]

definition hw_addr_write :: "'c list \<Rightarrow> 'c \<Rightarrow> 'c \<Rightarrow> 'c list \<Rightarrow> byte list \<Rightarrow> int \<Rightarrow> 'c list result" where
  "hw_addr_write D C Z buff addr len =
     res_bind (hw_addr_loop D C buff addr len 0) (\<lambda>b.
       if len * 3 - 1 < - (2 ^ 31) \<or> 2 ^ 31 \<le> len * 3 then Inl Signed_Overflow
       else wr b (len * 3 - 1) Z)"

definition hexdigits :: string where
  "hexdigits = ''0123456789abcdef''"

definition dhcp_hw_addr_ansi :: "char list \<Rightarrow> byte list \<Rightarrow> int \<Rightarrow> char list result" where
  "dhcp_hw_addr_ansi buff addr len = hw_addr_write hexdigits (CHR '':'') (CHR 0x00) buff addr len"

definition wide :: "char \<Rightarrow> wchar" where
  "wide c = of_char c"

definition dhcp_hw_addr_unicode :: "wchar list \<Rightarrow> byte list \<Rightarrow> int \<Rightarrow> wchar list result" where
  "dhcp_hw_addr_unicode buff addr len =
     hw_addr_write (map wide hexdigits) (wide (CHR '':'')) 0 buff addr len"

section \<open>Option search\<close>

text \<open>
  \<open>data\<close> is the readable memory from the pointer on, \<open>sz\<close> the bound the caller passes. The
  result is the offset of the option's payload and the value stored through \<open>datalen\<close>. The
  index is an \<open>unsigned int\<close>; the model stops with \<open>Index_Wrapped\<close> where it would wrap.
\<close>

function find_option_loop ::
  "byte list \<Rightarrow> nat \<Rightarrow> byte \<Rightarrow> byte \<Rightarrow> nat \<Rightarrow> (nat \<times> byte) option result" where
  "find_option_loop data sz opt cop idx =
     (if cop \<noteq> 0xFF \<and> idx < sz then
        (if 2 ^ 32 \<le> idx + 1 then Inl Index_Wrapped else
         res_bind (rd data (int idx)) (\<lambda>cop'.
         res_bind (rd data (int (idx + 1))) (\<lambda>dlen.
           if cop' = opt then Inr (Some (idx + 2, dlen))
           else if 2 ^ 32 \<le> idx + (unat dlen + 2) then Inl Index_Wrapped
           else find_option_loop data sz opt cop' (idx + (unat dlen + 2)))))
      else Inr None)"
  by pat_completeness auto
termination
  by (relation "measure (\<lambda>(data, sz, opt, cop, idx). sz - idx)") auto

declare find_option_loop.simps [simp del]

definition dhcp_find_option :: "byte list \<Rightarrow> nat \<Rightarrow> byte \<Rightarrow> (nat \<times> byte) option result" where
  "dhcp_find_option data sz opt = find_option_loop data sz opt 0 0"

section \<open>Reference definitions\<close>

definition hw_group :: "'c list \<Rightarrow> 'c \<Rightarrow> byte \<Rightarrow> 'c list" where
  "hw_group D C a = [D ! unat (drop_bit 4 a AND 0x0F), D ! unat (a AND 0x0F), C]"

definition hex2 :: "byte \<Rightarrow> string" where
  "hex2 a = [hexdigits ! (unat a div 16), hexdigits ! (unat a mod 16)]"

text \<open>The text of an address: two hex digits per byte, separated by colons.\<close>

fun hw_string :: "byte list \<Rightarrow> string" where
  "hw_string [] = []"
| "hw_string [b] = hex2 b"
| "hw_string (b # bs) = hex2 b @ CHR '':'' # hw_string bs"

text \<open>An option area as the protocol defines it: code, length and payload, in sequence.\<close>

fun encode_options :: "(byte \<times> byte list) list \<Rightarrow> byte list" where
  "encode_options [] = []"
| "encode_options ((c, d) # os) = c # of_nat (length d) # d @ encode_options os"

fun tlv_find :: "byte \<Rightarrow> (byte \<times> byte list) list \<Rightarrow> nat \<Rightarrow> (nat \<times> byte) option" where
  "tlv_find opt [] off = None"
| "tlv_find opt ((c, d) # os) off =
     (if c = opt then Some (off + 2, of_nat (length d))
      else tlv_find opt os (off + 2 + length d))"

definition wf_options :: "(byte \<times> byte list) list \<Rightarrow> bool" where
  "wf_options os \<longleftrightarrow> list_all (\<lambda>(c, d). c \<noteq> DHO_END \<and> length d \<le> 255) os"

section \<open>Lemmas on the formatters\<close>

lemma and_15: "a AND (0x0F :: byte) = a mod 16"
proof -
  have "a AND (0x0F :: byte) = take_bit 4 a"
    by (simp add: take_bit_eq_mask mask_eq_exp_minus_1)
  also have "\<dots> = a mod 16"
    by (simp add: take_bit_eq_mod)
  finally show ?thesis .
qed

lemma lo_nibble: "unat (a AND (0x0F :: byte)) = unat a mod 16"
  by (simp only: and_15 unat_mod) simp

lemma hi_nibble: "unat (drop_bit 4 a AND (0x0F :: byte)) = unat a div 16"
proof -
  have "unat (drop_bit 4 a AND (0x0F :: byte)) = unat (drop_bit 4 a) mod 16"
    by (rule lo_nibble)
  also have "\<dots> = unat a div 16 mod 16"
    by (simp add: unsigned_drop_bit_eq drop_bit_eq_div unat_div)
  also have "\<dots> = unat a div 16"
    using unat_byte [of a] by (intro mod_less) simp
  finally show ?thesis .
qed

lemma hw_group_hex2: "hw_group hexdigits (CHR '':'') a = hex2 a @ [CHR '':'']"
  unfolding hw_group_def hex2_def hi_nibble unfolding lo_nibble by simp

lemma length_hw_group [simp]: "length (hw_group D C a) = 3"
  by (simp add: hw_group_def)

lemma length_concat_hw_group [simp]: "length (concat (map (hw_group D C) as)) = 3 * length as"
  by (induction as) auto

lemma list_update_3:
  assumes "3 * i + 2 < length buff"
  shows "buff[3 * i := x, Suc (3 * i) := y, Suc (Suc (3 * i)) := z] =
    take (3 * i) buff @ [x, y, z] @ drop (3 * Suc i) buff"
proof (rule nth_equalityI)
  fix j
  assume "j < length (buff[3 * i := x, Suc (3 * i) := y, Suc (Suc (3 * i)) := z])"
  then show "buff[3 * i := x, Suc (3 * i) := y, Suc (Suc (3 * i)) := z] ! j =
    (take (3 * i) buff @ [x, y, z] @ drop (3 * Suc i) buff) ! j"
    using assms by (auto simp: nth_append nth_list_update nth_Cons' intro!: arg_cong [where f = "(!) buff"])
qed (use assms in auto)

lemma hw_addr_loop_step:
  assumes "i < n" "i < length addr" "3 * i + 2 < length buff"
  shows "hw_addr_loop D C buff addr (int n) (int i) =
    hw_addr_loop D C (take (3 * i) buff @ hw_group D C (addr ! i) @ drop (3 * Suc i) buff)
      addr (int n) (int (Suc i))"
proof -
  have ix: "int i * 3 + 0 = int (3 * i)" "int i * 3 + 1 = int (Suc (3 * i))"
    "int i * 3 + 2 = int (Suc (Suc (3 * i)))" "int i + 1 = int (Suc i)"
    by simp_all
  show ?thesis
    using assms
    by (subst hw_addr_loop.simps)
       (simp only: ix wr_in rd_in res_bind_Inr length_list_update list_update_3 hw_group_def
          of_nat_less_iff if_True)
qed

lemma hw_addr_loop_ok:
  assumes "i \<le> n" "n \<le> length addr" "3 * n \<le> length buff"
  shows "hw_addr_loop D C buff addr (int n) (int i) =
    Inr (take (3 * i) buff @ concat (map (hw_group D C) (drop i (take n addr))) @ drop (3 * n) buff)"
  using assms
proof (induction i arbitrary: buff rule: inc_induct)
  case base
  then show ?case by (subst hw_addr_loop.simps) simp
next
  case (step i)
  let ?b = "take (3 * i) buff @ hw_group D C (addr ! i) @ drop (3 * Suc i) buff"
  have "drop i (take n addr) = addr ! i # drop (Suc i) (take n addr)"
    using step.hyps step.prems by (simp add: Cons_nth_drop_Suc [symmetric])
  then show ?case
    using step.hyps step.prems step.IH [of ?b] by (simp add: hw_addr_loop_step)
qed

lemma hw_addr_loop_bounds:
  "hw_addr_loop D C buff addr len i = Inr b \<Longrightarrow> 0 \<le> i \<Longrightarrow>
   length b = length buff \<and> (i < len \<longrightarrow> len \<le> int (length addr) \<and> 3 * len \<le> int (length buff))"
proof (induction D C buff addr len i arbitrary: b rule: hw_addr_loop.induct)
  case (1 D C buff addr len i)
  show ?case
  proof (cases "i < len")
    case True
    then obtain a b0 b1 b2 where steps: "rd addr i = Inr a"
      "wr buff (i * 3 + 0) (D ! unat (drop_bit 4 a AND 0x0F)) = Inr b0"
      "wr b0 (i * 3 + 1) (D ! unat (a AND 0x0F)) = Inr b1" "wr b1 (i * 3 + 2) C = Inr b2"
      and rest: "hw_addr_loop D C b2 addr len (i + 1) = Inr b"
      using "1.prems" by (subst (asm) hw_addr_loop.simps) (auto simp only: res_bind_eq_Inr if_True)
    have "length b = length b2 \<and> (i + 1 < len \<longrightarrow> len \<le> int (length addr) \<and> 3 * len \<le> int (length b2))"
      using "1.IH" [OF True steps rest] "1.prems" by simp
    moreover have "length b2 = length buff"
      using steps by (simp add: wr_length)
    moreover have "i < int (length addr)" "i * 3 + 2 < int (length buff)"
      using steps by (auto simp: rd_eq_Inr wr_eq_Inr)
    ultimately show ?thesis by force
  next
    case False
    with "1.prems" show ?thesis by (simp add: hw_addr_loop.simps [of D C buff addr len i])
  qed
qed

lemma hw_addr_write_ok:
  assumes "0 < n" "n \<le> length addr" "3 * n \<le> length buff" "n < 2 ^ 29"
  shows "hw_addr_write D C Z buff addr (int n) =
    Inr (butlast (concat (map (hw_group D C) (take n addr))) @ [Z] @ drop (3 * n) buff)"
proof -
  let ?g = "concat (map (hw_group D C) (take n addr))"
  have len: "length ?g = 3 * n" using assms by simp
  have ne: "?g \<noteq> []" using len assms(1) by (metis length_0_conv mult_eq_0_iff neq0_conv zero_neq_numeral)
  have loop: "hw_addr_loop D C buff addr (int n) 0 = Inr (?g @ drop (3 * n) buff)"
    using hw_addr_loop_ok [of 0 n addr buff D C] assms by simp
  have ix: "int n * 3 - 1 = int (3 * n - 1)" using assms by simp
  have "?g @ drop (3 * n) buff = butlast ?g @ last ?g # drop (3 * n) buff"
    by (metis append.assoc append_Cons append_Nil append_butlast_last_id ne)
  moreover have "length (butlast ?g) = 3 * n - 1" using len by simp
  ultimately have upd: "(?g @ drop (3 * n) buff)[3 * n - 1 := Z] = butlast ?g @ Z # drop (3 * n) buff"
    by (metis list_update_length)
  have "wr (?g @ drop (3 * n) buff) (int (3 * n - 1)) Z = Inr (butlast ?g @ [Z] @ drop (3 * n) buff)"
    using assms len upd by (subst wr_in) simp_all
  then show ?thesis
    using assms by (simp add: hw_addr_write_def loop ix)
qed

lemma hw_addr_write_bounds:
  assumes "hw_addr_write D C Z buff addr len = Inr b"
  shows "0 < len \<and> len \<le> int (length addr) \<and> 3 * len \<le> int (length buff)"
proof -
  from assms obtain b' c where loop: "hw_addr_loop D C buff addr len 0 = Inr b'"
    and last: "wr b' (len * 3 - 1) Z = Inr c"
    by (auto simp: hw_addr_write_def res_bind_eq_Inr split: if_splits)
  from last have "0 < len" by (simp add: wr_eq_Inr)
  with hw_addr_loop_bounds [OF loop] show ?thesis by simp
qed

lemma hw_addr_write_Inr_iff:
  assumes "len < 2 ^ 29" "- (2 ^ 29) < len"
  shows "(\<exists>b. hw_addr_write D C Z buff addr len = Inr b) \<longleftrightarrow>
    0 < len \<and> len \<le> int (length addr) \<and> 3 * len \<le> int (length buff)"
proof
  assume "\<exists>b. hw_addr_write D C Z buff addr len = Inr b"
  then show "0 < len \<and> len \<le> int (length addr) \<and> 3 * len \<le> int (length buff)"
    by (auto dest: hw_addr_write_bounds)
next
  assume "0 < len \<and> len \<le> int (length addr) \<and> 3 * len \<le> int (length buff)"
  with hw_addr_write_ok [of "nat len" addr buff D C Z] assms
  show "\<exists>b. hw_addr_write D C Z buff addr len = Inr b" by (auto simp: nat_le_iff nat_less_iff)
qed

lemma butlast_hw_groups:
  "as \<noteq> [] \<Longrightarrow> butlast (concat (map (hw_group hexdigits (CHR '':'')) as)) = hw_string as"
proof (induction as rule: hw_string.induct)
  case (3 b v va)
  then show ?case by (simp add: hw_group_hex2 butlast_append)
qed (simp_all add: hw_group_hex2 butlast_append)

lemma length_hw_string: "as \<noteq> [] \<Longrightarrow> length (hw_string as) = 3 * length as - 1"
  by (induction as rule: hw_string.induct) (auto simp: hex2_def)

lemma set_hexdigits: "k < 16 \<Longrightarrow> hexdigits ! k \<in> set hexdigits"
  by (rule nth_mem) (simp add: hexdigits_def)

lemma set_hex2: "set (hex2 b) \<subseteq> set hexdigits"
  using unat_byte [of b] by (auto simp: hex2_def intro!: set_hexdigits)

lemma set_hw_string: "set (hw_string as) \<subseteq> insert (CHR '':'') (set hexdigits)"
  by (induction as rule: hw_string.induct) (use set_hex2 in fastforce)+

section \<open>Lemmas on the option search\<close>

text \<open>One iteration of the loop, on a position inside the bound.\<close>

lemma find_option_loop_step:
  assumes "cop \<noteq> 0xFF" "idx < sz" "idx + 1 < length data" "idx + 257 < 2 ^ 32"
  shows "find_option_loop data sz opt cop idx =
    (if data ! idx = opt then Inr (Some (idx + 2, data ! (idx + 1)))
     else find_option_loop data sz opt (data ! idx) (idx + (unat (data ! (idx + 1)) + 2)))"
proof -
  have "\<not> 2 ^ 32 \<le> idx + 1" "\<not> 2 ^ 32 \<le> idx + (unat (data ! (idx + 1)) + 2)"
    using assms(4) unat_byte [of "data ! (idx + 1)"] by simp_all
  moreover have "rd data (int idx) = Inr (data ! idx)" "rd data (int (idx + 1)) = Inr (data ! (idx + 1))"
    using assms(3) by (simp_all only: rd_in [of idx] rd_in [of "idx + 1"] add_lessD1)
  ultimately show ?thesis
    using assms(1,2) by (subst find_option_loop.simps) (simp del: of_nat_add)
qed

lemma find_option_loop_stop:
  "cop = 0xFF \<or> sz \<le> idx \<Longrightarrow> find_option_loop data sz opt cop idx = Inr None"
  by (subst find_option_loop.simps) auto

lemma find_option_loop_no_fault:
  assumes "sz < length data" "sz + 256 < 2 ^ 32"
  shows "\<exists>r. find_option_loop data sz opt cop idx = Inr r"
proof (induction "sz - idx" arbitrary: cop idx rule: less_induct)
  case less
  show ?case
  proof (cases "cop \<noteq> 0xFF \<and> idx < sz")
    case True
    then show ?thesis
      using assms less [of "idx + (unat (data ! (idx + 1)) + 2)" "data ! idx"]
      by (subst find_option_loop_step) auto
  next
    case False
    then show ?thesis by (auto simp: find_option_loop_stop)
  qed
qed

lemma find_option_loop_found:
  "find_option_loop data sz opt cop idx = Inr (Some (p, l)) \<Longrightarrow>
   2 \<le> p \<and> p < sz + 2 \<and> p \<le> length data \<and> data ! (p - 2) = opt \<and> data ! (p - 1) = l"
proof (induction data sz opt cop idx rule: find_option_loop.induct)
  case (1 data sz opt cop idx)
  from "1.prems" have go: "cop \<noteq> 0xFF \<and> idx < sz" "\<not> 2 ^ 32 \<le> idx + 1"
    by (subst (asm) find_option_loop.simps, simp split: if_splits)+
  with "1.prems" obtain c d where rds: "rd data (int idx) = Inr c" "rd data (int (idx + 1)) = Inr d"
    by (subst (asm) find_option_loop.simps) (auto simp: res_bind_eq_Inr simp del: of_nat_add of_nat_Suc)
  have eq: "find_option_loop data sz opt cop idx =
    (if c = opt then Inr (Some (idx + 2, d))
     else if 2 ^ 32 \<le> idx + (unat d + 2) then Inl Index_Wrapped
     else find_option_loop data sz opt c (idx + (unat d + 2)))"
    using go rds by (subst find_option_loop.simps) (simp del: of_nat_add of_nat_Suc)
  show ?case
  proof (cases "c = opt")
    case True
    with "1.prems" eq go rds show ?thesis
      by (auto simp: rd_eq_Inr nat_add_distrib)
  next
    case False
    with "1.prems" eq have "\<not> 2 ^ 32 \<le> idx + (unat d + 2)"
      and "find_option_loop data sz opt c (idx + (unat d + 2)) = Inr (Some (p, l))"
      by (simp_all split: if_splits)
    then show ?thesis using "1.IH" [OF go rds False] by blast
  qed
qed

lemma unat_of_nat_byte: "n \<le> 255 \<Longrightarrow> unat (of_nat n :: byte) = n"
  by (simp add: unat_of_nat)

lemma find_option_loop_encoded:
  assumes "wf_options os" "length pre + length (encode_options os) < sz" "sz + 256 < 2 ^ 32"
    and "cop \<noteq> 0xFF" "opt \<noteq> DHO_END"
  shows "find_option_loop (pre @ encode_options os @ DHO_END # x # rest) sz opt cop (length pre) =
    Inr (tlv_find opt os (length pre))"
  using assms
proof (induction os arbitrary: pre cop)
  case Nil
  then show ?case
    by (subst find_option_loop_step) (auto simp: nth_append DHO_END_def find_option_loop_stop)
next
  case (Cons o1 os)
  obtain c d where o1: "o1 = (c, d)" by force
  let ?pre = "pre @ c # of_nat (length d) # d"
  let ?data = "pre @ encode_options (o1 # os) @ DHO_END # x # rest"
  have c: "c \<noteq> 0xFF" "length d \<le> 255" "wf_options os"
    using Cons.prems(1) by (auto simp: wf_options_def o1 DHO_END_def)
  have "find_option_loop ?data sz opt cop (length pre) =
    (if c = opt then Inr (Some (length pre + 2, of_nat (length d)))
     else find_option_loop ?data sz opt c (length ?pre))"
    using Cons.prems c
    by (subst find_option_loop_step) (auto simp: nth_append o1 unat_of_nat_byte)
  moreover have "find_option_loop ?data sz opt c (length ?pre) = Inr (tlv_find opt os (length ?pre))"
    using Cons.IH [of ?pre c] Cons.prems c by (simp add: o1)
  ultimately show ?case by (simp add: o1)
qed

lemma tlv_find_payload:
  "tlv_find opt os (length pre) = Some (p, l) \<Longrightarrow> wf_options os \<Longrightarrow>
   \<exists>d. (opt, d) \<in> set os \<and> find (\<lambda>(c, _). c = opt) os = Some (opt, d) \<and> unat l = length d \<and>
     slice p (length d) (pre @ encode_options os @ rest) = d"
proof (induction os arbitrary: pre)
  case (Cons o1 os)
  obtain c d where o1: "o1 = (c, d)" by force
  show ?case
  proof (cases "c = opt")
    case True
    with Cons.prems o1 show ?thesis
      by (auto simp: wf_options_def unat_of_nat_byte slice_def)
  next
    case False
    have "wf_options os" using Cons.prems(2) by (simp add: wf_options_def o1)
    with Cons.IH [of "pre @ c # of_nat (length d) # d"] Cons.prems False o1
    show ?thesis by (auto simp: add.assoc)
  qed
qed simp

lemma tlv_find_None: "find (\<lambda>(c, _). c = opt) os = None \<longleftrightarrow> tlv_find opt os off = None"
  by (induction os arbitrary: off) auto

lemma length_dhcp_names [layout]: "length dhcp_hw_type_name = 10" "length dhcp_msg_type_name = 15"
  by (simp_all add: dhcp_hw_type_name_def dhcp_msg_type_name_def)

lemma rd_is_fault: "is_fault (rd xs i) \<longleftrightarrow> i < 0 \<or> int (length xs) \<le> i"
  by (auto simp: rd_def)

lemma DHCP_HW_TYPE_fault: "is_fault (DHCP_HW_TYPE t) \<longleftrightarrow> 10 \<le> unat t"
  by (auto simp: DHCP_HW_TYPE_def rd_is_fault layout simp flip: nat_uint_eq)

lemma DHCP_MSG_TYPE_fault: "is_fault (DHCP_MSG_TYPE t) \<longleftrightarrow> sint t < 0 \<or> 15 \<le> sint t"
  by (simp add: DHCP_MSG_TYPE_def rd_is_fault layout)

text \<open>The search on a well-formed option area, for the callers.\<close>

lemma dhcp_find_option_encoded:
  assumes "wf_options os" "length (encode_options os) < sz" "sz + 256 < 2 ^ 32" "opt \<noteq> DHO_END"
  shows "case find (\<lambda>(c, _). c = opt) os of
      None \<Rightarrow> dhcp_find_option (encode_options os @ DHO_END # x # rest) sz opt = Inr None
    | Some (_, d) \<Rightarrow> \<exists>p.
        dhcp_find_option (encode_options os @ DHO_END # x # rest) sz opt =
          Inr (Some (p, of_nat (length d))) \<and>
        slice p (length d) (encode_options os @ DHO_END # x # rest) = d"
proof -
  have run: "dhcp_find_option (encode_options os @ DHO_END # x # rest) sz opt = Inr (tlv_find opt os 0)"
    using find_option_loop_encoded [of os "[]" sz 0 opt x rest] assms by (simp add: dhcp_find_option_def)
  show ?thesis
  proof (cases "tlv_find opt os 0")
    case None
    then show ?thesis using run tlv_find_None [of opt os 0] by simp
  next
    case (Some pl)
    obtain p l where pl: "pl = (p, l)" by force
    from tlv_find_payload [of opt os "[]" p l "DHO_END # x # rest"] Some pl assms(1)
    obtain d where d: "find (\<lambda>(c, _). c = opt) os = Some (opt, d)" "unat l = length d"
      "slice p (length d) (encode_options os @ DHO_END # x # rest) = d" by auto
    have "l = of_nat (length d)" using d(2) unat_byte [of l] by (simp add: word_unat_eq_iff unat_of_nat_byte)
    with d run Some pl show ?thesis by auto
  qed
qed

section \<open>Properties\<close>

text \<open>C21. On an option area laid out as the protocol says (code, length, payload, in sequence,
  closed by \<open>DHO_END\<close> and at least one further byte), \<open>dhcp_find_option\<close> returns the payload of
  the first option with the requested code, and \<open>NULL\<close> when there is none.\<close>

theorem find_option_roundtrip:
  assumes "wf_options os" "length (encode_options os) < sz" "sz + 256 < 2 ^ 32" "opt \<noteq> DHO_END"
  shows "case find (\<lambda>(c, _). c = opt) os of
      None \<Rightarrow> dhcp_find_option (encode_options os @ DHO_END # x # rest) sz opt = Inr None
    | Some (_, d) \<Rightarrow> \<exists>p.
        dhcp_find_option (encode_options os @ DHO_END # x # rest) sz opt =
          Inr (Some (p, of_nat (length d))) \<and>
        slice p (length d) (encode_options os @ DHO_END # x # rest) = d"
  using assms by (rule dhcp_find_option_encoded)

theorem find_option_roundtrip_witness:
  "\<exists>p. dhcp_find_option (encode_options [(53, [3]), (12, [104, 105])] @ DHO_END # 0 # []) 20 12 =
     Inr (Some (p, of_nat (length [104, 105 :: byte]))) \<and>
   slice p (length [104, 105 :: byte])
     (encode_options [(53, [3]), (12, [104, 105])] @ DHO_END # 0 # []) = [104, 105]"
  using find_option_roundtrip [of "[(53, [3]), (12, [104, 105])]" 20 12 0 "[]"]
  by (simp add: wf_options_def DHO_END_def)

text \<open>C22. When the memory behind the pointer holds at least one byte more than the bound passed
  as \<open>size\<close> (as it does at both call sites), the search terminates without reading out of bounds,
  and a payload pointer it returns stands right behind a code byte equal to the requested option
  and the length byte stored in \<open>datalen\<close>.\<close>

theorem find_option_safe:
  assumes "sz < length data" "sz + 256 < 2 ^ 32"
  shows "\<exists>r. dhcp_find_option data sz opt = Inr r \<and>
    (case r of None \<Rightarrow> True
     | Some (p, l) \<Rightarrow> 2 \<le> p \<and> p < sz + 2 \<and> p \<le> length data \<and>
         data ! (p - 2) = opt \<and> data ! (p - 1) = l)"
proof -
  obtain r where r: "dhcp_find_option data sz opt = Inr r"
    using find_option_loop_no_fault [OF assms] unfolding dhcp_find_option_def by blast
  then show ?thesis
    using find_option_loop_found [of data sz opt 0 0] by (auto simp: dhcp_find_option_def split: option.split)
qed

theorem find_option_safe_witness:
  "\<exists>r. dhcp_find_option [12, 1, 65, 255, 0] 4 12 = Inr r \<and>
    (case r of None \<Rightarrow> True
     | Some (p, l) \<Rightarrow> 2 \<le> p \<and> p < 4 + 2 \<and> p \<le> length [12, 1, 65, 255, 0 :: byte] \<and>
         [12, 1, 65, 255, 0] ! (p - 2) = (12 :: byte) \<and> [12, 1, 65, 255, 0] ! (p - 1) = l)"
  by (rule find_option_safe) simp_all

text \<open>The search does not treat \<open>DHO_PAD\<close> as the one-byte option it is: a single pad byte in
  front of the message-type option makes the code byte be taken for a length, and the option that
  is found without the pad is not found with it.\<close>

theorem find_option_pad_hides:
  assumes "60 \<le> n" "sz < n" "60 \<le> sz" "n + 256 < 2 ^ 32"
  shows "dhcp_find_option (encode_options [(DHO_DHCP_MESSAGE_TYPE, [t])] @ replicate n DHO_END) sz
      DHO_DHCP_MESSAGE_TYPE = Inr (Some (2, 1)) \<and>
    dhcp_find_option (DHO_PAD # encode_options [(DHO_DHCP_MESSAGE_TYPE, [t])] @ replicate n DHO_END) sz
      DHO_DHCP_MESSAGE_TYPE = Inr None"
  using assms
  by (simp add: dhcp_find_option_def find_option_loop_step find_option_loop_stop DHO_PAD_def
      DHO_DHCP_MESSAGE_TYPE_def DHO_END_def nth_Cons')

theorem find_option_pad_hides_witness:
  "dhcp_find_option (encode_options [(DHO_DHCP_MESSAGE_TYPE, [3])] @ replicate 80 DHO_END) 70
      DHO_DHCP_MESSAGE_TYPE = Inr (Some (2, 1)) \<and>
    dhcp_find_option (DHO_PAD # encode_options [(DHO_DHCP_MESSAGE_TYPE, [3])] @ replicate 80 DHO_END) 70
      DHO_DHCP_MESSAGE_TYPE = Inr None"
  by (rule find_option_pad_hides) simp_all

text \<open>\<open>dhcp_hw_addr_ansi\<close> writes the colon-separated lower-case hex text of the first \<open>len\<close>
  bytes, a terminating NUL, and nothing behind it, whenever the address has \<open>len\<close> bytes and the
  buffer has room for \<open>3 * len\<close> characters.\<close>

theorem dhcp_hw_addr_ansi_correct:
  assumes "0 < n" "n \<le> length addr" "3 * n \<le> length buff" "n < 2 ^ 29"
  shows "dhcp_hw_addr_ansi buff addr (int n) =
    Inr (hw_string (take n addr) @ CHR 0x00 # drop (3 * n) buff)"
proof -
  have "take n addr \<noteq> []" using assms by auto
  then show ?thesis
    using hw_addr_write_ok [OF assms, of hexdigits "CHR '':''" "CHR 0x00"]
    by (simp add: dhcp_hw_addr_ansi_def butlast_hw_groups)
qed

theorem dhcp_hw_addr_ansi_correct_witness:
  "dhcp_hw_addr_ansi (replicate 10 (CHR ''x'')) [0, 0x1B, 0xFE] (int 3) =
    Inr (hw_string (take 3 [0, 0x1B, 0xFE]) @ CHR 0x00 # drop (3 * 3) (replicate 10 (CHR ''x'')))"
  by (rule dhcp_hw_addr_ansi_correct) simp_all

text \<open>C23. The exact safety condition of the formatters: for the lengths the callers pass, the call
  stays inside its buffers if and only if the length is positive (a zero length writes before the
  buffer), the address has that many bytes and the buffer three characters for each.\<close>

theorem dhcp_hw_addr_safe_iff:
  assumes "- (2 ^ 29) < len" "len < 2 ^ 29"
  shows "((\<exists>b. dhcp_hw_addr_ansi buff addr len = Inr b) \<longleftrightarrow>
      0 < len \<and> len \<le> int (length addr) \<and> 3 * len \<le> int (length buff)) \<and>
    ((\<exists>b. dhcp_hw_addr_unicode wbuff addr len = Inr b) \<longleftrightarrow>
      0 < len \<and> len \<le> int (length addr) \<and> 3 * len \<le> int (length wbuff))"
  unfolding dhcp_hw_addr_ansi_def dhcp_hw_addr_unicode_def
  by (intro conjI hw_addr_write_Inr_iff [OF assms(2,1)])

theorem dhcp_hw_addr_safe_iff_witness:
  "(\<not> (\<exists>b. dhcp_hw_addr_ansi (replicate 98 (CHR ''x'')) (replicate 16 0) 0 = Inr b)) \<and>
   (\<exists>b. dhcp_hw_addr_unicode (replicate 49 0) (replicate 16 0) 16 = Inr b)"
  using dhcp_hw_addr_safe_iff [of 0 "replicate 98 (CHR ''x'')" "replicate 16 0" "[]"]
    dhcp_hw_addr_safe_iff [of 16 "[]" "replicate 16 0" "replicate 49 0"]
  by simp

text \<open>The message-name table agrees with the constants of \<open>dhcp.h\<close> up to \<open>DHCPINFORM\<close> and is
  shifted by one from \<open>DHCPLEASEQUERY\<close> on, because \<open>dhcp.h\<close> leaves code 9 unused and the table does
  not; and both name macros read outside their table for codes the tables do not cover.\<close>

lemma msg_names_shifted:
  "map (DHCP_MSG_TYPE \<circ> dhcp_message_code) [DHCPDISCOVER, DHCPOFFER, DHCPACK, DHCPINFORM] =
     map Inr [''Discovery'', ''Offer'', ''Ack'', ''Inform''] \<and>
   map (DHCP_MSG_TYPE \<circ> dhcp_message_code)
       [DHCPLEASEQUERY, DHCPLEASEUNASSIGNED, DHCPLEASEUNKNOWN, DHCPLEASEACTIVE] =
     map Inr [''LeaseUnassigned'', ''LeaseUnknow'', ''LeaseActive'', ''(Unknown)''] \<and>
   (\<forall>t. is_fault (DHCP_MSG_TYPE t) = (sint t < 0 \<or> 15 \<le> sint t)) \<and>
   (\<forall>t. is_fault (DHCP_HW_TYPE t) = (10 \<le> unat t))"
  by (simp add: DHCP_MSG_TYPE_fault DHCP_HW_TYPE_fault)
     (simp add: DHCP_MSG_TYPE_def rd_def dhcp_msg_type_name_def)

end
