(* ===== verification/Win32.thy ===== *)
theory Win32
  imports Prelude
begin

text \<open>
  The operating-system services the sources call. They are not part of the repository, so
  they are parameters: a record of functions over an abstract kernel state \<open>'k\<close>. A model
  function takes the record as its first argument and threads the kernel state; what a
  theorem needs to know of a service (its documented behaviour) is a hypothesis of that
  theorem. The constants are those of the Windows SDK headers.
\<close>

section \<open>Constants\<close>

definition WAIT_OBJECT_0 :: dword where "WAIT_OBJECT_0 = 0"
definition WAIT_ABANDONED :: dword where "WAIT_ABANDONED = 0x80"
definition WAIT_TIMEOUT :: dword where "WAIT_TIMEOUT = 0x102"
definition ERROR_SUCCESS :: dword where "ERROR_SUCCESS = 0"

text \<open>The two slim reader/writer locks of the program, by the structure that embeds them.\<close>

datatype srwlock = Acl_SRW | Buffer_SRW

text \<open>Identifier authorities, and the access entry passed to \<open>SetEntriesInAcl\<close>.\<close>

datatype sid_authority = SECURITY_WORLD_SID_AUTHORITY | SECURITY_NT_AUTHORITY
datatype sid_rid = SECURITY_WORLD_RID

datatype access_right = FILE_MAP_ALL_ACCESS | SYNCHRONIZE | MUTEX_ALL_ACCESS | EVENT_ALL_ACCESS

record explicit_access =
  grfAccessPermissions :: "access_right list"
  trustee_sid :: ptr

record security_attributes =
  lpSecurityDescriptor :: ptr
  bInheritHandle :: bool

section \<open>The services\<close>

record 'k win32 =
  WaitForSingleObject :: "handle \<Rightarrow> dword \<Rightarrow> 'k \<Rightarrow> dword \<times> 'k"
  CreateMutex :: "string option \<Rightarrow> 'k \<Rightarrow> handle \<times> 'k"
  CreateMutexEx :: "security_attributes option \<Rightarrow> string \<Rightarrow> 'k \<Rightarrow> handle \<times> 'k"
  ReleaseMutex :: "handle \<Rightarrow> 'k \<Rightarrow> bool \<times> 'k"
  CloseHandle :: "handle \<Rightarrow> 'k \<Rightarrow> 'k"
  CreateEvent :: "'k \<Rightarrow> handle \<times> 'k"
  CreateEventEx :: "security_attributes option \<Rightarrow> string \<Rightarrow> 'k \<Rightarrow> handle \<times> 'k"
  SetEvent :: "handle \<Rightarrow> 'k \<Rightarrow> bool \<times> 'k"
  InitializeSRWLock :: "srwlock \<Rightarrow> 'k \<Rightarrow> 'k"
  AcquireSRWLockShared :: "srwlock \<Rightarrow> 'k \<Rightarrow> 'k"
  ReleaseSRWLockShared :: "srwlock \<Rightarrow> 'k \<Rightarrow> 'k"
  AcquireSRWLockExclusive :: "srwlock \<Rightarrow> 'k \<Rightarrow> 'k"
  ReleaseSRWLockExclusive :: "srwlock \<Rightarrow> 'k \<Rightarrow> 'k"
  OpenProcessToken :: "'k \<Rightarrow> handle option \<times> 'k"
  LookupPrivilegeValue :: "'k \<Rightarrow> 'k"
  AdjustTokenPrivileges :: "handle \<Rightarrow> 'k \<Rightarrow> bool \<times> 'k"
  AllocateAndInitializeSid :: "sid_authority \<Rightarrow> sid_rid \<Rightarrow> 'k \<Rightarrow> ptr option \<times> 'k"
  SetEntriesInAcl :: "explicit_access list \<Rightarrow> 'k \<Rightarrow> (dword \<times> ptr) \<times> 'k"
  LocalAlloc :: "'k \<Rightarrow> ptr \<times> 'k"
  InitializeSecurityDescriptor :: "ptr \<Rightarrow> 'k \<Rightarrow> bool \<times> 'k"
  SetSecurityDescriptorDacl :: "ptr \<Rightarrow> ptr \<Rightarrow> 'k \<Rightarrow> bool \<times> 'k"
  FreeSid :: "ptr \<Rightarrow> 'k \<Rightarrow> 'k"
  LocalFree :: "ptr \<Rightarrow> 'k \<Rightarrow> 'k"
  CreateFileMapping :: "security_attributes option \<Rightarrow> nat \<Rightarrow> string \<Rightarrow> 'k \<Rightarrow> handle \<times> 'k"
  OpenFileMapping :: "string \<Rightarrow> 'k \<Rightarrow> handle \<times> 'k"
  MapViewOfFile :: "handle \<Rightarrow> nat \<Rightarrow> 'k \<Rightarrow> ptr \<times> 'k"
  UnmapViewOfFile :: "ptr \<Rightarrow> 'k \<Rightarrow> 'k"

section \<open>Documented behaviour used as hypotheses\<close>

text \<open>
  An auto-reset event: \<open>sig\<close> reads its state. \<open>SetEvent\<close> signals it; a wait on the signalled
  event succeeds and resets it; a wait on the unsignalled event, with nobody setting it, times
  out. The reader/writer locks are independent of it.
\<close>

definition auto_reset_event :: "'k win32 \<Rightarrow> handle \<Rightarrow> ('k \<Rightarrow> bool) \<Rightarrow> bool" where
  "auto_reset_event W h sig \<longleftrightarrow>
     (\<forall>k. sig (snd (SetEvent W h k))) \<and>
     (\<forall>k t. sig k \<longrightarrow> fst (WaitForSingleObject W h t k) = WAIT_OBJECT_0 \<and>
        \<not> sig (snd (WaitForSingleObject W h t k))) \<and>
     (\<forall>k t. \<not> sig k \<longrightarrow> fst (WaitForSingleObject W h t k) = WAIT_TIMEOUT \<and>
        \<not> sig (snd (WaitForSingleObject W h t k))) \<and>
     (\<forall>k l. sig (AcquireSRWLockExclusive W l k) = sig k) \<and>
     (\<forall>k l. sig (ReleaseSRWLockExclusive W l k) = sig k)"

section \<open>A concrete kernel for evaluation\<close>

text \<open>
  A small kernel on which the witnesses evaluate the model: the set of signalled event
  handles, the set of held mutexes, and the next fresh handle. Every service succeeds.
\<close>

record sim_kernel =
  signalled :: "handle list"
  held :: "handle list"
  next_handle :: handle
  calls :: "string list"

definition sim_fresh :: "sim_kernel \<Rightarrow> handle \<times> sim_kernel" where
  "sim_fresh k = (next_handle k, k\<lparr>next_handle := Suc (next_handle k)\<rparr>)"

definition sim_wait :: "handle \<Rightarrow> dword \<Rightarrow> sim_kernel \<Rightarrow> dword \<times> sim_kernel" where
  "sim_wait h t k =
     (if h \<in> set (signalled k) then (WAIT_OBJECT_0, k\<lparr>signalled := removeAll h (signalled k)\<rparr>)
      else (WAIT_TIMEOUT, k))"

definition sim_log :: "string \<Rightarrow> sim_kernel \<Rightarrow> sim_kernel" where
  "sim_log c k = k\<lparr>calls := calls k @ [c]\<rparr>"

definition sim_win32 :: "sim_kernel win32" where
  "sim_win32 = \<lparr>
     WaitForSingleObject = sim_wait,
     CreateMutex = (\<lambda>_. sim_fresh),
     CreateMutexEx = (\<lambda>_ _. sim_fresh),
     ReleaseMutex = (\<lambda>h k. (True, k\<lparr>signalled := h # signalled k\<rparr>)),
     CloseHandle = (\<lambda>_. sim_log ''CloseHandle''),
     CreateEvent = sim_fresh,
     CreateEventEx = (\<lambda>_ _. sim_fresh),
     SetEvent = (\<lambda>h k. (True, k\<lparr>signalled := h # signalled k\<rparr>)),
     InitializeSRWLock = (\<lambda>_ k. k),
     AcquireSRWLockShared = (\<lambda>_ k. k),
     ReleaseSRWLockShared = (\<lambda>_ k. k),
     AcquireSRWLockExclusive = (\<lambda>_ k. k),
     ReleaseSRWLockExclusive = (\<lambda>_ k. k),
     OpenProcessToken = (\<lambda>k. (Some (next_handle k), snd (sim_fresh k))),
     LookupPrivilegeValue = (\<lambda>k. k),
     AdjustTokenPrivileges = (\<lambda>_ k. (True, k)),
     AllocateAndInitializeSid = (\<lambda>_ _ k. (Some (next_handle k), snd (sim_fresh k))),
     SetEntriesInAcl = (\<lambda>_ k. ((ERROR_SUCCESS, next_handle k), snd (sim_fresh k))),
     LocalAlloc = sim_fresh,
     InitializeSecurityDescriptor = (\<lambda>_ k. (True, k)),
     SetSecurityDescriptorDacl = (\<lambda>_ _ k. (True, k)),
     FreeSid = (\<lambda>_. sim_log ''FreeSid''),
     LocalFree = (\<lambda>_. sim_log ''LocalFree''),
     CreateFileMapping = (\<lambda>_ _ _. sim_fresh),
     OpenFileMapping = (\<lambda>_. sim_fresh),
     MapViewOfFile = (\<lambda>_ _. sim_fresh),
     UnmapViewOfFile = (\<lambda>_. sim_log ''UnmapViewOfFile'') \<rparr>"

definition sim_start :: sim_kernel where
  "sim_start = \<lparr>signalled = [], held = [], next_handle = 1, calls = []\<rparr>"

lemmas sim_defs = sim_win32_def sim_wait_def sim_fresh_def sim_log_def sim_start_def
  WAIT_OBJECT_0_def WAIT_TIMEOUT_def ERROR_SUCCESS_def

lemma sim_auto_reset: "auto_reset_event sim_win32 h (\<lambda>k. h \<in> set (signalled k))"
  by (simp add: auto_reset_event_def sim_win32_def sim_wait_def)

end
