(* ===== verification/Lock.thy ===== *)
theory Lock
  imports Win32
begin

text \<open>
  \<open>include/lock.h\<close> and \<open>libdhcp/src/lock.cpp\<close>: the mutex wrapper. A \<open>PLOCK\<close> argument is an
  option, \<open>None\<close> for the null pointer.
\<close>

record lock =
  l_init :: bool
  l_lock :: handle

definition lock_init :: "'k win32 \<Rightarrow> lock \<Rightarrow> string option \<Rightarrow> 'k \<Rightarrow> bool \<times> lock \<times> 'k" where
  "lock_init W lk name k =
     (let (h, k1) = CreateMutex W name k; lk1 = lk\<lparr>l_lock := h\<rparr>
      in if h \<noteq> NULL then (True, lk1\<lparr>l_init := True\<rparr>, k1) else (False, lk1, k1))"

definition lock_init_ex :: "lock \<Rightarrow> handle \<Rightarrow> bool \<times> lock" where
  "lock_init_ex lk h = (True, lk\<lparr>l_lock := h, l_init := True\<rparr>)"

text \<open>The debug output dereferences the pointer before it is tested.\<close>

definition lock_wait :: "'k win32 \<Rightarrow> lock option \<Rightarrow> dword \<Rightarrow> 'k \<Rightarrow> (bool \<times> 'k) result" where
  "lock_wait W plk time k =
     (case plk of
        None \<Rightarrow> Inl Null_Dereference
      | Some lk \<Rightarrow>
          (if l_init lk then
             (let (ret, k1) = WaitForSingleObject W (l_lock lk) time k
              in Inr (WAIT_OBJECT_0 = ret, k1))
           else Inr (False, k)))"

definition lock_release :: "'k win32 \<Rightarrow> lock option \<Rightarrow> 'k \<Rightarrow> bool \<times> 'k" where
  "lock_release W plk k =
     (case plk of
        None \<Rightarrow> (False, k)
      | Some lk \<Rightarrow> (if l_init lk then ReleaseMutex W (l_lock lk) k else (False, k)))"

definition lock_destory :: "'k win32 \<Rightarrow> lock option \<Rightarrow> 'k \<Rightarrow> 'k" where
  "lock_destory W plk k =
     (case plk of
        None \<Rightarrow> k
      | Some lk \<Rightarrow> (if l_init lk then CloseHandle W (l_lock lk) k else k))"

text \<open>A fully zeroed lock, as \<open>ZeroMemory\<close> leaves it.\<close>

definition lock_zero :: lock where
  "lock_zero = \<lparr>l_init = False, l_lock = NULL\<rparr>"

lemmas lock_defs = lock_init_def lock_init_ex_def lock_wait_def lock_release_def lock_destory_def

lemma lock_init_init: "lock_init W lk name k = (r, lk', k') \<Longrightarrow> r \<Longrightarrow> l_init lk' \<and> l_lock lk' \<noteq> NULL"
  by (auto simp: lock_init_def Let_def split: prod.splits if_splits)

lemma lock_init_failed: "lock_init W lk name k = (False, lk', k') \<Longrightarrow> l_init lk' = l_init lk \<and> l_lock lk' = NULL"
  by (auto simp: lock_init_def Let_def split: prod.splits if_splits)

text \<open>
  A wait that ends with \<open>WAIT_ABANDONED\<close> (the previous owner died) hands the mutex to the
  caller, but \<open>lock_wait\<close> reports failure.
\<close>

lemma lock_wait_abandoned:
  assumes "l_init lk" "fst (WaitForSingleObject W (l_lock lk) t k) = WAIT_ABANDONED"
  shows "lock_wait W (Some lk) t k = Inr (False, snd (WaitForSingleObject W (l_lock lk) t k))"
  using assms by (cases "WaitForSingleObject W (l_lock lk) t k")
    (simp add: lock_wait_def WAIT_OBJECT_0_def WAIT_ABANDONED_def)

lemma lock_wait_acquired:
  assumes "l_init lk" "WaitForSingleObject W (l_lock lk) t k = (WAIT_OBJECT_0, k1)"
  shows "lock_wait W (Some lk) t k = Inr (True, k1)"
  using assms by (simp add: lock_wait_def)

lemma lock_wait_True:
  "lock_wait W (Some lk) t k = Inr (True, k1) \<longleftrightarrow>
   l_init lk \<and> WaitForSingleObject W (l_lock lk) t k = (WAIT_OBJECT_0, k1)"
  by (auto simp: lock_wait_def split: prod.splits)

end
