(* ===== verification/Shm.thy ===== *)
theory Shm
  imports Lock
begin

text \<open>
  \<open>include/shmdefs.h\<close> and \<open>libdhcp/src/shm.cpp\<close>: the named shared-memory block with its mutex
  and events. The mapped view (the lock names, then the data area) is an object of a store
  from addresses to views; \<open>shm->lockdef\<close> and \<open>shm->data\<close> are addresses of the same view. A
  \<open>PSHM_BLOCK\<close> argument is an option, \<open>None\<close> for the null pointer.
\<close>

section \<open>Types and constants\<close>

definition SHM_OK :: dword where "SHM_OK = 0"
definition SHM_LOCK_FAILED :: dword where "SHM_LOCK_FAILED = - 1"
definition SHM_MMAP_FAILED :: dword where "SHM_MMAP_FAILED = - 2"
definition SHM_WRITE_TIMEOUT :: dword where "SHM_WRITE_TIMEOUT = - 3"
definition SHM_PEER_DEAD :: dword where "SHM_PEER_DEAD = - 4"
definition SHM_LOCK_NONE :: string where "SHM_LOCK_NONE = []"

lemmas shm_codes = SHM_OK_def SHM_LOCK_FAILED_def SHM_MMAP_FAILED_def SHM_WRITE_TIMEOUT_def

record shm_lockdef =
  lockname :: string
  esndname :: string
  eackname :: string

definition sizeof_SHM_LOCKDEF :: nat where [layout]: "sizeof_SHM_LOCKDEF = 3 * 256 * 2"

record shm_block =
  filename :: string
  sb_lockdef :: ptr
  master :: bool
  sb_len :: nat
  mapfile :: handle
  sb_lock :: lock
  esnd :: handle
  eack :: handle
  sb_data :: ptr

definition shm_zero :: shm_block where
  "shm_zero = \<lparr>filename = [], sb_lockdef = NULL, master = False, sb_len = 0, mapfile = NULL,
     sb_lock = lock_zero, esnd = NULL, eack = NULL, sb_data = NULL\<rparr>"

record view =
  v_lockdef :: shm_lockdef
  v_data :: "byte list"

type_synonym mem = "ptr \<rightharpoonup> view"

definition view_at :: "mem \<Rightarrow> ptr \<Rightarrow> view result" where
  "view_at m p = (case m p of
     None \<Rightarrow> Inl (if p = NULL then Null_Dereference else Use_After_Free) | Some v \<Rightarrow> Inr v)"

section \<open>Privileges and the security descriptor\<close>

definition shm_enable_privileges :: "'k win32 \<Rightarrow> 'k \<Rightarrow> int \<times> 'k" where
  "shm_enable_privileges W k =
     (let (token, k1) = OpenProcessToken W k in
      case token of
        None \<Rightarrow> (- 1, k1)
      | Some tok \<Rightarrow>
          (let k2 = LookupPrivilegeValue W k1; (ok, k3) = AdjustTokenPrivileges W tok k2
           in if \<not> ok then (- 2, k3) else (0, k3)))"

text \<open>The code behind the label \<open>Cleanup\<close>.\<close>

definition sec_cleanup :: "'k win32 \<Rightarrow> ptr \<Rightarrow> ptr \<Rightarrow> ptr \<Rightarrow> 'k \<Rightarrow> 'k" where
  "sec_cleanup W pSID pACL pSD k =
     (let k1 = (if pSID \<noteq> NULL then FreeSid W pSID k else k);
          k2 = (if pACL \<noteq> NULL then LocalFree W pACL k1 else k1)
      in if pSD \<noteq> NULL then LocalFree W pSD k2 else k2)"

definition shm_create_security_attr :: "'k win32 \<Rightarrow> 'k \<Rightarrow> security_attributes option \<times> 'k" where
  "shm_create_security_attr W k =
     (let (sid, k1) = AllocateAndInitializeSid W SECURITY_WORLD_SID_AUTHORITY SECURITY_WORLD_RID k in
      case sid of
        None \<Rightarrow> (None, sec_cleanup W NULL NULL NULL k1)
      | Some pSID \<Rightarrow>
          (let ea = \<lparr>grfAccessPermissions = [FILE_MAP_ALL_ACCESS, SYNCHRONIZE, MUTEX_ALL_ACCESS, EVENT_ALL_ACCESS],
                 trustee_sid = pSID\<rparr>;
               ((dwRes, pACL), k2) = SetEntriesInAcl W [ea] k1
           in if ERROR_SUCCESS \<noteq> dwRes then (None, sec_cleanup W pSID pACL NULL k2)
           else let (pSD, k3) = LocalAlloc W k2
           in if pSD = NULL then (None, sec_cleanup W pSID pACL NULL k3)
           else let (ok1, k4) = InitializeSecurityDescriptor W pSD k3
           in if \<not> ok1 then (None, sec_cleanup W pSID pACL pSD k4)
           else let (ok2, k5) = SetSecurityDescriptorDacl W pSD pACL k4
           in if \<not> ok2 then (None, sec_cleanup W pSID pACL pSD k5)
           else (Some \<lparr>lpSecurityDescriptor = pSD, bInheritHandle = False\<rparr>, k5)))"

section \<open>Opening and closing a block\<close>

text \<open>The three synchronisation objects, created after the view is mapped.\<close>

definition shm_init_objects ::
  "'k win32 \<Rightarrow> security_attributes option \<Rightarrow> shm_lockdef \<Rightarrow> shm_block \<Rightarrow> 'k \<Rightarrow> dword \<times> shm_block \<times> 'k" where
  "shm_init_objects W psa ld shm k =
     (let (lk, k1) =
            (if SHM_LOCK_NONE \<noteq> lockname ld
             then (let (h, k') = CreateMutexEx W psa (lockname ld) k in (lock_init_ex (sb_lock shm) h, k'))
             else ((True, sb_lock shm), k));
          shm1 = shm\<lparr>sb_lock := snd lk\<rparr>
      in if \<not> fst lk then (SHM_LOCK_FAILED, shm1, k1)
      else let (h2, k2) =
            (if SHM_LOCK_NONE \<noteq> esndname ld then CreateEventEx W psa (esndname ld) k1 else (esnd shm1, k1));
          shm2 = shm1\<lparr>esnd := h2\<rparr>
      in if SHM_LOCK_NONE \<noteq> esndname ld \<and> h2 = NULL then (SHM_LOCK_FAILED, shm2, k2)
      else let (h3, k3) =
            (if SHM_LOCK_NONE \<noteq> eackname ld then CreateEventEx W psa (eackname ld) k2 else (eack shm2, k2));
          shm3 = shm2\<lparr>eack := h3\<rparr>
      in if SHM_LOCK_NONE \<noteq> eackname ld \<and> h3 = NULL then (SHM_LOCK_FAILED, shm3, k3)
      else (SHM_OK, shm3, k3))"

definition shm_init ::
  "'k win32 \<Rightarrow> shm_block \<Rightarrow> shm_lockdef option \<Rightarrow> mem \<Rightarrow> 'k \<Rightarrow> (dword \<times> shm_block \<times> mem \<times> 'k) result" where
  "shm_init W shm lockdef m k =
     (let k1 = snd (shm_enable_privileges W k);
          len = sb_len shm + sizeof_SHM_LOCKDEF;
          (psa, h, k3) =
            (case lockdef of
               Some _ \<Rightarrow>
                 (let (psa, k2) = shm_create_security_attr W k1;
                      (h, k3) = CreateFileMapping W psa len (filename shm) k2
                  in (psa, h, k3))
             | None \<Rightarrow> (let (h, k3) = OpenFileMapping W (filename shm) k1 in (None, h, k3)));
          shm1 = shm\<lparr>mapfile := h\<rparr>
      in if h = NULL then Inr (SHM_MMAP_FAILED, shm1, m, k3)
      else let (v, k4) = MapViewOfFile W h len k3; shm2 = shm1\<lparr>sb_lockdef := v\<rparr>
      in if v = NULL then Inr (SHM_MMAP_FAILED, shm2, m, k4)
      else res_bind (view_at m v) (\<lambda>vw.
        let vw1 = (case lockdef of Some ld \<Rightarrow> vw\<lparr>v_lockdef := ld\<rparr> | None \<Rightarrow> vw);
            shm3 = shm2\<lparr>sb_data := v\<rparr>;
            (r, shm4, k5) = shm_init_objects W psa (v_lockdef vw1) shm3 k4
        in Inr (r, shm4, m(v \<mapsto> vw1), k5)))"

definition shm_close :: "'k win32 \<Rightarrow> shm_block \<Rightarrow> mem \<Rightarrow> 'k \<Rightarrow> dword \<times> shm_block \<times> mem \<times> 'k" where
  "shm_close W shm m k =
     (let k1 = UnmapViewOfFile W (sb_lockdef shm) k; k2 = CloseHandle W (mapfile shm) k1
      in (0, shm\<lparr>mapfile := NULL, sb_lockdef := NULL\<rparr>, m(sb_lockdef shm := None), k2))"

section \<open>Locking and writing\<close>

definition shm_lock :: "'k win32 \<Rightarrow> shm_block option \<Rightarrow> dword \<Rightarrow> 'k \<Rightarrow> (bool \<times> 'k) result" where
  "shm_lock W pshm time k =
     (case pshm of
        None \<Rightarrow> Inl Null_Dereference
      | Some shm \<Rightarrow>
          (if l_init (sb_lock shm) then lock_wait W (Some (sb_lock shm)) time k else Inr (True, k)))"

definition shm_unlock :: "'k win32 \<Rightarrow> shm_block option \<Rightarrow> 'k \<Rightarrow> (bool \<times> 'k) result" where
  "shm_unlock W pshm k =
     (case pshm of
        None \<Rightarrow> Inl Null_Dereference
      | Some shm \<Rightarrow>
          (if l_init (sb_lock shm) then Inr (lock_release W (Some (sb_lock shm)) k) else Inr (True, k)))"

definition shm_write ::
  "'k win32 \<Rightarrow> shm_block option \<Rightarrow> byte list \<Rightarrow> nat \<Rightarrow> mem \<Rightarrow> 'k \<Rightarrow> (dword \<times> mem \<times> 'k) result" where
  "shm_write W pshm data len m k =
     (case pshm of
        None \<Rightarrow> Inl Null_Dereference
      | Some shm \<Rightarrow>
          res_bind (shm_lock W pshm 2500 k) (\<lambda>(ok, k1).
            if \<not> ok then Inr (SHM_LOCK_FAILED, m, k1)
            else
              let n = min len (sb_len shm) in
              res_bind (view_at m (sb_data shm)) (\<lambda>vw.
              res_bind (memcpy_at (v_data vw) 0 data n) (\<lambda>d.
              res_bind (shm_unlock W pshm k1) (\<lambda>(_, k2).
                let k3 = (if esnd shm \<noteq> NULL then snd (SetEvent W (esnd shm) k2) else k2)
                in Inr (of_nat n, m(sb_data shm \<mapsto> vw\<lparr>v_data := d\<rparr>), k3))))))"

definition shm_write_or_skip ::
  "'k win32 \<Rightarrow> shm_block option \<Rightarrow> byte list \<Rightarrow> nat \<Rightarrow> mem \<Rightarrow> 'k \<Rightarrow> (dword \<times> mem \<times> 'k) result" where
  "shm_write_or_skip W pshm data len m k =
     (case pshm of
        None \<Rightarrow> Inl Null_Dereference
      | Some shm \<Rightarrow>
          res_bind (shm_write W pshm data len m k) (\<lambda>(ret, m1, k1).
            if FAILED ret then Inr (ret, m1, k1)
            else let (w, k2) = WaitForSingleObject W (eack shm) 25 k1
            in if WAIT_OBJECT_0 = w then Inr (ret, m1, k2) else Inr (SHM_WRITE_TIMEOUT, m1, k2)))"

section \<open>Lemmas\<close>

lemma view_at_Some [simp]: "m p = Some v \<Longrightarrow> view_at m p = Inr v"
  by (simp add: view_at_def)

lemma shm_lock_None [simp]: "shm_lock W None t k = Inl Null_Dereference"
  by (simp add: shm_lock_def)

lemma shm_unlock_Some: "\<exists>r k'. shm_unlock W (Some shm) k = Inr (r, k')"
  by (cases "lock_release W (Some (sb_lock shm)) k") (auto simp: shm_unlock_def)

lemma shm_lock_Some: "\<exists>r k'. shm_lock W (Some shm) t k = Inr (r, k')"
  by (cases "WaitForSingleObject W (l_lock (sb_lock shm)) t k") (auto simp: shm_lock_def lock_wait_def)

text \<open>The kernel effect of leaving the critical section and signalling.\<close>

definition shm_after :: "'k win32 \<Rightarrow> shm_block \<Rightarrow> 'k \<Rightarrow> 'k" where
  "shm_after W shm k =
     (let k2 = (if l_init (sb_lock shm) then snd (ReleaseMutex W (l_lock (sb_lock shm)) k) else k)
      in if esnd shm \<noteq> NULL then snd (SetEvent W (esnd shm) k2) else k2)"

lemma shm_write_locked:
  assumes "shm_lock W (Some shm) 2500 k = Inr (True, k1)"
  shows "shm_write W (Some shm) data len m k =
    res_bind (view_at m (sb_data shm)) (\<lambda>vw.
    res_bind (memcpy_at (v_data vw) 0 data (min len (sb_len shm))) (\<lambda>d.
      Inr (of_nat (min len (sb_len shm)), m(sb_data shm \<mapsto> vw\<lparr>v_data := d\<rparr>), shm_after W shm k1)))"
  using assms
  by (simp add: shm_write_def shm_unlock_def lock_release_def shm_after_def Let_def split_beta)

lemma shm_write_ok:
  assumes "shm_lock W (Some shm) 2500 k = Inr (True, k1)" "m (sb_data shm) = Some vw"
    and "min len (sb_len shm) \<le> length data" "sb_len shm \<le> length (v_data vw)"
  shows "shm_write W (Some shm) data len m k =
    Inr (of_nat (min len (sb_len shm)),
         m(sb_data shm \<mapsto> vw\<lparr>v_data := take (min len (sb_len shm)) data @
             drop (min len (sb_len shm)) (v_data vw)\<rparr>),
         shm_after W shm k1)"
  using assms by (auto simp: shm_write_locked memcpy_at_def)

lemma shm_write_lock_failed:
  assumes "shm_lock W (Some shm) 2500 k = Inr (False, k1)"
  shows "shm_write W (Some shm) data len m k = Inr (SHM_LOCK_FAILED, m, k1)"
  using assms by (simp add: shm_write_def)

lemma shm_write_NULL [simp]: "shm_write W None data len m k = Inl Null_Dereference"
  by (simp add: shm_write_def)

section \<open>Properties\<close>

text \<open>\<open>shm_write\<close> under the mutex: the bytes written are the first \<open>min(len, shm->len)\<close> bytes
  of the message, the rest of the shared area keeps its contents, no other view changes, the
  mutex is released and the send event set in that order, and the returned length is not taken
  for an error by \<open>FAILED\<close>.\<close>

theorem shm_write_visible:
  assumes "shm_lock W (Some shm) 2500 k = Inr (True, k1)" "m (sb_data shm) = Some vw"
    and "len \<le> length data" "sb_len shm \<le> length (v_data vw)" "sb_len shm < 2 ^ 31"
  shows "\<exists>ret m'. shm_write W (Some shm) data len m k = Inr (ret, m', shm_after W shm k1) \<and>
    \<not> FAILED ret \<and> unat ret = min len (sb_len shm) \<and>
    (\<exists>vw'. m' (sb_data shm) = Some vw' \<and> v_lockdef vw' = v_lockdef vw \<and>
       length (v_data vw') = length (v_data vw) \<and>
       take (unat ret) (v_data vw') = take (unat ret) data \<and>
       drop (unat ret) (v_data vw') = drop (unat ret) (v_data vw)) \<and>
    (\<forall>p. p \<noteq> sb_data shm \<longrightarrow> m' p = m p)"
proof -
  let ?n = "min len (sb_len shm)"
  have n: "unat (of_nat ?n :: dword) = ?n"
    using assms(5) by (simp add: unat_of_nat)
  have "\<not> FAILED (of_nat ?n)"
    using assms(5) n by (intro FAILED_small) simp
  then show ?thesis
    using shm_write_ok [of W shm k k1 m vw len data] assms n by auto
qed

definition demo_block :: shm_block where
  "demo_block = shm_zero\<lparr>sb_len := 4, esnd := 7, sb_data := 9\<rparr>"

definition demo_view :: view where
  "demo_view = \<lparr>v_lockdef = \<lparr>lockname = [], esndname = [], eackname = []\<rparr>, v_data = [0, 0, 0, 0, 5]\<rparr>"

theorem shm_write_visible_witness:
  "\<exists>ret m'. shm_write sim_win32 (Some demo_block) [1, 2, 3] 3 [9 \<mapsto> demo_view] sim_start =
      Inr (ret, m', shm_after sim_win32 demo_block sim_start) \<and>
    \<not> FAILED ret \<and> unat ret = min 3 (sb_len demo_block) \<and>
    (\<exists>vw'. m' (sb_data demo_block) = Some vw' \<and> v_lockdef vw' = v_lockdef demo_view \<and>
       length (v_data vw') = length (v_data demo_view) \<and>
       take (unat ret) (v_data vw') = take (unat ret) [1, 2, 3] \<and>
       drop (unat ret) (v_data vw') = drop (unat ret) (v_data demo_view)) \<and>
    (\<forall>p. p \<noteq> sb_data demo_block \<longrightarrow> m' p = [9 \<mapsto> demo_view] p)"
  by (rule shm_write_visible)
     (simp_all add: demo_block_def demo_view_def shm_zero_def shm_lock_def lock_zero_def)

text \<open>A failed wait for the mutex leaves the shared memory untouched and signals nobody: the
  only kernel effect is the wait itself, and the result code is one that \<open>FAILED\<close> recognises.\<close>

lemma shm_write_lock_failure:
  assumes "l_init (sb_lock shm)"
    and "WaitForSingleObject W (l_lock (sb_lock shm)) 2500 k = (r, k1)" "r \<noteq> WAIT_OBJECT_0"
  shows "shm_write W (Some shm) data len m k = Inr (SHM_LOCK_FAILED, m, k1) \<and> FAILED SHM_LOCK_FAILED"
  using assms by (auto simp: shm_write_def shm_lock_def lock_wait_def shm_codes FAILED_minus)

text \<open>A client that opens the block gets its synchronisation objects under the names the
  server stored in the view: it calls the object creation with exactly that lock definition and
  leaves the shared memory as it is.\<close>

theorem shm_init_client_uses_server_names:
  assumes "OpenFileMapping W (filename shm) (snd (shm_enable_privileges W k)) = (h, k3)" "h \<noteq> NULL"
    and "MapViewOfFile W h (sb_len shm + sizeof_SHM_LOCKDEF) k3 = (v, k4)" "v \<noteq> NULL"
    and "m v = Some vw"
  shows "\<exists>r shm' k'. shm_init W shm None m k = Inr (r, shm', m, k') \<and> sb_data shm' = v \<and>
    shm_init_objects W None (v_lockdef vw) (shm\<lparr>mapfile := h, sb_lockdef := v, sb_data := v\<rparr>) k4 =
      (r, shm', k')"
proof -
  obtain r shm' k' where obj: "shm_init_objects W None (v_lockdef vw)
      (shm\<lparr>mapfile := h, sb_lockdef := v, sb_data := v\<rparr>) k4 = (r, shm', k')"
    by (metis prod_cases3)
  have "sb_data shm' = v"
    using obj by (auto simp: shm_init_objects_def Let_def split: if_splits prod.splits)
  moreover have "m(v \<mapsto> vw) = m" using assms(5) by auto
  ultimately show ?thesis
    using assms obj by (simp add: shm_init_def)
qed

definition demo_lockdef :: shm_lockdef where
  "demo_lockdef = \<lparr>lockname = ''L'', esndname = ''E'', eackname = []\<rparr>"

theorem shm_init_client_uses_server_names_witness:
  "\<exists>r shm' k'. shm_init sim_win32 shm_zero None [3 \<mapsto> demo_view\<lparr>v_lockdef := demo_lockdef\<rparr>] sim_start =
      Inr (r, shm', [3 \<mapsto> demo_view\<lparr>v_lockdef := demo_lockdef\<rparr>], k') \<and> sb_data shm' = 3 \<and>
    shm_init_objects sim_win32 None (v_lockdef (demo_view\<lparr>v_lockdef := demo_lockdef\<rparr>))
      (shm_zero\<lparr>mapfile := 2, sb_lockdef := 3, sb_data := 3\<rparr>) (sim_start\<lparr>next_handle := 4\<rparr>) = (r, shm', k')"
  by (rule shm_init_client_uses_server_names [where ?k3.0 = "sim_start\<lparr>next_handle := 3\<rparr>"])
     (simp_all add: sim_defs shm_enable_privileges_def)

text \<open>\<open>shm_init\<close> cannot report that the mutex could not be created: \<open>lock_init_ex\<close> always
  succeeds, so with \<open>CreateMutexEx\<close> failing (a null handle) the block is returned as good with an
  initialised lock whose handle is null.\<close>

lemma shm_init_mutex_failure_unreported:
  assumes "lockname ld \<noteq> SHM_LOCK_NONE" "CreateMutexEx W psa (lockname ld) k = (NULL, k1)"
    and "esndname ld = SHM_LOCK_NONE \<or> fst (CreateEventEx W psa (esndname ld) k1) \<noteq> NULL"
    and "eackname ld = SHM_LOCK_NONE"
  shows "\<exists>shm' k'. shm_init_objects W psa ld shm k = (SHM_OK, shm', k') \<and>
    sb_lock shm' = \<lparr>l_init = True, l_lock = NULL\<rparr>"
  using assms
  by (cases "sb_lock shm")
     (auto simp: shm_init_objects_def Let_def lock_init_ex_def split: prod.splits)

section \<open>Resources of the security descriptor\<close>

text \<open>
  What the process owns, as the SDK documents the calls behind \<open>shm_create_security_attr\<close>: \<open>sids\<close>
  are its SIDs, \<open>locals\<close> its blocks of the local heap, the ACL of \<open>SetEntriesInAcl\<close> included. A
  successful allocation adds a new object of its kind, a failing one nothing (and writes no
  pointer); \<open>FreeSid\<close> takes away the SID it is given, \<open>LocalFree\<close> the block, and \<open>LocalFree\<close> of a
  null pointer does nothing. Nothing is known about freeing anything else.
\<close>

definition accounts_allocations :: "'k win32 \<Rightarrow> ('k \<Rightarrow> ptr set) \<Rightarrow> ('k \<Rightarrow> ptr set) \<Rightarrow> bool" where
  "accounts_allocations W sids locals \<longleftrightarrow>
     (\<forall>a r k. case AllocateAndInitializeSid W a r k of
        (None, k') \<Rightarrow> sids k' = sids k \<and> locals k' = locals k
      | (Some p, k') \<Rightarrow> p \<noteq> NULL \<and> p \<notin> sids k \<and> sids k' = insert p (sids k) \<and> locals k' = locals k) \<and>
     (\<forall>ea k. case SetEntriesInAcl W ea k of ((r, p), k') \<Rightarrow> sids k' = sids k \<and>
        (if r = ERROR_SUCCESS then p \<noteq> NULL \<and> p \<notin> locals k \<and> locals k' = insert p (locals k)
         else p = NULL \<and> locals k' = locals k)) \<and>
     (\<forall>k. case LocalAlloc W k of (p, k') \<Rightarrow> sids k' = sids k \<and>
        (if p \<noteq> NULL then p \<notin> locals k \<and> locals k' = insert p (locals k) else locals k' = locals k)) \<and>
     (\<forall>p k. let k' = snd (InitializeSecurityDescriptor W p k) in sids k' = sids k \<and> locals k' = locals k) \<and>
     (\<forall>p q k. let k' = snd (SetSecurityDescriptorDacl W p q k) in sids k' = sids k \<and> locals k' = locals k) \<and>
     (\<forall>p k. p \<in> sids k \<longrightarrow> sids (FreeSid W p k) = sids k - {p} \<and> locals (FreeSid W p k) = locals k) \<and>
     (\<forall>p k. p \<in> locals k \<longrightarrow> sids (LocalFree W p k) = sids k \<and> locals (LocalFree W p k) = locals k - {p}) \<and>
     (\<forall>k. sids (LocalFree W NULL k) = sids k \<and> locals (LocalFree W NULL k) = locals k)"

lemma accountsD:
  assumes "accounts_allocations W sids locals"
  shows "AllocateAndInitializeSid W a b k = (Some p, k') \<Longrightarrow>
      p \<noteq> NULL \<and> p \<notin> sids k \<and> sids k' = insert p (sids k) \<and> locals k' = locals k"
    and "AllocateAndInitializeSid W a b k = (None, k') \<Longrightarrow> sids k' = sids k \<and> locals k' = locals k"
    and "SetEntriesInAcl W ea k = ((r, p), k') \<Longrightarrow> sids k' = sids k \<and>
      (if r = ERROR_SUCCESS then p \<noteq> NULL \<and> p \<notin> locals k \<and> locals k' = insert p (locals k)
       else p = NULL \<and> locals k' = locals k)"
    and "LocalAlloc W k = (p, k') \<Longrightarrow> sids k' = sids k \<and>
      (if p \<noteq> NULL then p \<notin> locals k \<and> locals k' = insert p (locals k) else locals k' = locals k)"
    and "InitializeSecurityDescriptor W p k = (c, k') \<Longrightarrow> sids k' = sids k \<and> locals k' = locals k"
    and "SetSecurityDescriptorDacl W p q k = (c, k') \<Longrightarrow> sids k' = sids k \<and> locals k' = locals k"
    and "p \<in> sids k \<Longrightarrow> sids (FreeSid W p k) = sids k - {p} \<and> locals (FreeSid W p k) = locals k"
    and "p \<in> locals k \<Longrightarrow> sids (LocalFree W p k) = sids k \<and> locals (LocalFree W p k) = locals k - {p}"
proof -
  note acc = assms [unfolded accounts_allocations_def Let_def]
  note rest = acc [THEN conjunct2] and rest2 = acc [THEN conjunct2, THEN conjunct2]
  show "AllocateAndInitializeSid W a b k = (Some p, k') \<Longrightarrow>
      p \<noteq> NULL \<and> p \<notin> sids k \<and> sids k' = insert p (sids k) \<and> locals k' = locals k"
    "AllocateAndInitializeSid W a b k = (None, k') \<Longrightarrow> sids k' = sids k \<and> locals k' = locals k"
    using acc [THEN conjunct1, rule_format, of k a b] by simp_all
  show "SetEntriesInAcl W ea k = ((r, p), k') \<Longrightarrow> sids k' = sids k \<and>
      (if r = ERROR_SUCCESS then p \<noteq> NULL \<and> p \<notin> locals k \<and> locals k' = insert p (locals k)
       else p = NULL \<and> locals k' = locals k)"
    using rest [THEN conjunct1, rule_format, of k ea] by simp
  show "LocalAlloc W k = (p, k') \<Longrightarrow> sids k' = sids k \<and>
      (if p \<noteq> NULL then p \<notin> locals k \<and> locals k' = insert p (locals k) else locals k' = locals k)"
    using rest2 [THEN conjunct1, rule_format, of k] by simp
  show "InitializeSecurityDescriptor W p k = (c, k') \<Longrightarrow> sids k' = sids k \<and> locals k' = locals k"
    using rest2 [THEN conjunct2, THEN conjunct1, rule_format, of p k] by simp
  show "SetSecurityDescriptorDacl W p q k = (c, k') \<Longrightarrow> sids k' = sids k \<and> locals k' = locals k"
    using rest2 [THEN conjunct2, THEN conjunct2, THEN conjunct1, rule_format, of p q k] by simp
qed (use assms [unfolded accounts_allocations_def] in \<open>simp_all\<close>)

lemma sec_cleanup_frees:
  assumes "accounts_allocations W sids locals" "p \<noteq> NULL \<Longrightarrow> p \<in> sids k" "q \<noteq> NULL \<Longrightarrow> q \<in> locals k"
    and "r \<noteq> NULL \<Longrightarrow> r \<in> locals k \<and> r \<noteq> q"
  shows "sids (sec_cleanup W p q r k) = sids k - (if p = NULL then {} else {p}) \<and>
    locals (sec_cleanup W p q r k) = locals k - ((if q = NULL then {} else {q}) \<union> (if r = NULL then {} else {r}))"
proof -
  define k1 where "k1 = (if p \<noteq> NULL then FreeSid W p k else k)"
  define k2 where "k2 = (if q \<noteq> NULL then LocalFree W q k1 else k1)"
  have k1: "sids k1 = sids k - (if p = NULL then {} else {p}) \<and> locals k1 = locals k"
    using accountsD(7) [OF assms(1), of p k] assms(2) by (simp add: k1_def)
  have k2: "sids k2 = sids k1 \<and> locals k2 = locals k - (if q = NULL then {} else {q})"
    using accountsD(8) [OF assms(1), of q k1] assms(3) k1 by (simp add: k2_def)
  have "sec_cleanup W p q r k = (if r \<noteq> NULL then LocalFree W r k2 else k2)"
    by (simp add: sec_cleanup_def k1_def k2_def Let_def)
  then show ?thesis
    using accountsD(8) [OF assms(1), of r k2] assms(4) k1 k2 by auto
qed

text \<open>C29. \<open>shm_create_security_attr\<close> releases on every failing path exactly the objects it had
  allocated so far, each with the call of its kind: the process owns the same SIDs and the same
  blocks as before when it returns \<open>FALSE\<close>. When it returns \<open>TRUE\<close> it owns one new SID and two new
  blocks, the ACL and the descriptor, which is the one handed to the caller.\<close>

theorem security_attr_no_leak:
  assumes "accounts_allocations W sids locals" "shm_create_security_attr W k = (res, k')"
  shows "case res of
      None \<Rightarrow> sids k' = sids k \<and> locals k' = locals k
    | Some sa \<Rightarrow> \<exists>pSID pACL. pSID \<notin> sids k \<and> pACL \<notin> locals k \<and> lpSecurityDescriptor sa \<notin> locals k \<and>
        pACL \<noteq> lpSecurityDescriptor sa \<and> sids k' = insert pSID (sids k) \<and>
        locals k' = insert (lpSecurityDescriptor sa) (insert pACL (locals k))"
proof -
  note laws = accountsD [OF assms(1)] and frees = sec_cleanup_frees [OF assms(1)]
  obtain s k1 where s: "AllocateAndInitializeSid W SECURITY_WORLD_SID_AUTHORITY SECURITY_WORLD_RID k = (s, k1)"
    by force
  show ?thesis
  proof (cases s)
    case None
    with assms(2) s laws(2) frees [of NULL k1 NULL NULL] show ?thesis by (auto simp: shm_create_security_attr_def)
  next
    case (Some pSID)
    define ea where "ea = \<lparr>grfAccessPermissions =
        [FILE_MAP_ALL_ACCESS, SYNCHRONIZE, MUTEX_ALL_ACCESS, EVENT_ALL_ACCESS], trustee_sid = pSID\<rparr>"
    obtain r pACL k2 where a: "SetEntriesInAcl W [ea] k1 = ((r, pACL), k2)" by (metis surj_pair)
    obtain pSD k3 where d: "LocalAlloc W k2 = (pSD, k3)" by force
    obtain b1 k4 where i: "InitializeSecurityDescriptor W pSD k3 = (b1, k4)" by force
    obtain b2 k5 where c: "SetSecurityDescriptorDacl W pSD pACL k4 = (b2, k5)" by force
    note got = laws(1) [OF s [unfolded Some]] laws(3) [OF a] laws(4) [OF d] laws(5) [OF i] laws(6) [OF c]
    have run: "(res, k') =
        (if r \<noteq> ERROR_SUCCESS then (None, sec_cleanup W pSID pACL NULL k2)
         else if pSD = NULL then (None, sec_cleanup W pSID pACL NULL k3)
         else if \<not> b1 then (None, sec_cleanup W pSID pACL pSD k4)
         else if \<not> b2 then (None, sec_cleanup W pSID pACL pSD k5)
         else (Some \<lparr>lpSecurityDescriptor = pSD, bInheritHandle = False\<rparr>, k5))"
      using assms(2) s Some a d i c by (auto simp: shm_create_security_attr_def simp flip: ea_def)
    consider "r \<noteq> ERROR_SUCCESS" | "r = ERROR_SUCCESS" "pSD = NULL" | "r = ERROR_SUCCESS" "pSD \<noteq> NULL" "\<not> b1"
      | "r = ERROR_SUCCESS" "pSD \<noteq> NULL" "b1" "\<not> b2" | "r = ERROR_SUCCESS" "pSD \<noteq> NULL" "b1" "b2" by blast
    then show ?thesis
    proof cases
      case 1
      with run got frees [of pSID k2 pACL NULL] show ?thesis by auto
    next
      case 2
      with run got frees [of pSID k3 pACL NULL] show ?thesis by auto
    next
      case 3
      with run got frees [of pSID k4 pACL pSD] show ?thesis by auto
    next
      case 4
      with run got frees [of pSID k5 pACL pSD] show ?thesis by auto
    next
      case 5
      with run got show ?thesis by auto
    qed
  qed
qed

text \<open>
  A kernel whose state is the SIDs and the blocks the process owns, for the witness: the
  descriptor cannot be initialised, so the code takes the clean-up path with all three objects
  allocated.
\<close>

type_synonym owning = "ptr list \<times> ptr list"

definition owning_win32 :: "owning win32" where
  "owning_win32 = \<lparr>
     WaitForSingleObject = (\<lambda>_ _ k. (WAIT_OBJECT_0, k)), CreateMutex = (\<lambda>_ k. (1, k)),
     CreateMutexEx = (\<lambda>_ _ k. (1, k)), ReleaseMutex = (\<lambda>_ k. (True, k)), CloseHandle = (\<lambda>_ k. k),
     CreateEvent = (\<lambda>k. (1, k)), CreateEventEx = (\<lambda>_ _ k. (1, k)), SetEvent = (\<lambda>_ k. (True, k)),
     InitializeSRWLock = (\<lambda>_ k. k), AcquireSRWLockShared = (\<lambda>_ k. k), ReleaseSRWLockShared = (\<lambda>_ k. k),
     AcquireSRWLockExclusive = (\<lambda>_ k. k), ReleaseSRWLockExclusive = (\<lambda>_ k. k),
     OpenProcessToken = (\<lambda>k. (None, k)), LookupPrivilegeValue = (\<lambda>k. k),
     AdjustTokenPrivileges = (\<lambda>_ k. (True, k)),
     AllocateAndInitializeSid = (\<lambda>_ _ (s, l). (Some (Suc (sum_list s)), (Suc (sum_list s) # s, l))),
     SetEntriesInAcl = (\<lambda>_ (s, l). ((ERROR_SUCCESS, Suc (sum_list l)), (s, Suc (sum_list l) # l))),
     LocalAlloc = (\<lambda>(s, l). (Suc (sum_list l), (s, Suc (sum_list l) # l))),
     InitializeSecurityDescriptor = (\<lambda>_ k. (False, k)), SetSecurityDescriptorDacl = (\<lambda>_ _ k. (True, k)),
     FreeSid = (\<lambda>p (s, l). (removeAll p s, l)), LocalFree = (\<lambda>p (s, l). (s, removeAll p l)),
     CreateFileMapping = (\<lambda>_ _ _ k. (1, k)), OpenFileMapping = (\<lambda>_ k. (1, k)),
     MapViewOfFile = (\<lambda>_ _ k. (1, k)), UnmapViewOfFile = (\<lambda>_ k. k)\<rparr>"

lemma fresh_sum: "Suc (sum_list xs) \<notin> set (xs :: nat list)"
  using member_le_sum_list by fastforce

lemma owning_accounts: "accounts_allocations owning_win32 (\<lambda>k. set (fst k) - {0}) (\<lambda>k. set (snd k) - {0})"
  using fresh_sum by (auto simp: accounts_allocations_def owning_win32_def ERROR_SUCCESS_def)

theorem security_attr_no_leak_witness:
  "shm_create_security_attr owning_win32 ([4], [7, 9]) = (None, ([4], [7, 9])) \<and>
   (case (None :: security_attributes option) of
      None \<Rightarrow> set (fst ([4], [7, 9])) - {0} = set (fst ([4 :: ptr], [7 :: ptr, 9])) - {0} \<and>
        set (snd ([4], [7, 9])) - {0} = set (snd ([4 :: ptr], [7 :: ptr, 9])) - {0}
    | Some _ \<Rightarrow> False)"
proof -
  have run: "shm_create_security_attr owning_win32 ([4], [7, 9]) = (None, ([4], [7, 9]))"
    by (simp add: shm_create_security_attr_def sec_cleanup_def owning_win32_def ERROR_SUCCESS_def)
  from security_attr_no_leak [OF owning_accounts run] run show ?thesis by simp
qed

end
