(* ===== verification/Acl.thy ===== *)
theory Acl
  imports Dhcp Shm "HOL-Library.Multiset" "HOL-Library.List_Lexorder" "HOL-Library.Product_Lexorder"
begin

text \<open>
  \<open>include/acl.h\<close> and \<open>libdhcp/src/acl.cpp\<close>: the access list, the order of its entries, the
  sort and the filter that the callout DLL asks about every client address.
\<close>

section \<open>Entries and the list\<close>

definition ACCESS_DENY :: dword where "ACCESS_DENY = 0"
definition ACCESS_PERMIT :: dword where "ACCESS_PERMIT = 1"

record acl_entry =
  HwType :: byte
  HwAddr :: "byte list"
  HwMask :: "byte list"
  access :: dword

text \<open>The list header and the memory behind it, as the entries it holds room for.\<close>

record acl_list =
  acl_length :: dword
  acl_entry_mem :: "acl_entry list"

definition wf_entry :: "acl_entry \<Rightarrow> bool" where
  "wf_entry e \<longleftrightarrow> length (HwAddr e) = 16 \<and> length (HwMask e) = 16"

definition zero_entry :: acl_entry where
  "zero_entry = \<lparr>HwType = 0, HwAddr = replicate 16 0, HwMask = replicate 16 0, access = 0\<rparr>"

definition SHM_ACL_NAME :: string where
  "SHM_ACL_NAME = ''Global'' @ [CHR 0x5C] @ ''SHM_ACL_NAME_{6949ECA7-4143-4cf8-81D6-1854F1225CAE}''"
definition SHM_ACL_LOCK :: string where
  "SHM_ACL_LOCK = ''Global'' @ [CHR 0x5C] @ ''SHM_ACL_LOCK_{6949ECA7-4143-4cf8-81D6-1854F1225CAE}''"
definition SHM_ACL_EVENT_SEND :: string where
  "SHM_ACL_EVENT_SEND = ''Global'' @ [CHR 0x5C] @ ''SHM_ACL_EVENT_SEND_{6949ECA7-4143-4cf8-81D6-1854F1225CAE}''"

text \<open>
  Layout: the 33 bytes of the first three members are padded to 36 before the \<open>BOOL\<close>. The
  lock is one pointer wide, so the entries start at 8 (32-bit build) or 16 (64-bit build).
\<close>

definition sizeof_ACL_ENTRY :: nat where [layout]: "sizeof_ACL_ENTRY = 36 + 4"

definition OFF_entry :: "nat \<Rightarrow> nat" where [layout]: "OFF_entry ptr_size = 2 * ptr_size"

definition acl_shm_len :: nat where [layout]: "acl_shm_len = 2048 * sizeof_ACL_ENTRY + 4"

section \<open>Opening the list\<close>

text \<open>Both return the address of the list (\<open>NULL\<close> on failure) and the global \<open>acl_shm\<close>.\<close>

definition acl_init :: "'k win32 \<Rightarrow> mem \<Rightarrow> 'k \<Rightarrow> (ptr \<times> shm_block \<times> mem \<times> 'k) result" where
  "acl_init W m k =
     (let acl_shm = shm_zero\<lparr>sb_len := acl_shm_len, filename := SHM_ACL_NAME\<rparr>;
          lockdef = \<lparr>lockname = SHM_LOCK_NONE, esndname = SHM_LOCK_NONE, eackname = SHM_LOCK_NONE\<rparr>
      in res_bind (shm_init W acl_shm (Some lockdef) m k) (\<lambda>(r, shm', m', k').
           if FAILED r then Inr (NULL, shm', m', k')
           else Inr (sb_data shm', shm', m', InitializeSRWLock W Acl_SRW k')))"

definition acl_connect :: "'k win32 \<Rightarrow> mem \<Rightarrow> 'k \<Rightarrow> (ptr \<times> shm_block \<times> mem \<times> 'k) result" where
  "acl_connect W m k =
     (let acl_shm = shm_zero\<lparr>sb_len := acl_shm_len, filename := SHM_ACL_NAME\<rparr>
      in res_bind (shm_init W acl_shm None m k) (\<lambda>(r, shm', m', k').
           if FAILED r then Inr (NULL, shm', m', k') else Inr (sb_data shm', shm', m', k')))"

definition acl_write_lock :: "'k win32 \<Rightarrow> 'k \<Rightarrow> 'k" where
  "acl_write_lock W k = AcquireSRWLockExclusive W Acl_SRW k"

definition acl_write_unlock :: "'k win32 \<Rightarrow> 'k \<Rightarrow> 'k" where
  "acl_write_unlock W k = ReleaseSRWLockExclusive W Acl_SRW k"

section \<open>Order and sort\<close>

text \<open>
  One of the two 16-byte comparison loops: the difference at the first position where the
  arrays differ. The arrays have the same length, so the loop is recursion on both.
\<close>

fun cmp_bytes :: "byte list \<Rightarrow> byte list \<Rightarrow> int" where
  "cmp_bytes (a # as) (b # bs) = (if a \<noteq> b then uint a - uint b else cmp_bytes as bs)"
| "cmp_bytes _ _ = 0"

definition acl_compartor :: "acl_entry \<Rightarrow> acl_entry \<Rightarrow> int" where
  "acl_compartor a b =
     (if HwType a \<noteq> HwType b then uint (HwType a) - uint (HwType b)
      else let m = cmp_bytes (HwMask a) (HwMask b)
      in if m \<noteq> 0 then m else cmp_bytes (HwAddr a) (HwAddr b))"

text \<open>
  \<open>qsort\<close> of the C library: the standard fixes only that the result is a sorted permutation.
  \<open>acl_sort_entry\<close> is modelled with an insertion sort; the locale \<open>acl_sorter\<close> states the
  contract, and the facts about the sorted list are proved from the contract alone.
\<close>

fun qsort_insert :: "('a \<Rightarrow> 'a \<Rightarrow> int) \<Rightarrow> 'a \<Rightarrow> 'a list \<Rightarrow> 'a list" where
  "qsort_insert cmp x [] = [x]"
| "qsort_insert cmp x (y # ys) = (if cmp x y \<le> 0 then x # y # ys else y # qsort_insert cmp x ys)"

fun c_qsort :: "('a \<Rightarrow> 'a \<Rightarrow> int) \<Rightarrow> 'a list \<Rightarrow> 'a list" where
  "c_qsort cmp [] = []"
| "c_qsort cmp (x # xs) = qsort_insert cmp x (c_qsort cmp xs)"

definition acl_sort_entry :: "acl_entry list \<Rightarrow> nat \<Rightarrow> acl_entry list" where
  "acl_sort_entry entries cnt = c_qsort acl_compartor (take cnt entries) @ drop cnt entries"

section \<open>The filter\<close>

text \<open>The inner loop: \<open>True\<close> when every byte matches, \<open>False\<close> for the jump to \<open>next\<close>.\<close>

function acl_match_loop :: "acl_entry \<Rightarrow> byte list \<Rightarrow> nat \<Rightarrow> nat \<Rightarrow> bool result" where
  "acl_match_loop e addr len j =
     (if j < len then
        res_bind (rd addr (int j)) (\<lambda>a.
        res_bind (rd (HwMask e) (int j)) (\<lambda>m.
        res_bind (rd (HwAddr e) (int j)) (\<lambda>h.
          if (a AND m) \<noteq> h then Inr False else acl_match_loop e addr len (Suc j))))
      else Inr True)"
  by pat_completeness auto
termination
  by (relation "measure (\<lambda>(e, addr, len, j). len - j)") auto

function acl_filter_loop ::
  "acl_entry list \<Rightarrow> nat \<Rightarrow> byte \<Rightarrow> byte list \<Rightarrow> nat \<Rightarrow> nat \<Rightarrow> dword result" where
  "acl_filter_loop entries len hwtype addr alen i =
     (if i < len then
        res_bind (rd entries (int i)) (\<lambda>e.
          if HwType e \<noteq> hwtype then acl_filter_loop entries len hwtype addr alen (Suc i)
          else res_bind (acl_match_loop e addr alen 0) (\<lambda>b.
            if b then Inr (access e) else acl_filter_loop entries len hwtype addr alen (Suc i)))
      else Inr ACCESS_PERMIT)"
  by pat_completeness auto
termination
  by (relation "measure (\<lambda>(entries, len, hwtype, addr, alen, i). len - i)") auto

declare acl_match_loop.simps [simp del] acl_filter_loop.simps [simp del]

text \<open>
  The stack buffer \<open>char buf[16*2+1]\<close> is passed to the Unicode formatter: its 33 bytes hold 16
  whole wide characters. The debug macro is active in every configuration of the project.
\<close>

definition acl_filter_buf :: "wchar list" where
  "acl_filter_buf = replicate ((16 * 2 + 1) div 2) 0"

definition acl_filter ::
  "'k win32 \<Rightarrow> acl_list option \<Rightarrow> byte \<Rightarrow> byte list \<Rightarrow> byte \<Rightarrow> 'k \<Rightarrow> (dword \<times> 'k) result" where
  "acl_filter W pacl hwtype addr alen k =
     (case pacl of
        None \<Rightarrow> Inl Null_Dereference
      | Some acl \<Rightarrow>
          (let k1 = AcquireSRWLockShared W Acl_SRW k in
           res_bind (dhcp_hw_addr_unicode acl_filter_buf addr (uint alen)) (\<lambda>_.
           res_bind (acl_filter_loop (acl_entry_mem acl) (unat (acl_length acl)) hwtype addr (unat alen) 0) (\<lambda>r.
             Inr (r, ReleaseSRWLockShared W Acl_SRW k1)))))"

section \<open>Specification of the decision\<close>

definition acl_matches :: "byte \<Rightarrow> byte list \<Rightarrow> acl_entry \<Rightarrow> bool" where
  "acl_matches t addr e \<longleftrightarrow> HwType e = t \<and>
     map2 (AND) addr (take (length addr) (HwMask e)) = take (length addr) (HwAddr e)"

text \<open>First match decides, an address that no entry covers is permitted.\<close>

definition acl_decide :: "acl_entry list \<Rightarrow> byte \<Rightarrow> byte list \<Rightarrow> dword" where
  "acl_decide es t addr = (case find (acl_matches t addr) es of Some e \<Rightarrow> access e | None \<Rightarrow> ACCESS_PERMIT)"

text \<open>The key the comparator orders by.\<close>

definition acl_key :: "acl_entry \<Rightarrow> byte \<times> byte list \<times> byte list" where
  "acl_key e = (HwType e, HwMask e, HwAddr e)"

section \<open>Lemmas: the filter\<close>

lemma acl_match_loop_correct:
  assumes "wf_entry e" "n \<le> 16" "n \<le> length addr" "j \<le> n"
  shows "acl_match_loop e addr n j =
    Inr (\<forall>i. j \<le> i \<and> i < n \<longrightarrow> addr ! i AND HwMask e ! i = HwAddr e ! i)"
  using assms(4)
proof (induction j rule: inc_induct)
  case base
  show ?case by (subst acl_match_loop.simps) auto
next
  case (step j)
  have "acl_match_loop e addr n j =
    (if addr ! j AND HwMask e ! j \<noteq> HwAddr e ! j then Inr False else acl_match_loop e addr n (Suc j))"
    using step.hyps assms by (subst acl_match_loop.simps) (simp add: wf_entry_def)
  with step show ?case by (auto simp: le_Suc_eq Suc_le_eq) (metis le_neq_implies_less)
qed

lemma acl_matches_iff:
  assumes "wf_entry e" "n \<le> 16" "n \<le> length addr"
  shows "acl_matches t (take n addr) e \<longleftrightarrow>
    HwType e = t \<and> (\<forall>i. i < n \<longrightarrow> addr ! i AND HwMask e ! i = HwAddr e ! i)"
  using assms by (auto simp: acl_matches_def wf_entry_def list_eq_iff_nth_eq min_def)

lemma acl_filter_loop_correct:
  assumes "list_all wf_entry entries" "n \<le> 16" "n \<le> length addr" "len \<le> length entries" "i \<le> len"
  shows "acl_filter_loop entries len t addr n i =
    Inr (acl_decide (drop i (take len entries)) t (take n addr))"
  using assms(5)
proof (induction i rule: inc_induct)
  case base
  show ?case by (subst acl_filter_loop.simps) (simp add: acl_decide_def)
next
  case (step i)
  let ?e = "entries ! i"
  have wf: "wf_entry ?e" using assms step.hyps by (simp add: list_all_length)
  have d: "drop i (take len entries) = ?e # drop (Suc i) (take len entries)"
    using assms step.hyps by (simp add: Cons_nth_drop_Suc [symmetric])
  have "acl_filter_loop entries len t addr n i =
    (if acl_matches t (take n addr) ?e then Inr (access ?e)
     else acl_filter_loop entries len t addr n (Suc i))"
    using assms step.hyps wf
    by (subst acl_filter_loop.simps) (auto simp: acl_match_loop_correct acl_matches_iff)
  with step d show ?case by (simp add: acl_decide_def)
qed

section \<open>Lemmas: the order\<close>

lemma uint_neq: "a \<noteq> b \<Longrightarrow> uint a \<noteq> uint b"
  by (simp add: word_uint_eq_iff)

lemma cmp_bytes_le: "length as = length bs \<Longrightarrow> cmp_bytes as bs \<le> 0 \<longleftrightarrow> as \<le> bs"
proof (induction as bs rule: cmp_bytes.induct)
  case (1 a as b bs)
  then show ?case by (cases "a = b") (auto simp: word_less_def dest: uint_neq)
qed simp_all

lemma cmp_bytes_eq: "length as = length bs \<Longrightarrow> cmp_bytes as bs = 0 \<longleftrightarrow> as = bs"
  by (induction as bs rule: cmp_bytes.induct) (auto dest: uint_neq)

lemma acl_compartor_le:
  assumes "wf_entry a" "wf_entry b"
  shows "acl_compartor a b \<le> 0 \<longleftrightarrow> acl_key a \<le> acl_key b"
proof -
  have len: "length (HwMask a) = length (HwMask b)" "length (HwAddr a) = length (HwAddr b)"
    using assms by (simp_all add: wf_entry_def)
  have "HwMask a \<noteq> HwMask b \<Longrightarrow> HwMask a \<le> HwMask b \<longleftrightarrow> HwMask a < HwMask b"
    by (simp add: less_le)
  then show ?thesis
    using cmp_bytes_le [OF len(1)] cmp_bytes_le [OF len(2)] cmp_bytes_eq [OF len(1)]
    by (cases "HwType a = HwType b")
       (auto simp: acl_compartor_def acl_key_def Let_def word_less_def word_le_def dest: uint_neq)
qed

lemma acl_compartor_total: "wf_entry a \<Longrightarrow> wf_entry b \<Longrightarrow> \<not> acl_compartor a b \<le> 0 \<Longrightarrow> acl_compartor b a \<le> 0"
  by (simp add: acl_compartor_le)

lemma mset_qsort_insert: "mset (qsort_insert cmp x xs) = {#x#} + mset xs"
  by (induction xs) auto

lemma mset_c_qsort [simp]: "mset (c_qsort cmp xs) = mset xs"
  by (induction xs) (auto simp: mset_qsort_insert)

lemma set_qsort_insert: "set (qsort_insert cmp x xs) = insert x (set xs)"
  by (metis mset_qsort_insert set_mset_add_mset_insert set_mset_mset add_mset_add_single union_commute)

lemma set_c_qsort [simp]: "set (c_qsort cmp xs) = set xs"
  by (metis mset_c_qsort set_mset_mset)

lemma length_c_qsort [simp]: "length (c_qsort cmp xs) = length xs"
  by (metis mset_c_qsort size_mset)

lemma sorted_qsort_insert:
  assumes "wf_entry x" "list_all wf_entry xs" "sorted_wrt (\<lambda>a b. acl_key a \<le> acl_key b) xs"
  shows "sorted_wrt (\<lambda>a b. acl_key a \<le> acl_key b) (qsort_insert acl_compartor x xs)"
  using assms
proof (induction xs)
  case (Cons y ys)
  then show ?case
    by (auto simp: acl_compartor_le set_qsort_insert)
qed simp

lemma sorted_c_qsort:
  "list_all wf_entry xs \<Longrightarrow> sorted_wrt (\<lambda>a b. acl_key a \<le> acl_key b) (c_qsort acl_compartor xs)"
  by (induction xs) (auto simp: list_all_iff intro!: sorted_qsort_insert)

section \<open>The sort interface\<close>

text \<open>
  What the update code relies on of the C library's sort, on lists of well-formed entries: a
  permutation, ascending in the comparator. The facts below hold for every such sort.
\<close>

locale acl_sorter =
  fixes srt :: "acl_entry list \<Rightarrow> acl_entry list"
  assumes mset_srt: "mset (srt es) = mset es"
    and sorted_srt: "list_all wf_entry es \<Longrightarrow> sorted_wrt (\<lambda>a b. acl_compartor a b \<le> 0) (srt es)"
begin

lemma set_srt: "set (srt es) = set es"
  by (metis mset_srt set_mset_mset)

lemma length_srt: "length (srt es) = length es"
  by (metis mset_srt size_mset)

lemma sorted_key_srt:
  assumes "list_all wf_entry es"
  shows "sorted_wrt (\<lambda>a b. acl_key a \<le> acl_key b) (srt es)"
proof -
  have "sorted_wrt (\<lambda>a b. acl_compartor a b \<le> 0) (srt es)" by (rule sorted_srt [OF assms])
  then show ?thesis
    by (rule sorted_wrt_mono_rel [rotated])
       (use assms in \<open>auto simp: set_srt list_all_iff acl_compartor_le\<close>)
qed

text \<open>The first match of the sorted list is a match with the least key.\<close>

lemma find_srt_least:
  assumes "list_all wf_entry es" "find P (srt es) = Some e"
  shows "P e \<and> e \<in> set es \<and> (\<forall>e' \<in> set es. P e' \<longrightarrow> acl_key e \<le> acl_key e')"
proof -
  obtain i where i: "i < length (srt es)" "P (srt es ! i)" "e = srt es ! i" "\<forall>j<i. \<not> P (srt es ! j)"
    using assms(2) by (auto simp: find_Some_iff)
  have "acl_key e \<le> acl_key (srt es ! j)" if "j < length (srt es)" "P (srt es ! j)" for j
    using sorted_wrt_nth_less [OF sorted_key_srt [OF assms(1)], of i j] i that
    by (metis linorder_neqE_nat order_refl)
  then have "\<forall>e' \<in> set (srt es). P e' \<longrightarrow> acl_key e \<le> acl_key e'"
    by (auto simp: in_set_conv_nth)
  with i show ?thesis using set_srt [of es] nth_mem [OF i(1)] by auto
qed

lemma find_srt_None: "find P (srt es) = None \<longleftrightarrow> (\<forall>e \<in> set es. \<not> P e)"
  by (auto simp: find_None_iff set_srt)

end

interpretation acl_qsort: acl_sorter "c_qsort acl_compartor"
proof
  show "mset (c_qsort acl_compartor es) = mset es" for es by simp
  show "sorted_wrt (\<lambda>a b. acl_compartor a b \<le> 0) (c_qsort acl_compartor es)"
    if "list_all wf_entry es" for es
    using sorted_c_qsort [OF that]
    by (rule sorted_wrt_mono_rel [rotated]) (use that in \<open>auto simp: list_all_iff acl_compartor_le\<close>)
qed

section \<open>Lemmas: the whole filter\<close>

lemma length_acl_filter_buf: "length acl_filter_buf = 16"
  by (simp add: acl_filter_buf_def)

lemma acl_filter_debug_ok:
  fixes alen :: byte
  shows "(\<exists>b. dhcp_hw_addr_unicode acl_filter_buf addr (uint alen) = Inr b) \<longleftrightarrow>
   0 < unat alen \<and> unat alen \<le> length addr \<and> unat alen \<le> 5"
proof -
  have n: "uint alen = int (unat alen)" by simp
  have "unat alen < 256" by (rule unat_byte)
  then show ?thesis
    unfolding dhcp_hw_addr_unicode_def n
    by (subst hw_addr_write_Inr_iff) (auto simp: length_acl_filter_buf simp del: of_nat_unat)
qed

section \<open>Properties\<close>

text \<open>The search of \<open>acl_filter\<close> is the first-match decision of the list: the first of the
  \<open>length\<close> entries whose hardware type is the client's and whose address equals the client's under
  the entry's mask decides, and a client no entry covers is permitted. It never reads outside the
  list or an address for address lengths up to 16.\<close>

theorem acl_filter_loop_first_match:
  assumes "list_all wf_entry entries" "len \<le> length entries" "n \<le> 16" "n \<le> length addr"
  shows "acl_filter_loop entries len t addr n 0 = Inr (acl_decide (take len entries) t (take n addr))"
  using acl_filter_loop_correct [OF assms(1,3,4,2), of 0] by simp

definition demo_acl :: "acl_entry list" where
  "demo_acl =
     [\<lparr>HwType = 1, HwAddr = [0xAA, 0xBB] @ replicate 14 0, HwMask = [0xFF, 0xFF] @ replicate 14 0, access = 0\<rparr>,
      \<lparr>HwType = 1, HwAddr = replicate 16 0, HwMask = replicate 16 0, access = 1\<rparr>]"

theorem acl_filter_loop_first_match_witness:
  "acl_filter_loop demo_acl 2 1 [0xAA, 0xBB, 0xCC] 3 0 =
     Inr (acl_decide (take 2 demo_acl) 1 (take 3 [0xAA, 0xBB, 0xCC])) \<and>
   acl_decide (take 2 demo_acl) 1 (take 3 [0xAA, 0xBB, 0xCC]) = ACCESS_DENY"
proof -
  have "acl_filter_loop demo_acl 2 1 [0xAA, 0xBB, 0xCC] 3 0 =
     Inr (acl_decide (take 2 demo_acl) 1 (take 3 [0xAA, 0xBB, 0xCC]))"
    by (rule acl_filter_loop_first_match) (simp_all add: demo_acl_def wf_entry_def)
  then show ?thesis
    by (simp add: acl_decide_def demo_acl_def acl_matches_def ACCESS_DENY_def)
qed

text \<open>C20. The whole of \<open>acl_filter\<close>: with a connected list it returns if and only if the address
  length is between 1 and 5, because its 33-byte buffer is too small for the Unicode text of a
  longer address; every six-byte Ethernet address overflows it. When it returns, the result is the
  first-match decision and the shared lock taken at the start has been released.\<close>

theorem acl_filter_returns_iff:
  assumes "list_all wf_entry (acl_entry_mem acl)" "unat (acl_length acl) \<le> length (acl_entry_mem acl)"
    and "unat alen \<le> length addr"
  shows "acl_filter W (Some acl) t addr alen k =
      Inr (acl_decide (take (unat (acl_length acl)) (acl_entry_mem acl)) t (take (unat alen) addr),
           ReleaseSRWLockShared W Acl_SRW (AcquireSRWLockShared W Acl_SRW k)) \<longleftrightarrow>
    0 < unat alen \<and> unat alen \<le> 5"
    (is "?f = Inr ?r \<longleftrightarrow> ?safe")
proof -
  have dbg: "(\<exists>b. dhcp_hw_addr_unicode acl_filter_buf addr (uint alen) = Inr b) \<longleftrightarrow> ?safe"
    using acl_filter_debug_ok assms(3) by simp
  show ?thesis
  proof
    assume "?f = Inr ?r"
    with dbg show ?safe by (auto simp: acl_filter_def res_bind_eq_Inr)
  next
    assume safe: ?safe
    with dbg obtain b where "dhcp_hw_addr_unicode acl_filter_buf addr (uint alen) = Inr b" by blast
    with safe acl_filter_loop_correct [OF assms(1) _ assms(3,2), of 0]
    show "?f = Inr ?r" by (simp add: acl_filter_def)
  qed
qed

theorem acl_filter_returns_iff_witness:
  "acl_filter sim_win32 (Some \<lparr>acl_length = 2, acl_entry_mem = demo_acl\<rparr>) 1 [1, 2, 3, 4, 5, 6] 5 sim_start =
      Inr (acl_decide (take (unat (acl_length \<lparr>acl_length = 2, acl_entry_mem = demo_acl\<rparr>))
             (acl_entry_mem \<lparr>acl_length = 2, acl_entry_mem = demo_acl\<rparr>)) 1 (take (unat (5 :: byte)) [1, 2, 3, 4, 5, 6]),
           ReleaseSRWLockShared sim_win32 Acl_SRW (AcquireSRWLockShared sim_win32 Acl_SRW sim_start))"
  by (subst acl_filter_returns_iff) (simp_all add: demo_acl_def wf_entry_def)

text \<open>A null list (the result of a failed \<open>acl_init\<close>, which \<open>DhcpControlHook\<close> only logs) makes
  the filter dereference a null pointer, and a six-byte hardware address never gets an answer.\<close>

lemma acl_filter_faults:
  "acl_filter W None t addr alen k = Inl Null_Dereference \<and>
   is_fault (acl_filter W (Some acl) t [a1, a2, a3, a4, a5, a6] 6 k)"
proof -
  have "\<not> (\<exists>b. dhcp_hw_addr_unicode acl_filter_buf [a1, a2, a3, a4, a5, a6] (uint (6 :: byte)) = Inr b)"
    by (subst acl_filter_debug_ok) simp
  then have "is_fault (dhcp_hw_addr_unicode acl_filter_buf [a1, a2, a3, a4, a5, a6] (uint (6 :: byte)))"
    by (simp only: not_is_fault_iff [symmetric] not_not)
  then show ?thesis by (simp add: acl_filter_def is_fault_res_bind)
qed

text \<open>The comparator is a faithful three-way comparison: on well-formed entries its sign is the
  lexicographic order of hardware type, then mask, then address, as unsigned bytes (so it is a
  total preorder and \<open>qsort\<close> is well-defined), and it is zero exactly on entries with the same
  three fields.\<close>

theorem acl_compartor_orders:
  assumes "wf_entry a" "wf_entry b"
  shows "(acl_compartor a b \<le> 0) = (acl_key a \<le> acl_key b) \<and>
    (acl_compartor a b = 0) = (acl_key a = acl_key b) \<and>
    (acl_compartor a b < 0) = (acl_compartor b a > 0)"
proof -
  have zero: "(acl_compartor a b = 0) = (acl_key a = acl_key b)"
    using assms cmp_bytes_eq [of "HwMask a" "HwMask b"] cmp_bytes_eq [of "HwAddr a" "HwAddr b"]
    by (auto simp: acl_compartor_def acl_key_def Let_def wf_entry_def dest: uint_neq)
  have le: "(acl_compartor a b \<le> 0) = (acl_key a \<le> acl_key b)"
    "(acl_compartor b a \<le> 0) = (acl_key b \<le> acl_key a)"
    using assms by (simp_all add: acl_compartor_le)
  have "(acl_compartor a b < 0) = (acl_compartor a b \<le> 0 \<and> acl_compartor a b \<noteq> 0)" by auto
  also have "\<dots> = (acl_key a < acl_key b)" using zero le by (simp add: less_le)
  also have "\<dots> = (\<not> acl_compartor b a \<le> 0)" using le by (simp add: not_le)
  finally show ?thesis using zero le by auto
qed

theorem acl_compartor_orders_witness:
  "wf_entry (demo_acl ! 0) \<and> wf_entry (demo_acl ! 1) \<and>
   (acl_compartor (demo_acl ! 0) (demo_acl ! 1) < 0) = (acl_compartor (demo_acl ! 1) (demo_acl ! 0) > 0)"
proof -
  have wf: "wf_entry (demo_acl ! 0)" "wf_entry (demo_acl ! 1)"
    by (simp_all add: demo_acl_def wf_entry_def)
  with acl_compartor_orders [OF wf] show ?thesis by blast
qed

text \<open>C27. After sorting, the least specific rule wins: as the comparator orders masks ascending,
  with a catch-all entry (zero mask and address) for a hardware type in the list, every client of
  that type is decided by an entry with a zero mask, whatever more specific entries the list has.\<close>

theorem sorted_catch_all_shadows:
  assumes "list_all wf_entry es" "w \<in> set es" "HwType w = t"
    and "HwMask w = replicate 16 0" "HwAddr w = replicate 16 0" "length addr \<le> 16"
  shows "\<exists>e \<in> set es. HwType e = t \<and> HwMask e = replicate 16 0 \<and>
    acl_decide (acl_sort_entry es (length es)) t addr = access e"
proof -
  have "map2 (AND) addr (replicate (length addr) 0) = replicate (length addr) (0 :: byte)"
    by (simp add: list_eq_iff_nth_eq)
  then have "acl_matches t addr w" using assms by (simp add: acl_matches_def min_def)
  then obtain e where e: "find (acl_matches t addr) (c_qsort acl_compartor es) = Some e"
    using acl_qsort.find_srt_None [of "acl_matches t addr" es] assms(2) by fastforce
  have least: "acl_matches t addr e" "e \<in> set es" "acl_key e \<le> acl_key w"
    using acl_qsort.find_srt_least [OF assms(1) e] \<open>acl_matches t addr w\<close> assms(2) by blast+
  then have t: "HwType e = t" by (simp add: acl_matches_def)
  have "length (HwMask e) = 16" using least assms(1) by (auto simp: list_all_iff wf_entry_def)
  moreover have "HwMask e \<le> replicate 16 0"
    using least t assms by (auto simp: acl_key_def)
  moreover have "replicate (length xs) 0 \<le> xs" for xs :: "byte list"
    by (induction xs) (auto simp: word_gt_0)
  ultimately have "HwMask e = replicate 16 0" by (metis order_antisym)
  with e t least show ?thesis
    by (auto simp: acl_decide_def acl_sort_entry_def)
qed

theorem sorted_catch_all_shadows_witness:
  "\<exists>e \<in> set demo_acl. HwType e = 1 \<and> HwMask e = replicate 16 0 \<and>
    acl_decide (acl_sort_entry demo_acl (length demo_acl)) 1 [0xAA, 0xBB, 0xCC, 0, 0, 1] = access e"
  by (rule sorted_catch_all_shadows [where w = "demo_acl ! 1"])
     (simp_all add: demo_acl_def wf_entry_def)

text \<open>The shared block is a few bytes too small for the 2048 entries the update loop may copy:
  in both builds the last entry ends behind the length requested from \<open>shm_init\<close>, and 2047 entries
  are what fits.\<close>

lemma acl_block_too_small:
  "OFF_entry 4 + 2048 * sizeof_ACL_ENTRY = acl_shm_len + 4 \<and>
   OFF_entry 8 + 2048 * sizeof_ACL_ENTRY = acl_shm_len + 12 \<and>
   OFF_entry 8 + 2047 * sizeof_ACL_ENTRY \<le> acl_shm_len"
  by (simp add: layout)

end
