(* ===== verification/Callout_Hook.thy ===== *)
theory Callout_Hook
  imports Acl
begin

text \<open>
  \<open>CalloutHook/CalloutHook.cpp\<close>: the DLL the DHCP server loads. Its globals are a record; the
  hooks run in the threads of the server. The argument \<open>env\<close> of \<open>InitSHM\<close> is what other threads
  did to the globals and the shared memory while this one waited for the initialisation lock
  (the identity when nobody interferes).
\<close>

section \<open>Globals and the callout table\<close>

record callout_state =
  ch_shm :: "shm_block option"
  shm_init_lock :: lock
  ch_acl :: ptr
  outfile :: ptr

text \<open>The slots of \<open>DHCP_CALLOUT_TABLE\<close>; \<open>None\<close> is a null function pointer.\<close>

datatype callout =
  DhcpControlHook_fn | DhcpNewPktHook_fn | DhcpAddressDelHook_fn | DhcpAddressOfferHook_fn | DhcpDeleteClientHook_fn




definition DHCP_CONTROL_START :: dword where "DHCP_CONTROL_START = 1"
definition DHCP_CONTROL_STOP :: dword where "DHCP_CONTROL_STOP = 2"
definition DHCP_CONTROL_PAUSE :: dword where "DHCP_CONTROL_PAUSE = 3"
definition DHCP_CONTROL_CONTINUE :: dword where "DHCP_CONTROL_CONTINUE = 4"

lemmas control_codes = DHCP_CONTROL_START_def DHCP_CONTROL_STOP_def DHCP_CONTROL_PAUSE_def
  DHCP_CONTROL_CONTINUE_def

section \<open>Opening the channel to the monitor\<close>

text \<open>The block as line 41 leaves it: already published in the global, not yet opened.\<close>

definition fresh_shm :: shm_block where
  "fresh_shm = shm_zero\<lparr>sb_len := 2048, filename := SHM_CALLOUT_NAME\<rparr>"

definition InitSHM ::
  "'k win32 \<Rightarrow> (callout_state \<times> mem \<Rightarrow> callout_state \<times> mem) \<Rightarrow> callout_state \<Rightarrow> mem \<Rightarrow> 'k \<Rightarrow>
   (bool \<times> callout_state \<times> mem \<times> 'k) result" where
  "InitSHM W env C m k =
     (if ch_shm C \<noteq> None then Inr (True, C, m, k)
      else res_bind (lock_wait W (Some (shm_init_lock C)) 50000 k) (\<lambda>(ok, k1).
        if \<not> ok then Inr (False, C, m, k1)
        else let (C1, m1) = env (C, m)
        in if ch_shm C1 \<noteq> None then Inr (True, C1, m1, k1)
        else res_bind (shm_init W fresh_shm None m1 k1) (\<lambda>(r, blk, m2, k2).
          let C2 = (if FAILED r then C1\<lparr>ch_shm := None\<rparr> else C1\<lparr>ch_shm := Some blk\<rparr>);
              k3 = snd (lock_release W (Some (shm_init_lock C2)) k2)
          in Inr (True, C2, m2, k3))))"

section \<open>The hooks\<close>

text \<open>
  Start opens the access list and the lock, stop closes the block (the global keeps its value);
  pause and continue only log. The stream \<open>outfile\<close> is closed when it is not null.
\<close>

definition DhcpControlHook ::
  "'k win32 \<Rightarrow> callout_state \<Rightarrow> dword \<Rightarrow> mem \<Rightarrow> 'k \<Rightarrow> (dword \<times> callout_state \<times> mem \<times> 'k) result" where
  "DhcpControlHook W C code m k =
     (if code = DHCP_CONTROL_START then
        (let (_, lk, k1) = lock_init W (shm_init_lock C) None k in
         res_bind (acl_init W m k1) (\<lambda>(a, _, m1, k2).
           Inr (0, C\<lparr>shm_init_lock := lk, ch_acl := a\<rparr>, m1, k2)))
      else if code = DHCP_CONTROL_STOP then
        (let (C1, m1, k1) =
               (case ch_shm C of
                  None \<Rightarrow> (C, m, k)
                | Some s \<Rightarrow> (let (_, s', m', k') = shm_close W s m k in (C\<lparr>ch_shm := Some s'\<rparr>, m', k')))
         in Inr (0, C1, m1, lock_destory W (Some (shm_init_lock C1)) k1))
      else Inr (0, C, m, k))"


text \<open>
  The local \<open>args\<close> is not initialised: \<open>stack\<close> is what its array holds before the copy. The
  result of \<open>shm_write\<close> only decides about a debug line.
\<close>

definition DhcpAddressOfferHook ::
  "'k win32 \<Rightarrow> (callout_state \<times> mem \<Rightarrow> callout_state \<times> mem) \<Rightarrow> callout_state \<Rightarrow> byte list \<Rightarrow>
   byte list \<Rightarrow> dword \<Rightarrow> dword \<Rightarrow> dword \<Rightarrow> dword \<Rightarrow> dword \<Rightarrow> dword \<Rightarrow> mem \<Rightarrow> 'k \<Rightarrow>
   (dword \<times> callout_state \<times> mem \<times> 'k) result" where
  "DhcpAddressOfferHook W env C stack Packet PacketSize ControlCode IpAddress AltAddress AddrType LeaseTime m k =
     res_bind (InitSHM W env C m k) (\<lambda>(ok, C1, m1, k1).
       if \<not> ok then Inr (0, C1, m1, k1)
       else res_bind (memcpy_at stack 0 Packet (unat PacketSize)) (\<lambda>pk.
         let args = \<lparr>o_HookType = CALLOUT_ADDRESS_OFFER, o_PacketSize = PacketSize,
               o_ControlCode = ControlCode, o_IpAddress = IpAddress, o_AltAddress = AltAddress,
               o_AddrType = AddrType, o_LeaseTime = LeaseTime, o_Packet = pk\<rparr>
         in res_bind (shm_write W (ch_shm C1) (offer_bytes args) sizeof_OFFER_ARGS m1 k1) (\<lambda>(_, m2, k2).
              Inr (0, C1, m2, k2))))"

definition DhcpAddressDelHook ::
  "'k win32 \<Rightarrow> (callout_state \<times> mem \<Rightarrow> callout_state \<times> mem) \<Rightarrow> callout_state \<Rightarrow> byte list \<Rightarrow>
   byte list \<Rightarrow> dword \<Rightarrow> dword \<Rightarrow> dword \<Rightarrow> dword \<Rightarrow> mem \<Rightarrow> 'k \<Rightarrow>
   (dword \<times> callout_state \<times> mem \<times> 'k) result" where
  "DhcpAddressDelHook W env C stack Packet PacketSize ControlCode IpAddress AltAddress m k =
     res_bind (InitSHM W env C m k) (\<lambda>(ok, C1, m1, k1).
       if \<not> ok then Inr (0, C1, m1, k1)
       else res_bind (memcpy_at stack 0 Packet (unat PacketSize)) (\<lambda>pk.
         let args = \<lparr>d_HookType = CALLOUT_ADDRESS_DELETE, d_PacketSize = PacketSize, d_Packet = pk,
               d_ControlCode = ControlCode, d_IpAddress = IpAddress, d_AltAddress = AltAddress\<rparr>
         in res_bind (shm_write W (ch_shm C1) (del_bytes args) sizeof_DEL_ARGS m1 k1) (\<lambda>(_, m2, k2).
              Inr (0, C1, m2, k2))))"

definition DhcpDeleteClientHook ::
  "'k win32 \<Rightarrow> (callout_state \<times> mem \<Rightarrow> callout_state \<times> mem) \<Rightarrow> callout_state \<Rightarrow> byte list \<Rightarrow>
   dword \<Rightarrow> byte list \<Rightarrow> dword \<Rightarrow> dword \<Rightarrow> mem \<Rightarrow> 'k \<Rightarrow> (dword \<times> callout_state \<times> mem \<times> 'k) result" where
  "DhcpDeleteClientHook W env C stack IpAddress HwAddress HwAddressLength ClientType m k =
     res_bind (InitSHM W env C m k) (\<lambda>(ok, C1, m1, k1).
       if \<not> ok then Inr (0, C1, m1, k1)
       else res_bind (memcpy_at stack 0 HwAddress (unat HwAddressLength)) (\<lambda>hw.
         let args = \<lparr>c_HookType = CALLOUT_CLIENT_DELETE, c_IpAddress = IpAddress, c_HwAddress = hw,
               c_HwAddressLength = HwAddressLength, c_ClientType = ClientType\<rparr>
         in res_bind (shm_write W (ch_shm C1) (client_bytes args) sizeof_CLIENT_ARGS m1 k1) (\<lambda>(_, m2, k2).
              Inr (0, C1, m2, k2))))"

datatype dll_reason = DLL_PROCESS_ATTACH | DLL_THREAD_ATTACH | DLL_THREAD_DETACH | DLL_PROCESS_DETACH

definition DllMain :: "dll_reason \<Rightarrow> callout_state \<Rightarrow> bool \<times> callout_state" where
  "DllMain reason C = (True, C)"

section \<open>Lemmas\<close>

text \<open>A writer that holds an open channel whose mutex can be taken.\<close>

definition channel_ready :: "'k win32 \<Rightarrow> shm_block \<Rightarrow> mem \<Rightarrow> 'k \<Rightarrow> 'k \<Rightarrow> bool" where
  "channel_ready W blk m k k1 \<longleftrightarrow> sb_len blk = 2048 \<and> shm_lock W (Some blk) 2500 k = Inr (True, k1) \<and>
     (case m (sb_data blk) of None \<Rightarrow> False | Some vw \<Rightarrow> length (v_data vw) = 2048)"

context msg_codec
begin

lemma shm_write_decodes:
  assumes "wf a" "sz \<le> 2048" "channel_ready W blk m k k1"
  shows "\<exists>vw'. shm_write W (Some blk) (enc a) sz m k =
      Inr (of_nat sz, m(sb_data blk \<mapsto> vw'), shm_after W blk k1) \<and>
    dec (v_data vw') = a \<and> (\<exists>rest. v_data vw' = enc a @ rest) \<and> length (v_data vw') = 2048"
proof -
  obtain vw where vw: "m (sb_data blk) = Some vw" "length (v_data vw) = 2048"
    using assms(3) by (auto simp: channel_ready_def split: option.splits)
  have "shm_write W (Some blk) (enc a) sz m k =
    Inr (of_nat sz, m(sb_data blk \<mapsto> vw\<lparr>v_data := enc a @ drop sz (v_data vw)\<rparr>), shm_after W blk k1)"
    using shm_write_ok [of W blk k k1 m vw sz "enc a"] assms vw length_enc [OF assms(1)]
    by (simp add: channel_ready_def min_absorb1)
  then show ?thesis
    using dec_enc [OF assms(1)] assms(2) vw(2) length_enc [OF assms(1)] by auto
qed

end

lemma InitSHM_open [simp]: "ch_shm C = Some blk \<Longrightarrow> InitSHM W env C m k = Inr (True, C, m, k)"
  by (simp add: InitSHM_def)

lemma memcpy_stack:
  "n \<le> length src \<Longrightarrow> n \<le> length dst \<Longrightarrow> memcpy_at dst 0 src n = Inr (take n src @ drop n dst)"
  by (simp add: memcpy_at_def)

lemma cast_packet_fields:
  "htype (cast_packet bs) = bs ! 1" "hlen (cast_packet bs) = bs ! 2" "chaddr (cast_packet bs) = slice 28 16 bs"
  by (simp_all add: cast_packet_def layout)

text \<open>
  Ownership of a mutex, as the SDK documents it: a successful wait gives it to the thread, a
  release takes it away.
\<close>

definition mutex_ownership :: "'k win32 \<Rightarrow> handle \<Rightarrow> ('k \<Rightarrow> bool) \<Rightarrow> bool" where
  "mutex_ownership W h owned \<longleftrightarrow>
     (\<forall>t k k1. WaitForSingleObject W h t k = (WAIT_OBJECT_0, k1) \<longrightarrow> owned k1) \<and>
     (\<forall>k. \<not> owned (snd (ReleaseMutex W h k)))"

lemma InitSHM_entered:
  assumes "ch_shm C = None" "l_init (shm_init_lock C)"
    and "WaitForSingleObject W (l_lock (shm_init_lock C)) 50000 k = (WAIT_OBJECT_0, k1)"
  shows "InitSHM W env C m k =
    (let (C1, m1) = env (C, m)
     in if ch_shm C1 \<noteq> None then Inr (True, C1, m1, k1)
     else res_bind (shm_init W fresh_shm None m1 k1) (\<lambda>(r, blk, m2, k2).
       let C2 = (if FAILED r then C1\<lparr>ch_shm := None\<rparr> else C1\<lparr>ch_shm := Some blk\<rparr>)
       in Inr (True, C2, m2, snd (lock_release W (Some (shm_init_lock C2)) k2))))"
  unfolding InitSHM_def Let_def using assms by (simp add: lock_wait_acquired)

lemma InitSHM_no_mapping:
  assumes "ch_shm C = None" "l_init (shm_init_lock C)"
    and "WaitForSingleObject W (l_lock (shm_init_lock C)) 50000 k = (WAIT_OBJECT_0, k1)"
    and "OpenFileMapping W SHM_CALLOUT_NAME (snd (shm_enable_privileges W k1)) = (NULL, k2)"
  shows "InitSHM W id C m k = Inr (True, C, m, snd (ReleaseMutex W (l_lock (shm_init_lock C)) k2))"
proof -
  have "C\<lparr>ch_shm := None\<rparr> = C" using assms(1) by simp
  then show ?thesis
    unfolding InitSHM_entered [OF assms(1-3)]
    using assms(1,2,4)
    by (simp add: shm_init_def fresh_shm_def shm_zero_def lock_release_def SHM_MMAP_FAILED_def FAILED_minus)
qed

section \<open>Properties\<close>

text \<open>An address offer reaches the monitor intact: with an open channel whose mutex can be taken
  and a packet of at most 1500 bytes, \<open>DhcpAddressOfferHook\<close> leaves in the shared slot bytes which
  the monitor's cast reads back as the hook type, the six scalar arguments and the packet; only
  that view changes, the mutex is released, the send event is set and the server gets 0.\<close>

lemma offer_hook_delivers:
  assumes "ch_shm C = Some blk" "channel_ready W blk m k k1" "length stack = DHCP_MTU_MAX"
    and "unat PacketSize \<le> length Packet" "unat PacketSize \<le> DHCP_MTU_MAX"
  shows "\<exists>vw'. DhcpAddressOfferHook W env C stack Packet PacketSize ControlCode IpAddress AltAddress AddrType
      LeaseTime m k = Inr (0, C, m(sb_data blk \<mapsto> vw'), shm_after W blk k1) \<and>
    (\<exists>rest. v_data vw' = offer_bytes \<lparr>o_HookType = CALLOUT_ADDRESS_OFFER, o_PacketSize = PacketSize,
      o_ControlCode = ControlCode, o_IpAddress = IpAddress, o_AltAddress = AltAddress, o_AddrType = AddrType,
      o_LeaseTime = LeaseTime, o_Packet = take (unat PacketSize) Packet @ drop (unat PacketSize) stack\<rparr> @ rest) \<and>
    length (v_data vw') = 2048"
proof -
  let ?a = "\<lparr>o_HookType = CALLOUT_ADDRESS_OFFER, o_PacketSize = PacketSize, o_ControlCode = ControlCode,
      o_IpAddress = IpAddress, o_AltAddress = AltAddress, o_AddrType = AddrType, o_LeaseTime = LeaseTime,
      o_Packet = take (unat PacketSize) Packet @ drop (unat PacketSize) stack\<rparr>"
  have "wf_offer ?a" using assms by (simp add: wf_offer_def)
  from offer_codec.shm_write_decodes [OF this _ assms(2)] obtain vw' rest where
    "shm_write W (Some blk) (offer_bytes ?a) sizeof_OFFER_ARGS m k =
      Inr (of_nat sizeof_OFFER_ARGS, m(sb_data blk \<mapsto> vw'), shm_after W blk k1)"
    "v_data vw' = offer_bytes ?a @ rest" "length (v_data vw') = 2048" by (auto simp: layout)
  then show ?thesis
    using assms by (auto simp: DhcpAddressOfferHook_def memcpy_stack)
qed

definition demo_channel :: shm_block where
  "demo_channel = shm_zero\<lparr>sb_len := 2048, esnd := 7, sb_data := 9\<rparr>"

definition demo_callout :: callout_state where
  "demo_callout = \<lparr>ch_shm = Some demo_channel, shm_init_lock = \<lparr>l_init = True, l_lock = 5\<rparr>, ch_acl = NULL, outfile = NULL\<rparr>"

definition demo_slot :: mem where
  "demo_slot = [9 \<mapsto> \<lparr>v_lockdef = \<lparr>lockname = [], esndname = [], eackname = []\<rparr>, v_data = replicate 2048 0\<rparr>]"

lemma demo_channel_ready: "channel_ready sim_win32 demo_channel demo_slot sim_start sim_start"
  by (simp add: channel_ready_def demo_channel_def demo_slot_def shm_zero_def shm_lock_def lock_zero_def)

text \<open>A released or declined lease reaches the monitor intact, by \<open>DhcpAddressDelHook\<close>.\<close>

lemma del_hook_delivers:
  assumes "ch_shm C = Some blk" "channel_ready W blk m k k1" "length stack = DHCP_MTU_MAX"
    and "unat PacketSize \<le> length Packet" "unat PacketSize \<le> DHCP_MTU_MAX"
  shows "\<exists>vw'. DhcpAddressDelHook W env C stack Packet PacketSize ControlCode IpAddress AltAddress m k =
      Inr (0, C, m(sb_data blk \<mapsto> vw'), shm_after W blk k1) \<and>
    (\<exists>rest. v_data vw' = del_bytes \<lparr>d_HookType = CALLOUT_ADDRESS_DELETE, d_PacketSize = PacketSize,
      d_Packet = take (unat PacketSize) Packet @ drop (unat PacketSize) stack,
      d_ControlCode = ControlCode, d_IpAddress = IpAddress, d_AltAddress = AltAddress\<rparr> @ rest) \<and>
    length (v_data vw') = 2048"
proof -
  let ?a = "\<lparr>d_HookType = CALLOUT_ADDRESS_DELETE, d_PacketSize = PacketSize,
      d_Packet = take (unat PacketSize) Packet @ drop (unat PacketSize) stack,
      d_ControlCode = ControlCode, d_IpAddress = IpAddress, d_AltAddress = AltAddress\<rparr>"
  have "wf_del ?a" using assms by (simp add: wf_del_def)
  from del_codec.shm_write_decodes [OF this _ assms(2)] obtain vw' rest where
    "shm_write W (Some blk) (del_bytes ?a) sizeof_DEL_ARGS m k =
      Inr (of_nat sizeof_DEL_ARGS, m(sb_data blk \<mapsto> vw'), shm_after W blk k1)"
    "v_data vw' = del_bytes ?a @ rest" "length (v_data vw') = 2048" by (auto simp: layout)
  then show ?thesis
    using assms by (auto simp: DhcpAddressDelHook_def memcpy_stack)
qed

text \<open>The deletion of a client with a hardware address of at most sixteen bytes reaches the
  monitor intact, by \<open>DhcpDeleteClientHook\<close>.\<close>

lemma client_hook_delivers:
  assumes "ch_shm C = Some blk" "channel_ready W blk m k k1" "length stack = 16"
    and "unat HwAddressLength \<le> length HwAddress" "unat HwAddressLength \<le> 16"
  shows "\<exists>vw'. DhcpDeleteClientHook W env C stack IpAddress HwAddress HwAddressLength ClientType m k =
      Inr (0, C, m(sb_data blk \<mapsto> vw'), shm_after W blk k1) \<and>
    (\<exists>rest. v_data vw' = client_bytes \<lparr>c_HookType = CALLOUT_CLIENT_DELETE, c_IpAddress = IpAddress,
      c_HwAddress = take (unat HwAddressLength) HwAddress @ drop (unat HwAddressLength) stack,
      c_HwAddressLength = HwAddressLength, c_ClientType = ClientType\<rparr> @ rest) \<and>
    length (v_data vw') = 2048"
proof -
  let ?a = "\<lparr>c_HookType = CALLOUT_CLIENT_DELETE, c_IpAddress = IpAddress,
      c_HwAddress = take (unat HwAddressLength) HwAddress @ drop (unat HwAddressLength) stack,
      c_HwAddressLength = HwAddressLength, c_ClientType = ClientType\<rparr>"
  have "wf_client ?a" using assms by (simp add: wf_client_def)
  from client_codec.shm_write_decodes [OF this _ assms(2)] obtain vw' rest where
    "shm_write W (Some blk) (client_bytes ?a) sizeof_CLIENT_ARGS m k =
      Inr (of_nat sizeof_CLIENT_ARGS, m(sb_data blk \<mapsto> vw'), shm_after W blk k1)"
    "v_data vw' = client_bytes ?a @ rest" "length (v_data vw') = 2048" by (auto simp: layout)
  then show ?thesis
    using assms by (auto simp: DhcpDeleteClientHook_def memcpy_stack)
qed

text \<open>The hooks trust the lengths the server passes: a packet longer than 1500 bytes, or a
  hardware address longer than 16, is copied over the end of the local structure.\<close>

theorem hooks_overflow:
  assumes "ch_shm C = Some blk" "length pstack = DHCP_MTU_MAX" "length hstack = 16"
    and "DHCP_MTU_MAX < unat PacketSize" "unat PacketSize \<le> length Packet"
    and "16 < unat HwAddressLength" "unat HwAddressLength \<le> length HwAddress"
  shows "DhcpAddressOfferHook W env C pstack Packet PacketSize cc ip alt typ lease m k = Inl Buffer_Overflow \<and>
    DhcpAddressDelHook W env C pstack Packet PacketSize cc ip alt m k = Inl Buffer_Overflow \<and>
    DhcpDeleteClientHook W env C hstack ip HwAddress HwAddressLength ct m k = Inl Buffer_Overflow"
  using assms
  by (simp add: DhcpAddressOfferHook_def DhcpAddressDelHook_def DhcpDeleteClientHook_def memcpy_at_def)

theorem hooks_overflow_witness:
  "DhcpAddressOfferHook sim_win32 id demo_callout (replicate DHCP_MTU_MAX 0) (replicate 1501 7) 1501 0 0 0 0 0
      demo_slot sim_start = Inl Buffer_Overflow \<and>
    DhcpAddressDelHook sim_win32 id demo_callout (replicate DHCP_MTU_MAX 0) (replicate 1501 7) 1501 0 0 0
      demo_slot sim_start = Inl Buffer_Overflow \<and>
    DhcpDeleteClientHook sim_win32 id demo_callout (replicate 16 0) 0 (replicate 17 0) 17 0
      demo_slot sim_start = Inl Buffer_Overflow"
  by (rule hooks_overflow) (simp_all add: demo_callout_def layout)

text \<open>C31. While the monitor is not running (its mapping cannot be opened) \<open>InitSHM\<close> reports success
  with the global still null, and the hook that goes on writing dereferences the null pointer
  inside the DHCP server.\<close>

theorem hooks_without_monitor:
  assumes "ch_shm C = None" "l_init (shm_init_lock C)"
    and "WaitForSingleObject W (l_lock (shm_init_lock C)) 50000 k = (WAIT_OBJECT_0, k1)"
    and "OpenFileMapping W SHM_CALLOUT_NAME (snd (shm_enable_privileges W k1)) = (NULL, k2)"
    and "unat PacketSize \<le> length Packet" "unat PacketSize \<le> length stack"
  shows "(\<exists>k3. InitSHM W id C m k = Inr (True, C, m, k3)) \<and>
    DhcpAddressOfferHook W id C stack Packet PacketSize cc ip alt typ lease m k = Inl Null_Dereference \<and>
    DhcpAddressDelHook W id C stack Packet PacketSize cc ip alt m k = Inl Null_Dereference"
  using InitSHM_no_mapping [OF assms(1-4), of m] assms(1,5,6)
  by (simp add: DhcpAddressOfferHook_def DhcpAddressDelHook_def memcpy_stack)

theorem hooks_without_monitor_witness:
  "(\<exists>k3. InitSHM (sim_win32\<lparr>OpenFileMapping := \<lambda>_ k. (NULL, k)\<rparr>) id (demo_callout\<lparr>ch_shm := None\<rparr>) demo_slot
       (sim_start\<lparr>signalled := [5]\<rparr>) = Inr (True, demo_callout\<lparr>ch_shm := None\<rparr>, demo_slot, k3)) \<and>
    DhcpAddressOfferHook (sim_win32\<lparr>OpenFileMapping := \<lambda>_ k. (NULL, k)\<rparr>) id (demo_callout\<lparr>ch_shm := None\<rparr>)
      [0, 0] [1] 1 0 0 0 0 0 demo_slot (sim_start\<lparr>signalled := [5]\<rparr>) = Inl Null_Dereference \<and>
    DhcpAddressDelHook (sim_win32\<lparr>OpenFileMapping := \<lambda>_ k. (NULL, k)\<rparr>) id (demo_callout\<lparr>ch_shm := None\<rparr>)
      [0, 0] [1] 1 0 0 0 demo_slot (sim_start\<lparr>signalled := [5]\<rparr>) = Inl Null_Dereference"
  by (rule hooks_without_monitor [where ?k1.0 = sim_start and ?k2.0 = "sim_start\<lparr>next_handle := 2\<rparr>"])
     (simp_all add: demo_callout_def sim_defs shm_enable_privileges_def)

text \<open>\<open>InitSHM\<close> leaves the initialisation lock owned on exactly one path: when another thread
  opened the channel while this one waited, the second test of the global returns without
  releasing. On every other path that took the lock it has been released.\<close>

theorem InitSHM_leaks_lock:
  assumes "ch_shm C = None" "l_init (shm_init_lock C)" "mutex_ownership W (l_lock (shm_init_lock C)) owned"
    and "WaitForSingleObject W (l_lock (shm_init_lock C)) 50000 k = (WAIT_OBJECT_0, k1)"
    and "env (C, m) = (C1, m1)" "shm_init_lock C1 = shm_init_lock C"
    and "InitSHM W env C m k = Inr (r, C', m', k')"
  shows "owned k' \<longleftrightarrow> ch_shm C1 \<noteq> None"
proof -
  have own: "owned k1" "\<And>q. \<not> owned (snd (ReleaseMutex W (l_lock (shm_init_lock C)) q))"
    using assms(3,4) by (auto simp: mutex_ownership_def)
  show ?thesis
    using assms(7) own assms(2,5,6) unfolding InitSHM_entered [OF assms(1,2,4)]
    by (auto simp: res_simps lock_release_def Let_def split: if_splits)
qed

theorem InitSHM_leaks_lock_witness:
  "InitSHM sim_win32 (\<lambda>(C, m). (C\<lparr>ch_shm := Some demo_channel\<rparr>, m)) (demo_callout\<lparr>ch_shm := None\<rparr>) demo_slot
     (sim_start\<lparr>signalled := [5]\<rparr>) = Inr (True, demo_callout, demo_slot, sim_start) \<and>
   (5 \<notin> set (signalled sim_start) \<longleftrightarrow> ch_shm demo_callout \<noteq> None)"
proof -
  let ?C = "demo_callout\<lparr>ch_shm := None\<rparr>" and ?k = "sim_start\<lparr>signalled := [5]\<rparr>"
  let ?env = "\<lambda>(C, m). (C\<lparr>ch_shm := Some demo_channel\<rparr>, m :: mem)"
  have run: "InitSHM sim_win32 ?env ?C demo_slot ?k = Inr (True, demo_callout, demo_slot, sim_start)"
    by (simp add: InitSHM_def lock_wait_def demo_callout_def sim_defs)
  have own: "mutex_ownership sim_win32 (l_lock (shm_init_lock ?C)) (\<lambda>k. 5 \<notin> set (signalled k))"
    by (auto simp: mutex_ownership_def demo_callout_def sim_defs split: if_splits)
  have "5 \<notin> set (signalled sim_start) \<longleftrightarrow> ch_shm demo_callout \<noteq> None"
    by (rule InitSHM_leaks_lock [OF _ _ own _ _ _ run, where ?k1.0 = sim_start and ?m1.0 = demo_slot])
       (simp_all add: demo_callout_def sim_defs)
  with run show ?thesis by simp
qed

text \<open>The global is published before the block is opened: a hook that runs in another thread
  while \<open>InitSHM\<close> is between its lines 38 and 42 sees a block that is not null and has no lock and
  no mapping, and writes through its null data pointer. A hook that runs after the service was
  stopped writes through the unmapped view, because the stop neither frees nor clears the global.\<close>

theorem hooks_on_unmapped_block:
  assumes "m NULL = None" "ch_shm C = Some fresh_shm"
    and "DhcpControlHook W D DHCP_CONTROL_STOP m2 k = Inr (0, D', m', k')"
    and "ch_shm D = Some blk" "\<not> l_init (sb_lock blk)" "sb_data blk = sb_lockdef blk" "sb_data blk \<noteq> NULL"
    and "unat PacketSize \<le> length Packet" "unat PacketSize \<le> length stack"
  shows "DhcpAddressOfferHook W env C stack Packet PacketSize cc ip alt typ lease m k = Inl Null_Dereference \<and>
    DhcpAddressOfferHook W env D' stack Packet PacketSize cc ip alt typ lease m' k' = Inl Use_After_Free"
proof -
  have "\<exists>b. ch_shm D' = Some b \<and> \<not> l_init (sb_lock b) \<and> sb_data b \<noteq> NULL \<and> m' (sb_data b) = None"
    using assms(3-7) by (auto simp: DhcpControlHook_def control_codes shm_close_def)
  then show ?thesis
    using assms(1,2,8,9)
    by (auto simp: DhcpAddressOfferHook_def memcpy_stack shm_write_def shm_lock_def fresh_shm_def shm_zero_def
        lock_zero_def view_at_def)
qed

theorem hooks_on_unmapped_block_witness:
  "DhcpControlHook sim_win32 (demo_callout\<lparr>ch_shm := Some (demo_channel\<lparr>sb_lockdef := 9\<rparr>)\<rparr>) DHCP_CONTROL_STOP
     demo_slot sim_start =
     Inr (0, demo_callout, demo_slot(9 := None), sim_start\<lparr>calls := [''UnmapViewOfFile'', ''CloseHandle'', ''CloseHandle'']\<rparr>) \<and>
   DhcpAddressOfferHook sim_win32 id (demo_callout\<lparr>ch_shm := Some fresh_shm\<rparr>) [0] [1] 1 0 0 0 0 0 demo_slot sim_start =
     Inl Null_Dereference \<and>
   DhcpAddressOfferHook sim_win32 id demo_callout [0] [1] 1 0 0 0 0 0 (demo_slot(9 := None))
     (sim_start\<lparr>calls := [''UnmapViewOfFile'', ''CloseHandle'', ''CloseHandle'']\<rparr>) = Inl Use_After_Free"
proof -
  have run: "DhcpControlHook sim_win32 (demo_callout\<lparr>ch_shm := Some (demo_channel\<lparr>sb_lockdef := 9\<rparr>)\<rparr>) DHCP_CONTROL_STOP
     demo_slot sim_start =
     Inr (0, demo_callout, demo_slot(9 := None), sim_start\<lparr>calls := [''UnmapViewOfFile'', ''CloseHandle'', ''CloseHandle'']\<rparr>)"
    by (simp add: DhcpControlHook_def control_codes shm_close_def demo_callout_def demo_channel_def shm_zero_def
        lock_destory_def sim_defs)
  from hooks_on_unmapped_block [OF _ _ run, of demo_slot "demo_callout\<lparr>ch_shm := Some fresh_shm\<rparr>"
      "demo_channel\<lparr>sb_lockdef := 9\<rparr>" 1 "[1]" "[0]" id 0 0 0 0 0] run
  show ?thesis
    by (simp add: demo_slot_def demo_channel_def shm_zero_def lock_zero_def)
qed




end
