(* ===== verification/C_Stdlib.thy ===== *)
theory C_Stdlib
  imports Dhcp
begin

text \<open>
  The functions of the C library that the sources call, as the standard specifies them: number
  parsing (\<open>strtoul\<close> in base 16, \<open>atoi\<close>), \<open>strncpy\<close>, and the \<open>printf\<close> conversions of the query
  strings. A C string is the list of its characters without the terminating NUL, so that
  \<open>*endptr == 0\<close> is emptiness of the rest.
\<close>

section \<open>Number parsing\<close>

definition c_isspace :: "char \<Rightarrow> bool" where
  "c_isspace c \<longleftrightarrow> c \<in> {CHR '' '', CHR 0x09, CHR 0x0A, CHR 0x0B, CHR 0x0C, CHR 0x0D}"

definition hex_val :: "char \<Rightarrow> nat option" where
  "hex_val c = (let n = (of_char c :: nat) in
     if 48 \<le> n \<and> n \<le> 57 then Some (n - 48)
     else if 97 \<le> n \<and> n \<le> 102 then Some (n - 87)
     else if 65 \<le> n \<and> n \<le> 70 then Some (n - 55) else None)"

definition dec_val :: "char \<Rightarrow> nat option" where
  "dec_val c = (let n = (of_char c :: nat) in if 48 \<le> n \<and> n \<le> 57 then Some (n - 48) else None)"

text \<open>The longest run of digits, with its value added to the accumulator.\<close>

fun digits_run :: "(char \<Rightarrow> nat option) \<Rightarrow> nat \<Rightarrow> nat \<Rightarrow> string \<Rightarrow> nat \<times> string" where
  "digits_run val base acc [] = (acc, [])"
| "digits_run val base acc (c # cs) =
     (case val c of None \<Rightarrow> (acc, c # cs) | Some d \<Rightarrow> digits_run val base (acc * base + d) cs)"

definition has_digit :: "(char \<Rightarrow> nat option) \<Rightarrow> string \<Rightarrow> bool" where
  "has_digit val cs = (case cs of [] \<Rightarrow> False | c # _ \<Rightarrow> val c \<noteq> None)"

definition skip_sign :: "string \<Rightarrow> bool \<times> string" where
  "skip_sign cs = (case cs of
     c # r \<Rightarrow> (if c = CHR ''-'' then (True, r) else if c = CHR ''+'' then (False, r) else (False, cs))
   | [] \<Rightarrow> (False, []))"

definition skip_0x :: "string \<Rightarrow> string" where
  "skip_0x cs = (case cs of
     z # x # r \<Rightarrow> (if z = CHR ''0'' \<and> (x = CHR ''x'' \<or> x = CHR ''X'') \<and> has_digit hex_val r then r else cs)
   | _ \<Rightarrow> cs)"

text \<open>\<open>strtoul(s, &endptr, 16)\<close>: the value (saturated at \<open>ULONG_MAX\<close>) and the rest.\<close>

definition strtoul16 :: "string \<Rightarrow> dword \<times> string" where
  "strtoul16 s =
     (let (neg, s1) = skip_sign (dropWhile c_isspace s); s2 = skip_0x s1 in
      if \<not> has_digit hex_val s2 then (0, s)
      else let (v, rest) = digits_run hex_val 16 0 s2
      in (if 2 ^ 32 \<le> v then - 1 else if neg then - of_nat v else of_nat v, rest))"

text \<open>\<open>atoi\<close>, for values in the range of \<open>int\<close> (the standard leaves the others undefined).\<close>

definition c_atoi :: "string \<Rightarrow> int" where
  "c_atoi s =
     (let (neg, s1) = skip_sign (dropWhile c_isspace s); (v, _) = digits_run dec_val 10 0 s1
      in if neg then - int v else int v)"

section \<open>Strings\<close>

text \<open>\<open>strncpy(dst, src, n)\<close> into an array of exactly \<open>n\<close> characters.\<close>

definition c_strncpy :: "string \<Rightarrow> nat \<Rightarrow> char list" where
  "c_strncpy src n = take n src @ replicate (n - length src) (CHR 0x00)"

section \<open>printf conversions\<close>

definition HEXDIGITS :: string where
  "HEXDIGITS = ''0123456789ABCDEF''"

text \<open>\<open>%08X\<close> of a 32-bit value.\<close>

definition fmt_08X :: "dword \<Rightarrow> string" where
  "fmt_08X w = map (\<lambda>i. HEXDIGITS ! (unat w div 16 ^ i mod 16)) [7, 6, 5, 4, 3, 2, 1, 0]"

fun dec_digits :: "nat \<Rightarrow> string" where
  "dec_digits n = (if n < 10 then [hexdigits ! n] else dec_digits (n div 10) @ [hexdigits ! (n mod 10)])"

declare dec_digits.simps [simp del]

text \<open>\<open>%d\<close> of a \<open>DWORD\<close> argument: it is read as a signed \<open>int\<close>.\<close>

definition fmt_d :: "dword \<Rightarrow> string" where
  "fmt_d w = (if sint w < 0 then CHR ''-'' # dec_digits (nat (- sint w)) else dec_digits (nat (sint w)))"

section \<open>Lemmas\<close>

lemma hex_val_hexdigits: "k < 16 \<Longrightarrow> hex_val (hexdigits ! k) = Some k"
proof -
  assume "k < 16"
  then have "k \<in> set [0..<16]" by simp
  moreover have "list_all (\<lambda>k. hex_val (hexdigits ! k) = Some k) [0..<16]"
    by (simp add: upt_rec hex_val_def hexdigits_def)
  ultimately show ?thesis unfolding list_all_iff by blast
qed

lemma hexdigit_not_special:
  "k < 16 \<Longrightarrow> \<not> c_isspace (hexdigits ! k) \<and> hexdigits ! k \<notin> {CHR ''-'', CHR ''+'', CHR ''x'', CHR ''X''}"
proof -
  assume "k < 16"
  then have "k \<in> set [0..<16]" by simp
  moreover have "list_all (\<lambda>k. \<not> c_isspace (hexdigits ! k) \<and>
      hexdigits ! k \<notin> {CHR ''-'', CHR ''+'', CHR ''x'', CHR ''X''}) [0..<16]"
    by (simp add: upt_rec c_isspace_def hexdigits_def)
  ultimately show ?thesis unfolding list_all_iff by blast
qed

text \<open>The two digits of a byte, followed by something that is not a digit, parse to the byte.\<close>

lemma strtoul16_hex2:
  assumes "\<not> has_digit hex_val rest"
  shows "strtoul16 (hex2 b @ rest) = (ucast b, rest)"
proof -
  define i j where "i = unat b div 16" and "j = unat b mod 16"
  have ij: "i < 16" "j < 16" "16 * i + j = unat b"
    using unat_byte [of b] by (simp_all add: i_def j_def)
  have run: "digits_run hex_val 16 0 (hex2 b @ rest) = (unat b, rest)"
    using assms ij hex_val_hexdigits [of i] hex_val_hexdigits [of j]
    by (cases rest) (auto simp: hex2_def has_digit_def i_def j_def split: option.splits)
  have skips: "dropWhile c_isspace (hex2 b @ rest) = hex2 b @ rest"
    "skip_sign (hex2 b @ rest) = (False, hex2 b @ rest)" "skip_0x (hex2 b @ rest) = hex2 b @ rest"
    using hexdigit_not_special [of i] hexdigit_not_special [of j] ij
    by (auto simp: hex2_def skip_sign_def skip_0x_def i_def j_def)
  have "has_digit hex_val (hex2 b @ rest)"
    using hex_val_hexdigits [of i] ij by (simp add: hex2_def has_digit_def i_def)
  moreover have "\<not> 2 ^ 32 \<le> unat b" using unat_byte [of b] by simp
  moreover have "(of_nat (unat b) :: dword) = ucast b" by simp
  ultimately show ?thesis by (simp add: strtoul16_def skips run Let_def)
qed

lemma colon_no_digit [simp]: "\<not> has_digit hex_val (CHR '':'' # r)" "\<not> has_digit hex_val []"
  by (simp_all add: has_digit_def hex_val_def)

lemma length_fmt_08X [simp]: "length (fmt_08X w) = 8"
  by (simp add: fmt_08X_def)

lemma set_HEXDIGITS: "k < 16 \<Longrightarrow> HEXDIGITS ! k \<in> set HEXDIGITS"
  by (rule nth_mem) (simp add: HEXDIGITS_def)

lemma set_fmt_08X: "set (fmt_08X w) \<subseteq> set HEXDIGITS"
  by (auto simp: fmt_08X_def intro!: set_HEXDIGITS)

lemma set_dec_digits: "set (dec_digits n) \<subseteq> set hexdigits"
proof (induction n rule: dec_digits.induct)
  case (1 n)
  then show ?case
    by (subst dec_digits.simps) (auto intro!: set_hexdigits)
qed

lemma length_dec_digits: "n < 10 ^ k \<Longrightarrow> 0 < k \<Longrightarrow> length (dec_digits n) \<le> k"
proof (induction n arbitrary: k rule: dec_digits.induct)
  case (1 n)
  show ?case
  proof (cases "n < 10")
    case True
    with 1 show ?thesis by (subst dec_digits.simps) simp
  next
    case False
    obtain j where j: "k = Suc j" using 1 by (cases k) auto
    have "n div 10 < 10 ^ j" using 1 j by (simp add: div_less_iff_less_mult algebra_simps)
    moreover from this False have "0 < j" by (cases j) auto
    ultimately show ?thesis using 1(1) [of j] False j by (subst dec_digits.simps) simp
  qed
qed

lemma set_fmt_d: "set (fmt_d w) \<subseteq> insert (CHR ''-'') (set hexdigits)"
  using set_dec_digits [of "nat (- sint w)"] set_dec_digits [of "nat (sint w)"] by (auto simp: fmt_d_def)

lemma length_c_strncpy: "length (c_strncpy s n) = n"
  by (simp add: c_strncpy_def)

text \<open>A short enough source is terminated, a longer one is not.\<close>

lemma c_str_strncpy:
  "CHR 0x00 \<notin> set s \<Longrightarrow> length s < n \<Longrightarrow> c_str (c_strncpy s n) = Inr s"
  using c_str_terminated [of s "replicate (n - Suc (length s)) (CHR 0x00)"]
  by (simp add: c_strncpy_def Suc_diff_Suc flip: replicate_Suc)

lemma c_str_strncpy_long:
  "CHR 0x00 \<notin> set s \<Longrightarrow> n \<le> length s \<Longrightarrow> c_str (c_strncpy s n) = Inl Unterminated_String"
  using c_str_unterminated [of "take n s"] by (auto simp: c_strncpy_def dest: in_set_takeD)

end
