(* ===== verification/Db.thy ===== *)
theory Db
  imports Prelude
begin

text \<open>
  The MySQL client library as a parameter (a record of functions over an abstract database
  state \<open>'d\<close>; the library itself is a binary, only its headers are in the repository), and
  \<open>include/db.h\<close> with \<open>libdb/db.cpp\<close>, the thin wrapper around it.
\<close>

section \<open>The client library\<close>

text \<open>
  A row is the list of its columns, \<open>None\<close> for SQL NULL. The value of \<open>mysql_store_result\<close> is the
  sequence of rows that \<open>mysql_fetch_row\<close> hands out one after the other, or \<open>None\<close> for \<open>NULL\<close>.
\<close>

type_synonym mysql_row = "string option list"

record 'd mysql =
  mysql_init :: "'d \<Rightarrow> ptr \<times> 'd"
  mysql_real_connect ::
    "ptr \<Rightarrow> string option \<Rightarrow> string option \<Rightarrow> string option \<Rightarrow> string option \<Rightarrow> int \<Rightarrow> 'd \<Rightarrow> ptr \<times> 'd"
  mysql_close :: "ptr \<Rightarrow> 'd \<Rightarrow> 'd"
  mysql_query :: "ptr \<Rightarrow> string \<Rightarrow> 'd \<Rightarrow> int \<times> 'd"
  mysql_real_query :: "ptr \<Rightarrow> string \<Rightarrow> nat \<Rightarrow> 'd \<Rightarrow> int \<times> 'd"
  mysql_store_result :: "ptr \<Rightarrow> 'd \<Rightarrow> mysql_row list option \<times> 'd"
  mysql_free_result :: "'d \<Rightarrow> 'd"
  mysql_affected_rows :: "ptr \<Rightarrow> 'd \<Rightarrow> int"
  mysql_error :: "ptr \<Rightarrow> 'd \<Rightarrow> string"
  mysql_hex_string :: "byte list \<Rightarrow> string"

section \<open>The wrapper\<close>

record db_connection_cfg =
  db_host :: string
  db_port :: int
  db_user :: string
  db_pass :: string
  db_dbname :: string

record db_connection =
  db_cfg :: db_connection_cfg
  db_status :: "16 word"
  db_conn :: ptr

definition db_init :: "'d mysql \<Rightarrow> db_connection \<Rightarrow> 'd \<Rightarrow> bool \<times> db_connection \<times> 'd" where
  "db_init Q db d =
     (let (c, d1) = mysql_init Q d; db1 = db\<lparr>db_conn := c\<rparr>; cfg = db_cfg db in
      if c = NULL then (False, db1, d1)
      else let (r, d2) = mysql_real_connect Q c (Some (db_host cfg)) (Some (db_user cfg))
                           (Some (db_pass cfg)) (Some (db_dbname cfg)) (db_port cfg) d1
      in if r = NULL then (False, db1, d2) else (True, db1, d2))"

definition db_close :: "'d mysql \<Rightarrow> db_connection \<Rightarrow> 'd \<Rightarrow> bool \<times> 'd" where
  "db_close Q db d = (True, mysql_close Q (db_conn db) d)"

definition db_query :: "'d mysql \<Rightarrow> db_connection \<Rightarrow> string \<Rightarrow> 'd \<Rightarrow> dword \<times> 'd" where
  "db_query Q db sql d = (let (r, d1) = mysql_real_query Q (db_conn db) sql (length sql) d in (of_int r, d1))"

definition db_affected_rows :: "'d mysql \<Rightarrow> db_connection \<Rightarrow> 'd \<Rightarrow> int" where
  "db_affected_rows Q db d = mysql_affected_rows Q (db_conn db) d"

text \<open>The text \<open>mysql_hex_string\<close> writes at \<open>buff\<close>, and the length it returns.\<close>

definition db_hex_string :: "'d mysql \<Rightarrow> byte list \<Rightarrow> nat \<Rightarrow> string \<times> nat" where
  "db_hex_string Q data len = (let t = mysql_hex_string Q (take len data) in (t, length t))"

definition db_error :: "'d mysql \<Rightarrow> db_connection \<Rightarrow> 'd \<Rightarrow> string" where
  "db_error Q db d = mysql_error Q (db_conn db) d"

section \<open>A concrete database for evaluation\<close>

text \<open>
  The state is the log of executed statements together with the result set that the next
  \<open>mysql_store_result\<close> returns.
\<close>

record sim_db =
  db_log :: "string list"
  db_result :: "mysql_row list option"

definition sim_hex_byte :: "byte \<Rightarrow> string" where
  "sim_hex_byte b = [''0123456789ABCDEF'' ! (unat b div 16), ''0123456789ABCDEF'' ! (unat b mod 16)]"

definition sim_mysql :: "sim_db mysql" where
  "sim_mysql = \<lparr>
     mysql_init = (\<lambda>d. (1, d)),
     mysql_real_connect = (\<lambda>c _ _ _ _ _ d. (c, d)),
     mysql_close = (\<lambda>_ d. d),
     mysql_query = (\<lambda>_ q d. (0, d\<lparr>db_log := db_log d @ [q]\<rparr>)),
     mysql_real_query = (\<lambda>_ q n d. (0, d\<lparr>db_log := db_log d @ [take n q]\<rparr>)),
     mysql_store_result = (\<lambda>_ d. (db_result d, d)),
     mysql_free_result = (\<lambda>d. d),
     mysql_affected_rows = (\<lambda>_ _. 1),
     mysql_error = (\<lambda>_ _. []),
     mysql_hex_string = (\<lambda>bs. concat (map sim_hex_byte bs)) \<rparr>"

section \<open>Lemmas\<close>

text \<open>A query passes its whole text and the status code comes back unchanged.\<close>

lemma db_query_sends: "db_query Q db sql d = (of_int (fst (mysql_real_query Q (db_conn db) sql (length sql) d)),
    snd (mysql_real_query Q (db_conn db) sql (length sql) d))"
  by (simp add: db_query_def split_beta)

text \<open>\<open>db_init\<close> succeeds exactly when both library calls do, and keeps the configuration.\<close>

lemma db_init_success:
  "fst (db_init Q db d) \<longleftrightarrow> fst (mysql_init Q d) \<noteq> NULL \<and>
     fst (mysql_real_connect Q (fst (mysql_init Q d)) (Some (db_host (db_cfg db))) (Some (db_user (db_cfg db)))
       (Some (db_pass (db_cfg db))) (Some (db_dbname (db_cfg db))) (db_port (db_cfg db))
       (snd (mysql_init Q d))) \<noteq> NULL"
  by (simp add: db_init_def Let_def split_beta)

lemma db_init_cfg: "db_cfg (fst (snd (db_init Q db d))) = db_cfg db"
  by (simp add: db_init_def Let_def split_beta)

end
