(* ===== verification/Utils.thy ===== *)
theory Utils
  imports Shm
begin

text \<open>
  \<open>libdhcp/src/utils.cpp\<close> and the older \<open>dhcputils/utils.c\<close>, \<open>dhcputils/shm_utils.c\<close>: the time
  strings kept in a ring of sixteen static buffers, and the first version of \<open>shm_init\<close>. The
  clock and the formatter of the C runtime are parameters.
\<close>

section \<open>Time strings\<close>

record ('c, 'tm) time_api =
  time64 :: int
  localtime64_s :: "int \<Rightarrow> 'tm"
  strftime :: "'c list \<Rightarrow> nat \<Rightarrow> 'c list \<Rightarrow> 'tm \<Rightarrow> 'c list"

text \<open>
  The two static variables of \<open>getTimeString\<close>. The formatter takes the old contents of the
  buffer, its size, the format and the time, and gives the new contents.
\<close>

record 'c time_bufs =
  retBuf :: "'c list list"
  bufIdx :: int

definition getTimeString ::
  "('c, 'tm) time_api \<Rightarrow> 'c time_bufs \<Rightarrow> int \<Rightarrow> 'c list \<Rightarrow> (int \<times> 'c time_bufs) result" where
  "getTimeString T s time format =
     (let t = localtime64_s T time;
          i = (if bufIdx s = 15 then 0 else bufIdx s + 1)
      in res_bind (rd (retBuf s) i) (\<lambda>old.
         res_bind (wr (retBuf s) i (strftime T old 256 format t)) (\<lambda>bufs.
           Inr (i, s\<lparr>retBuf := bufs, bufIdx := i\<rparr>))))"

definition getTimeStringNow ::
  "('c, 'tm) time_api \<Rightarrow> 'c time_bufs \<Rightarrow> 'c list \<Rightarrow> (int \<times> 'c time_bufs) result" where
  "getTimeStringNow T s format = getTimeString T s (time64 T) format"

text \<open>The ANSI copies in \<open>dhcputils/utils.c\<close> have the same bodies over \<open>char\<close>.\<close>

definition getTimeString_ansi ::
  "(char, 'tm) time_api \<Rightarrow> char time_bufs \<Rightarrow> int \<Rightarrow> string \<Rightarrow> (int \<times> char time_bufs) result" where
  "getTimeString_ansi = getTimeString"

definition getTimeStringNow_ansi ::
  "(char, 'tm) time_api \<Rightarrow> char time_bufs \<Rightarrow> string \<Rightarrow> (int \<times> char time_bufs) result" where
  "getTimeStringNow_ansi T s format = getTimeString_ansi T s (time64 T) format"

definition wf_time_bufs :: "'c time_bufs \<Rightarrow> bool" where
  "wf_time_bufs s \<longleftrightarrow> length (retBuf s) = 16 \<and> 0 \<le> bufIdx s \<and> bufIdx s < 16"

text \<open>A run of calls, each with its time and format, and the pointers they return.\<close>

fun time_calls ::
  "('c, 'tm) time_api \<Rightarrow> 'c time_bufs \<Rightarrow> (int \<times> 'c list) list \<Rightarrow> (int list \<times> 'c time_bufs) result" where
  "time_calls T s [] = Inr ([], s)"
| "time_calls T s ((time, format) # rest) =
     res_bind (getTimeString T s time format) (\<lambda>(p, s1).
     res_bind (time_calls T s1 rest) (\<lambda>(ps, s2). Inr (p # ps, s2)))"

lemma mod16_next: "0 \<le> x \<Longrightarrow> x < 16 \<Longrightarrow> (x + 1) mod 16 = (if x = 15 then 0 else x + 1)" for x :: int
  by (cases "x = 15") simp_all

lemma ring_apart:
  assumes "0 \<le> p" "p < 16" "i < 15"
  shows "(p + 1 + int i) mod 16 \<noteq> p"
proof
  assume "(p + 1 + int i) mod 16 = p"
  then have "(p + 1 + int i) mod 16 = p mod 16" using assms by simp
  then have "16 dvd 1 + int i" by (simp add: mod_eq_dvd_iff)
  then show False using assms(3) zdvd_imp_le [of 16 "1 + int i"] by simp
qed

lemma getTimeString_step:
  assumes "wf_time_bufs s"
  shows "\<exists>text_new. getTimeString T s time format =
    Inr ((bufIdx s + 1) mod 16, s\<lparr>retBuf := (retBuf s)[nat ((bufIdx s + 1) mod 16) := text_new],
      bufIdx := (bufIdx s + 1) mod 16\<rparr>)"
  using assms
  by (auto simp: getTimeString_def Let_def rd_def wr_def wf_time_bufs_def mod16_next)

lemma getTimeString_wf:
  "wf_time_bufs s \<Longrightarrow> getTimeString T s time format = Inr (p, s') \<Longrightarrow> wf_time_bufs s'"
  using getTimeString_step [of s T time format] by (auto simp: wf_time_bufs_def)

text \<open>The buffers a run touches are the next ones of the ring, in order.\<close>

lemma time_calls_ring:
  assumes "wf_time_bufs s"
  shows "\<exists>s'. time_calls T s cs = Inr (map (\<lambda>i. (bufIdx s + 1 + int i) mod 16) [0..<length cs], s') \<and>
    wf_time_bufs s' \<and> bufIdx s' = (bufIdx s + int (length cs)) mod 16 \<and>
    (\<forall>q<16. (\<forall>i<length cs. (bufIdx s + 1 + int i) mod 16 \<noteq> int q) \<longrightarrow> retBuf s' ! q = retBuf s ! q)"
  using assms
proof (induction cs arbitrary: s)
  case Nil
  then show ?case by (auto simp: wf_time_bufs_def)
next
  case (Cons c cs)
  obtain time format where c: "c = (time, format)" by force
  let ?i = "(bufIdx s + 1) mod 16"
  obtain s1 new where g: "getTimeString T s time format = Inr (?i, s1)"
    and s1: "bufIdx s1 = ?i" "retBuf s1 = (retBuf s)[nat ?i := new]"
    using getTimeString_step [OF Cons.prems, of T time format] by fastforce
  have "wf_time_bufs s1" by (rule getTimeString_wf [OF Cons.prems g])
  from Cons.IH [OF this, unfolded s1] obtain s' where s':
    "time_calls T s1 cs = Inr (map (\<lambda>i. (?i + 1 + int i) mod 16) [0..<length cs], s')"
    "wf_time_bufs s'" "bufIdx s' = (?i + int (length cs)) mod 16"
    "\<forall>q<16. (\<forall>i<length cs. (?i + 1 + int i) mod 16 \<noteq> int q) \<longrightarrow>
       retBuf s' ! q = (retBuf s)[nat ?i := new] ! q"
    by blast
  have shift: "(?i + 1 + int i) mod 16 = (bufIdx s + 1 + int (Suc i)) mod 16" for i
    by (simp only: add.assoc mod_add_left_eq of_nat_Suc)
  have ptrs: "map (\<lambda>i. (bufIdx s + 1 + int i) mod 16) [0..<length (c # cs)] =
      ?i # map (\<lambda>i. (?i + 1 + int i) mod 16) [0..<length cs]"
    unfolding shift by (simp add: upt_conv_Cons map_Suc_upt [symmetric] o_def del: upt_Suc of_nat_Suc)
  have idx: "bufIdx s' = (bufIdx s + int (length (c # cs))) mod 16"
    using s'(3) by (simp only: add.assoc mod_add_left_eq list.size of_nat_Suc add_Suc_right add_0_right)
  have keep: "retBuf s' ! q = retBuf s ! q"
    if q: "q < 16" "\<forall>i<length (c # cs). (bufIdx s + 1 + int i) mod 16 \<noteq> int q" for q
  proof -
    have "(?i + 1 + int i) mod 16 \<noteq> int q" if "i < length cs" for i
      unfolding shift using q(2) [rule_format, of "Suc i"] that by simp
    moreover have "nat ?i \<noteq> q" using q(2) [rule_format, of 0] by auto
    ultimately show ?thesis using s'(4) q(1) by simp
  qed
  have "time_calls T s (c # cs) = Inr (?i # map (\<lambda>i. (?i + 1 + int i) mod 16) [0..<length cs], s')"
    using g s'(1) by (simp add: c)
  then show ?case using ptrs idx keep s'(2) by (intro exI [of _ s']) simp
qed

section \<open>The first version of \<open>shm_init\<close>\<close>

definition shm_init_v1 ::
  "'k win32 \<Rightarrow> string \<Rightarrow> nat \<Rightarrow> bool \<Rightarrow> shm_block \<Rightarrow> 'k \<Rightarrow> dword \<times> shm_block \<times> 'k" where
  "shm_init_v1 W SHM_FILE_NAME len mst block k =
     (let (h, k1) = (if mst then CreateFileMapping W None len SHM_FILE_NAME k
                     else OpenFileMapping W SHM_FILE_NAME k);
          b1 = block\<lparr>mapfile := h\<rparr>
      in if h = NULL then (- 1, b1, k1)
      else let (v, k2) = MapViewOfFile W h len k1 in (0, b1\<lparr>sb_data := v\<rparr>, k2))"

section \<open>Properties\<close>

text \<open>A time string stays intact while fifteen more are made: after \<open>getTimeString\<close> returned
  the buffer \<open>p\<close>, any run of at most fifteen further calls returns other buffers only and leaves
  the text at \<open>p\<close> as it was; no call leaves the sixteen buffers, and the sixteenth further call
  returns \<open>p\<close> again.\<close>

theorem getTimeString_ring:
  assumes "wf_time_bufs s" "getTimeString T s time format = Inr (p, s1)" "length cs \<le> 15"
  shows "0 \<le> p \<and> p < 16 \<and> (\<exists>ps s2. time_calls T s1 cs = Inr (ps, s2) \<and> length ps = length cs \<and>
    p \<notin> set ps \<and> retBuf s2 ! nat p = retBuf s1 ! nat p \<and>
    (length cs = 15 \<longrightarrow> (\<exists>s3. getTimeString T s2 time' format' = Inr (p, s3))))"
proof -
  have p: "p = bufIdx s1" "0 \<le> p" "p < 16"
    using getTimeString_step [OF assms(1), of T time format] assms(2) by auto
  have wf: "wf_time_bufs s1" by (rule getTimeString_wf [OF assms(1,2)])
  obtain s2 where s2: "time_calls T s1 cs = Inr (map (\<lambda>i. (p + 1 + int i) mod 16) [0..<length cs], s2)"
    "wf_time_bufs s2" "bufIdx s2 = (p + int (length cs)) mod 16"
    "\<forall>q<16. (\<forall>i<length cs. (p + 1 + int i) mod 16 \<noteq> int q) \<longrightarrow> retBuf s2 ! q = retBuf s1 ! q"
    using time_calls_ring [OF wf, of T cs] p(1) by auto
  have other: "(p + 1 + int i) mod 16 \<noteq> p" if "i < length cs" for i
    by (rule ring_apart) (use that assms(3) p(2,3) in simp_all)
  have "retBuf s2 ! nat p = retBuf s1 ! nat p"
    using s2(4) [rule_format, of "nat p"] other p(2,3) by (simp add: nat_less_iff)
  moreover have "\<exists>s3. getTimeString T s2 time' format' = Inr (p, s3)" if "length cs = 15"
  proof -
    have "(bufIdx s2 + 1) mod 16 = p" using s2(3) that p(2,3) by (simp add: mod_simps)
    then show ?thesis using getTimeString_step [OF s2(2), of T time' format'] by auto
  qed
  moreover have "p \<notin> set (map (\<lambda>i. (p + 1 + int i) mod 16) [0..<length cs])"
    using other by fastforce
  ultimately show ?thesis using s2(1) p(2,3) by simp
qed

definition demo_time :: "(char, int) time_api" where
  "demo_time = \<lparr>time64 = 5, localtime64_s = id, strftime = (\<lambda>_ _ f _. f)\<rparr>"

definition demo_bufs :: "char time_bufs" where
  "demo_bufs = \<lparr>retBuf = replicate 16 [], bufIdx = 0\<rparr>"

theorem getTimeString_ring_witness:
  "0 \<le> (1 :: int) \<and> (1 :: int) < 16 \<and>
   (\<exists>ps s2. time_calls demo_time (demo_bufs\<lparr>retBuf := (replicate 16 [])[1 := ''H''], bufIdx := 1\<rparr>) [(7, ''M'')] =
      Inr (ps, s2) \<and> length ps = length [(7 :: int, ''M'')] \<and> 1 \<notin> set ps \<and>
      retBuf s2 ! nat 1 = retBuf (demo_bufs\<lparr>retBuf := (replicate 16 [])[1 := ''H''], bufIdx := 1\<rparr>) ! nat 1 \<and>
      (length [(7 :: int, ''M'')] = 15 \<longrightarrow> (\<exists>s3. getTimeString demo_time s2 0 [] = Inr (1, s3))))"
  by (rule getTimeString_ring [where s = demo_bufs and time = 5 and format = "''H''"])
     (simp_all add: wf_time_bufs_def demo_bufs_def demo_time_def getTimeString_def rd_def wr_def)

text \<open>The first version of \<open>shm_init\<close> does not look at the result of \<open>MapViewOfFile\<close>: when the
  mapping exists but cannot be mapped it reports success and leaves a null data pointer, where
  the current \<open>shm_init\<close> reports \<open>SHM_MMAP_FAILED\<close>.\<close>

lemma shm_init_v1_unmapped:
  assumes "OpenFileMapping W name k = (h, k1)" "h \<noteq> NULL" "MapViewOfFile W h len k1 = (NULL, k2)"
  shows "\<exists>b. shm_init_v1 W name len False block k = (0, b, k2) \<and> sb_data b = NULL \<and> \<not> FAILED 0"
  using assms by (simp add: shm_init_v1_def FAILED_def)

end
