(* ===== verification/Linked_Buffer.thy ===== *)
theory Linked_Buffer
  imports Win32
begin

text \<open>
  \<open>Monitor/linked_buffer.h\<close> and \<open>Monitor/linked_buffer.cpp\<close>: the bounded queue between the
  thread that receives messages and the thread that handles them, as the pointer structure it
  is. The nodes live in a heap; \<open>malloc\<close> is the pair of the address it returned (\<open>NULL\<close> on
  failure) and the indeterminate contents of the \<open>next\<close> field of the new node.
\<close>

section \<open>The structure and its operations\<close>

record linked_buffer_entry =
  e_ptr :: ptr
  e_next :: ptr

record linked_buffer =
  b_size :: nat
  b_max_size :: nat
  b_head :: ptr
  b_tail :: ptr
  b_evt :: handle

type_synonym lb_heap = "ptr \<rightharpoonup> linked_buffer_entry"

definition buffer_init :: "'k win32 \<Rightarrow> ptr \<Rightarrow> nat \<Rightarrow> 'k \<Rightarrow> (linked_buffer \<times> 'k) result" where
  "buffer_init W p max_size k =
     (if p = NULL then Inl Null_Dereference
      else let (h, k1) = CreateEvent W k
      in Inr (\<lparr>b_size = 0, b_max_size = max_size, b_head = NULL, b_tail = NULL, b_evt = h\<rparr>,
              InitializeSRWLock W Buffer_SRW k1))"

text \<open>Lines 21 to 28 of \<open>buffer_add_tail\<close>: the new node is linked behind the tail.\<close>

definition lb_link :: "linked_buffer \<Rightarrow> lb_heap \<Rightarrow> ptr \<times> ptr \<Rightarrow> ptr \<Rightarrow> (linked_buffer \<times> lb_heap) result" where
  "lb_link b h al data =
     (let (p, garbage) = al; h1 = h(p \<mapsto> \<lparr>e_ptr = data, e_next = garbage\<rparr>) in
      if b_tail b \<noteq> NULL then
        (case h1 (b_tail b) of
           None \<Rightarrow> Inl Use_After_Free
         | Some t \<Rightarrow> Inr (b\<lparr>b_tail := p, b_size := b_size b + 1\<rparr>, h1(b_tail b \<mapsto> t\<lparr>e_next := p\<rparr>)))
      else Inr (b\<lparr>b_head := p, b_tail := p, b_size := b_size b + 1\<rparr>, h1))"

definition buffer_add_tail ::
  "'k win32 \<Rightarrow> linked_buffer \<Rightarrow> lb_heap \<Rightarrow> ptr \<times> ptr \<Rightarrow> ptr \<Rightarrow> 'k \<Rightarrow>
   (bool \<times> linked_buffer \<times> lb_heap \<times> 'k) result" where
  "buffer_add_tail W b h al data k =
     (let k1 = AcquireSRWLockExclusive W Buffer_SRW k in
      if b_max_size b \<le> b_size b then Inr (False, b, h, ReleaseSRWLockExclusive W Buffer_SRW k1)
      else if fst al = NULL then Inr (False, b, h, ReleaseSRWLockExclusive W Buffer_SRW k1)
      else res_bind (lb_link b h al data) (\<lambda>(b', h').
        let k2 = snd (SetEvent W (b_evt b') k1)
        in Inr (True, b', h', ReleaseSRWLockExclusive W Buffer_SRW k2)))"

text \<open>Lines 41 to 53 of \<open>buffer_remove_head\<close>; \<open>buff->size--\<close> is an unsigned decrement.\<close>

definition size_dec :: "nat \<Rightarrow> nat" where
  "size_dec n = (if n = 0 then 2 ^ 32 - 1 else n - 1)"

definition lb_unlink :: "linked_buffer \<Rightarrow> lb_heap \<Rightarrow> (ptr \<times> linked_buffer \<times> lb_heap) result" where
  "lb_unlink b h =
     (let entry = b_head b in
      if entry \<noteq> NULL then
        (case h entry of
           None \<Rightarrow> Inl Use_After_Free
         | Some e \<Rightarrow>
             (let b1 = (if b_tail b = entry then b\<lparr>b_head := NULL, b_tail := NULL\<rparr>
                        else b\<lparr>b_head := e_next e\<rparr>)
              in Inr (e_ptr e, b1\<lparr>b_size := size_dec (b_size b1)\<rparr>, h(entry := None))))
      else Inr (NULL, b, h))"

definition buffer_remove_head ::
  "'k win32 \<Rightarrow> linked_buffer \<Rightarrow> lb_heap \<Rightarrow> dword \<Rightarrow> 'k \<Rightarrow>
   (ptr \<times> linked_buffer \<times> lb_heap \<times> 'k) result" where
  "buffer_remove_head W b h timeout k =
     (let (w, k1) = WaitForSingleObject W (b_evt b) timeout k in
      if w \<noteq> WAIT_OBJECT_0 then Inr (NULL, b, h, k1)
      else let k2 = AcquireSRWLockExclusive W Buffer_SRW k1
      in res_bind (lb_unlink b h) (\<lambda>(ret, b', h').
           Inr (ret, b', h', ReleaseSRWLockExclusive W Buffer_SRW k2)))"

section \<open>Representation of a list\<close>

text \<open>
  The nodes \<open>ps\<close> in order carry the payloads \<open>xs\<close>, each \<open>next\<close> field points to the following
  node, and the \<open>next\<close> field of the last node is unconstrained: the code never initialises it.
\<close>

fun chain :: "lb_heap \<Rightarrow> ptr list \<Rightarrow> ptr list \<Rightarrow> bool" where
  "chain h [] [] = True"
| "chain h [p] [x] = (\<exists>g. h p = Some \<lparr>e_ptr = x, e_next = g\<rparr>)"
| "chain h (p # q # ps) (x # xs) = (h p = Some \<lparr>e_ptr = x, e_next = q\<rparr> \<and> chain h (q # ps) xs)"
| "chain h _ _ = False"

definition lb_rep :: "linked_buffer \<Rightarrow> lb_heap \<Rightarrow> ptr list \<Rightarrow> bool" where
  "lb_rep b h xs \<longleftrightarrow> (\<exists>ps. chain h ps xs \<and> distinct ps \<and> NULL \<notin> set ps \<and>
     b_head b = (if ps = [] then NULL else hd ps) \<and>
     b_tail b = (if ps = [] then NULL else last ps) \<and>
     b_size b = length xs \<and> length xs \<le> b_max_size b)"

text \<open>The same list read by walking \<open>size\<close> nodes from the head, for evaluation.\<close>

fun lb_walk :: "lb_heap \<Rightarrow> nat \<Rightarrow> ptr \<Rightarrow> ptr list" where
  "lb_walk h 0 p = []"
| "lb_walk h (Suc n) p = (case h p of None \<Rightarrow> [] | Some e \<Rightarrow> e_ptr e # lb_walk h n (e_next e))"

section \<open>Lemmas\<close>

lemma chain_length: "chain h ps xs \<Longrightarrow> length ps = length xs"
  by (induction h ps xs rule: chain.induct) auto

lemma chain_upd_other: "p \<notin> set ps \<Longrightarrow> chain (h(p := v)) ps xs = chain h ps xs"
  by (induction h ps xs rule: chain.induct) auto

lemma chain_dom: "chain h ps xs \<Longrightarrow> q \<in> set ps \<Longrightarrow> q \<in> dom h"
  by (induction h ps xs rule: chain.induct) auto

lemma chain_last: "chain h ps xs \<Longrightarrow> ps \<noteq> [] \<Longrightarrow> \<exists>t. h (last ps) = Some t \<and> e_ptr t = last xs"
proof (induction h ps xs rule: chain.induct)
  case (3 h p q ps x xs)
  then show ?case using chain_length by fastforce
qed auto

text \<open>Linking a fresh node behind the last one.\<close>

lemma chain_snoc:
  assumes "chain h ps xs" "ps \<noteq> []" "distinct ps" "p \<notin> set ps" "h (last ps) = Some t"
  shows "chain (h(p \<mapsto> \<lparr>e_ptr = x, e_next = g\<rparr>, last ps \<mapsto> t\<lparr>e_next := p\<rparr>)) (ps @ [p]) (xs @ [x])"
  using assms
proof (induction h ps xs rule: chain.induct)
  case (3 h p' q ps x' xs)
  let ?h = "h(p \<mapsto> \<lparr>e_ptr = x, e_next = g\<rparr>, last (q # ps) \<mapsto> t\<lparr>e_next := p\<rparr>)"
  have l: "last (p' # q # ps) = last (q # ps)" by simp
  have rest: "chain ?h ((q # ps) @ [p]) (xs @ [x])" using 3 by (intro "3.IH") auto
  have "p' \<noteq> last (q # ps)"
    using "3.prems"(3) last_in_set [of "q # ps"] by (metis distinct.simps(2) list.distinct(1))
  moreover have "p' \<noteq> p" using "3.prems"(4) by auto
  ultimately have "?h p' = Some \<lparr>e_ptr = x', e_next = q\<rparr>"
    using "3.prems"(1) by (simp del: last.simps)
  with rest show ?case unfolding l by (simp del: last.simps fun_upd_apply)
qed auto

lemma lb_rep_empty: "lb_rep \<lparr>b_size = 0, b_max_size = n, b_head = NULL, b_tail = NULL, b_evt = e\<rparr> h []"
  by (auto simp: lb_rep_def intro: exI [where x = "[]"])

lemma lb_link_rep:
  assumes rep: "lb_rep b h xs" and fresh: "p \<noteq> NULL" "p \<notin> dom h" and room: "b_size b < b_max_size b"
  shows "\<exists>b' h'. lb_link b h (p, g) x = Inr (b', h') \<and> lb_rep b' h' (xs @ [x]) \<and>
    b_max_size b' = b_max_size b \<and> b_evt b' = b_evt b \<and> dom h' = insert p (dom h)"
proof -
  obtain ps where ps: "chain h ps xs" "distinct ps" "NULL \<notin> set ps"
    "b_head b = (if ps = [] then NULL else hd ps)" "b_tail b = (if ps = [] then NULL else last ps)"
    "b_size b = length xs" "length xs \<le> b_max_size b"
    using rep by (auto simp: lb_rep_def)
  have p: "p \<notin> set ps" using fresh ps(1) chain_dom by blast
  show ?thesis
  proof (cases "ps = []")
    case True
    then have "xs = []" using ps(1) chain_length by fastforce
    with True ps fresh room show ?thesis
      by (auto simp: lb_link_def lb_rep_def intro!: exI [where x = "[p]"])
  next
    case False
    obtain t where t: "h (last ps) = Some t" using chain_last [OF ps(1) False] by blast
    have "last ps \<noteq> NULL" "last ps \<noteq> p" using False ps(3) p last_in_set by metis+
    moreover have "last ps \<in> dom h" using t by blast
    moreover have "length xs < b_max_size b" using room ps(6) by simp
    ultimately show ?thesis
      using False ps t p fresh chain_snoc [OF ps(1) False ps(2) p t, of x g]
      by (auto simp: lb_link_def lb_rep_def insert_absorb intro!: exI [where x = "ps @ [p]"])
  qed
qed

lemma lb_unlink_rep:
  assumes rep: "lb_rep b h (x # xs)"
  shows "\<exists>b' h'. lb_unlink b h = Inr (x, b', h') \<and> lb_rep b' h' xs \<and>
    b_max_size b' = b_max_size b \<and> b_evt b' = b_evt b \<and> dom h' \<subseteq> dom h"
proof -
  obtain ps where ps: "chain h ps (x # xs)" "distinct ps" "NULL \<notin> set ps"
    "b_head b = (if ps = [] then NULL else hd ps)" "b_tail b = (if ps = [] then NULL else last ps)"
    "b_size b = length (x # xs)" "length (x # xs) \<le> b_max_size b"
    using rep by (auto simp: lb_rep_def)
  obtain p qs where p: "ps = p # qs" using ps(1) chain_length [OF ps(1)] by (cases ps) auto
  show ?thesis
  proof (cases qs)
    case Nil
    with p ps have "xs = []" using chain_length [OF ps(1)] by simp
    with Nil p ps show ?thesis
      by (auto simp: lb_unlink_def lb_rep_def size_dec_def intro!: exI [where x = "[]"])
  next
    case (Cons q rs)
    have hp: "h p = Some \<lparr>e_ptr = x, e_next = q\<rparr>" and rest: "chain h qs xs"
      using ps(1) p Cons by simp_all
    have "p \<notin> set qs" "last qs \<noteq> p" using ps(2) p Cons last_in_set [of qs] by auto
    moreover have "chain (h(p := None)) qs xs" using rest \<open>p \<notin> set qs\<close> by (simp add: chain_upd_other)
    ultimately show ?thesis
      using hp ps p Cons
      by (auto simp: lb_unlink_def lb_rep_def size_dec_def intro!: exI [where x = qs])
  qed
qed

lemma lb_unlink_empty: "lb_rep b h [] \<Longrightarrow> lb_unlink b h = Inr (NULL, b, h)"
  using chain_length by (fastforce simp: lb_rep_def lb_unlink_def)

lemma lb_rep_size: "lb_rep b h xs \<Longrightarrow> b_size b = length xs \<and> length xs \<le> b_max_size b"
  by (auto simp: lb_rep_def)

lemma lb_walk_chain: "chain h ps xs \<Longrightarrow> ps \<noteq> [] \<Longrightarrow> lb_walk h (length xs) (hd ps) = xs"
  by (induction h ps xs rule: chain.induct) auto

lemma lb_walk_rep: "lb_rep b h xs \<Longrightarrow> lb_walk h (b_size b) (b_head b) = xs"
  using lb_walk_chain chain_length by (fastforce simp: lb_rep_def)

lemma lb_rep_unique: "lb_rep b h xs \<Longrightarrow> lb_rep b h ys \<Longrightarrow> xs = ys"
  using lb_walk_rep by metis

section \<open>The queue interface\<close>

text \<open>
  The contract the two threads of the monitor rely on: a bounded first-in first-out queue.
  \<open>put\<close> returns \<open>None\<close> when the queue refuses the element, \<open>get\<close> when there is none.
\<close>

fun put_all :: "('s \<Rightarrow> ptr \<Rightarrow> 's option) \<Rightarrow> 's \<Rightarrow> ptr list \<Rightarrow> 's option" where
  "put_all put s [] = Some s"
| "put_all put s (x # xs) = (case put s x of None \<Rightarrow> None | Some s' \<Rightarrow> put_all put s' xs)"

fun get_n :: "('s \<Rightarrow> (ptr \<times> 's) option) \<Rightarrow> nat \<Rightarrow> 's \<Rightarrow> (ptr list \<times> 's) option" where
  "get_n get 0 s = Some ([], s)"
| "get_n get (Suc n) s = (case get s of None \<Rightarrow> None
     | Some (x, s') \<Rightarrow> (case get_n get n s' of None \<Rightarrow> None | Some (xs, s'') \<Rightarrow> Some (x # xs, s'')))"

locale bounded_fifo =
  fixes put :: "'s \<Rightarrow> ptr \<Rightarrow> 's option" and get :: "'s \<Rightarrow> (ptr \<times> 's) option"
    and rep :: "'s \<Rightarrow> ptr list \<Rightarrow> bool" and cap :: "'s \<Rightarrow> nat"
  assumes put_room: "rep s xs \<Longrightarrow> length xs < cap s \<Longrightarrow>
      \<exists>s'. put s x = Some s' \<and> rep s' (xs @ [x]) \<and> cap s' = cap s"
    and put_full: "rep s xs \<Longrightarrow> cap s \<le> length xs \<Longrightarrow> put s x = None"
    and get_Cons: "rep s (x # xs) \<Longrightarrow> \<exists>s'. get s = Some (x, s') \<and> rep s' xs \<and> cap s' = cap s"
    and get_Nil: "rep s [] \<Longrightarrow> get s = None"
begin

lemma puts_rep:
  "rep s xs \<Longrightarrow> length xs + length ys \<le> cap s \<Longrightarrow>
   \<exists>s'. put_all put s ys = Some s' \<and> rep s' (xs @ ys) \<and> cap s' = cap s"
proof (induction ys arbitrary: s xs)
  case (Cons y ys)
  then obtain s1 where s1: "put s y = Some s1" "rep s1 (xs @ [y])" "cap s1 = cap s"
    using put_room [of s xs y] by auto
  with Cons.IH [OF s1(2)] Cons.prems show ?case by auto
qed simp

lemma gets_rep:
  "rep s (xs @ ys) \<Longrightarrow> \<exists>s'. get_n get (length xs) s = Some (xs, s') \<and> rep s' ys"
proof (induction xs arbitrary: s)
  case (Cons x xs)
  then obtain s1 where "get s = Some (x, s1)" "rep s1 (xs @ ys)"
    using get_Cons [of s x "xs @ ys"] by auto
  with Cons.IH [of s1] show ?case by auto
qed simp

text \<open>What was put in is what comes out, in order and completely.\<close>

lemma fifo_order:
  assumes "rep s []" "length xs \<le> cap s"
  shows "\<exists>s' s''. put_all put s xs = Some s' \<and> get_n get (length xs) s' = Some (xs, s'') \<and> get s'' = None"
proof -
  obtain s' where s': "put_all put s xs = Some s'" "rep s' xs"
    using puts_rep [OF assms(1), of xs] assms(2) by auto
  then obtain s'' where "get_n get (length xs) s' = Some (xs, s'')" "rep s'' []"
    using gets_rep [of s' xs "[]"] by auto
  with s' get_Nil show ?thesis by blast
qed

end

text \<open>
  The interpretation: the two pointer operations of the buffer, with a \<open>malloc\<close> that hands out
  increasing addresses and leaves \<open>0xCDCDCDCD\<close> in the uninitialised field.
\<close>

record lb_state =
  st_buf :: linked_buffer
  st_heap :: lb_heap
  st_next :: ptr

definition lb_put :: "lb_state \<Rightarrow> ptr \<Rightarrow> lb_state option" where
  "lb_put s x =
     (if b_max_size (st_buf s) \<le> b_size (st_buf s) then None
      else case lb_link (st_buf s) (st_heap s) (st_next s, 0xCDCDCDCD) x of
        Inl _ \<Rightarrow> None
      | Inr (b, h) \<Rightarrow> Some \<lparr>st_buf = b, st_heap = h, st_next = Suc (st_next s)\<rparr>)"

definition lb_get :: "lb_state \<Rightarrow> (ptr \<times> lb_state) option" where
  "lb_get s =
     (if b_head (st_buf s) = NULL then None
      else case lb_unlink (st_buf s) (st_heap s) of
        Inl _ \<Rightarrow> None
      | Inr (x, b, h) \<Rightarrow> Some (x, s\<lparr>st_buf := b, st_heap := h\<rparr>))"

definition lb_state_rep :: "lb_state \<Rightarrow> ptr list \<Rightarrow> bool" where
  "lb_state_rep s xs \<longleftrightarrow> lb_rep (st_buf s) (st_heap s) xs \<and> NULL < st_next s \<and>
     (\<forall>p \<in> dom (st_heap s). p < st_next s)"

lemma lb_rep_head: "lb_rep b h (x # xs) \<Longrightarrow> b_head b \<noteq> NULL"
proof -
  assume "lb_rep b h (x # xs)"
  then obtain ps where ps: "chain h ps (x # xs)" "NULL \<notin> set ps"
    "b_head b = (if ps = [] then NULL else hd ps)"
    by (auto simp: lb_rep_def)
  then have "ps \<noteq> []" using chain_length by fastforce
  with ps show ?thesis by (metis hd_in_set)
qed

interpretation lb_queue: bounded_fifo lb_put lb_get lb_state_rep "\<lambda>s. b_max_size (st_buf s)"
proof
  fix s xs x
  assume rep: "lb_state_rep s xs"
  note size = lb_rep_size [of "st_buf s" "st_heap s" xs]
  show "\<exists>s'. lb_put s x = Some s' \<and> lb_state_rep s' (xs @ [x]) \<and> b_max_size (st_buf s') = b_max_size (st_buf s)"
    if room: "length xs < b_max_size (st_buf s)"
  proof -
    have "st_next s \<notin> dom (st_heap s)" using rep by (auto simp: lb_state_rep_def)
    then obtain b' h' where "lb_link (st_buf s) (st_heap s) (st_next s, 0xCDCDCDCD) x = Inr (b', h')"
      "lb_rep b' h' (xs @ [x])" "b_max_size b' = b_max_size (st_buf s)"
      "dom h' = insert (st_next s) (dom (st_heap s))"
      using lb_link_rep [of "st_buf s" "st_heap s" xs "st_next s" "0xCDCDCDCD" x] rep room size
      by (auto simp: lb_state_rep_def)
    then show ?thesis using rep room size by (auto simp: lb_put_def lb_state_rep_def less_Suc_eq)
  qed
  show "lb_put s x = None" if "b_max_size (st_buf s) \<le> length xs"
    using rep that size by (simp add: lb_put_def lb_state_rep_def)
next
  fix s x xs
  assume rep: "lb_state_rep s (x # xs)"
  then obtain b' h' where "lb_unlink (st_buf s) (st_heap s) = Inr (x, b', h')" "lb_rep b' h' xs"
    "b_max_size b' = b_max_size (st_buf s)" "dom h' \<subseteq> dom (st_heap s)"
    using lb_unlink_rep [of "st_buf s" "st_heap s" x xs] by (auto simp: lb_state_rep_def)
  then show "\<exists>s'. lb_get s = Some (x, s') \<and> lb_state_rep s' xs \<and> b_max_size (st_buf s') = b_max_size (st_buf s)"
    using rep lb_rep_head [of "st_buf s" "st_heap s" x xs] by (auto simp: lb_get_def lb_state_rep_def)
next
  fix s
  assume "lb_state_rep s []"
  then show "lb_get s = None"
    using chain_length by (fastforce simp: lb_get_def lb_state_rep_def lb_rep_def)
qed

section \<open>Properties\<close>

text \<open>\<open>buffer_add_tail\<close> on a buffer that represents a list: with room and a successful
  allocation it returns \<open>TRUE\<close> and the buffer represents the list with the element appended, even
  though the new node's \<open>next\<close> field is never initialised; a full buffer or a failed allocation
  returns \<open>FALSE\<close> and changes nothing. The exclusive lock is released on every path, and the event
  is set only on success.\<close>

theorem buffer_add_tail_appends:
  assumes "lb_rep b h xs" "p \<notin> dom h"
  shows "if length xs < b_max_size b \<and> p \<noteq> NULL
    then \<exists>b' h'. buffer_add_tail W b h (p, garbage) x k =
        Inr (True, b', h', ReleaseSRWLockExclusive W Buffer_SRW
          (snd (SetEvent W (b_evt b) (AcquireSRWLockExclusive W Buffer_SRW k)))) \<and>
      lb_rep b' h' (xs @ [x]) \<and> b_max_size b' = b_max_size b \<and> b_evt b' = b_evt b
    else buffer_add_tail W b h (p, garbage) x k =
        Inr (False, b, h, ReleaseSRWLockExclusive W Buffer_SRW (AcquireSRWLockExclusive W Buffer_SRW k))"
proof (cases "length xs < b_max_size b \<and> p \<noteq> NULL")
  case True
  then obtain b' h' where "lb_link b h (p, garbage) x = Inr (b', h')" "lb_rep b' h' (xs @ [x])"
    "b_max_size b' = b_max_size b" "b_evt b' = b_evt b"
    using lb_link_rep [OF assms(1) _ assms(2), of garbage x] lb_rep_size [OF assms(1)] by auto
  with True lb_rep_size [OF assms(1)] show ?thesis by (simp add: buffer_add_tail_def)
next
  case False
  then show ?thesis
    using lb_rep_size [OF assms(1)] by (auto simp: buffer_add_tail_def Let_def)
qed

definition demo_buffer :: linked_buffer where
  "demo_buffer = \<lparr>b_size = 0, b_max_size = 4, b_head = NULL, b_tail = NULL, b_evt = 5\<rparr>"

lemma demo_buffer_rep: "lb_rep demo_buffer h []"
  unfolding demo_buffer_def by (rule lb_rep_empty)

theorem buffer_add_tail_appends_witness:
  "\<exists>b' h'. buffer_add_tail sim_win32 demo_buffer Map.empty (8, 77) 42 sim_start =
        Inr (True, b', h', ReleaseSRWLockExclusive sim_win32 Buffer_SRW
          (snd (SetEvent sim_win32 (b_evt demo_buffer)
            (AcquireSRWLockExclusive sim_win32 Buffer_SRW sim_start)))) \<and>
      lb_rep b' h' ([] @ [42]) \<and> b_max_size b' = b_max_size demo_buffer \<and> b_evt b' = b_evt demo_buffer"
  using buffer_add_tail_appends [OF demo_buffer_rep, of 8 Map.empty sim_win32 77 42 sim_start]
  by (simp add: demo_buffer_def)

text \<open>\<open>buffer_remove_head\<close> on a buffer that represents a list: a wait that is not satisfied
  returns \<open>NULL\<close> and changes nothing; after a satisfied wait the first element is returned and the
  buffer represents the rest (the empty buffer returns \<open>NULL\<close>), without touching freed memory, and
  the exclusive lock is released.\<close>

theorem buffer_remove_head_takes_first:
  assumes "lb_rep b h xs" "WaitForSingleObject W (b_evt b) timeout k = (w, k1)"
  shows "\<exists>ret b' h' k'. buffer_remove_head W b h timeout k = Inr (ret, b', h', k') \<and>
    lb_rep b' h' (if w = WAIT_OBJECT_0 then tl xs else xs) \<and>
    ret = (if w = WAIT_OBJECT_0 \<and> xs \<noteq> [] then hd xs else NULL) \<and>
    k' = (if w = WAIT_OBJECT_0
          then ReleaseSRWLockExclusive W Buffer_SRW (AcquireSRWLockExclusive W Buffer_SRW k1) else k1) \<and>
    b_max_size b' = b_max_size b \<and> b_evt b' = b_evt b"
proof (cases xs)
  case Nil
  then show ?thesis
    using assms lb_unlink_empty [of b h] by (simp add: buffer_remove_head_def)
next
  case (Cons x ys)
  then show ?thesis
    using assms lb_unlink_rep [of b h x ys] by (auto simp: buffer_remove_head_def)
qed

theorem buffer_remove_head_takes_first_witness:
  "\<exists>ret b' h' k'. buffer_remove_head sim_win32 demo_buffer Map.empty 5000 sim_start = Inr (ret, b', h', k') \<and>
    lb_rep b' h' (if WAIT_TIMEOUT = WAIT_OBJECT_0 then tl [] else []) \<and>
    ret = (if WAIT_TIMEOUT = WAIT_OBJECT_0 \<and> [] \<noteq> ([] :: ptr list) then hd [] else NULL) \<and>
    k' = (if WAIT_TIMEOUT = WAIT_OBJECT_0
          then ReleaseSRWLockExclusive sim_win32 Buffer_SRW (AcquireSRWLockExclusive sim_win32 Buffer_SRW sim_start)
          else sim_start) \<and>
    b_max_size b' = b_max_size demo_buffer \<and> b_evt b' = b_evt demo_buffer"
  by (rule buffer_remove_head_takes_first [OF demo_buffer_rep]) (simp add: sim_defs demo_buffer_def)

text \<open>C19. First in, first out: from an empty buffer, any sequence of at most \<open>max_size\<close> linked
  elements comes out of the unlink operation in the same order, after which the buffer is empty.\<close>

theorem linked_buffer_fifo:
  assumes "lb_state_rep s []" "length xs \<le> b_max_size (st_buf s)"
  shows "\<exists>s' s''. put_all lb_put s xs = Some s' \<and>
    get_n lb_get (length xs) s' = Some (xs, s'') \<and> lb_get s'' = None"
  using assms by (rule lb_queue.fifo_order)

theorem linked_buffer_fifo_witness:
  "\<exists>s' s''. put_all lb_put \<lparr>st_buf = demo_buffer, st_heap = Map.empty, st_next = 1\<rparr> [11, 12, 13] = Some s' \<and>
    get_n lb_get (length [11, 12, 13 :: ptr]) s' = Some ([11, 12, 13], s'') \<and> lb_get s'' = None"
  by (rule linked_buffer_fifo) (simp add: lb_state_rep_def demo_buffer_rep, simp add: demo_buffer_def)

text \<open>C28. A lost wake-up: the buffer signals an auto-reset event once per element, but a set event
  does not count. After two elements are added before the consumer waits, one call returns the
  first element, and the next call times out with \<open>NULL\<close> although the second element is queued.\<close>

theorem buffer_lost_wakeup:
  assumes "auto_reset_event W (b_evt b) sig" "lb_rep b h []" "2 \<le> b_max_size b"
    and "p \<noteq> NULL" "q \<noteq> NULL" "p \<noteq> q" "p \<notin> dom h" "q \<notin> dom h"
  shows "\<exists>b1 h1 k1 b2 h2 k2 b3 h3 k3 k4.
    buffer_add_tail W b h (p, g) x k = Inr (True, b1, h1, k1) \<and>
    buffer_add_tail W b1 h1 (q, g) y k1 = Inr (True, b2, h2, k2) \<and>
    buffer_remove_head W b2 h2 5000 k2 = Inr (x, b3, h3, k3) \<and>
    buffer_remove_head W b3 h3 5000 k3 = Inr (NULL, b3, h3, k4) \<and>
    lb_rep b3 h3 [y] \<and> b_size b3 = 1"
proof -
  note ev = assms(1) [unfolded auto_reset_event_def]
  obtain b1 h1 where l1: "lb_link b h (p, g) x = Inr (b1, h1)" "lb_rep b1 h1 [x]"
    "b_max_size b1 = b_max_size b" "b_evt b1 = b_evt b" "dom h1 = insert p (dom h)"
    using lb_link_rep [OF assms(2,4,7), of g x] assms(3) lb_rep_size [OF assms(2)] by auto
  obtain b2 h2 where l2: "lb_link b1 h1 (q, g) y = Inr (b2, h2)" "lb_rep b2 h2 [x, y]"
    "b_max_size b2 = b_max_size b" "b_evt b2 = b_evt b"
    using lb_link_rep [OF l1(2) assms(5), of g y] assms l1 lb_rep_size [OF l1(2)] by auto
  obtain b3 h3 where l3: "lb_unlink b2 h2 = Inr (x, b3, h3)" "lb_rep b3 h3 [y]" "b_evt b3 = b_evt b"
    using lb_unlink_rep [OF l2(2)] l2(4) by auto
  have room: "\<not> b_max_size b \<le> b_size b" "\<not> b_max_size b1 \<le> b_size b1"
    using assms(2,3) l1 lb_rep_size by fastforce+
  let ?add = "\<lambda>k. ReleaseSRWLockExclusive W Buffer_SRW (snd (SetEvent W (b_evt b) (AcquireSRWLockExclusive W Buffer_SRW k)))"
  let ?w = "WaitForSingleObject W (b_evt b) 5000"
  let ?k2 = "?add (?add k)"
  let ?k3 = "ReleaseSRWLockExclusive W Buffer_SRW (AcquireSRWLockExclusive W Buffer_SRW (snd (?w ?k2)))"
  have "sig ?k2" using ev by simp
  then have w1: "fst (?w ?k2) = WAIT_OBJECT_0" "\<not> sig (snd (?w ?k2))" using ev by blast+
  then have "\<not> sig ?k3" using ev by simp
  then have w2: "fst (?w ?k3) = WAIT_TIMEOUT" using ev by blast
  have "buffer_add_tail W b h (p, g) x k = Inr (True, b1, h1, ?add k)"
    using l1 room assms(4) by (simp add: buffer_add_tail_def)
  moreover have "buffer_add_tail W b1 h1 (q, g) y (?add k) = Inr (True, b2, h2, ?k2)"
    using l1 l2 room assms(5) by (simp add: buffer_add_tail_def)
  moreover have "buffer_remove_head W b2 h2 5000 ?k2 = Inr (x, b3, h3, ?k3)"
    using l2 l3 w1 by (simp add: buffer_remove_head_def split_beta)
  moreover have "buffer_remove_head W b3 h3 5000 ?k3 = Inr (NULL, b3, h3, snd (?w ?k3))"
    using l3 w2 by (simp add: buffer_remove_head_def split_beta WAIT_TIMEOUT_def WAIT_OBJECT_0_def)
  ultimately show ?thesis using l3(2) lb_rep_size [OF l3(2)] by fastforce
qed

theorem buffer_lost_wakeup_witness:
  "\<exists>b1 h1 k1 b2 h2 k2 b3 h3 k3 k4.
    buffer_add_tail sim_win32 demo_buffer Map.empty (8, 99) 41 sim_start = Inr (True, b1, h1, k1) \<and>
    buffer_add_tail sim_win32 b1 h1 (9, 99) 42 k1 = Inr (True, b2, h2, k2) \<and>
    buffer_remove_head sim_win32 b2 h2 5000 k2 = Inr (41, b3, h3, k3) \<and>
    buffer_remove_head sim_win32 b3 h3 5000 k3 = Inr (NULL, b3, h3, k4) \<and>
    lb_rep b3 h3 [42] \<and> b_size b3 = 1"
  by (rule buffer_lost_wakeup [OF sim_auto_reset demo_buffer_rep]) (simp_all add: demo_buffer_def)

end
