(* ===== verification/Monitor_Handlers.thy ===== *)
theory Monitor_Handlers
  imports Acl C_Stdlib Db Utils Linked_Buffer
begin

text \<open>
  \<open>Monitor/main.cpp\<close>, lines 21 to 112: what the handler thread does with one message. A message
  is the 2048-byte buffer the main thread filled; the handlers cast it to the argument structure
  of its hook type and write one row to the database. \<open>Q\<close> is the MySQL client library, \<open>T\<close> the
  clock and formatter, \<open>conn\<close> the connection. The argument \<open>hb\<close> is what the 98-byte stack buffer
  \<open>hwaddr_buf\<close> holds when the ANSI formatter is called on it.
\<close>

section \<open>Shared parts\<close>

definition DHCP_PROB_RELEASE :: dword where "DHCP_PROB_RELEASE = 0x20000003"

definition hwaddr_buf_size :: nat where [layout]: "hwaddr_buf_size = 2 * (16 * 3 + 1)"

definition sprintf_query :: "string \<Rightarrow> string result" where
  "sprintf_query q = (if 65536 < length q + 1 then Inl Buffer_Overflow else Inr q)"

text \<open>The two \<open>printf\<close> branches after \<open>mysql_query\<close> change nothing.\<close>

definition run_query :: "'d mysql \<Rightarrow> ptr \<Rightarrow> string \<Rightarrow> 'd \<Rightarrow> 'd" where
  "run_query Q conn q d = snd (mysql_query Q conn q d)"

definition hw_text :: "char list \<Rightarrow> byte list \<Rightarrow> int \<Rightarrow> string result" where
  "hw_text hb addr len = res_bind (dhcp_hw_addr_ansi hb addr len) c_str"

section \<open>Offers\<close>

text \<open>The calls inside the argument list of the \<open>_tprintf\<close> that reports the request.\<close>

definition offer_report ::
  "(wchar, 'tm) time_api \<Rightarrow> wchar time_bufs \<Rightarrow> dhcp_packet \<Rightarrow> byte \<Rightarrow> wchar time_bufs result" where
  "offer_report T tb pkt msg_type =
     res_bind (getTimeStringNow T tb (map wide ''%H:%M:%S'')) (\<lambda>(_, tb1).
     res_bind (DHCP_MSG_TYPE msg_type) (\<lambda>_.
     res_bind (DHCP_HW_TYPE (htype pkt)) (\<lambda>_.
     res_bind (dhcp_hw_addr_unicode (replicate (hwaddr_buf_size div 2) 0) (chaddr pkt) (uint (hlen pkt))) (\<lambda>_.
       Inr tb1))))"

text \<open>
  The host name as hex text: the last byte is dropped when it is NUL, the length is a \<open>size_t\<close>
  (so that decrementing zero wraps), and \<open>hnhex\<close> has 512 bytes.
\<close>

definition host_name_hex :: "'d mysql \<Rightarrow> byte list \<Rightarrow> nat \<Rightarrow> byte \<Rightarrow> string result" where
  "host_name_hex Q data p dlen =
     res_bind (rd data (int p + int (unat dlen) - 1)) (\<lambda>c.
       let hnl = (if c = 0 then size_dec (unat dlen) else unat dlen)
       in if 512 < 2 * hnl + 1 then Inl Buffer_Overflow
       else if length data < p + hnl then Inl Read_Out_Of_Bounds
       else Inr (mysql_hex_string Q (slice p hnl data)))"

text \<open>\<open>'%s'\<close>: a string between single quotes.\<close>

definition quoted :: "string \<Rightarrow> string" where
  "quoted s = CHR 0x27 # s @ [CHR 0x27]"

definition offer_query :: "string \<Rightarrow> dword \<Rightarrow> dword \<Rightarrow> string \<Rightarrow> string" where
  "offer_query hw ip lease hnhex =
     ''INSERT INTO offer_log(hwaddr,ip,lease_time,hostname) VALUES ('' @ quoted hw @ '',0x'' @ fmt_08X ip @
     '','' @ fmt_d lease @ '',0x'' @ hnhex @ '')''"

text \<open>
  The option area is read from the message buffer: \<open>pkt->options+4\<close> is at offset 28 (the packet
  in the structure) plus 236 (the options in the packet) plus 4 (the cookie), and the readable
  memory from there on is the rest of the buffer.
\<close>

definition offer_option_area :: "byte list \<Rightarrow> byte list" where
  "offer_option_area buf = drop (28 + OFF_options + 4) buf"

text \<open>Lines 54 to 63: the host name, the statement and the query.\<close>

definition offer_insert ::
  "'d mysql \<Rightarrow> ptr \<Rightarrow> char list \<Rightarrow> byte list \<Rightarrow> offer_args \<Rightarrow> dhcp_packet \<Rightarrow> 'd \<Rightarrow> 'd result" where
  "offer_insert Q conn hb data a pkt d =
     res_bind (dhcp_find_option data (DHCP_MAX_OPTION_LEN - 4) DHO_HOST_NAME) (\<lambda>ohn.
       case ohn of
         None \<Rightarrow> Inl Null_Dereference
       | Some (p, dlen) \<Rightarrow>
           res_bind (host_name_hex Q data p dlen) (\<lambda>hnhex.
           res_bind (hw_text hb (chaddr pkt) (uint (hlen pkt))) (\<lambda>hw.
           res_bind (sprintf_query (offer_query hw (o_AltAddress a) (o_LeaseTime a) hnhex)) (\<lambda>q.
             Inr (run_query Q conn q d)))))"

definition handle_offer ::
  "'d mysql \<Rightarrow> (wchar, 'tm) time_api \<Rightarrow> ptr \<Rightarrow> char list \<Rightarrow> byte list \<Rightarrow> wchar time_bufs \<Rightarrow> 'd \<Rightarrow>
   (wchar time_bufs \<times> 'd) result" where
  "handle_offer Q T conn hb buf tb d =
     (if length buf < sizeof_OFFER_ARGS then Inl Read_Out_Of_Bounds else
      let a = cast_offer buf; pkt = cast_packet (o_Packet a); data = offer_option_area buf in
      res_bind (dhcp_find_option data (DHCP_MAX_OPTION_LEN - 4) DHO_DHCP_MESSAGE_TYPE) (\<lambda>pmt.
      res_bind (case pmt of None \<Rightarrow> Inr 0 | Some (p, _) \<Rightarrow> rd data (int p)) (\<lambda>msg_type.
      res_bind (offer_report T tb pkt msg_type) (\<lambda>tb1.
      res_bind (offer_insert Q conn hb data a pkt d) (\<lambda>d1. Inr (tb1, d1))))))"

section \<open>Releases and deletions\<close>

definition lease_query :: "string \<Rightarrow> dword \<Rightarrow> string \<Rightarrow> string" where
  "lease_query hw ip kind =
     ''INSERT INTO lease_log(hwaddr,ip,lease_type) VALUES ('' @ quoted hw @ '',0x'' @ fmt_08X ip @ '','' @
     quoted kind @ '')''"

definition handle_lease ::
  "'d mysql \<Rightarrow> ptr \<Rightarrow> char list \<Rightarrow> byte list \<Rightarrow> 'd \<Rightarrow> 'd result" where
  "handle_lease Q conn hb buf d =
     (if length buf < sizeof_DEL_ARGS then Inl Read_Out_Of_Bounds else
      let a = cast_del buf in
      if d_ControlCode a \<noteq> DHCP_PROB_RELEASE then Inr d
      else let pkt = cast_packet (d_Packet a) in
      res_bind (hw_text hb (chaddr pkt) (uint (hlen pkt))) (\<lambda>hw.
      res_bind (sprintf_query (lease_query hw (d_AltAddress a) ''requested'')) (\<lambda>q.
        Inr (run_query Q conn q d))))"

text \<open>\<open>HwAddressLength\<close> is passed on as an \<open>int\<close>.\<close>

definition handle_delete ::
  "'d mysql \<Rightarrow> ptr \<Rightarrow> char list \<Rightarrow> byte list \<Rightarrow> 'd \<Rightarrow> 'd result" where
  "handle_delete Q conn hb buf d =
     (if length buf < sizeof_CLIENT_ARGS then Inl Read_Out_Of_Bounds else
      let a = cast_client buf in
      res_bind (hw_text hb (c_HwAddress a) (sint (c_HwAddressLength a))) (\<lambda>hw.
      res_bind (sprintf_query (lease_query hw (c_IpAddress a) ''timeout'')) (\<lambda>q.
        Inr (run_query Q conn q d))))"

section \<open>Dispatch\<close>

text \<open>The \<open>switch\<close> of \<open>handle_thread\<close>.\<close>

definition handle_message ::
  "'d mysql \<Rightarrow> (wchar, 'tm) time_api \<Rightarrow> ptr \<Rightarrow> char list \<Rightarrow> byte list \<Rightarrow> wchar time_bufs \<Rightarrow> 'd \<Rightarrow>
   (wchar time_bufs \<times> 'd) result" where
  "handle_message Q T conn hb buf tb d =
     (if length buf < 4 then Inl Read_Out_Of_Bounds else
      let HookType = bytes_dword (slice 0 4 buf) in
      if HookType = CALLOUT_ADDRESS_OFFER then handle_offer Q T conn hb buf tb d
      else if HookType = CALLOUT_ADDRESS_DELETE then
        res_bind (handle_lease Q conn hb buf d) (\<lambda>d1. Inr (tb, d1))
      else if HookType = CALLOUT_CLIENT_DELETE then
        res_bind (handle_delete Q conn hb buf d) (\<lambda>d1. Inr (tb, d1))
      else Inr (tb, d))"

section \<open>Lemmas\<close>

lemma hexdigits_no_quote: "CHR 0x27 \<notin> set hexdigits" "CHR 0x27 \<notin> set HEXDIGITS"
  "CHR 0x00 \<notin> set hexdigits"
  by (simp_all add: hexdigits_def HEXDIGITS_def)

lemma hw_string_no_nul: "CHR 0x00 \<notin> set (hw_string as)"
  using set_hw_string [of as] hexdigits_no_quote by auto

lemma hw_string_no_quote: "CHR 0x27 \<notin> set (hw_string as)"
  using set_hw_string [of as] hexdigits_no_quote by auto

text \<open>The text of an address that fits, for every earlier content of the buffer.\<close>

lemma hw_text_ok:
  assumes "0 < n" "n \<le> length addr" "3 * n \<le> length hb" "n < 2 ^ 29"
  shows "hw_text hb addr (int n) = Inr (hw_string (take n addr))"
proof -
  have "take n addr \<noteq> []" using assms by auto
  then have "dhcp_hw_addr_ansi hb addr (int n) = Inr (hw_string (take n addr) @ CHR 0x00 # drop (3 * n) hb)"
    using hw_addr_write_ok [OF assms, of hexdigits "CHR '':''" "CHR 0x00"]
    by (simp add: dhcp_hw_addr_ansi_def butlast_hw_groups)
  then show ?thesis by (simp add: hw_text_def c_str_terminated [OF hw_string_no_nul])
qed

lemma hw_text_safe:
  assumes "hw_text hb addr len = Inr hw" "length hb = hwaddr_buf_size"
  shows "hw = hw_string (take (nat len) addr) \<and> 0 < len \<and> len \<le> int (length addr)"
proof -
  have b: "0 < len \<and> len \<le> int (length addr) \<and> 3 * len \<le> int (length hb)"
    using assms(1) by (auto simp: hw_text_def dhcp_hw_addr_ansi_def res_bind_eq_Inr dest: hw_addr_write_bounds)
  moreover have "hw_text hb addr (int (nat len)) = Inr (hw_string (take (nat len) addr))"
    by (rule hw_text_ok) (use b assms(2) in \<open>auto simp: layout\<close>)
  ultimately show ?thesis using assms(1) by simp
qed

lemma length_hex2 [simp]: "length (hex2 b) = 2"
  by (simp add: hex2_def)

lemma length_hw_string_le: "length (hw_string as) \<le> 3 * length as"
  using length_hw_string [of as] by (cases as) auto

lemma sprintf_query_eq [res_simps]: "sprintf_query s = Inr q \<longleftrightarrow> q = s \<and> length s < 65536"
  by (auto simp: sprintf_query_def)

lemma length_fmt_d: "length (fmt_d w) \<le> 11"
proof -
  have "- (2 ^ 31) \<le> sint w" "sint w < 2 ^ 31"
    using sint_greater_eq [of w] sint_less [of w] by simp_all
  then have "length (dec_digits (nat (- sint w))) \<le> 10" "length (dec_digits (nat (sint w))) \<le> 10"
    by (auto intro!: length_dec_digits simp: nat_less_iff)
  then show ?thesis by (simp add: fmt_d_def)
qed

lemma bytes_dword_head: "bytes_dword (slice 0 4 buf) = o_HookType (cast_offer buf)"
  "bytes_dword (slice 0 4 buf) = d_HookType (cast_del buf)"
  "bytes_dword (slice 0 4 buf) = c_HookType (cast_client buf)"
  by (simp_all add: cast_offer_def cast_del_def cast_client_def)

text \<open>Reports of a request that stay inside the name tables and the buffer.\<close>

lemma offer_report_ok:
  assumes "wf_time_bufs tb" "0 \<le> sint t" "sint t < 15" "unat (htype pkt) < 10" "length (chaddr pkt) = 16"
    and "0 < unat (hlen pkt)" "unat (hlen pkt) \<le> 16"
  shows "\<exists>tb'. offer_report T tb pkt t = Inr tb' \<and> wf_time_bufs tb'"
proof -
  obtain p tb' where g: "getTimeStringNow T tb (map wide ''%H:%M:%S'') = Inr (p, tb')"
    using getTimeString_step [OF assms(1)] unfolding getTimeStringNow_def by blast
  then have "wf_time_bufs tb'" using getTimeString_wf [OF assms(1)] unfolding getTimeStringNow_def by blast
  moreover have "\<not> is_fault (DHCP_MSG_TYPE t)" "\<not> is_fault (DHCP_HW_TYPE (htype pkt))"
    using assms(2-4) by (simp_all add: DHCP_MSG_TYPE_fault DHCP_HW_TYPE_fault)
  moreover have "\<exists>b. dhcp_hw_addr_unicode (replicate (hwaddr_buf_size div 2) 0) (chaddr pkt) (int (unat (hlen pkt))) = Inr b"
    unfolding dhcp_hw_addr_unicode_def
    by (subst hw_addr_write_Inr_iff) (use assms(5-7) in \<open>simp_all add: layout del: of_nat_unat\<close>)
  ultimately show ?thesis
    using g by (auto simp: offer_report_def not_is_fault_iff)
qed

text \<open>The layout of an offer message whose packet carries the options \<open>os\<close>.\<close>

definition offer_message ::
  "offer_args \<Rightarrow> dhcp_packet \<Rightarrow> (byte \<times> byte list) list \<Rightarrow> byte list \<Rightarrow> byte list \<Rightarrow> byte list \<Rightarrow> bool" where
  "offer_message a p os fill pad buf \<longleftrightarrow> wf_offer a \<and> wf_packet p \<and> wf_options os \<and>
     o_Packet a = packet_bytes p @ pad \<and>
     pkt_options p = DHCP_OPTIONS_COOKIE @ encode_options os @ DHO_END # fill \<and> fill \<noteq> [] \<and>
     take sizeof_OFFER_ARGS buf = offer_bytes a \<and> sizeof_OFFER_ARGS \<le> length buf"

lemma drop_offer_bytes: "drop 28 (offer_bytes a) = o_Packet a"
  by (simp add: offer_bytes_def dword_bytes_def)

lemma drop_packet_bytes:
  assumes "wf_packet p"
  shows "drop OFF_options (packet_bytes p) = pkt_options p"
  using assms by (simp add: packet_bytes_def wf_packet_def dword_bytes_def word16_bytes_def layout)

lemma offer_message_cast:
  assumes "offer_message a p os fill pad buf"
  shows "cast_offer buf = a" "cast_packet (o_Packet a) = p"
    "\<exists>rest. offer_option_area buf = encode_options os @ DHO_END # hd fill # rest"
    "length (encode_options os) < DHCP_MAX_OPTION_LEN - 4"
proof -
  have buf: "buf = offer_bytes a @ drop sizeof_OFFER_ARGS buf"
    using assms append_take_drop_id [of sizeof_OFFER_ARGS buf] by (simp add: offer_message_def)
  show "cast_offer buf = a"
    by (subst buf) (use assms in \<open>simp add: offer_message_def offer_codec.dec_enc\<close>)
  show "cast_packet (o_Packet a) = p"
    using assms by (simp add: offer_message_def packet_codec.dec_enc)
  have opts: "length (pkt_options p) = DHCP_MAX_OPTION_LEN" "length (packet_bytes p) = sizeof_DHCP_PACKET"
    using assms packet_codec.length_enc by (auto simp: offer_message_def wf_packet_def)
  then show "length (encode_options os) < DHCP_MAX_OPTION_LEN - 4"
    using assms by (cases fill) (auto simp: offer_message_def layout DHCP_OPTIONS_COOKIE_def)
  have "offer_option_area buf = drop 4 (drop OFF_options (drop 28 (offer_bytes a @ drop sizeof_OFFER_ARGS buf)))"
    unfolding offer_option_area_def by (subst (1) buf) (simp only: drop_drop add.commute add.left_commute)
  also have "\<dots> = drop 4 (pkt_options p @ pad @ drop sizeof_OFFER_ARGS buf)"
    using assms opts(2) drop_packet_bytes [of p] offer_codec.length_enc [of a]
    by (simp add: offer_message_def drop_offer_bytes layout)
  also have "\<dots> = encode_options os @ DHO_END # fill @ pad @ drop sizeof_OFFER_ARGS buf"
    using assms by (simp add: offer_message_def DHCP_OPTIONS_COOKIE_def)
  finally show "\<exists>rest. offer_option_area buf = encode_options os @ DHO_END # hd fill # rest"
    using assms by (cases fill) (auto simp: offer_message_def)
qed

text \<open>The host-name text, without a trailing NUL.\<close>

definition host_text :: "byte list \<Rightarrow> byte list" where
  "host_text name = (if last name = 0 then butlast name else name)"

lemma slice_last:
  assumes "slice p (Suc n) data = name" "length name = Suc n"
  shows "p + Suc n \<le> length data" "rd data (int p + int (Suc n) - 1) = Inr (last name)"
    "slice p n data = butlast name"
proof -
  have "length (slice p (Suc n) data) = Suc n" using assms by simp
  then show le: "p + Suc n \<le> length data" by (simp add: slice_def min_def split: if_splits)
  have "last name = name ! n" using assms(2) by (subst last_conv_nth) auto
  also have "\<dots> = data ! (p + n)" unfolding assms(1) [symmetric] using le by (simp add: slice_def)
  finally have "rd data (int (p + n)) = Inr (last name)" using le by (subst rd_in) simp_all
  moreover have "int p + int (Suc n) - 1 = int (p + n)" by simp
  ultimately show "rd data (int p + int (Suc n) - 1) = Inr (last name)" by (simp only:)
  show "slice p n data = butlast name"
    unfolding assms(1) [symmetric] using le by (simp add: slice_def butlast_take)
qed

lemma host_name_hex_ok:
  assumes "slice p (length name) data = name" "name \<noteq> []" "length name \<le> 255"
  shows "host_name_hex Q data p (of_nat (length name)) = Inr (mysql_hex_string Q (host_text name))"
proof -
  obtain n where n: "length name = Suc n" using assms(2) by (cases name) auto
  note last = slice_last [OF assms(1) [unfolded n] n]
  have "unat (of_nat (length name) :: byte) = Suc n" using assms(3) n unat_of_nat_byte by metis
  then show ?thesis
    using assms(1,3) last n
    by (simp add: host_name_hex_def host_text_def size_dec_def Let_def del: of_nat_Suc)
qed

lemma host_name_hex_empty:
  assumes "0 < p" "p \<le> length data" "data ! (p - 1) = 0"
  shows "host_name_hex Q data p 0 = Inl Buffer_Overflow"
proof -
  have "rd data (int (p - 1)) = Inr 0" using assms by (subst rd_in) simp_all
  moreover have "int (p - 1) = int p - 1" using assms(1) by simp
  ultimately show ?thesis by (simp add: host_name_hex_def size_dec_def)
qed

text \<open>Requests whose report stays inside the tables: what every Ethernet client sends.\<close>

definition request_ok :: "dhcp_packet \<Rightarrow> (byte \<times> byte list) list \<Rightarrow> bool" where
  "request_ok p os \<longleftrightarrow> unat (htype p) < 10 \<and> 0 < unat (hlen p) \<and> unat (hlen p) \<le> 16 \<and>
     (case find (\<lambda>(c, _). c = DHO_DHCP_MESSAGE_TYPE) os of
        None \<Rightarrow> True | Some (_, d) \<Rightarrow> d \<noteq> [] \<and> 0 \<le> sint (hd d) \<and> sint (hd d) < 15)"

lemma wf_options_find:
  "wf_options os \<Longrightarrow> find (\<lambda>(c, _). c = opt) os = Some (c, d) \<Longrightarrow> length d \<le> 255"
  by (induction os) (auto simp: wf_options_def split: if_splits)

lemma find_in_area:
  assumes "offer_message a p os fill pad buf" "opt \<noteq> DHO_END"
  shows "case find (\<lambda>(c, _). c = opt) os of
      None \<Rightarrow> dhcp_find_option (offer_option_area buf) (DHCP_MAX_OPTION_LEN - 4) opt = Inr None
    | Some (_, d) \<Rightarrow> \<exists>q. dhcp_find_option (offer_option_area buf) (DHCP_MAX_OPTION_LEN - 4) opt =
          Inr (Some (q, of_nat (length d))) \<and> slice q (length d) (offer_option_area buf) = d"
proof -
  obtain rest where area: "offer_option_area buf = encode_options os @ DHO_END # hd fill # rest"
    using offer_message_cast(3) [OF assms(1)] by blast
  have "wf_options os" using assms(1) by (simp add: offer_message_def)
  then show ?thesis
    unfolding area using assms(2) offer_message_cast(4) [OF assms(1)]
    by (intro dhcp_find_option_encoded) (simp_all add: layout)
qed

lemma slice_hd: "slice q (length d) data = d \<Longrightarrow> d \<noteq> [] \<Longrightarrow> rd data (int q) = Inr (hd d)"
proof -
  assume sl: "slice q (length d) data = d" and "d \<noteq> []"
  then have "q < length data" by (cases "q < length data") (simp_all add: slice_def)
  moreover have "hd (slice q (length d) data) = data ! q"
    using \<open>d \<noteq> []\<close> \<open>q < length data\<close> by (simp add: slice_def hd_drop_conv_nth)
  ultimately show ?thesis using sl by simp
qed

lemma message_type_ok:
  assumes "offer_message a p os fill pad buf" "request_ok p os"
  obtains pmt t where
    "dhcp_find_option (offer_option_area buf) (DHCP_MAX_OPTION_LEN - 4) DHO_DHCP_MESSAGE_TYPE = Inr pmt"
    "(case pmt of None \<Rightarrow> Inr 0 | Some (q, _) \<Rightarrow> rd (offer_option_area buf) (int q)) = Inr t"
    "0 \<le> sint t" "sint t < 15"
proof -
  have ne: "DHO_DHCP_MESSAGE_TYPE \<noteq> DHO_END" by (simp add: DHO_DHCP_MESSAGE_TYPE_def DHO_END_def)
  note found = find_in_area [OF assms(1) ne]
  show ?thesis
  proof (cases "find (\<lambda>(c, _). c = DHO_DHCP_MESSAGE_TYPE) os")
    case None
    with found show ?thesis by (intro that [of None 0]) simp_all
  next
    case (Some cd)
    obtain c d where cd: "cd = (c, d)" by force
    from found Some cd obtain q where q:
      "dhcp_find_option (offer_option_area buf) (DHCP_MAX_OPTION_LEN - 4) DHO_DHCP_MESSAGE_TYPE =
        Inr (Some (q, of_nat (length d)))" "slice q (length d) (offer_option_area buf) = d" by auto
    have "d \<noteq> []" "0 \<le> sint (hd d)" "sint (hd d) < 15" using assms(2) Some cd by (auto simp: request_ok_def)
    with q slice_hd [of q d "offer_option_area buf"] show ?thesis
      by (intro that [of "Some (q, of_nat (length d))" "hd d"]) simp_all
  qed
qed

lemma report_then:
  assumes "offer_message a p os fill pad buf" "request_ok p os" "wf_time_bufs tb"
  shows "\<exists>tb'. wf_time_bufs tb' \<and> handle_offer Q T conn hb buf tb d =
    res_bind (offer_insert Q conn hb (offer_option_area buf) a p d) (\<lambda>d1. Inr (tb', d1))"
proof -
  obtain pmt t where t: "dhcp_find_option (offer_option_area buf) (DHCP_MAX_OPTION_LEN - 4) DHO_DHCP_MESSAGE_TYPE = Inr pmt"
    "(case pmt of None \<Rightarrow> Inr 0 | Some (q, _) \<Rightarrow> rd (offer_option_area buf) (int q)) = Inr t" "0 \<le> sint t" "sint t < 15"
    using message_type_ok [OF assms(1,2)] by blast
  have "length (chaddr p) = 16" using assms(1) by (simp add: offer_message_def wf_packet_def)
  then obtain tb' where "offer_report T tb p t = Inr tb'" "wf_time_bufs tb'"
    using offer_report_ok [OF assms(3) t(3,4)] assms(2) by (auto simp: request_ok_def)
  then show ?thesis
    using assms(1) t offer_message_cast(1,2) [OF assms(1)]
    by (intro exI [of _ tb']) (simp add: handle_offer_def offer_message_def Let_def)
qed

section \<open>Properties\<close>

text \<open>An offer is logged with the right values: for a message whose packet has a well-formed
  option area with a host name of at least one byte, and a hardware address of 1 to 16 bytes of a
  known type, \<open>handle_offer\<close> runs exactly one statement, the insertion of the colon-separated
  hardware address, the offered address in hex, the lease time and the hex text of the host name
  without its trailing NUL; it touches no memory outside its buffers, whatever they held before.\<close>

lemma handle_offer_logs:
  assumes "offer_message a p os fill pad buf" "request_ok p os" "wf_time_bufs tb" "length hb = hwaddr_buf_size"
    and "find (\<lambda>(c, _). c = DHO_HOST_NAME) os = Some (c, name)" "name \<noteq> []"
    and "\<And>bs. length (mysql_hex_string Q bs) = 2 * length bs"
  shows "\<exists>tb'. wf_time_bufs tb' \<and> handle_offer Q T conn hb buf tb d = Inr (tb', run_query Q conn
    (offer_query (hw_string (take (unat (hlen p)) (chaddr p))) (o_AltAddress a) (o_LeaseTime a)
      (mysql_hex_string Q (host_text name))) d)"
proof -
  have ne: "DHO_HOST_NAME \<noteq> DHO_END" by (simp add: DHO_HOST_NAME_def DHO_END_def)
  have "length name \<le> 255" using assms(1,5) wf_options_find [of os] by (simp add: offer_message_def)
  obtain q where q: "dhcp_find_option (offer_option_area buf) (DHCP_MAX_OPTION_LEN - 4) DHO_HOST_NAME =
      Inr (Some (q, of_nat (length name)))" "slice q (length name) (offer_option_area buf) = name"
    using find_in_area [OF assms(1) ne] assms(5) by auto
  have hex: "host_name_hex Q (offer_option_area buf) q (of_nat (length name)) = Inr (mysql_hex_string Q (host_text name))"
    by (rule host_name_hex_ok) fact+
  have ch: "length (chaddr p) = 16" "0 < unat (hlen p)" "unat (hlen p) \<le> 16"
    using assms(1,2) by (simp_all add: offer_message_def wf_packet_def request_ok_def)
  then have hw: "hw_text hb (chaddr p) (uint (hlen p)) = Inr (hw_string (take (unat (hlen p)) (chaddr p)))"
    using hw_text_ok [of "unat (hlen p)" "chaddr p" hb] assms(4) by (simp add: layout)
  have "length (host_text name) \<le> 255" using \<open>length name \<le> 255\<close> by (auto simp: host_text_def)
  moreover have "length (hw_string (take (unat (hlen p)) (chaddr p))) \<le> 48"
    using length_hw_string_le [of "take (unat (hlen p)) (chaddr p)"] ch by simp
  ultimately have "length (offer_query (hw_string (take (unat (hlen p)) (chaddr p))) (o_AltAddress a) (o_LeaseTime a)
      (mysql_hex_string Q (host_text name))) < 65536"
    using assms(7) length_fmt_d [of "o_LeaseTime a"] by (simp add: offer_query_def quoted_def)
  with report_then [OF assms(1-3), of Q T conn hb d] q(1) hex hw show ?thesis
    by (auto simp: sprintf_query_def offer_insert_def)
qed

definition demo_options :: "(byte \<times> byte list) list" where
  "demo_options = [(DHO_DHCP_MESSAGE_TYPE, [3]), (DHO_HOST_NAME, [0x70, 0x63, 0])]"

definition demo_request :: dhcp_packet where
  "demo_request = \<lparr>pkt_op = 1, htype = 1, hlen = 6, hops = 0, xid = 7, secs = 0, pkt_flags = 0, ciaddr = 0, yiaddr = 0,
     siaddr = 0, giaddr = 0, chaddr = [0, 0x1B, 0xFE, 1, 2, 3] @ replicate 10 0, sname = replicate DHCP_SNAME_LEN 0,
     pkt_file = replicate DHCP_FILE_LEN 0,
     pkt_options = DHCP_OPTIONS_COOKIE @ encode_options demo_options @ DHO_END # replicate 1223 0\<rparr>"

definition demo_offer :: offer_args where
  "demo_offer = \<lparr>o_HookType = CALLOUT_ADDRESS_OFFER, o_PacketSize = 300, o_ControlCode = 0, o_IpAddress = 0,
     o_AltAddress = 0xC0A80001, o_AddrType = 0, o_LeaseTime = 3600, o_Packet = packet_bytes demo_request @ replicate 28 0\<rparr>"

definition demo_wtime :: "(wchar, int) time_api" where
  "demo_wtime = \<lparr>time64 = 5, localtime64_s = id, strftime = (\<lambda>_ _ f _. f)\<rparr>"

definition demo_wbufs :: "wchar time_bufs" where
  "demo_wbufs = \<lparr>retBuf = replicate 16 [], bufIdx = 0\<rparr>"

definition monitor_db :: sim_db where
  "monitor_db = \<lparr>db_log = [], db_result = None\<rparr>"

definition demo_hb :: "char list" where
  "demo_hb = replicate hwaddr_buf_size (CHR ''x'')"

lemma wf_demo_request: "wf_packet demo_request" "wf_options demo_options"
  by (simp_all add: wf_packet_def demo_request_def demo_options_def wf_options_def DHO_END_def
      DHO_HOST_NAME_def DHO_DHCP_MESSAGE_TYPE_def DHCP_OPTIONS_COOKIE_def layout)

lemma demo_offer_message:
  "offer_message demo_offer demo_request demo_options (replicate 1223 0) (replicate 28 0) (offer_bytes demo_offer)"
proof -
  have "wf_offer demo_offer"
    using packet_codec.length_enc [OF wf_demo_request(1)] by (simp add: wf_offer_def demo_offer_def layout)
  moreover from this have "length (offer_bytes demo_offer) = sizeof_OFFER_ARGS" by (rule offer_codec.length_enc)
  ultimately show ?thesis
    using wf_demo_request by (simp add: offer_message_def demo_offer_def demo_request_def)
qed

lemma demo_request_ok: "request_ok demo_request demo_options"
  by (simp add: request_ok_def demo_request_def demo_options_def DHO_HOST_NAME_def DHO_DHCP_MESSAGE_TYPE_def)

lemma sim_hex_length: "length (mysql_hex_string sim_mysql bs) = 2 * length bs"
  by (induction bs) (simp_all add: sim_mysql_def sim_hex_byte_def)

text \<open>C33. A client can stop the handler: a request without a host-name option is used through the
  null pointer the search returned, and a host-name option of length zero makes the length wrap
  around and the hex text overflow its buffer.\<close>

theorem handle_offer_host_name_faults:
  assumes "offer_message a p os fill pad buf" "request_ok p os" "wf_time_bufs tb"
  shows "(find (\<lambda>(c, _). c = DHO_HOST_NAME) os = None \<longrightarrow>
      handle_offer Q T conn hb buf tb d = Inl Null_Dereference) \<and>
    (find (\<lambda>(c, _). c = DHO_HOST_NAME) os = Some (c, []) \<longrightarrow>
      handle_offer Q T conn hb buf tb d = Inl Buffer_Overflow)"
proof -
  have ne: "DHO_HOST_NAME \<noteq> DHO_END" by (simp add: DHO_HOST_NAME_def DHO_END_def)
  obtain tb' where h: "handle_offer Q T conn hb buf tb d =
    res_bind (offer_insert Q conn hb (offer_option_area buf) a p d) (\<lambda>d1. Inr (tb', d1))"
    using report_then [OF assms, of Q T conn hb d] by blast
  have "host_name_hex Q (offer_option_area buf) q 0 = Inl Buffer_Overflow"
    if "dhcp_find_option (offer_option_area buf) (DHCP_MAX_OPTION_LEN - 4) DHO_HOST_NAME = Inr (Some (q, 0))" for q
    using find_option_loop_found [of "offer_option_area buf" "DHCP_MAX_OPTION_LEN - 4" DHO_HOST_NAME 0 0 q 0] that
    by (intro host_name_hex_empty) (auto simp: dhcp_find_option_def)
  with h find_in_area [OF assms(1) ne] show ?thesis by (auto simp: offer_insert_def)
qed

definition demo_anonymous :: "byte list \<Rightarrow> dhcp_packet" where
  "demo_anonymous fill = demo_request\<lparr>pkt_options := DHCP_OPTIONS_COOKIE @ encode_options [] @ DHO_END # fill\<rparr>"

theorem handle_offer_host_name_faults_witness:
  "handle_offer sim_mysql demo_wtime 1 demo_hb
     (offer_bytes (demo_offer\<lparr>o_Packet := packet_bytes (demo_anonymous (replicate 1231 0)) @ replicate 28 0\<rparr>))
     demo_wbufs monitor_db = Inl Null_Dereference"
proof -
  let ?p = "demo_anonymous (replicate 1231 0)"
  let ?a = "demo_offer\<lparr>o_Packet := packet_bytes ?p @ replicate 28 0\<rparr>"
  have p: "wf_packet ?p" by (simp add: wf_packet_def demo_anonymous_def demo_request_def DHCP_OPTIONS_COOKIE_def layout)
  then have "wf_offer ?a" using packet_codec.length_enc [OF p] by (simp add: wf_offer_def layout)
  moreover from this have "length (offer_bytes ?a) = sizeof_OFFER_ARGS" by (rule offer_codec.length_enc)
  ultimately have m: "offer_message ?a ?p [] (replicate 1231 0) (replicate 28 0) (offer_bytes ?a)"
    using p by (simp add: offer_message_def wf_options_def demo_anonymous_def)
  have "request_ok ?p []" by (simp add: request_ok_def demo_anonymous_def demo_request_def)
  from handle_offer_host_name_faults [OF m this, of demo_wbufs] show ?thesis
    by (simp add: wf_time_bufs_def demo_wbufs_def)
qed

text \<open>A deleted lease is logged exactly when the client released it: any other control code
  leaves the database alone, a release inserts the hardware address of the packet and the address
  given back, marked as requested.\<close>

lemma handle_lease_logs:
  assumes "wf_del a" "d_HookType a = CALLOUT_ADDRESS_DELETE" "wf_packet p" "d_Packet a = packet_bytes p @ pad"
    and "0 < unat (hlen p)" "unat (hlen p) \<le> 16" "length hb = hwaddr_buf_size"
  shows "handle_message Q T conn hb (del_bytes a @ rest) tb d = Inr (tb,
    if d_ControlCode a = DHCP_PROB_RELEASE
    then run_query Q conn (lease_query (hw_string (take (unat (hlen p)) (chaddr p))) (d_AltAddress a) ''requested'') d
    else d)"
proof -
  have cast: "cast_del (del_bytes a @ rest) = a" "cast_packet (d_Packet a) = p"
    using assms(1,3,4) by (simp_all add: del_codec.dec_enc packet_codec.dec_enc)
  have len: "length (del_bytes a) = sizeof_DEL_ARGS" by (rule del_codec.length_enc [OF assms(1)])
  have ch: "length (chaddr p) = 16" using assms(3) by (simp add: wf_packet_def)
  then have "hw_text hb (chaddr p) (uint (hlen p)) = Inr (hw_string (take (unat (hlen p)) (chaddr p)))"
    using hw_text_ok [of "unat (hlen p)" "chaddr p" hb] assms(5-7) by (simp add: layout)
  moreover have "length (hw_string (take (unat (hlen p)) (chaddr p))) \<le> 48"
    using length_hw_string_le [of "take (unat (hlen p)) (chaddr p)"] ch assms(6) by simp
  moreover have "bytes_dword (slice 0 4 (del_bytes a @ rest)) = CALLOUT_ADDRESS_DELETE"
    using bytes_dword_head(2) [of "del_bytes a @ rest"] cast(1) assms(2) by simp
  ultimately show ?thesis
    using cast len
    by (simp add: handle_message_def handle_lease_def callout_codes sprintf_query_def lease_query_def quoted_def layout)
qed

definition demo_del :: del_args where
  "demo_del = \<lparr>d_HookType = CALLOUT_ADDRESS_DELETE, d_PacketSize = 300, d_Packet = packet_bytes demo_request @ replicate 28 0,
     d_ControlCode = DHCP_PROB_RELEASE, d_IpAddress = 0, d_AltAddress = 0xC0A80001\<rparr>"

text \<open>The deletion of a client is logged with its hardware address and address, as a timeout.\<close>

lemma handle_delete_run:
  assumes "wf_client a" "c_HookType a = CALLOUT_CLIENT_DELETE" "length hb = hwaddr_buf_size"
    and "c_HwAddressLength a = of_nat n" "0 < n" "n \<le> 16"
  shows "handle_message Q T conn hb (client_bytes a @ rest) tb d = Inr (tb,
    run_query Q conn (lease_query (hw_string (take n (c_HwAddress a))) (c_IpAddress a) ''timeout'') d)"
proof -
  have cast: "cast_client (client_bytes a @ rest) = a" using assms(1) by (simp add: client_codec.dec_enc)
  have len: "length (client_bytes a) = sizeof_CLIENT_ARGS" by (rule client_codec.length_enc [OF assms(1)])
  have n: "sint (c_HwAddressLength a) = int n"
    using assms(4,6) by (simp add: sint_uint uint_nat unat_of_nat signed_take_bit_int_eq_self)
  have ch: "length (c_HwAddress a) = 16" using assms(1) by (simp add: wf_client_def)
  then have "hw_text hb (c_HwAddress a) (int n) = Inr (hw_string (take n (c_HwAddress a)))"
    using hw_text_ok [of n "c_HwAddress a" hb] assms(3,5,6) by (simp add: layout)
  moreover have "length (hw_string (take n (c_HwAddress a))) \<le> 48"
    using length_hw_string_le [of "take n (c_HwAddress a)"] ch assms(6) by simp
  moreover have "bytes_dword (slice 0 4 (client_bytes a @ rest)) = CALLOUT_CLIENT_DELETE"
    using bytes_dword_head(3) [of "client_bytes a @ rest"] cast assms(2) by simp
  ultimately show ?thesis
    using cast len n
    by (simp add: handle_message_def handle_delete_def callout_codes sprintf_query_def lease_query_def quoted_def layout)
qed

definition demo_client :: client_args where
  "demo_client = \<lparr>c_HookType = CALLOUT_CLIENT_DELETE, c_IpAddress = 0xC0A80001,
     c_HwAddress = [0, 0x1B, 0xFE, 1, 2, 3] @ replicate 10 0, c_HwAddressLength = 6, c_ClientType = 0\<rparr>"

text \<open>
  The shape of a statement the handlers may run, and the characters that could end a literal or
  a statement.
\<close>

definition log_statement :: "string \<Rightarrow> bool" where
  "log_statement q \<longleftrightarrow>
     (\<exists>hw ip lease hn. q = offer_query hw ip lease hn \<and> set hw \<subseteq> insert (CHR '':'') (set hexdigits) \<and>
        set hn \<subseteq> set HEXDIGITS) \<or>
     (\<exists>hw ip kind. q = lease_query hw ip kind \<and> set hw \<subseteq> insert (CHR '':'') (set hexdigits) \<and>
        kind \<in> {''requested'', ''timeout''})"

definition sql_special :: "string \<Rightarrow> string" where
  "sql_special q = filter (\<lambda>c. c \<in> {CHR 0x27, CHR 0x22, CHR 0x5C, CHR '';'', CHR 0x00}) q"

lemma sql_special_append: "sql_special (s @ t) = sql_special s @ sql_special t"
  by (simp add: sql_special_def)

lemma sql_special_none: "set s \<subseteq> S \<Longrightarrow> {CHR 0x27, CHR 0x22, CHR 0x5C, CHR '';'', CHR 0x00} \<inter> S = {} \<Longrightarrow> sql_special s = []"
  by (auto simp: sql_special_def filter_empty_conv)

lemma sql_special_parts:
  "set hw \<subseteq> insert (CHR '':'') (set hexdigits) \<Longrightarrow> sql_special hw = []"
  "set hn \<subseteq> set HEXDIGITS \<Longrightarrow> sql_special hn = []"
  "sql_special (fmt_08X ip) = []" "sql_special (fmt_d lease) = []"
  by (erule sql_special_none, simp add: hexdigits_def)
     (erule sql_special_none, simp add: HEXDIGITS_def,
      rule sql_special_none [OF set_fmt_08X], simp add: HEXDIGITS_def,
      rule sql_special_none [OF set_fmt_d], simp add: hexdigits_def)

lemma log_statement_special:
  assumes "log_statement q"
  shows "sql_special q = [CHR 0x27, CHR 0x27] \<or> sql_special q = [CHR 0x27, CHR 0x27, CHR 0x27, CHR 0x27]"
proof -
  have "sql_special (offer_query hw ip lease hn) = [CHR 0x27, CHR 0x27]"
    if "set hw \<subseteq> insert (CHR '':'') (set hexdigits)" "set hn \<subseteq> set HEXDIGITS" for hw ip lease hn
    using sql_special_parts that unfolding offer_query_def quoted_def
    by (simp add: sql_special_append) (simp add: sql_special_def)
  moreover have "sql_special (lease_query hw ip kind) = [CHR 0x27, CHR 0x27, CHR 0x27, CHR 0x27]"
    if "set hw \<subseteq> insert (CHR '':'') (set hexdigits)" "kind \<in> {''requested'', ''timeout''}" for hw ip kind
    using sql_special_parts that unfolding lease_query_def quoted_def
    by (auto simp: sql_special_append) (auto simp: sql_special_def)
  ultimately show ?thesis using assms unfolding log_statement_def by blast
qed

lemma offer_insert_statement:
  assumes "\<And>bs. set (mysql_hex_string Q bs) \<subseteq> set HEXDIGITS" "length hb = hwaddr_buf_size"
    and "offer_insert Q conn hb data a pkt d = Inr d'"
  shows "\<exists>q. log_statement q \<and> d' = run_query Q conn q d"
proof -
  obtain p l hn hw where parts: "host_name_hex Q data p l = Inr hn" "hw_text hb (chaddr pkt) (uint (hlen pkt)) = Inr hw"
    "d' = run_query Q conn (offer_query hw (o_AltAddress a) (o_LeaseTime a) hn) d"
    using assms(3) by (auto simp: offer_insert_def res_simps split: option.splits)
  have "set hn \<subseteq> set HEXDIGITS"
    using parts(1) assms(1) by (auto simp: host_name_hex_def res_bind_eq_Inr Let_def split: if_splits)
  moreover have "set hw \<subseteq> insert (CHR '':'') (set hexdigits)"
    using hw_text_safe [OF parts(2) assms(2)] set_hw_string by blast
  ultimately show ?thesis using parts(3) unfolding log_statement_def by blast
qed

lemma lease_statement:
  assumes "length hb = hwaddr_buf_size" "kind \<in> {''requested'', ''timeout''}"
    and "res_bind (hw_text hb addr len) (\<lambda>hw. res_bind (sprintf_query (lease_query hw ip kind)) (\<lambda>q.
        Inr (run_query Q conn q d))) = Inr d'"
  shows "\<exists>q. log_statement q \<and> d' = run_query Q conn q d"
proof -
  obtain hw where hw: "hw_text hb addr len = Inr hw" "d' = run_query Q conn (lease_query hw ip kind) d"
    using assms(3) by (auto simp: res_simps)
  then have "set hw \<subseteq> insert (CHR '':'') (set hexdigits)"
    using hw_text_safe [OF hw(1) assms(1)] set_hw_string by blast
  with hw(2) assms(2) show ?thesis unfolding log_statement_def by blast
qed

lemma handle_offer_statement:
  assumes "\<And>bs. set (mysql_hex_string Q bs) \<subseteq> set HEXDIGITS" "length hb = hwaddr_buf_size"
    and "handle_offer Q T conn hb buf tb d = Inr (tb', d')"
  shows "\<exists>q. log_statement q \<and> d' = run_query Q conn q d"
  using assms(3) offer_insert_statement [OF assms(1,2), of conn "offer_option_area buf"]
  by (auto simp: handle_offer_def Let_def res_bind_eq_Inr split: if_splits)

lemma handle_lease_statement:
  assumes "length hb = hwaddr_buf_size" "handle_lease Q conn hb buf d = Inr d'"
  shows "d' = d \<or> (\<exists>q. log_statement q \<and> d' = run_query Q conn q d)"
proof (cases "d_ControlCode (cast_del buf) = DHCP_PROB_RELEASE")
  case True
  with assms(2) show ?thesis
    by (intro disjI2 lease_statement [OF assms(1), of "''requested''"]) (auto simp: handle_lease_def Let_def split: if_splits)
next
  case False
  with assms(2) show ?thesis by (auto simp: handle_lease_def Let_def split: if_splits)
qed

lemma handle_delete_statement:
  assumes "length hb = hwaddr_buf_size" "handle_delete Q conn hb buf d = Inr d'"
  shows "\<exists>q. log_statement q \<and> d' = run_query Q conn q d"
  using assms(2)
  by (intro lease_statement [OF assms(1), of "''timeout''"]) (auto simp: handle_delete_def Let_def split: if_splits)

text \<open>C4. No message can inject SQL: whatever bytes the shared memory holds, a message that is
  handled without a memory fault runs no statement or exactly one, of one of the two fixed forms
  with only hex digits and colons in its fields, and the only characters of it that could end a
  literal or the statement are the quotes of the form itself. The hypothesis is the documented
  output alphabet of \<open>mysql_hex_string\<close>.\<close>

theorem handle_message_no_injection:
  assumes "\<And>bs. set (mysql_hex_string Q bs) \<subseteq> set HEXDIGITS" "length hb = hwaddr_buf_size"
    and "handle_message Q T conn hb buf tb d = Inr (tb', d')"
  shows "d' = d \<or> (\<exists>q. d' = run_query Q conn q d \<and> log_statement q \<and>
    (sql_special q = [CHR 0x27, CHR 0x27] \<or> sql_special q = [CHR 0x27, CHR 0x27, CHR 0x27, CHR 0x27]))"
proof -
  have "d' = d \<or> (\<exists>q. log_statement q \<and> d' = run_query Q conn q d)"
    using assms(3) unfolding handle_message_def Let_def
    by (auto simp: res_bind_eq_Inr split: if_splits dest: handle_offer_statement [OF assms(1,2)]
        handle_lease_statement [OF assms(2)] handle_delete_statement [OF assms(2)])
  then show ?thesis using log_statement_special by blast
qed

lemma sim_hex_digits: "set (mysql_hex_string sim_mysql bs) \<subseteq> set HEXDIGITS"
proof -
  have "set (sim_hex_byte b) \<subseteq> set HEXDIGITS" for b
    using unat_byte [of b] set_HEXDIGITS [of "unat b div 16"] set_HEXDIGITS [of "unat b mod 16"]
    by (simp add: sim_hex_byte_def HEXDIGITS_def)
  then show ?thesis by (auto simp: sim_mysql_def)
qed

theorem handle_message_no_injection_witness:
  "\<exists>d'. handle_message sim_mysql demo_wtime 1 demo_hb (client_bytes demo_client @ []) demo_wbufs monitor_db = Inr (demo_wbufs, d') \<and>
   (d' = monitor_db \<or> (\<exists>q. d' = run_query sim_mysql 1 q monitor_db \<and> log_statement q \<and>
    (sql_special q = [CHR 0x27, CHR 0x27] \<or> sql_special q = [CHR 0x27, CHR 0x27, CHR 0x27, CHR 0x27])))"
proof -
  obtain d' where run: "handle_message sim_mysql demo_wtime 1 demo_hb (client_bytes demo_client @ []) demo_wbufs monitor_db =
      Inr (demo_wbufs, d')"
    using handle_delete_run [of demo_client demo_hb 6 sim_mysql demo_wtime 1 "[]" demo_wbufs monitor_db]
    by (simp add: wf_client_def demo_client_def demo_hb_def)
  from handle_message_no_injection [OF sim_hex_digits _ run] run show ?thesis by (auto simp: demo_hb_def)
qed

end
