(* ===== verification/Config.thy ===== *)
theory Config
  imports Prelude
begin

text \<open>
  \<open>include/config.h\<close> and \<open>libdhcp/config.cpp\<close>: reading \<open>config.ini\<close> next to the executable into
  variables named by a binding table. The ANSI and the wide loader are the same code over two
  character types; the model is one definition over the character type, instantiated twice.
  The profile functions and \<open>GetModuleFileName\<close> are services of the system and parameters.
\<close>

section \<open>Bindings\<close>

definition CONFIG_TYPE_INT :: int where "CONFIG_TYPE_INT = 1"
definition CONFIG_TYPE_STRING :: int where "CONFIG_TYPE_STRING = 0"

text \<open>The union \<open>def\<close>: an \<open>int\<close> or a string pointer.\<close>

datatype 'c cfg_default = As_Int int | As_String "'c list option"

text \<open>A variable of the program, by its address; its value once loaded.\<close>

datatype 'c cfg_value = V_Int int | V_String "'c list option"

record 'c config_binding =
  cb_section :: "'c list option"
  cb_key :: "'c list"
  cb_val :: ptr
  cb_def :: "'c cfg_default"
  cb_type :: int

record 'c profile_api =
  GetPrivateProfileString :: "'c list \<Rightarrow> 'c list \<Rightarrow> 'c list option \<Rightarrow> 'c list \<Rightarrow> 'c list"
  GetPrivateProfileInt :: "'c list \<Rightarrow> 'c list \<Rightarrow> int \<Rightarrow> 'c list \<Rightarrow> int"

text \<open>Reading the union through the member the type selects; a zero is the null pointer.\<close>

definition def_asString :: "'c cfg_default \<Rightarrow> 'c list option result" where
  "def_asString u = (case u of As_String s \<Rightarrow> Inr s
     | As_Int i \<Rightarrow> (if i = 0 then Inr None else Inl Read_Out_Of_Bounds))"

definition def_asInt :: "'c cfg_default \<Rightarrow> int result" where
  "def_asInt u = (case u of As_Int i \<Rightarrow> Inr i
     | As_String None \<Rightarrow> Inr 0 | As_String (Some _) \<Rightarrow> Inl Read_Out_Of_Bounds)"

section \<open>The path of the file\<close>

definition MAX_PATH :: nat where "MAX_PATH = 260"

text \<open>The loop from the last character down to the first: cut at the last backslash.\<close>

fun strip_loop :: "'c \<Rightarrow> 'c list \<Rightarrow> nat \<Rightarrow> 'c list" where
  "strip_loop bs path 0 = path"
| "strip_loop bs path (Suc i) = (if path ! i = bs then take i path else strip_loop bs path i)"

definition config_path :: "'c \<Rightarrow> 'c list \<Rightarrow> 'c list \<Rightarrow> 'c list result" where
  "config_path bs ini module_path =
     (let dir = strip_loop bs module_path (length module_path); full = dir @ bs # ini
      in if MAX_PATH \<le> length full then Inl Buffer_Overflow else Inr full)"

section \<open>Loading\<close>

definition config_value ::
  "'c profile_api \<Rightarrow> 'c list \<Rightarrow> 'c list \<Rightarrow> 'c config_binding \<Rightarrow> 'c cfg_value option result" where
  "config_value P path sec b =
     (if cb_type b = CONFIG_TYPE_STRING then
        res_bind (def_asString (cb_def b)) (\<lambda>def.
          let buffer = GetPrivateProfileString P sec (cb_key b) def path
          in if buffer = [] \<and> def = None then Inr (Some (V_String None)) else Inr (Some (V_String (Some buffer))))
      else if cb_type b = CONFIG_TYPE_INT then
        res_bind (def_asInt (cb_def b)) (\<lambda>def.
          Inr (Some (V_Int (GetPrivateProfileInt P sec (cb_key b) def path))))
      else Inr None)"

text \<open>The loop stops at the first binding with a null section and has no other bound.\<close>

fun config_loop ::
  "'c profile_api \<Rightarrow> 'c list \<Rightarrow> 'c config_binding list \<Rightarrow> (ptr \<rightharpoonup> 'c cfg_value) \<Rightarrow> (ptr \<rightharpoonup> 'c cfg_value) result" where
  "config_loop P path [] vars = Inl Read_Out_Of_Bounds"
| "config_loop P path (b # bs) vars =
     (case cb_section b of
        None \<Rightarrow> Inr vars
      | Some sec \<Rightarrow>
          res_bind (config_value P path sec b) (\<lambda>v.
            config_loop P path bs (case v of None \<Rightarrow> vars | Some x \<Rightarrow> vars(cb_val b \<mapsto> x))))"

definition config_load ::
  "'c \<Rightarrow> 'c list \<Rightarrow> 'c profile_api \<Rightarrow> 'c list \<Rightarrow> 'c config_binding list \<Rightarrow> (ptr \<rightharpoonup> 'c cfg_value) \<Rightarrow>
   (bool \<times> (ptr \<rightharpoonup> 'c cfg_value)) result" where
  "config_load bs ini P module_path binding vars =
     res_bind (config_path bs ini module_path) (\<lambda>path.
     res_bind (config_loop P path binding vars) (\<lambda>vars'. Inr (True, vars')))"

definition config_load_a ::
  "char profile_api \<Rightarrow> string \<Rightarrow> char config_binding list \<Rightarrow> (ptr \<rightharpoonup> char cfg_value) \<Rightarrow>
   (bool \<times> (ptr \<rightharpoonup> char cfg_value)) result" where
  "config_load_a = config_load (CHR 0x5C) ''config.ini''"

definition config_load_w ::
  "wchar profile_api \<Rightarrow> wchar list \<Rightarrow> wchar config_binding list \<Rightarrow> (ptr \<rightharpoonup> wchar cfg_value) \<Rightarrow>
   (bool \<times> (ptr \<rightharpoonup> wchar cfg_value)) result" where
  "config_load_w = config_load 0x5C (map of_char ''config.ini'')"

section \<open>Lemmas\<close>

lemma strip_loop_append:
  "n \<le> length p \<Longrightarrow> \<exists>i<n. p ! i = bs \<Longrightarrow> strip_loop bs (p @ q) n = strip_loop bs p n"
  by (induction n) (auto simp: nth_append less_Suc_eq)

lemma strip_loop_last:
  "bs \<notin> set f \<Longrightarrow> strip_loop bs (d @ bs # f) (Suc (length d + length f)) = d"
proof (induction f rule: rev_induct)
  case (snoc c f)
  let ?p = "d @ bs # f"
  have "?p ! length d = bs" by simp
  then have "\<exists>i<Suc (length d + length f). ?p ! i = bs" by (intro exI [of _ "length d"]) simp
  then have "strip_loop bs (?p @ [c]) (Suc (length d + length f)) = d"
    using strip_loop_append [of "Suc (length d + length f)" ?p bs "[c]"] snoc by simp
  moreover have "(?p @ [c]) ! Suc (length d + length f) \<noteq> bs"
    using snoc.prems nth_append_length [of ?p c "[]"] by auto
  ultimately show ?case
    using strip_loop.simps(2) [of bs "?p @ [c]" "Suc (length d + length f)"] by (simp del: strip_loop.simps)
qed simp

lemma strip_loop_none: "bs \<notin> set p \<Longrightarrow> n \<le> length p \<Longrightarrow> strip_loop bs p n = p"
  by (induction n) auto

text \<open>A terminated table whose bindings all have a section and a value.\<close>

definition wf_bindings :: "'c config_binding list \<Rightarrow> bool" where
  "wf_bindings bs \<longleftrightarrow> distinct (map cb_val bs) \<and> list_all (\<lambda>b. cb_section b \<noteq> None \<and>
     (case cb_def b of As_Int i \<Rightarrow> cb_type b = CONFIG_TYPE_INT \<or> (cb_type b = CONFIG_TYPE_STRING \<and> i = 0)
      | As_String s \<Rightarrow> cb_type b = CONFIG_TYPE_STRING)) bs"

definition binding_value :: "'c profile_api \<Rightarrow> 'c list \<Rightarrow> 'c config_binding \<Rightarrow> 'c cfg_value" where
  "binding_value P path b =
     (let sec = the (cb_section b) in
      if cb_type b = CONFIG_TYPE_INT then
        V_Int (GetPrivateProfileInt P sec (cb_key b) (case cb_def b of As_Int i \<Rightarrow> i | As_String _ \<Rightarrow> 0) path)
      else
        (let def = (case cb_def b of As_String s \<Rightarrow> s | As_Int _ \<Rightarrow> None);
             t = GetPrivateProfileString P sec (cb_key b) def path
         in V_String (if t = [] \<and> def = None then None else Some t)))"

lemma config_loop_binds:
  assumes "wf_bindings bs" "cb_section z = None"
  shows "\<exists>vars'. config_loop P path (bs @ z # rest) vars = Inr vars' \<and>
    (\<forall>b \<in> set bs. vars' (cb_val b) = Some (binding_value P path b)) \<and>
    (\<forall>p. p \<notin> cb_val ` set bs \<longrightarrow> vars' p = vars p)"
  using assms(1)
proof (induction bs arbitrary: vars)
  case Nil
  then show ?case using assms(2) by simp
next
  case (Cons b bs)
  then obtain sec where sec: "cb_section b = Some sec" by (auto simp: wf_bindings_def)
  have v: "config_value P path sec b = Inr (Some (binding_value P path b))"
    using Cons.prems sec
    by (auto simp: config_value_def binding_value_def wf_bindings_def def_asString_def def_asInt_def
        CONFIG_TYPE_INT_def CONFIG_TYPE_STRING_def Let_def split: cfg_default.splits option.splits)
  have "wf_bindings bs" using Cons.prems by (simp add: wf_bindings_def)
  from Cons.IH [OF this, of "vars(cb_val b \<mapsto> binding_value P path b)"]
  obtain vars' where "config_loop P path (bs @ z # rest) (vars(cb_val b \<mapsto> binding_value P path b)) = Inr vars'"
    "\<forall>b \<in> set bs. vars' (cb_val b) = Some (binding_value P path b)"
    "\<forall>p. p \<notin> cb_val ` set bs \<longrightarrow> vars' p = (vars(cb_val b \<mapsto> binding_value P path b)) p" by blast
  moreover have "cb_val b \<notin> cb_val ` set bs" using Cons.prems by (simp add: wf_bindings_def)
  ultimately show ?case using sec v by auto
qed

section \<open>Properties\<close>

text \<open>C39. \<open>config_load_a\<close> reads the file \<open>config.ini\<close> in the directory of the executable and assigns
  every bound variable: a string variable gets the profile string (the null pointer when it is
  empty and has no default), an integer variable the profile integer with its default; variables
  outside the table keep their values and the bindings behind the terminator are not looked at.\<close>

theorem config_load_a_binds:
  assumes "wf_bindings bs" "cb_section z = None"
    and "module_path = dir @ CHR 0x5C # exe" "CHR 0x5C \<notin> set exe" "length dir < 248"
  shows "\<exists>vars'. config_load_a P module_path (bs @ z # rest) vars = Inr (True, vars') \<and>
    (\<forall>b \<in> set bs. vars' (cb_val b) =
       Some (binding_value P (dir @ CHR 0x5C # ''config.ini'') b)) \<and>
    (\<forall>p. p \<notin> cb_val ` set bs \<longrightarrow> vars' p = vars p)"
proof -
  have "config_path (CHR 0x5C) ''config.ini'' module_path = Inr (dir @ CHR 0x5C # ''config.ini'')"
    using strip_loop_last [OF assms(4), of dir] assms(3,5)
    by (simp add: config_path_def MAX_PATH_def)
  moreover obtain vars' where "config_loop P (dir @ CHR 0x5C # ''config.ini'') (bs @ z # rest) vars = Inr vars'"
    "\<forall>b \<in> set bs. vars' (cb_val b) = Some (binding_value P (dir @ CHR 0x5C # ''config.ini'') b)"
    "\<forall>p. p \<notin> cb_val ` set bs \<longrightarrow> vars' p = vars p"
    using config_loop_binds [OF assms(1,2), of P "dir @ CHR 0x5C # ''config.ini''" rest vars] by blast
  ultimately show ?thesis by (auto simp: config_load_a_def config_load_def)
qed

definition demo_binding :: "char config_binding" where
  "demo_binding = \<lparr>cb_section = Some ''db'', cb_key = ''port'', cb_val = 4, cb_def = As_Int 3306, cb_type = 1\<rparr>"

definition demo_profile :: "char profile_api" where
  "demo_profile = \<lparr>GetPrivateProfileString = (\<lambda>_ _ d _. case d of None \<Rightarrow> [] | Some s \<Rightarrow> s),
     GetPrivateProfileInt = (\<lambda>_ _ d _. d)\<rparr>"

theorem config_load_a_binds_witness:
  "\<exists>vars'. config_load_a demo_profile (''C:'' @ CHR 0x5C # ''monitor.exe'')
      ([demo_binding] @ demo_binding\<lparr>cb_section := None\<rparr> # []) Map.empty = Inr (True, vars') \<and>
    (\<forall>b \<in> set [demo_binding]. vars' (cb_val b) =
       Some (binding_value demo_profile (''C:'' @ CHR 0x5C # ''config.ini'') b)) \<and>
    (\<forall>p. p \<notin> cb_val ` set [demo_binding] \<longrightarrow> vars' p = Map.empty p)"
  by (rule config_load_a_binds [where dir = "''C:''" and exe = "''monitor.exe''"])
     (simp_all add: wf_bindings_def demo_binding_def CONFIG_TYPE_INT_def)

end
