(* ===== verification/Monitor.thy ===== *)
theory Monitor
  imports Monitor_Handlers Config
begin

text \<open>
  \<open>Monitor/main.cpp\<close>: the configuration bindings, the start of \<open>_tmain\<close>, one turn of its receiving
  loop, one turn of \<open>handle_thread\<close>, and the two threads together as a step relation. The message
  buffers obtained from \<open>malloc\<close> are a store of their own (\<open>None\<close> before allocation and after
  \<open>free\<close>), the nodes of the queue another.
\<close>

section \<open>Globals and configuration\<close>

record monitor =
  mon_shm :: shm_block
  mon_conn :: ptr
  mon_buffer :: linked_buffer
  mon_nodes :: lb_heap
  mon_msgs :: "ptr \<rightharpoonup> byte list"
  mon_buf :: ptr
  mon_time :: "wchar time_bufs"

text \<open>The addresses of the five configuration variables.\<close>

definition VAR_db_host :: ptr where "VAR_db_host = 1"
definition VAR_db_user :: ptr where "VAR_db_user = 2"
definition VAR_db_pass :: ptr where "VAR_db_pass = 3"
definition VAR_db_name :: ptr where "VAR_db_name = 4"
definition VAR_db_port :: ptr where "VAR_db_port = 5"

lemmas var_defs = VAR_db_host_def VAR_db_user_def VAR_db_pass_def VAR_db_name_def VAR_db_port_def

definition db_binding :: "string \<Rightarrow> ptr \<Rightarrow> char config_binding" where
  "db_binding key var = \<lparr>cb_section = Some ''db'', cb_key = key, cb_val = var, cb_def = As_Int 0, cb_type = 0\<rparr>"

definition bindings :: "char config_binding list" where
  "bindings = [db_binding ''host'' VAR_db_host, db_binding ''user'' VAR_db_user, db_binding ''pass'' VAR_db_pass,
     db_binding ''name'' VAR_db_name,
     (db_binding ''port'' VAR_db_port)\<lparr>cb_def := As_Int 3306, cb_type := CONFIG_TYPE_INT\<rparr>,
     \<lparr>cb_section = None, cb_key = [], cb_val = NULL, cb_def = As_Int 0, cb_type = 0\<rparr>]"

definition var_string :: "(ptr \<rightharpoonup> char cfg_value) \<Rightarrow> ptr \<Rightarrow> string option" where
  "var_string vars p = (case vars p of Some (V_String s) \<Rightarrow> s | _ \<Rightarrow> None)"

definition var_int :: "(ptr \<rightharpoonup> char cfg_value) \<Rightarrow> ptr \<Rightarrow> int" where
  "var_int vars p = (case vars p of Some (V_Int i) \<Rightarrow> i | _ \<Rightarrow> 0)"

section \<open>Start\<close>

definition monitor_shm :: shm_block where
  "monitor_shm = shm_zero\<lparr>sb_len := 2048, filename := SHM_CALLOUT_NAME\<rparr>"

definition monitor_lockdef :: shm_lockdef where
  "monitor_lockdef = \<lparr>lockname = SHM_CALLOUT_LOCK, esndname = SHM_CALLOUT_EVENT_SEND, eackname = SHM_LOCK_NONE\<rparr>"

text \<open>
  The part of \<open>_tmain\<close> before its loop: the exit code, or the running process. \<open>lbp\<close> is what
  \<open>malloc\<close> gives \<open>buffer_init\<close>, \<open>mb\<close> the address and contents of \<open>malloc(2048)\<close>.
\<close>

definition tmain_start ::
  "'k win32 \<Rightarrow> 'd mysql \<Rightarrow> char profile_api \<Rightarrow> string \<Rightarrow> (ptr \<rightharpoonup> char cfg_value) \<Rightarrow> ptr \<Rightarrow> ptr \<times> byte list \<Rightarrow>
   wchar time_bufs \<Rightarrow> mem \<Rightarrow> 'k \<Rightarrow> 'd \<Rightarrow> ((int + monitor) \<times> mem \<times> 'k \<times> 'd) result" where
  "tmain_start W Q P module_path vars lbp mb tb m k d =
     res_bind (config_load_a P module_path bindings vars) (\<lambda>(_, v).
     res_bind (shm_init W monitor_shm (Some monitor_lockdef) m k) (\<lambda>(ret, shm, m1, k1).
       if FAILED ret then Inr (Inl (- 1), m1, k1, d)
       else
         let (conn, d1) = mysql_init Q d;
             (ok, d2) = mysql_real_connect Q conn (var_string v VAR_db_host) (var_string v VAR_db_user)
                          (var_string v VAR_db_pass) (var_string v VAR_db_name) (var_int v VAR_db_port) d1
         in if ok = NULL then Inr (Inl (- 2), m1, k1, d2)
         else res_bind (buffer_init W lbp 65536 k1) (\<lambda>(b, k2).
           Inr (Inr \<lparr>mon_shm = shm, mon_conn = conn, mon_buffer = b, mon_nodes = Map.empty,
                     mon_msgs = (if fst mb = NULL then Map.empty else [fst mb \<mapsto> snd mb]), mon_buf = fst mb,
                     mon_time = tb\<rparr>, m1, k2, d2))))"

section \<open>The two loops\<close>

definition msg_at :: "monitor \<Rightarrow> ptr \<Rightarrow> byte list result" where
  "msg_at M p = (case mon_msgs M p of
     None \<Rightarrow> Inl (if p = NULL then Null_Dereference else Use_After_Free) | Some b \<Rightarrow> Inr b)"

text \<open>
  One turn of the loop of \<open>_tmain\<close>; \<open>al\<close> is the result of the \<open>malloc\<close> in \<open>buffer_add_tail\<close>. The
  result of \<open>buffer_add_tail\<close> is not looked at.
\<close>

definition main_turn ::
  "'k win32 \<Rightarrow> ptr \<times> ptr \<Rightarrow> monitor \<Rightarrow> mem \<Rightarrow> 'k \<Rightarrow> (monitor \<times> 'k) result" where
  "main_turn W al M m k =
     (let (w, k1) = WaitForSingleObject W (esnd (mon_shm M)) 1000 k in
      if w \<noteq> WAIT_OBJECT_0 then Inr (M, k1)
      else res_bind (shm_lock W (Some (mon_shm M)) 1500 k1) (\<lambda>(ret, k2).
        if \<not> ret then Inr (M, k2)
        else
          res_bind (view_at m (sb_data (mon_shm M))) (\<lambda>vw.
          res_bind (msg_at M (mon_buf M)) (\<lambda>old.
          res_bind (memcpy_at old 0 (v_data vw) 2048) (\<lambda>new.
          res_bind (buffer_add_tail W (mon_buffer M) (mon_nodes M) al (mon_buf M) k2) (\<lambda>(_, b, h, k3).
          res_bind (shm_unlock W (Some (mon_shm M)) k3) (\<lambda>(_, k4).
            Inr (M\<lparr>mon_msgs := (mon_msgs M)(mon_buf M \<mapsto> new), mon_buffer := b, mon_nodes := h\<rparr>, k4))))))))"

text \<open>One turn of the loop of \<open>handle_thread\<close>.\<close>

definition handler_turn ::
  "'k win32 \<Rightarrow> 'd mysql \<Rightarrow> (wchar, 'tm) time_api \<Rightarrow> char list \<Rightarrow> monitor \<Rightarrow> 'k \<Rightarrow> 'd \<Rightarrow>
   (monitor \<times> 'k \<times> 'd) result" where
  "handler_turn W Q T hb M k d =
     res_bind (buffer_remove_head W (mon_buffer M) (mon_nodes M) 5000 k) (\<lambda>(p, b, h, k1).
       let M1 = M\<lparr>mon_buffer := b, mon_nodes := h\<rparr> in
       if p = NULL then Inr (M1, k1, d)
       else res_bind (msg_at M1 p) (\<lambda>buf.
         res_bind (handle_message Q T (mon_conn M) hb buf (mon_time M) d) (\<lambda>(tb, d1).
           Inr (M1\<lparr>mon_msgs := (mon_msgs M1)(p := None), mon_time := tb\<rparr>, k1, d1))))"

section \<open>The threads together\<close>

text \<open>
  A configuration: the globals, the shared memory, the kernel, the database, and how many
  messages have been handled and freed. Between two turns anything may happen to the shared
  memory and the kernel: the DHCP server writes and signals.
\<close>

type_synonym ('k, 'd) mconf = "monitor \<times> mem \<times> 'k \<times> 'd \<times> nat"

inductive monitor_step ::
  "'k win32 \<Rightarrow> 'd mysql \<Rightarrow> (wchar, 'tm) time_api \<Rightarrow> char list \<Rightarrow> ('k, 'd) mconf \<Rightarrow> ('k, 'd) mconf \<Rightarrow> bool"
  for W Q T hb where
  receive: "fst al \<notin> dom (mon_nodes M) \<Longrightarrow> main_turn W al M m k = Inr (M', k') \<Longrightarrow>
     monitor_step W Q T hb (M, m, k, d, n) (M', m, k', d, n)"
| idle: "handler_turn W Q T hb M k d = Inr (M', k', d') \<Longrightarrow> mon_msgs M' = mon_msgs M \<Longrightarrow>
     monitor_step W Q T hb (M, m, k, d, n) (M', m, k', d', n)"
| handle: "handler_turn W Q T hb M k d = Inr (M', k', d') \<Longrightarrow> mon_msgs M' \<noteq> mon_msgs M \<Longrightarrow>
     monitor_step W Q T hb (M, m, k, d, n) (M', m, k', d', Suc n)"
| server: "monitor_step W Q T hb (M, m, k, d, n) (M, m', k', d, n)"

inductive_cases monitor_stepE: "monitor_step W Q T hb c c'"

inductive monitor_run ::
  "'k win32 \<Rightarrow> 'd mysql \<Rightarrow> (wchar, 'tm) time_api \<Rightarrow> char list \<Rightarrow> ('k, 'd) mconf \<Rightarrow> ('k, 'd) mconf \<Rightarrow> bool"
  for W Q T hb where
  run_refl: "monitor_run W Q T hb c c"
| run_step: "monitor_run W Q T hb c c' \<Longrightarrow> monitor_step W Q T hb c' c'' \<Longrightarrow> monitor_run W Q T hb c c''"

section \<open>Lemmas\<close>

lemma buffer_add_tail_rep:
  assumes "lb_rep b h xs" "fst al \<notin> dom h" "buffer_add_tail W b h al x k = Inr (r, b', h', k')"
  shows "lb_rep b' h' (if r then xs @ [x] else xs) \<and>
    r = (length xs < b_max_size b \<and> fst al \<noteq> NULL) \<and> b_max_size b' = b_max_size b \<and> b_evt b' = b_evt b"
proof (cases "length xs < b_max_size b \<and> fst al \<noteq> NULL")
  case True
  have size: "b_size b = length xs" using lb_rep_size [OF assms(1)] by simp
  obtain p g where al: "al = (p, g)" by force
  obtain b1 h1 where "lb_link b h (p, g) x = Inr (b1, h1)" "lb_rep b1 h1 (xs @ [x])" "b_max_size b1 = b_max_size b"
    "b_evt b1 = b_evt b"
    using lb_link_rep [OF assms(1), of p g x] assms(2) True al size by auto
  with assms(3) True al size show ?thesis by (auto simp: buffer_add_tail_def)
next
  case False
  have "b_size b = length xs" using lb_rep_size [OF assms(1)] by simp
  with assms False show ?thesis by (auto simp: buffer_add_tail_def Let_def split: if_splits)
qed

lemma buffer_remove_head_rep:
  assumes "lb_rep b h xs" "buffer_remove_head W b h t k = Inr (p, b', h', k')" "NULL \<notin> set xs"
  shows "if p = NULL then lb_rep b' h' xs else (\<exists>ys. xs = p # ys \<and> lb_rep b' h' ys)"
proof (cases xs)
  case Nil
  with assms show ?thesis
    by (auto simp: buffer_remove_head_def lb_unlink_empty split: if_splits prod.splits)
next
  case (Cons x ys)
  obtain b1 h1 where "lb_unlink b h = Inr (x, b1, h1)" "lb_rep b1 h1 ys"
    using lb_unlink_rep assms(1) Cons by blast
  with assms Cons show ?thesis
    by (auto simp: buffer_remove_head_def split: if_splits prod.splits)
qed

lemma msg_at_Some [simp]: "mon_msgs M p = Some b \<Longrightarrow> msg_at M p = Inr b"
  by (simp add: msg_at_def)

lemma msg_at_Inr [res_simps]: "msg_at M p = Inr b \<longleftrightarrow> mon_msgs M p = Some b"
  by (auto simp: msg_at_def split: option.splits)

text \<open>
  A turn that receives: the message is in the buffer and the buffer in the queue, the queue's
  event has been set under the queue's lock, and then the mutex has been released.
\<close>

lemma main_turn_receives:
  assumes "WaitForSingleObject W (esnd (mon_shm M)) 1000 k = (WAIT_OBJECT_0, k1)"
    and "shm_lock W (Some (mon_shm M)) 1500 k1 = Inr (True, k2)"
    and "m (sb_data (mon_shm M)) = Some vw" "2048 \<le> length (v_data vw)"
    and "mon_msgs M (mon_buf M) = Some old" "length old = 2048"
    and "lb_rep (mon_buffer M) (mon_nodes M) xs" "length xs < b_max_size (mon_buffer M)"
    and "fst al \<notin> dom (mon_nodes M)" "fst al \<noteq> NULL"
  shows "\<exists>M' k'. main_turn W al M m k = Inr (M', k') \<and>
    mon_msgs M' = (mon_msgs M)(mon_buf M \<mapsto> take 2048 (v_data vw)) \<and>
    lb_rep (mon_buffer M') (mon_nodes M') (xs @ [mon_buf M]) \<and>
    mon_shm M' = mon_shm M \<and> mon_buf M' = mon_buf M \<and> mon_conn M' = mon_conn M \<and> mon_time M' = mon_time M \<and>
    b_max_size (mon_buffer M') = b_max_size (mon_buffer M) \<and> b_evt (mon_buffer M') = b_evt (mon_buffer M) \<and>
    (\<exists>r. shm_unlock W (Some (mon_shm M)) (ReleaseSRWLockExclusive W Buffer_SRW
       (snd (SetEvent W (b_evt (mon_buffer M)) (AcquireSRWLockExclusive W Buffer_SRW k2)))) = Inr (r, k'))"
proof -
  let ?k3 = "ReleaseSRWLockExclusive W Buffer_SRW
    (snd (SetEvent W (b_evt (mon_buffer M)) (AcquireSRWLockExclusive W Buffer_SRW k2)))"
  obtain p g where al: "al = (p, g)" by force
  have size: "b_size (mon_buffer M) = length xs" using lb_rep_size [OF assms(7)] by simp
  obtain b h where lk: "lb_link (mon_buffer M) (mon_nodes M) (p, g) (mon_buf M) = Inr (b, h)"
    "lb_rep b h (xs @ [mon_buf M])" "b_max_size b = b_max_size (mon_buffer M)" "b_evt b = b_evt (mon_buffer M)"
    using lb_link_rep [OF assms(7), of p g "mon_buf M"] assms(8-10) al size by auto
  have "buffer_add_tail W (mon_buffer M) (mon_nodes M) al (mon_buf M) k2 = Inr (True, b, h, ?k3)"
    using lk(1,4) al size assms(8,10) by (simp add: buffer_add_tail_def)
  moreover obtain r k4 where "shm_unlock W (Some (mon_shm M)) ?k3 = Inr (r, k4)"
    using shm_unlock_Some [of W "mon_shm M" ?k3] by blast
  moreover have "memcpy_at old 0 (v_data vw) 2048 = Inr (take 2048 (v_data vw))"
    using assms(4,6) by (simp add: memcpy_at_def)
  ultimately show ?thesis using assms(1-3,5) lk by (simp add: main_turn_def)
qed

lemma handler_turn_handles:
  assumes "WaitForSingleObject W (b_evt (mon_buffer M)) 5000 k = (WAIT_OBJECT_0, k1)"
    and "lb_rep (mon_buffer M) (mon_nodes M) (p # ys)" "p \<noteq> NULL" "mon_msgs M p = Some buf"
    and "handle_message Q T (mon_conn M) hb buf (mon_time M) d = Inr (tb, d')"
  shows "\<exists>M' k'. handler_turn W Q T hb M k d = Inr (M', k', d') \<and> mon_msgs M' = (mon_msgs M)(p := None) \<and>
    lb_rep (mon_buffer M') (mon_nodes M') ys \<and> mon_time M' = tb \<and>
    k' = ReleaseSRWLockExclusive W Buffer_SRW (AcquireSRWLockExclusive W Buffer_SRW k1)"
proof -
  obtain b h where "lb_unlink (mon_buffer M) (mon_nodes M) = Inr (p, b, h)" "lb_rep b h ys"
    using lb_unlink_rep [OF assms(2)] by blast
  with assms show ?thesis by (simp add: handler_turn_def buffer_remove_head_def)
qed

section \<open>The invariant of the two threads\<close>

text \<open>
  Every entry of the queue is the one buffer \<open>_tmain\<close> allocated, and the number of messages
  handled is 0 while that buffer is allocated and 1 once it has been freed.
\<close>

definition monitor_inv :: "ptr \<Rightarrow> ('k, 'd) mconf \<Rightarrow> bool" where
  "monitor_inv buf c = (case c of (M, m, k, d, n) \<Rightarrow>
     mon_buf M = buf \<and> (\<exists>j. lb_rep (mon_buffer M) (mon_nodes M) (replicate j buf)) \<and>
     n = (if mon_msgs M buf = None then 1 else 0))"

lemma main_turn_cases:
  assumes "main_turn W al M m k = Inr (M', k')"
  obtains "M' = M" | old new r b h k2 k3 where "mon_msgs M (mon_buf M) = Some old"
    "buffer_add_tail W (mon_buffer M) (mon_nodes M) al (mon_buf M) k2 = Inr (r, b, h, k3)"
    "M' = M\<lparr>mon_msgs := (mon_msgs M)(mon_buf M \<mapsto> new), mon_buffer := b, mon_nodes := h\<rparr>"
proof -
  obtain w k1 where w: "WaitForSingleObject W (esnd (mon_shm M)) 1000 k = (w, k1)" by force
  obtain ok k2 where ok: "shm_lock W (Some (mon_shm M)) 1500 k1 = Inr (ok, k2)"
    using shm_lock_Some [of W "mon_shm M" 1500 k1] by blast
  show thesis
  proof (cases "w = WAIT_OBJECT_0 \<and> ok")
    case False
    then show thesis using assms w ok by (intro that(1)) (auto simp: main_turn_def split: if_splits)
  next
    case True
    obtain old new r b h k3 where "mon_msgs M (mon_buf M) = Some old"
      "buffer_add_tail W (mon_buffer M) (mon_nodes M) al (mon_buf M) k2 = Inr (r, b, h, k3)"
      "M' = M\<lparr>mon_msgs := (mon_msgs M)(mon_buf M \<mapsto> new), mon_buffer := b, mon_nodes := h\<rparr>"
      using assms w ok True by (auto simp: main_turn_def res_bind_eq_Inr msg_at_Inr)
    then show thesis by (rule that(2))
  qed
qed

lemma main_turn_inv:
  assumes "monitor_inv buf (M, m, k, d, n)" "fst al \<notin> dom (mon_nodes M)" "main_turn W al M m k = Inr (M', k')"
  shows "monitor_inv buf (M', m, k', d, n)"
proof -
  obtain j where rep: "lb_rep (mon_buffer M) (mon_nodes M) (replicate j buf)" and buf: "mon_buf M = buf"
    and n: "n = (if mon_msgs M buf = None then 1 else 0)" using assms(1) by (auto simp: monitor_inv_def)
  consider "M' = M" | old new r b h k2 k3 where "mon_msgs M buf = Some old"
    "buffer_add_tail W (mon_buffer M) (mon_nodes M) al buf k2 = Inr (r, b, h, k3)"
    "M' = M\<lparr>mon_msgs := (mon_msgs M)(buf \<mapsto> new), mon_buffer := b, mon_nodes := h\<rparr>"
    using main_turn_cases [OF assms(3)] unfolding buf by metis
  then show ?thesis
  proof cases
    case 1
    then show ?thesis using assms(1) by (simp add: monitor_inv_def)
  next
    case 2
    have "lb_rep b h (if r then replicate j buf @ [buf] else replicate j buf)"
      by (rule buffer_add_tail_rep [OF rep assms(2) 2(2), THEN conjunct1])
    moreover have "replicate j buf @ [buf] = replicate (Suc j) buf" by (simp add: replicate_append_same)
    ultimately have "lb_rep b h (replicate (if r then Suc j else j) buf)" by (cases r) (simp_all only: if_True if_False)
    then have "\<exists>j. lb_rep b h (replicate j buf)" by (rule exI)
    then show ?thesis using 2 buf n by (simp add: monitor_inv_def)
  qed
qed

lemma handler_turn_inv:
  assumes "monitor_inv buf (M, m, k, d, n)" "buf \<noteq> NULL" "handler_turn W Q T hb M k d = Inr (M', k', d')"
  shows "monitor_inv buf (M', m, k', d', if mon_msgs M' = mon_msgs M then n else Suc n)"
proof -
  obtain j where rep: "lb_rep (mon_buffer M) (mon_nodes M) (replicate j buf)" and buf: "mon_buf M = buf"
    and n: "n = (if mon_msgs M buf = None then 1 else 0)" using assms(1) by (auto simp: monitor_inv_def)
  obtain p b h k1 where rm: "buffer_remove_head W (mon_buffer M) (mon_nodes M) 5000 k = Inr (p, b, h, k1)"
    using assms(3) by (auto simp: handler_turn_def res_bind_eq_Inr)
  note after = buffer_remove_head_rep [OF rep rm]
  show ?thesis
  proof (cases "p = NULL")
    case True
    then have "M' = M\<lparr>mon_buffer := b, mon_nodes := h\<rparr>" using assms(3) rm by (simp add: handler_turn_def)
    then show ?thesis using after True assms(2) buf n by (auto simp: monitor_inv_def)
  next
    case False
    then obtain ys where ys: "replicate j buf = p # ys" "lb_rep b h ys" using after assms(2) by auto
    then have p: "p = buf" "ys = replicate (j - 1) buf" by (cases j; simp)+
    obtain x tb where "mon_msgs M buf = Some x"
      "M' = M\<lparr>mon_buffer := b, mon_nodes := h, mon_msgs := (mon_msgs M)(buf := None), mon_time := tb\<rparr>"
      using assms(3) rm False p(1) by (auto simp: handler_turn_def res_simps Let_def)
    then show ?thesis using ys(2) p buf n by (auto simp: monitor_inv_def dest: fun_cong [where x = buf])
  qed
qed

lemma monitor_step_inv:
  assumes "monitor_step W Q T hb c c'" "monitor_inv buf c" "buf \<noteq> NULL"
  shows "monitor_inv buf c'"
  using assms(1)
proof cases
  case (receive al M m k M' k' d n)
  then show ?thesis using assms(2) main_turn_inv [of buf M m k d n al W M' k'] by simp
next
  case (idle M k d M' k' d' m n)
  then show ?thesis using assms(2,3) handler_turn_inv [of buf M m k d n W Q T hb M' k' d'] by simp
next
  case (handle M k d M' k' d' m n)
  then show ?thesis using assms(2,3) handler_turn_inv [of buf M m k d n W Q T hb M' k' d'] by simp
next
  case (server M m k d n m' k')
  then show ?thesis using assms(2) by (simp add: monitor_inv_def)
qed

lemma monitor_run_inv:
  assumes "monitor_run W Q T hb c c'" "monitor_inv buf c" "buf \<noteq> NULL"
  shows "monitor_inv buf c'"
  using assms by (induction rule: monitor_run.induct) (auto intro: monitor_step_inv)

lemma tmain_start_inv:
  assumes "tmain_start W Q P path vars lbp mb tb m k d = Inr (Inr M, m', k', d')" "fst mb \<noteq> NULL"
  shows "monitor_inv (fst mb) (M, m', k', d', 0)"
proof -
  obtain b k1 where "buffer_init W lbp 65536 k1 = Inr (b, k')" "mon_buffer M = b" "mon_nodes M = Map.empty"
    "mon_buf M = fst mb" "mon_msgs M = [fst mb \<mapsto> snd mb]"
    using assms by (auto simp: tmain_start_def res_bind_eq_Inr Let_def split: prod.splits if_splits)
  moreover from this(1) have "lb_rep b Map.empty []"
    using lb_rep_empty [of 65536] by (auto simp: buffer_init_def Let_def split: if_splits prod.splits)
  ultimately show ?thesis by (auto simp: monitor_inv_def intro!: exI [of _ 0])
qed

section \<open>Properties\<close>

definition demo_monitor :: monitor where
  "demo_monitor = \<lparr>mon_shm = shm_zero\<lparr>sb_len := 2048, esnd := 7, sb_data := 9\<rparr>, mon_conn = 1,
     mon_buffer = \<lparr>b_size = 0, b_max_size = 65536, b_head = NULL, b_tail = NULL, b_evt = 8\<rparr>,
     mon_nodes = Map.empty, mon_msgs = [40 \<mapsto> replicate 2048 0], mon_buf = 40, mon_time = demo_wbufs\<rparr>"

definition demo_message :: "byte list" where
  "demo_message = client_bytes demo_client @ replicate 2016 0"

definition demo_memory :: mem where
  "demo_memory = [9 \<mapsto> \<lparr>v_lockdef = \<lparr>lockname = [], esndname = [], eackname = []\<rparr>, v_data = demo_message\<rparr>]"

definition demo_after :: sim_db where
  "demo_after = run_query sim_mysql 1 (lease_query (hw_string (take 6 (c_HwAddress demo_client)))
     (c_IpAddress demo_client) ''timeout'') monitor_db"

lemma wf_demo_client: "wf_client demo_client"
  by (simp add: wf_client_def demo_client_def)

lemma demo_message_run:
  "handle_message sim_mysql demo_wtime 1 demo_hb demo_message demo_wbufs monitor_db = Inr (demo_wbufs, demo_after)"
  unfolding demo_message_def demo_after_def
  by (rule handle_delete_run [OF wf_demo_client]) (simp_all add: demo_client_def demo_hb_def)

lemma length_demo_message: "length demo_message = 2048"
  using client_codec.length_enc [OF wf_demo_client] by (simp add: demo_message_def layout)

text \<open>C5. The monitor handles at most one message in its life without a memory error: \<open>_tmain\<close>
  allocates one buffer for all messages and the handler frees it. In every interleaving of the two
  threads and the server from a successful start, at most one message has been handled, and once
  one has been, the next received message is copied into the freed buffer.\<close>

theorem monitor_handles_at_most_one:
  assumes "tmain_start W Q P path vars lbp mb tb m k d = Inr (Inr M0, m0, k0, d0)" "fst mb \<noteq> NULL"
    and "monitor_run W Q T hb (M0, m0, k0, d0, 0) (M, m', k', d', n)"
  shows "n \<le> 1 \<and> (n = 1 \<longrightarrow>
    WaitForSingleObject W (esnd (mon_shm M)) 1000 k' = (WAIT_OBJECT_0, k1) \<longrightarrow>
    shm_lock W (Some (mon_shm M)) 1500 k1 = Inr (True, k2) \<longrightarrow> m' (sb_data (mon_shm M)) \<noteq> None \<longrightarrow>
    main_turn W al M m' k' = Inl Use_After_Free)"
proof -
  have "monitor_inv (fst mb) (M, m', k', d', n)"
    using monitor_run_inv [OF assms(3) tmain_start_inv [OF assms(1,2)] assms(2)] .
  then have "mon_buf M = fst mb" "n = (if mon_msgs M (fst mb) = None then 1 else 0)"
    by (auto simp: monitor_inv_def)
  then show ?thesis
    using assms(2) by (auto simp: main_turn_def msg_at_def)
qed

text \<open>A run of the whole process on the concrete kernel: start, a message of the server, both turns.\<close>

definition demo_kernel :: "sim_kernel win32" where
  "demo_kernel = sim_win32\<lparr>MapViewOfFile := \<lambda>_ _ k. (9, k), CreateMutexEx := \<lambda>_ _ k. (6, k),
     CreateEventEx := \<lambda>_ _ k. (7, k), CreateEvent := \<lambda>k. (8, k)\<rparr>"

definition demo_running :: monitor where
  "demo_running = demo_monitor\<lparr>mon_shm := monitor_shm\<lparr>mapfile := 5, sb_lockdef := 9, sb_data := 9,
     sb_lock := \<lparr>l_init = True, l_lock = 6\<rparr>, esnd := 7\<rparr>\<rparr>"

definition demo_views :: mem where
  "demo_views = [9 \<mapsto> \<lparr>v_lockdef = monitor_lockdef, v_data = demo_message\<rparr>]"

lemma demo_config: "\<exists>v. config_load_a demo_profile (''C:'' @ CHR 0x5C # ''monitor.exe'') bindings Map.empty = Inr (True, v)"
proof -
  have "strip_loop (CHR 0x5C) (''C:'' @ CHR 0x5C # ''monitor.exe'') 14 = ''C:''" by code_simp
  then show ?thesis
    by (simp add: config_load_a_def config_load_def config_path_def MAX_PATH_def bindings_def db_binding_def
        config_value_def CONFIG_TYPE_INT_def CONFIG_TYPE_STRING_def def_asString_def def_asInt_def demo_profile_def)
qed

lemma monitor_names_nonempty: "SHM_CALLOUT_LOCK \<noteq> SHM_LOCK_NONE" "SHM_CALLOUT_EVENT_SEND \<noteq> SHM_LOCK_NONE"
  by (simp_all add: SHM_CALLOUT_LOCK_def SHM_CALLOUT_EVENT_SEND_def SHM_LOCK_NONE_def)

lemma demo_shm_init:
  "shm_init demo_kernel monitor_shm (Some monitor_lockdef) demo_views sim_start =
    Inr (SHM_OK, mon_shm demo_running, demo_views, sim_start\<lparr>next_handle := 6\<rparr>)"
  by (auto simp: shm_init_def shm_enable_privileges_def shm_create_security_attr_def shm_init_objects_def
      demo_kernel_def sim_defs monitor_shm_def shm_zero_def demo_running_def demo_views_def monitor_lockdef_def
      monitor_names_nonempty monitor_names_nonempty [symmetric] lock_init_ex_def lock_zero_def)

lemma demo_start:
  "tmain_start demo_kernel sim_mysql demo_profile (''C:'' @ CHR 0x5C # ''monitor.exe'') Map.empty 30
     (40, replicate 2048 0) demo_wbufs demo_views sim_start monitor_db =
   Inr (Inr demo_running, demo_views, sim_start\<lparr>next_handle := 6\<rparr>, monitor_db)"
proof -
  obtain v where "config_load_a demo_profile (''C:'' @ CHR 0x5C # ''monitor.exe'') bindings Map.empty = Inr (True, v)"
    using demo_config by blast
  moreover have "buffer_init demo_kernel 30 65536 (sim_start\<lparr>next_handle := 6\<rparr>) =
      Inr (mon_buffer demo_running, sim_start\<lparr>next_handle := 6\<rparr>)"
    by (simp add: buffer_init_def demo_kernel_def sim_win32_def demo_running_def demo_monitor_def)
  ultimately show ?thesis
    unfolding tmain_start_def using demo_shm_init
    by (simp add: shm_codes FAILED_def sim_mysql_def) (simp add: demo_running_def demo_monitor_def)
qed

lemma demo_run:
  "\<exists>M k. monitor_run demo_kernel sim_mysql demo_wtime demo_hb
     (demo_running, demo_views, sim_start\<lparr>next_handle := 6\<rparr>, monitor_db, 0) (M, demo_views, k, demo_after, 1)"
proof -
  let ?step = "monitor_step demo_kernel sim_mysql demo_wtime demo_hb"
  let ?k = "sim_start\<lparr>signalled := [7, 6]\<rparr>" and ?h = "sim_start\<lparr>signalled := [8]\<rparr>"
  let ?vw = "\<lparr>v_lockdef = monitor_lockdef, v_data = demo_message\<rparr>"
  have shm: "esnd (mon_shm demo_running) = 7" "sb_data (mon_shm demo_running) = 9"
    "sb_lock (mon_shm demo_running) = \<lparr>l_init = True, l_lock = 6\<rparr>" by (simp_all add: demo_running_def monitor_shm_def)
  have wait: "WaitForSingleObject demo_kernel h t q = sim_wait h t q" for h t q
    by (simp add: demo_kernel_def sim_win32_def)
  have k1: "WaitForSingleObject demo_kernel (esnd (mon_shm demo_running)) 1000 ?k = (WAIT_OBJECT_0, sim_start\<lparr>signalled := [6]\<rparr>)"
    by (simp add: wait shm sim_wait_def)
  have k2: "shm_lock demo_kernel (Some (mon_shm demo_running)) 1500 (sim_start\<lparr>signalled := [6]\<rparr>) = Inr (True, sim_start)"
    by (simp add: shm_lock_def lock_wait_def shm wait sim_wait_def sim_start_def)
  have v: "demo_views (sb_data (mon_shm demo_running)) = Some ?vw" by (simp add: shm demo_views_def)
  have rest: "mon_msgs demo_running (mon_buf demo_running) = Some (replicate 2048 0)"
    "lb_rep (mon_buffer demo_running) (mon_nodes demo_running) []" "mon_buf demo_running = 40"
    "length ([] :: ptr list) < b_max_size (mon_buffer demo_running)" "fst (50 :: nat, 0 :: nat) \<notin> dom (mon_nodes demo_running)"
    "mon_conn demo_running = 1" "mon_time demo_running = demo_wbufs" "b_evt (mon_buffer demo_running) = 8"
    using lb_rep_empty by (simp_all add: demo_running_def demo_monitor_def)
  obtain M1 q where M1: "main_turn demo_kernel (50, 0) demo_running demo_views ?k = Inr (M1, q)"
    "mon_msgs M1 = (mon_msgs demo_running)(40 \<mapsto> demo_message)" "lb_rep (mon_buffer M1) (mon_nodes M1) [40]"
    "mon_conn M1 = 1" "mon_time M1 = demo_wbufs" "b_evt (mon_buffer M1) = 8"
    using main_turn_receives [where m = demo_views, OF k1 k2 v _ rest(1) _ rest(2,4,5)] rest length_demo_message by auto
  have w: "WaitForSingleObject demo_kernel (b_evt (mon_buffer M1)) 5000 ?h = (WAIT_OBJECT_0, sim_start)"
    by (simp add: wait sim_wait_def M1(6) sim_start_def)
  obtain M2 q2 where M2: "handler_turn demo_kernel sim_mysql demo_wtime demo_hb M1 ?h monitor_db = Inr (M2, q2, demo_after)"
    "mon_msgs M2 = (mon_msgs M1)(40 := None)"
    using handler_turn_handles [OF w M1(3), of demo_message sim_mysql demo_wtime demo_hb monitor_db demo_wbufs demo_after]
      M1(2,4,5) demo_message_run by auto
  have s1: "?step (demo_running, demo_views, sim_start\<lparr>next_handle := 6\<rparr>, monitor_db, 0) (demo_running, demo_views, ?k, monitor_db, 0)"
    by (rule server)
  have s2: "?step (demo_running, demo_views, ?k, monitor_db, 0) (M1, demo_views, q, monitor_db, 0)"
    by (rule receive [OF rest(5) M1(1)])
  have s3: "?step (M1, demo_views, q, monitor_db, 0) (M1, demo_views, ?h, monitor_db, 0)" by (rule server)
  have s4: "?step (M1, demo_views, ?h, monitor_db, 0) (M2, demo_views, q2, demo_after, Suc 0)"
    by (rule handle [OF M2(1)]) (use M2(2) M1(2) in \<open>auto dest: fun_cong [where x = 40]\<close>)
  show ?thesis
    unfolding One_nat_def
    by (intro exI) (rule run_step [OF run_step [OF run_step [OF run_step [OF run_refl s1] s2] s3] s4])
qed

theorem monitor_handles_at_most_one_witness:
  "\<exists>M k. monitor_run demo_kernel sim_mysql demo_wtime demo_hb
     (demo_running, demo_views, sim_start\<lparr>next_handle := 6\<rparr>, monitor_db, 0) (M, demo_views, k, demo_after, 1) \<and>
   ((1 :: nat) \<le> 1 \<and> ((1 :: nat) = 1 \<longrightarrow>
    WaitForSingleObject demo_kernel (esnd (mon_shm M)) 1000 k = (WAIT_OBJECT_0, sim_start) \<longrightarrow>
    shm_lock demo_kernel (Some (mon_shm M)) 1500 sim_start = Inr (True, sim_start) \<longrightarrow>
    demo_views (sb_data (mon_shm M)) \<noteq> None \<longrightarrow>
    main_turn demo_kernel (60, 0) M demo_views k = Inl Use_After_Free))"
proof -
  obtain M k where run: "monitor_run demo_kernel sim_mysql demo_wtime demo_hb
     (demo_running, demo_views, sim_start\<lparr>next_handle := 6\<rparr>, monitor_db, 0) (M, demo_views, k, demo_after, 1)"
    using demo_run by blast
  from monitor_handles_at_most_one [OF demo_start _ run, of sim_start sim_start "(60, 0)"] run
  show ?thesis by (intro exI [of _ M] exI [of _ k]) simp
qed

text \<open>A second message that arrives before the first is handled replaces it: the queue then
  holds the same buffer twice and the buffer holds the second message.\<close>

theorem second_message_overwrites:
  assumes "lb_rep (mon_buffer M) (mon_nodes M) xs" "length xs + 2 \<le> b_max_size (mon_buffer M)"
    and "mon_msgs M (mon_buf M) = Some old" "length old = 2048"
    and "m1 (sb_data (mon_shm M)) = Some v1" "length (v_data v1) = 2048"
    and "m2 (sb_data (mon_shm M)) = Some v2" "length (v_data v2) = 2048"
    and "WaitForSingleObject W (esnd (mon_shm M)) 1000 k = (WAIT_OBJECT_0, k1)"
    and "shm_lock W (Some (mon_shm M)) 1500 k1 = Inr (True, k2)"
    and "WaitForSingleObject W (esnd (mon_shm M)) 1000 j = (WAIT_OBJECT_0, j1)"
    and "shm_lock W (Some (mon_shm M)) 1500 j1 = Inr (True, j2)"
    and "fst al \<notin> dom (mon_nodes M)" "fst al \<noteq> NULL"
  shows "\<exists>M1 k3. main_turn W al M m1 k = Inr (M1, k3) \<and>
    (\<forall>al'. fst al' \<notin> dom (mon_nodes M1) \<and> fst al' \<noteq> NULL \<longrightarrow>
      (\<exists>M2 j3. main_turn W al' M1 m2 j = Inr (M2, j3) \<and>
        lb_rep (mon_buffer M2) (mon_nodes M2) (xs @ [mon_buf M, mon_buf M]) \<and>
        mon_msgs M2 (mon_buf M) = Some (v_data v2)))"
proof -
  have all: "take 2048 (v_data v1) = v_data v1" "take 2048 (v_data v2) = v_data v2"
    "2048 \<le> length (v_data v1)" "2048 \<le> length (v_data v2)" using assms(6,8) by simp_all
  have room: "length xs < b_max_size (mon_buffer M)" using assms(2) by simp
  obtain M1 k3 where M1: "main_turn W al M m1 k = Inr (M1, k3)" "mon_msgs M1 = (mon_msgs M)(mon_buf M \<mapsto> v_data v1)"
    "lb_rep (mon_buffer M1) (mon_nodes M1) (xs @ [mon_buf M])" "mon_shm M1 = mon_shm M" "mon_buf M1 = mon_buf M"
    "b_max_size (mon_buffer M1) = b_max_size (mon_buffer M)"
    using main_turn_receives [where m = m1, OF assms(9,10,5) all(3) assms(3,4,1) room assms(13,14), unfolded all] by blast
  have "\<exists>M2 j3. main_turn W al' M1 m2 j = Inr (M2, j3) \<and>
        lb_rep (mon_buffer M2) (mon_nodes M2) (xs @ [mon_buf M, mon_buf M]) \<and>
        mon_msgs M2 (mon_buf M) = Some (v_data v2)"
    if al': "fst al' \<notin> dom (mon_nodes M1)" "fst al' \<noteq> NULL" for al'
  proof -
    have room1: "length (xs @ [mon_buf M]) < b_max_size (mon_buffer M1)" using assms(2) M1(6) by simp
    have "mon_msgs M1 (mon_buf M1) = Some (v_data v1)" using M1(2,5) by simp
    then obtain M2 j3 where "main_turn W al' M1 m2 j = Inr (M2, j3)"
      "mon_msgs M2 = (mon_msgs M1)(mon_buf M \<mapsto> v_data v2)"
      "lb_rep (mon_buffer M2) (mon_nodes M2) ((xs @ [mon_buf M]) @ [mon_buf M])"
      using main_turn_receives [where m = m2, OF assms(11,12,7) [folded M1(4)] all(4) _ assms(6) M1(3) room1 al',
          unfolded all M1(5)] M1(5) by auto
    then show ?thesis by (intro exI [of _ M2] exI [of _ j3]) simp
  qed
  with M1(1) show ?thesis by blast
qed

theorem second_message_overwrites_witness:
  "\<exists>M1 k3. main_turn sim_win32 (50, 0) demo_monitor demo_memory (sim_start\<lparr>signalled := [7]\<rparr>) = Inr (M1, k3) \<and>
    (\<forall>al'. fst al' \<notin> dom (mon_nodes M1) \<and> fst al' \<noteq> NULL \<longrightarrow>
      (\<exists>M2 j3. main_turn sim_win32 al' M1 (demo_memory(9 \<mapsto> \<lparr>v_lockdef = monitor_lockdef, v_data = replicate 2048 1\<rparr>))
          (sim_start\<lparr>signalled := [7]\<rparr>) = Inr (M2, j3) \<and>
        lb_rep (mon_buffer M2) (mon_nodes M2) ([] @ [mon_buf demo_monitor, mon_buf demo_monitor]) \<and>
        mon_msgs M2 (mon_buf demo_monitor) = Some (v_data \<lparr>v_lockdef = monitor_lockdef, v_data = replicate 2048 1\<rparr>)))"
  by (rule second_message_overwrites [where old = "replicate 2048 0" and ?k1.0 = sim_start and ?k2.0 = sim_start
        and ?j1.0 = sim_start and ?j2.0 = sim_start
        and ?v1.0 = "\<lparr>v_lockdef = \<lparr>lockname = [], esndname = [], eackname = []\<rparr>, v_data = demo_message\<rparr>"])
     (use lb_rep_empty in
       \<open>simp_all add: demo_monitor_def demo_memory_def length_demo_message shm_lock_def shm_zero_def lock_zero_def sim_defs\<close>)

definition db_setting :: "char profile_api \<Rightarrow> string \<Rightarrow> string \<Rightarrow> string option" where
  "db_setting P path key =
     (let t = GetPrivateProfileString P ''db'' key None path in if t = [] then None else Some t)"

definition config_ini :: "string \<Rightarrow> string" where
  "config_ini dir = dir @ CHR 0x5C # ''config.ini''"

lemma config_path_ini:
  assumes "CHR 0x5C \<notin> set exe" "length dir < 248"
  shows "config_path (CHR 0x5C) ''config.ini'' (dir @ CHR 0x5C # exe) = Inr (config_ini dir)"
  using strip_loop_last [OF assms(1), of dir] assms(2)
  by (simp add: config_path_def MAX_PATH_def config_ini_def)

lemma monitor_config:
  assumes "CHR 0x5C \<notin> set exe" "length dir < 248"
  shows "\<exists>v. config_load_a P (dir @ CHR 0x5C # exe) bindings vars = Inr (True, v) \<and>
    var_string v VAR_db_host = db_setting P (config_ini dir) ''host'' \<and>
    var_string v VAR_db_user = db_setting P (config_ini dir) ''user'' \<and>
    var_string v VAR_db_pass = db_setting P (config_ini dir) ''pass'' \<and>
    var_string v VAR_db_name = db_setting P (config_ini dir) ''name'' \<and>
    var_int v VAR_db_port = GetPrivateProfileInt P ''db'' ''port'' 3306 (config_ini dir)"
proof -
  have str: "config_value P ini ''db'' (db_binding key p) = Inr (Some (V_String (db_setting P ini key)))" for ini key p
    by (simp add: config_value_def db_binding_def CONFIG_TYPE_STRING_def def_asString_def db_setting_def Let_def)
  have port: "config_value P ini ''db'' ((db_binding key p)\<lparr>cb_def := As_Int 3306, cb_type := CONFIG_TYPE_INT\<rparr>) =
      Inr (Some (V_Int (GetPrivateProfileInt P ''db'' key 3306 ini)))" for ini key p
    by (simp add: config_value_def db_binding_def CONFIG_TYPE_INT_def CONFIG_TYPE_STRING_def def_asInt_def)
  have "cb_section (db_binding key p) = Some ''db''" "cb_val (db_binding key p) = p" for key p
    by (simp_all add: db_binding_def)
  then show ?thesis
    using config_path_ini [OF assms] str port
    by (simp add: config_load_a_def config_load_def bindings_def var_string_def var_int_def var_defs)
qed

text \<open>C32. The start of the monitor: the exit code is \<open>-1\<close> when the shared block cannot be set up and
  \<open>-2\<close> when the database refuses the connection; otherwise the process runs with an empty queue,
  and the connection was asked for with the host, user, password and database name read from the
  \<open>db\<close> section of \<open>config.ini\<close> beside the executable (null when empty) and its port (3306 by
  default).\<close>

theorem monitor_start:
  assumes "CHR 0x5C \<notin> set exe" "length dir < 248" "lbp \<noteq> NULL"
    and "shm_init W monitor_shm (Some monitor_lockdef) m k = Inr (ret, shm, m1, k1)"
    and "mysql_init Q d = (conn, d1)"
    and "mysql_real_connect Q conn (db_setting P (config_ini dir) ''host'') (db_setting P (config_ini dir) ''user'')
        (db_setting P (config_ini dir) ''pass'') (db_setting P (config_ini dir) ''name'')
        (GetPrivateProfileInt P ''db'' ''port'' 3306 (config_ini dir)) d1 = (ok, d2)"
  shows "if FAILED ret
    then tmain_start W Q P (dir @ CHR 0x5C # exe) vars lbp mb tb m k d = Inr (Inl (- 1), m1, k1, d)
    else if ok = NULL
    then tmain_start W Q P (dir @ CHR 0x5C # exe) vars lbp mb tb m k d = Inr (Inl (- 2), m1, k1, d2)
    else \<exists>M k2. tmain_start W Q P (dir @ CHR 0x5C # exe) vars lbp mb tb m k d = Inr (Inr M, m1, k2, d2) \<and>
      mon_shm M = shm \<and> mon_conn M = conn \<and> mon_buf M = fst mb \<and> lb_rep (mon_buffer M) (mon_nodes M) [] \<and>
      b_max_size (mon_buffer M) = 65536"
proof -
  obtain v where v: "config_load_a P (dir @ CHR 0x5C # exe) bindings vars = Inr (True, v)"
    "var_string v VAR_db_host = db_setting P (config_ini dir) ''host''"
    "var_string v VAR_db_user = db_setting P (config_ini dir) ''user''"
    "var_string v VAR_db_pass = db_setting P (config_ini dir) ''pass''"
    "var_string v VAR_db_name = db_setting P (config_ini dir) ''name''"
    "var_int v VAR_db_port = GetPrivateProfileInt P ''db'' ''port'' 3306 (config_ini dir)"
    using monitor_config [OF assms(1,2)] by blast
  obtain h k2 where "CreateEvent W k1 = (h, k2)" by force
  then have b: "buffer_init W lbp 65536 k1 =
      Inr (\<lparr>b_size = 0, b_max_size = 65536, b_head = NULL, b_tail = NULL, b_evt = h\<rparr>, InitializeSRWLock W Buffer_SRW k2)"
    using assms(3) by (simp add: buffer_init_def)
  show ?thesis
    using assms(4-6) v b lb_rep_empty [of 65536 h Map.empty] by (simp add: tmain_start_def)
qed

theorem monitor_start_witness:
  "if FAILED SHM_OK
    then tmain_start demo_kernel sim_mysql demo_profile (''C:'' @ CHR 0x5C # ''monitor.exe'') Map.empty 30
       (40, []) demo_wbufs demo_views sim_start monitor_db = Inr (Inl (- 1), demo_views, sim_start\<lparr>next_handle := 6\<rparr>, monitor_db)
    else if (1 :: nat) = NULL
    then tmain_start demo_kernel sim_mysql demo_profile (''C:'' @ CHR 0x5C # ''monitor.exe'') Map.empty 30
       (40, []) demo_wbufs demo_views sim_start monitor_db = Inr (Inl (- 2), demo_views, sim_start\<lparr>next_handle := 6\<rparr>, monitor_db)
    else \<exists>M k2. tmain_start demo_kernel sim_mysql demo_profile (''C:'' @ CHR 0x5C # ''monitor.exe'') Map.empty 30
       (40, []) demo_wbufs demo_views sim_start monitor_db = Inr (Inr M, demo_views, k2, monitor_db) \<and>
      mon_shm M = mon_shm demo_running \<and> mon_conn M = 1 \<and> mon_buf M = fst (40 :: nat, [] :: byte list) \<and>
      lb_rep (mon_buffer M) (mon_nodes M) [] \<and> b_max_size (mon_buffer M) = 65536"
  by (rule monitor_start [OF _ _ _ demo_shm_init]) (simp_all add: sim_mysql_def)

end
