(* ===== verification/Pipeline.thy ===== *)
theory Pipeline
  imports Callout_Hook Monitor
begin

text \<open>
  A message on its way from a hook of the server through the two threads of the monitor, with the
  kernel state handed from one to the next: the receiving loop runs in the state the hook leaves,
  the handler in the state the receiving loop leaves. That each of them is woken and gets its locks
  is therefore a consequence of what the one before it released and signalled.
\<close>

section \<open>The kernel objects\<close>

text \<open>A thread of the server in a hook, and the two threads of the monitor.\<close>

datatype thread = Server_Thread | Main_Thread | Handle_Thread

text \<open>What a handle refers to. The same named object has a handle in each process.\<close>

datatype kobject = Event nat | Mutex nat

text \<open>
  What can be seen of the kernel: the signalled events, how often each thread owns each mutex,
  the mutexes whose owner died, and whether the lock of the queue is held exclusively.
\<close>

record kernel_view =
  signals :: "nat set"
  owners :: "nat \<Rightarrow> thread \<Rightarrow> nat"
  abandoned :: "nat set"
  queue_held :: bool

definition owns :: "nat \<Rightarrow> thread \<Rightarrow> nat \<Rightarrow> kernel_view \<Rightarrow> kernel_view" where
  "owns x t n v = v\<lparr>owners := (owners v)(x := (owners v x)(t := n))\<rparr>"

text \<open>
  The documented behaviour of the services, for each thread: setting an event signals it; a wait for
  a signalled event succeeds and resets it (both events of the program are created auto-reset); a
  wait for a mutex that no other thread owns and whose owner did not die succeeds and makes the
  thread an owner once more; an owner that releases it owns it once less; in the monitor, the free
  lock of the queue is acquired and the held one released. Nothing else is said: neither what a
  wait returns otherwise, nor what the release by a thread that is no owner does.
\<close>

definition kernel_objects ::
  "(thread \<Rightarrow> 'k win32) \<Rightarrow> (thread \<Rightarrow> handle \<Rightarrow> kobject option) \<Rightarrow> ('k \<Rightarrow> kernel_view) \<Rightarrow> bool" where
  "kernel_objects W obj view \<longleftrightarrow>
     (\<forall>t h e k. obj t h = Some (Event e) \<longrightarrow>
        view (snd (SetEvent (W t) h k)) = (view k)\<lparr>signals := insert e (signals (view k))\<rparr>) \<and>
     (\<forall>t h e k ms. obj t h = Some (Event e) \<and> e \<in> signals (view k) \<longrightarrow>
        fst (WaitForSingleObject (W t) h ms k) = WAIT_OBJECT_0 \<and>
        view (snd (WaitForSingleObject (W t) h ms k)) = (view k)\<lparr>signals := signals (view k) - {e}\<rparr>) \<and>
     (\<forall>t h x k ms. obj t h = Some (Mutex x) \<and> (\<forall>u. u \<noteq> t \<longrightarrow> owners (view k) x u = 0) \<and> x \<notin> abandoned (view k) \<longrightarrow>
        fst (WaitForSingleObject (W t) h ms k) = WAIT_OBJECT_0 \<and>
        view (snd (WaitForSingleObject (W t) h ms k)) = owns x t (Suc (owners (view k) x t)) (view k)) \<and>
     (\<forall>t h x k. obj t h = Some (Mutex x) \<and> 0 < owners (view k) x t \<longrightarrow>
        view (snd (ReleaseMutex (W t) h k)) = owns x t (owners (view k) x t - 1) (view k)) \<and>
     (\<forall>t k. t \<noteq> Server_Thread \<and> \<not> queue_held (view k) \<longrightarrow>
        view (AcquireSRWLockExclusive (W t) Buffer_SRW k) = (view k)\<lparr>queue_held := True\<rparr>) \<and>
     (\<forall>t k. t \<noteq> Server_Thread \<and> queue_held (view k) \<longrightarrow>
        view (ReleaseSRWLockExclusive (W t) Buffer_SRW k) = (view k)\<lparr>queue_held := False\<rparr>)"

lemma set_event_view:
  "kernel_objects W obj view \<Longrightarrow> obj t h = Some (Event e) \<Longrightarrow>
   view (snd (SetEvent (W t) h k)) = (view k)\<lparr>signals := insert e (signals (view k))\<rparr>"
  by (simp add: kernel_objects_def)

lemma wait_event_view:
  assumes "kernel_objects W obj view" "obj t h = Some (Event e)" "e \<in> signals (view k)"
  obtains k1 where "WaitForSingleObject (W t) h ms k = (WAIT_OBJECT_0, k1)"
    "view k1 = (view k)\<lparr>signals := signals (view k) - {e}\<rparr>"
proof (rule that)
  have "fst (WaitForSingleObject (W t) h ms k) = WAIT_OBJECT_0 \<and>
      view (snd (WaitForSingleObject (W t) h ms k)) = (view k)\<lparr>signals := signals (view k) - {e}\<rparr>"
    using assms by (simp add: kernel_objects_def)
  then show "WaitForSingleObject (W t) h ms k = (WAIT_OBJECT_0, snd (WaitForSingleObject (W t) h ms k))"
    "view (snd (WaitForSingleObject (W t) h ms k)) = (view k)\<lparr>signals := signals (view k) - {e}\<rparr>"
    by (simp_all add: prod_eq_iff)
qed

lemma wait_mutex_view:
  "kernel_objects W obj view \<Longrightarrow> obj t h = Some (Mutex x) \<Longrightarrow> \<forall>u. u \<noteq> t \<longrightarrow> owners (view k) x u = 0 \<Longrightarrow>
   x \<notin> abandoned (view k) \<Longrightarrow> fst (WaitForSingleObject (W t) h ms k) = WAIT_OBJECT_0 \<and>
   view (snd (WaitForSingleObject (W t) h ms k)) = owns x t (Suc (owners (view k) x t)) (view k)"
  by (simp add: kernel_objects_def)

lemma release_mutex_view:
  "kernel_objects W obj view \<Longrightarrow> obj t h = Some (Mutex x) \<Longrightarrow> 0 < owners (view k) x t \<Longrightarrow>
   view (snd (ReleaseMutex (W t) h k)) = owns x t (owners (view k) x t - 1) (view k)"
  by (simp add: kernel_objects_def)

lemma acquire_queue_view:
  "kernel_objects W obj view \<Longrightarrow> t \<noteq> Server_Thread \<Longrightarrow> \<not> queue_held (view k) \<Longrightarrow>
   view (AcquireSRWLockExclusive (W t) Buffer_SRW k) = (view k)\<lparr>queue_held := True\<rparr>"
  by (simp add: kernel_objects_def)

lemma release_queue_view:
  "kernel_objects W obj view \<Longrightarrow> t \<noteq> Server_Thread \<Longrightarrow> queue_held (view k) \<Longrightarrow>
   view (ReleaseSRWLockExclusive (W t) Buffer_SRW k) = (view k)\<lparr>queue_held := False\<rparr>"
  by (simp add: kernel_objects_def)

text \<open>The mutex of a block.\<close>

lemma shm_lock_view:
  assumes "kernel_objects W obj view" "obj t (l_lock (sb_lock blk)) = Some (Mutex x)" "l_init (sb_lock blk)"
    and "\<forall>u. owners (view k) x u = 0" "x \<notin> abandoned (view k)"
  obtains k1 where "shm_lock (W t) (Some blk) ms k = Inr (True, k1)" "view k1 = owns x t 1 (view k)"
proof -
  let ?w = "WaitForSingleObject (W t) (l_lock (sb_lock blk)) ms k"
  have "fst ?w = WAIT_OBJECT_0 \<and> view (snd ?w) = owns x t (Suc (owners (view k) x t)) (view k)"
    using assms(4) by (intro wait_mutex_view [OF assms(1,2) _ assms(5)]) simp
  then have "shm_lock (W t) (Some blk) ms k = Inr (True, snd ?w)" "view (snd ?w) = owns x t 1 (view k)"
    using assms(3,4) by (simp_all add: shm_lock_def lock_wait_def split_beta)
  then show thesis by (rule that)
qed

lemma owns_released: "owners v x t = 0 \<Longrightarrow> owns x t 0 (owns x t n v) = v"
  by (cases v) (simp add: owns_def fun_upd_idem)

section \<open>The channel and the monitor at rest\<close>

text \<open>
  The channel is open in both processes, which share the data, the mutex and the send event \<open>S\<close>;
  the threads of the monitor share the event \<open>E\<close> of the queue. Nobody owns the mutex or the lock of
  the queue, the queue is empty, the message buffer is allocated, and a queue node can be. The
  events may or may not be signalled.
\<close>

definition pipeline_ready ::
  "(thread \<Rightarrow> handle \<Rightarrow> kobject option) \<Rightarrow> ('k \<Rightarrow> kernel_view) \<Rightarrow> nat \<Rightarrow> nat \<Rightarrow>
   callout_state \<Rightarrow> mem \<Rightarrow> 'k \<Rightarrow> monitor \<Rightarrow> ptr \<times> ptr \<Rightarrow> bool" where
  "pipeline_ready obj view S E C m k M al \<longleftrightarrow>
     (\<exists>blk x vw old.
       ch_shm C = Some blk \<and> sb_len blk = 2048 \<and> m (sb_data blk) = Some vw \<and> length (v_data vw) = 2048 \<and>
       sb_data (mon_shm M) = sb_data blk \<and> l_init (sb_lock blk) \<and> l_init (sb_lock (mon_shm M)) \<and> esnd blk \<noteq> NULL \<and>
       obj Server_Thread (l_lock (sb_lock blk)) = Some (Mutex x) \<and>
       obj Main_Thread (l_lock (sb_lock (mon_shm M))) = Some (Mutex x) \<and>
       obj Server_Thread (esnd blk) = Some (Event S) \<and> obj Main_Thread (esnd (mon_shm M)) = Some (Event S) \<and>
       obj Main_Thread (b_evt (mon_buffer M)) = Some (Event E) \<and> obj Handle_Thread (b_evt (mon_buffer M)) = Some (Event E) \<and>
       (\<forall>u. owners (view k) x u = 0) \<and> x \<notin> abandoned (view k) \<and> \<not> queue_held (view k) \<and>
       mon_msgs M (mon_buf M) = Some old \<and> length old = 2048 \<and> mon_buf M \<noteq> NULL) \<and>
     lb_rep (mon_buffer M) (mon_nodes M) [] \<and> 0 < b_max_size (mon_buffer M) \<and>
     fst al \<notin> dom (mon_nodes M) \<and> fst al \<noteq> NULL"

text \<open>
  One turn of the receiving loop in the memory and kernel state a hook left, then one turn of the
  handler in the kernel state that turn left: the queue is empty again, and the kernel state and
  the database are \<open>k2\<close> and \<open>d'\<close>.
\<close>

definition monitor_logs ::
  "(thread \<Rightarrow> 'k win32) \<Rightarrow> 'd mysql \<Rightarrow> (wchar, 'tm) time_api \<Rightarrow> char list \<Rightarrow> ptr \<times> ptr \<Rightarrow> monitor \<Rightarrow> mem \<Rightarrow> 'k \<Rightarrow> 'd \<Rightarrow>
   'k \<Rightarrow> 'd \<Rightarrow> bool" where
  "monitor_logs W Q T hb al M m' k' d k2 d' \<longleftrightarrow>
     (\<exists>M1 k1 M2. main_turn (W Main_Thread) al M m' k' = Inr (M1, k1) \<and>
        handler_turn (W Handle_Thread) Q T hb M1 k1 d = Inr (M2, k2, d') \<and>
        lb_rep (mon_buffer M2) (mon_nodes M2) [])"

section \<open>From the hook to the handler\<close>

text \<open>The hook gets the mutex, and leaves it free and the send event signalled.\<close>

lemma hook_signals:
  assumes "kernel_objects W obj view" "pipeline_ready obj view S E C m k M al"
  obtains blk k1 where "ch_shm C = Some blk" "channel_ready (W Server_Thread) blk m k k1" "sb_data (mon_shm M) = sb_data blk"
    "view (shm_after (W Server_Thread) blk k1) = (view k)\<lparr>signals := insert S (signals (view k))\<rparr>"
proof -
  obtain blk x vw where r: "ch_shm C = Some blk" "sb_len blk = 2048" "m (sb_data blk) = Some vw" "length (v_data vw) = 2048"
    "sb_data (mon_shm M) = sb_data blk" "l_init (sb_lock blk)" "esnd blk \<noteq> NULL"
    "obj Server_Thread (l_lock (sb_lock blk)) = Some (Mutex x)" "obj Server_Thread (esnd blk) = Some (Event S)"
    "\<forall>u. owners (view k) x u = 0" "x \<notin> abandoned (view k)"
    using assms(2) unfolding pipeline_ready_def by blast
  obtain k1 where k1: "shm_lock (W Server_Thread) (Some blk) 2500 k = Inr (True, k1)" "view k1 = owns x Server_Thread 1 (view k)"
    using shm_lock_view [OF assms(1) r(8,6,10,11)] by blast
  have "view (snd (ReleaseMutex (W Server_Thread) (l_lock (sb_lock blk)) k1)) = view k"
    using release_mutex_view [OF assms(1) r(8), of k1] owns_released [of "view k" x Server_Thread 1] r(10)
    unfolding k1(2) by (simp add: owns_def)
  then have "view (shm_after (W Server_Thread) blk k1) = (view k)\<lparr>signals := insert S (signals (view k))\<rparr>"
    using r(6,7) by (simp add: shm_after_def set_event_view [OF assms(1) r(9)])
  moreover have "channel_ready (W Server_Thread) blk m k k1" using r k1(1) by (simp add: channel_ready_def)
  ultimately show thesis using that r(1,5) by blast
qed

text \<open>
  The receiving loop is woken by the send event, gets the mutex, and leaves it free and the event
  of the queue signalled.
\<close>

lemma main_turn_signals:
  assumes "kernel_objects W obj view" "pipeline_ready obj view S E C m k M al"
    and "view k' = (view k)\<lparr>signals := insert S (signals (view k))\<rparr>"
    and "m' (sb_data (mon_shm M)) = Some vw" "length (v_data vw) = 2048"
  obtains M1 k1 where "main_turn (W Main_Thread) al M m' k' = Inr (M1, k1)"
    "view k1 = (view k)\<lparr>signals := insert E (signals (view k) - {S})\<rparr>"
    "mon_msgs M1 (mon_buf M) = Some (v_data vw)" "lb_rep (mon_buffer M1) (mon_nodes M1) [mon_buf M]"
    "mon_conn M1 = mon_conn M" "mon_time M1 = mon_time M" "b_evt (mon_buffer M1) = b_evt (mon_buffer M)"
proof -
  let ?W = "W Main_Thread"
  obtain x old where r: "l_init (sb_lock (mon_shm M))" "obj Main_Thread (l_lock (sb_lock (mon_shm M))) = Some (Mutex x)"
    "obj Main_Thread (esnd (mon_shm M)) = Some (Event S)" "obj Main_Thread (b_evt (mon_buffer M)) = Some (Event E)"
    "\<forall>u. owners (view k) x u = 0" "x \<notin> abandoned (view k)" "\<not> queue_held (view k)"
    "mon_msgs M (mon_buf M) = Some old" "length old = 2048" "lb_rep (mon_buffer M) (mon_nodes M) []"
    "0 < b_max_size (mon_buffer M)" "fst al \<notin> dom (mon_nodes M)" "fst al \<noteq> NULL"
    using assms(2) unfolding pipeline_ready_def by blast
  obtain j1 where j1: "WaitForSingleObject ?W (esnd (mon_shm M)) 1000 k' = (WAIT_OBJECT_0, j1)"
    "view j1 = (view k)\<lparr>signals := signals (view k) - {S}\<rparr>"
    using wait_event_view [OF assms(1) r(3), of k' 1000] by (auto simp: assms(3))
  have "\<forall>u. owners (view j1) x u = 0" "x \<notin> abandoned (view j1)" using r(5,6) by (simp_all add: j1(2))
  then obtain j2 where j2: "shm_lock ?W (Some (mon_shm M)) 1500 j1 = Inr (True, j2)" "view j2 = owns x Main_Thread 1 (view j1)"
    using shm_lock_view [OF assms(1) r(2,1)] by blast
  let ?j3 = "ReleaseSRWLockExclusive ?W Buffer_SRW
    (snd (SetEvent ?W (b_evt (mon_buffer M)) (AcquireSRWLockExclusive ?W Buffer_SRW j2)))"
  have len: "2048 \<le> length (v_data vw)" and all: "take 2048 (v_data vw) = v_data vw" using assms(5) by simp_all
  have room: "length ([] :: ptr list) < b_max_size (mon_buffer M)" using r(11) by simp
  obtain M1 k1 q where M1: "main_turn ?W al M m' k' = Inr (M1, k1)"
    "mon_msgs M1 = (mon_msgs M)(mon_buf M \<mapsto> v_data vw)" "lb_rep (mon_buffer M1) (mon_nodes M1) [mon_buf M]"
    "mon_conn M1 = mon_conn M" "mon_time M1 = mon_time M" "b_evt (mon_buffer M1) = b_evt (mon_buffer M)"
    "shm_unlock ?W (Some (mon_shm M)) ?j3 = Inr (q, k1)"
    using main_turn_receives [where m = m', OF j1(1) j2(1) assms(4) len r(8-10) room r(12,13), unfolded all append_Nil]
    by blast
  have "view (AcquireSRWLockExclusive ?W Buffer_SRW j2) = (view j2)\<lparr>queue_held := True\<rparr>"
    using r(7) by (intro acquire_queue_view [OF assms(1)]) (simp_all add: j2(2) j1(2) owns_def)
  then have j3: "view ?j3 = owns x Main_Thread 1 ((view k)\<lparr>signals := insert E (signals (view k) - {S})\<rparr>)"
    using r(7) by (simp add: release_queue_view [OF assms(1)] set_event_view [OF assms(1) r(4)] j2(2) j1(2) owns_def)
  have "k1 = snd (ReleaseMutex ?W (l_lock (sb_lock (mon_shm M))) ?j3)"
    using M1(7) r(1) by (simp add: shm_unlock_def lock_release_def prod_eq_iff)
  moreover have "0 < owners (view ?j3) x Main_Thread" unfolding j3 by (simp add: owns_def)
  ultimately have "view k1 = owns x Main_Thread (owners (view ?j3) x Main_Thread - 1) (view ?j3)"
    using release_mutex_view [OF assms(1) r(2)] by simp
  then have "view k1 = owns x Main_Thread 0 (owns x Main_Thread 1 ((view k)\<lparr>signals := insert E (signals (view k) - {S})\<rparr>))"
    unfolding j3 by (simp add: owns_def)
  also have "\<dots> = (view k)\<lparr>signals := insert E (signals (view k) - {S})\<rparr>"
    using r(5) by (intro owns_released) simp
  finally show thesis using that M1 by simp
qed

text \<open>
  The handler is woken by the event of the queue, hands the message over and leaves both events
  unsignalled; every lock is free again, as before the hook.
\<close>

lemma pipeline_logs:
  assumes "kernel_objects W obj view" "pipeline_ready obj view S E C m k M al"
    and "view k' = (view k)\<lparr>signals := insert S (signals (view k))\<rparr>"
    and "m' (sb_data (mon_shm M)) = Some vw" "length (v_data vw) = 2048"
    and "handle_message Q T (mon_conn M) hb (v_data vw) (mon_time M) d = Inr (tb, d')"
  shows "\<exists>k2. monitor_logs W Q T hb al M m' k' d k2 d' \<and> view k2 = (view k)\<lparr>signals := signals (view k) - {S, E}\<rparr>"
proof -
  let ?W = "W Handle_Thread"
  have r: "obj Handle_Thread (b_evt (mon_buffer M)) = Some (Event E)" "\<not> queue_held (view k)" "mon_buf M \<noteq> NULL"
    using assms(2) unfolding pipeline_ready_def by blast+
  obtain M1 k1 where M1: "main_turn (W Main_Thread) al M m' k' = Inr (M1, k1)"
    "view k1 = (view k)\<lparr>signals := insert E (signals (view k) - {S})\<rparr>"
    "mon_msgs M1 (mon_buf M) = Some (v_data vw)" "lb_rep (mon_buffer M1) (mon_nodes M1) [mon_buf M]"
    "mon_conn M1 = mon_conn M" "mon_time M1 = mon_time M" "b_evt (mon_buffer M1) = b_evt (mon_buffer M)"
    using main_turn_signals [where W = W and obj = obj and view = view and k = k and k' = k' and m' = m', OF assms(1-5)] by blast
  obtain j where j: "WaitForSingleObject ?W (b_evt (mon_buffer M1)) 5000 k1 = (WAIT_OBJECT_0, j)"
    "view j = (view k)\<lparr>signals := insert E (signals (view k) - {S}) - {E}\<rparr>"
    using wait_event_view [OF assms(1) r(1), of k1 5000] by (auto simp: M1(2,7))
  have hm: "handle_message Q T (mon_conn M1) hb (v_data vw) (mon_time M1) d = Inr (tb, d')" using assms(6) M1(5,6) by simp
  let ?k2 = "ReleaseSRWLockExclusive ?W Buffer_SRW (AcquireSRWLockExclusive ?W Buffer_SRW j)"
  obtain M2 where M2: "handler_turn ?W Q T hb M1 k1 d = Inr (M2, ?k2, d')" "lb_rep (mon_buffer M2) (mon_nodes M2) []"
    using handler_turn_handles [OF j(1) M1(4) r(3) M1(3) hm] by blast
  have "view (AcquireSRWLockExclusive ?W Buffer_SRW j) = (view j)\<lparr>queue_held := True\<rparr>"
    using r(2) by (intro acquire_queue_view [OF assms(1)]) (simp_all add: j(2))
  then have "view ?k2 = (view k)\<lparr>signals := insert E (signals (view k) - {S}) - {E}\<rparr>"
    using r(2) by (simp add: release_queue_view [OF assms(1)] j(2))
  also have "insert E (signals (view k) - {S}) - {E} = signals (view k) - {S, E}" by blast
  finally show ?thesis using M1(1) M2 unfolding monitor_logs_def by blast
qed

section \<open>A kernel for evaluation\<close>

text \<open>
  The view is the whole kernel state; handle 6 is the mutex, 7 the send event and 8 the event of
  the queue, in every thread.
\<close>

definition pipe_obj :: "thread \<Rightarrow> handle \<Rightarrow> kobject option" where
  "pipe_obj t h = (if h = 6 then Some (Mutex 6) else if h = 7 \<or> h = 8 then Some (Event h) else None)"

definition pipe_wait :: "thread \<Rightarrow> handle \<Rightarrow> kernel_view \<Rightarrow> dword \<times> kernel_view" where
  "pipe_wait t h k =
     (if h = 6 then
        (if list_all (\<lambda>u. u = t \<or> owners k 6 u = 0) [Server_Thread, Main_Thread, Handle_Thread] \<and> 6 \<notin> abandoned k
         then (WAIT_OBJECT_0, owns 6 t (Suc (owners k 6 t)) k) else (WAIT_TIMEOUT, k))
      else if h \<in> signals k then (WAIT_OBJECT_0, k\<lparr>signals := signals k - {h}\<rparr>) else (WAIT_TIMEOUT, k))"

definition pipe_win32 :: "thread \<Rightarrow> kernel_view win32" where
  "pipe_win32 t = \<lparr>
     WaitForSingleObject = (\<lambda>h _. pipe_wait t h), CreateMutex = (\<lambda>_ k. (6, k)), CreateMutexEx = (\<lambda>_ _ k. (6, k)),
     ReleaseMutex = (\<lambda>h k. if 0 < owners k h t then (True, owns h t (owners k h t - 1) k) else (False, k)),
     CloseHandle = (\<lambda>_ k. k), CreateEvent = (\<lambda>k. (8, k)), CreateEventEx = (\<lambda>_ _ k. (7, k)),
     SetEvent = (\<lambda>h k. (True, k\<lparr>signals := insert h (signals k)\<rparr>)),
     InitializeSRWLock = (\<lambda>_ k. k\<lparr>queue_held := False\<rparr>), AcquireSRWLockShared = (\<lambda>_ k. k), ReleaseSRWLockShared = (\<lambda>_ k. k),
     AcquireSRWLockExclusive = (\<lambda>l k. if l = Buffer_SRW then k\<lparr>queue_held := True\<rparr> else k),
     ReleaseSRWLockExclusive = (\<lambda>l k. if l = Buffer_SRW then k\<lparr>queue_held := False\<rparr> else k),
     OpenProcessToken = (\<lambda>k. (None, k)), LookupPrivilegeValue = (\<lambda>k. k), AdjustTokenPrivileges = (\<lambda>_ k. (True, k)),
     AllocateAndInitializeSid = (\<lambda>_ _ k. (None, k)), SetEntriesInAcl = (\<lambda>_ k. ((ERROR_SUCCESS, NULL), k)),
     LocalAlloc = (\<lambda>k. (NULL, k)), InitializeSecurityDescriptor = (\<lambda>_ k. (True, k)),
     SetSecurityDescriptorDacl = (\<lambda>_ _ k. (True, k)), FreeSid = (\<lambda>_ k. k), LocalFree = (\<lambda>_ k. k),
     CreateFileMapping = (\<lambda>_ _ _ k. (5, k)), OpenFileMapping = (\<lambda>_ k. (5, k)),
     MapViewOfFile = (\<lambda>_ _ k. (9, k)), UnmapViewOfFile = (\<lambda>_ k. k)\<rparr>"

definition pipe_start :: kernel_view where
  "pipe_start = \<lparr>signals = {}, owners = (\<lambda>_ _. 0), abandoned = {}, queue_held = False\<rparr>"

definition pipe_callout :: callout_state where
  "pipe_callout = demo_callout\<lparr>ch_shm := Some (demo_channel\<lparr>sb_lock := \<lparr>l_init = True, l_lock = 6\<rparr>\<rparr>)\<rparr>"

lemma pipe_kernel_objects: "kernel_objects pipe_win32 pipe_obj id"
proof -
  have "fst (pipe_wait t 6 k) = WAIT_OBJECT_0 \<and> snd (pipe_wait t 6 k) = owns 6 t (Suc (owners k 6 t)) k"
    if "\<forall>u. u \<noteq> t \<longrightarrow> owners k 6 u = 0" "6 \<notin> abandoned k" for t k
    using that by (auto simp: pipe_wait_def)
  then show ?thesis
    by (auto simp: kernel_objects_def pipe_win32_def pipe_obj_def pipe_wait_def split: if_splits)
qed

lemma pipe_ready: "pipeline_ready pipe_obj id 7 8 pipe_callout demo_slot pipe_start demo_running (50, 0)"
  using lb_rep_empty
  by (simp add: pipeline_ready_def pipe_obj_def pipe_callout_def demo_callout_def demo_channel_def demo_slot_def
      pipe_start_def demo_running_def demo_monitor_def shm_zero_def)

end
