(* ===== verification/Fake_Client.thy ===== *)
theory Fake_Client
  imports Callout_Hook Monitor_Handlers
begin

text \<open>
  \<open>FakeClient/FakeClient.cpp\<close>: the test program that sends a fixed text through the channel of the
  callout DLL. Its endless loop is run for a given number of turns.
\<close>

text \<open>The bytes of \<open>"Hello world"\<close>; \<open>sizeof("hello world")\<close> counts the terminating NUL.\<close>

definition fake_text :: "byte list" where
  "fake_text = map of_char ''Hello world'' @ [0]"

fun send_loop :: "'k win32 \<Rightarrow> shm_block \<Rightarrow> nat \<Rightarrow> mem \<Rightarrow> 'k \<Rightarrow> (mem \<times> 'k) result" where
  "send_loop W shm 0 m k = Inr (m, k)"
| "send_loop W shm (Suc n) m k =
     res_bind (shm_write W (Some shm) fake_text 12 m k) (\<lambda>(_, m1, k1). send_loop W shm n m1 k1)"

text \<open>\<open>send_message\<close> returns \<open>-1\<close> when the block cannot be opened and is sending otherwise (\<open>None\<close>).\<close>

definition send_message :: "'k win32 \<Rightarrow> nat \<Rightarrow> mem \<Rightarrow> 'k \<Rightarrow> (int option \<times> mem \<times> 'k) result" where
  "send_message W n m k =
     res_bind (shm_init W fresh_shm None m k) (\<lambda>(r, shm, m1, k1).
       if FAILED r then Inr (Some (- 1), m1, k1)
       else res_bind (send_loop W shm n m1 k1) (\<lambda>(m2, k2). Inr (None, m2, k2)))"

text \<open>\<open>threadproc\<close> tries again after every failure; \<open>ns\<close> gives the sending turns of each attempt.\<close>

fun threadproc :: "'k win32 \<Rightarrow> nat list \<Rightarrow> mem \<Rightarrow> 'k \<Rightarrow> (mem \<times> 'k) result" where
  "threadproc W [] m k = Inr (m, k)"
| "threadproc W (n # ns) m k =
     res_bind (send_message W n m k) (\<lambda>(ret, m1, k1).
       case ret of None \<Rightarrow> Inr (m1, k1) | Some _ \<Rightarrow> threadproc W ns m1 k1)"

section \<open>Properties\<close>

text \<open>A message of the test program is ignored: whatever the slot held before, the text written
  by it has the hook type \<open>0x6C6C6548\<close>, which the handler has no case for, so nothing reaches the
  database.\<close>

theorem fake_message_ignored:
  assumes "channel_ready W blk m k k1"
  shows "\<exists>m' k' vw'. send_loop W blk 1 m k = Inr (m', k') \<and> m' (sb_data blk) = Some vw' \<and>
    take 12 (v_data vw') = fake_text \<and> handle_message Q T conn hb (v_data vw') tb d = Inr (tb, d)"
proof -
  obtain vw where vw: "m (sb_data blk) = Some vw" "length (v_data vw) = 2048"
    using assms by (auto simp: channel_ready_def split: option.splits)
  let ?d = "fake_text @ drop 12 (v_data vw)"
  have raw: "fake_text = [72, 101, 108, 108, 111, 32, 119, 111, 114, 108, 100, 0]"
    by (simp add: fake_text_def)
  have w: "shm_write W (Some blk) fake_text 12 m k =
      Inr (of_nat 12, m(sb_data blk \<mapsto> vw\<lparr>v_data := ?d\<rparr>), shm_after W blk k1)"
    using shm_write_ok [of W blk k k1 m vw 12 fake_text] assms vw by (simp add: channel_ready_def raw)
  have "handle_message Q T conn hb ?d tb d = Inr (tb, d)"
    by (simp add: raw handle_message_def slice_def bytes_dword_def callout_codes)
  then show ?thesis using w by (simp add: raw)
qed

theorem fake_message_ignored_witness:
  "\<exists>m' k' vw'. send_loop sim_win32 demo_channel 1 demo_slot sim_start = Inr (m', k') \<and>
    m' (sb_data demo_channel) = Some vw' \<and> take 12 (v_data vw') = fake_text \<and>
    handle_message sim_mysql demo_wtime 1 demo_hb (v_data vw') demo_wbufs monitor_db = Inr (demo_wbufs, monitor_db)"
  by (rule fake_message_ignored [OF demo_channel_ready])

end
