(* ===== verification/Acl_Update.thy ===== *)
theory Acl_Update
  imports Acl C_Stdlib Db
begin

text \<open>
  \<open>Monitor/acl_update.cpp\<close>: the thread that reloads the access list from the database into the
  shared block when the newest time stamp of the table changes.
\<close>

section \<open>Parsing a hardware address\<close>

function acl_parse_loop :: "byte list \<Rightarrow> nat \<Rightarrow> string \<Rightarrow> nat \<Rightarrow> byte list result" where
  "acl_parse_loop buf bufsize endptr idx =
     (if idx < bufsize then
        (let (v, rest) = strtoul16 endptr in
         res_bind (wr buf (int idx) (ucast v)) (\<lambda>buf1.
           if rest = [] then Inr buf1 else acl_parse_loop buf1 bufsize (tl rest) (Suc idx)))
      else Inr buf)"
  by pat_completeness auto
termination
  by (relation "measure (\<lambda>(buf, bufsize, endptr, idx). bufsize - idx)") auto

declare acl_parse_loop.simps [simp del]

definition acl_parse_hwaddr :: "byte list \<Rightarrow> nat \<Rightarrow> string \<Rightarrow> byte list result" where
  "acl_parse_hwaddr buf bufsize str = acl_parse_loop buf bufsize str 0"

section \<open>The time-stamp check\<close>

text \<open>The global \<open>char last_update[16]="0"\<close>.\<close>

definition last_update_init :: "char list" where
  "last_update_init = c_strncpy ''0'' 16"

definition acl_check_query :: "string \<Rightarrow> string" where
  "acl_check_query ts = ''SELECT MAX(ts+0) FROM access_list where (ts+0)>'' @ ts"

definition acl_check_last_update ::
  "'d mysql \<Rightarrow> ptr \<Rightarrow> char list \<Rightarrow> 'd \<Rightarrow> (bool \<times> char list \<times> 'd) result" where
  "acl_check_last_update Q conn last_update d =
     res_bind (c_str last_update) (\<lambda>ts.
       let query = acl_check_query ts in
       if 256 \<le> length query then Inl Buffer_Overflow
       else let d1 = snd (mysql_query Q conn query d); (res, d2) = mysql_store_result Q conn d1
       in case res of
            None \<Rightarrow> Inr (False, last_update, d2)
          | Some rows \<Rightarrow>
              (case rows of
                 [] \<Rightarrow> Inl Null_Dereference
               | row # _ \<Rightarrow>
                   res_bind (rd row 0) (\<lambda>col.
                     case col of
                       None \<Rightarrow> Inr (False, last_update, mysql_free_result Q d2)
                     | Some s \<Rightarrow> Inr (True, c_strncpy s 16, mysql_free_result Q d2))))"

section \<open>Loading the table\<close>

definition acl_select_query :: string where
  "acl_select_query = ''SELECT hwtype,hwaddr,hwmask,access FROM access_list ORDER BY hwmask DESC , hwaddr''"

text \<open>A column used as a C string: SQL NULL is a null pointer.\<close>

definition column :: "mysql_row \<Rightarrow> nat \<Rightarrow> string result" where
  "column row i = res_bind (rd row (int i)) (\<lambda>c. case c of None \<Rightarrow> Inl Null_Dereference | Some s \<Rightarrow> Inr s)"

text \<open>Lines 70 to 73: one row into one (zeroed) entry of the local array.\<close>

definition acl_row_entry :: "acl_entry \<Rightarrow> mysql_row \<Rightarrow> acl_entry result" where
  "acl_row_entry e row =
     res_bind (column row 0) (\<lambda>c0.
     res_bind (column row 1) (\<lambda>c1.
     res_bind (acl_parse_hwaddr (HwAddr e) 16 c1) (\<lambda>a.
     res_bind (column row 2) (\<lambda>c2.
     res_bind (acl_parse_hwaddr (HwMask e) 16 c2) (\<lambda>m.
     res_bind (column row 3) (\<lambda>c3.
       Inr \<lparr>HwType = of_int (c_atoi c0), HwAddr = a, HwMask = m, access = of_int (c_atoi c3)\<rparr>))))))"

fun acl_load_loop :: "acl_entry list \<Rightarrow> mysql_row list \<Rightarrow> nat \<Rightarrow> (acl_entry list \<times> nat) result" where
  "acl_load_loop buff [] cnt = Inr (buff, cnt)"
| "acl_load_loop buff (row # rows) cnt =
     (if cnt < 2048 then
        res_bind (rd buff (int cnt)) (\<lambda>e.
        res_bind (acl_row_entry e row) (\<lambda>e'.
        res_bind (wr buff (int cnt) e') (\<lambda>buff'.
          acl_load_loop buff' rows (cnt + 1))))
      else Inr (buff, cnt))"

text \<open>The debug loop formats both arrays of every entry into two 64-character buffers.\<close>

fun acl_debug_loop :: "char list \<Rightarrow> char list \<Rightarrow> acl_entry list \<Rightarrow> unit result" where
  "acl_debug_loop hwbuff1 hwbuff2 [] = Inr ()"
| "acl_debug_loop hwbuff1 hwbuff2 (e # es) =
     res_bind (dhcp_hw_addr_ansi hwbuff1 (HwAddr e) 16) (\<lambda>b1.
     res_bind (dhcp_hw_addr_ansi hwbuff2 (HwMask e) 16) (\<lambda>b2.
       acl_debug_loop b1 b2 es))"

definition hwbuff_init :: "char list" where
  "hwbuff_init = replicate 64 (CHR 0x00)"

definition acl_do_update ::
  "'k win32 \<Rightarrow> 'd mysql \<Rightarrow> ptr \<Rightarrow> acl_list \<Rightarrow> 'd \<Rightarrow> 'k \<Rightarrow> (acl_list \<times> 'd \<times> 'k) result" where
  "acl_do_update W Q conn acl d k =
     (let d1 = snd (mysql_query Q conn acl_select_query d); (res, d2) = mysql_store_result Q conn d1 in
      case res of
        None \<Rightarrow> Inr (acl, d2, k)
      | Some rows \<Rightarrow>
          res_bind (acl_load_loop (replicate 2048 zero_entry) rows 0) (\<lambda>(buff, cnt).
            let sorted = acl_sort_entry buff cnt in
            res_bind (acl_debug_loop hwbuff_init hwbuff_init (take cnt sorted)) (\<lambda>_.
            let k1 = acl_write_lock W k in
            res_bind (memcpy_at (acl_entry_mem acl) 0 sorted cnt) (\<lambda>entries.
              Inr (\<lparr>acl_length = of_nat cnt, acl_entry_mem = entries\<rparr>,
                   mysql_free_result Q d2, acl_write_unlock W k1)))))"

section \<open>The thread\<close>

record acl_thread =
  at_counter :: "32 word"
  at_last_update :: "char list"
  at_acl :: acl_list

text \<open>
  How a C statement ends: normally, by \<open>break\<close>, or by \<open>return\<close>. The enclosing \<open>switch\<close> takes a
  \<open>break\<close> of its body for itself, so that the statement behind it is the next one.
\<close>

datatype c_exit = Normal | Break | Return int

fun end_switch :: "c_exit \<Rightarrow> c_exit" where
  "end_switch Normal = Normal"
| "end_switch Break = Normal"
| "end_switch (Return r) = Return r"

text \<open>
  The body of the \<open>switch\<close> in lines 117 to 125, entered at the label for the result of the wait
  (behind the body when there is none). The counter is a 32-bit \<open>int\<close>; the remainder of C is zero
  exactly when \<open>mod\<close> is.
\<close>

definition acl_update_cases ::
  "'k win32 \<Rightarrow> 'd mysql \<Rightarrow> ptr \<Rightarrow> dword \<Rightarrow> acl_thread \<Rightarrow> 'd \<Rightarrow> 'k \<Rightarrow> (c_exit \<times> acl_thread \<times> 'd \<times> 'k) result" where
  "acl_update_cases W Q conn w t d k =
     (if w = WAIT_OBJECT_0 then Inr (Break, t, d, k)
      else if w = WAIT_TIMEOUT then
        (let t1 = t\<lparr>at_counter := at_counter t + 1\<rparr> in
         if sint (at_counter t) mod 3 = 0 then
           res_bind (acl_check_last_update Q conn (at_last_update t) d) (\<lambda>(changed, lu, d1).
             let t2 = t1\<lparr>at_last_update := lu\<rparr> in
             if changed then
               res_bind (acl_do_update W Q conn (at_acl t) d1 k) (\<lambda>(acl, d2, k2).
                 Inr (Break, t2\<lparr>at_acl := acl\<rparr>, d2, k2))
             else Inr (Break, t2, d1, k))
         else Inr (Break, t1, d, k))
      else Inr (Normal, t, d, k))"

text \<open>One turn of \<open>while(TRUE)\<close>: its body is the \<open>switch\<close> on the result of \<open>WaitForSingleObject\<close>.\<close>

definition acl_update_turn ::
  "'k win32 \<Rightarrow> 'd mysql \<Rightarrow> ptr \<Rightarrow> dword \<Rightarrow> acl_thread \<Rightarrow> 'd \<Rightarrow> 'k \<Rightarrow> (c_exit \<times> acl_thread \<times> 'd \<times> 'k) result" where
  "acl_update_turn W Q conn w t d k =
     res_bind (acl_update_cases W Q conn w t d k) (\<lambda>(x, t1, d1, k1). Inr (end_switch x, t1, d1, k1))"

text \<open>
  The loop run over the sequence of wait results, with the exit code of the thread: the loop is
  left by a \<open>break\<close> of its own, to the \<open>return 0\<close> behind it, or by a \<open>return\<close>; \<open>None\<close> means that it is
  still running.
\<close>

fun acl_update_loop ::
  "'k win32 \<Rightarrow> 'd mysql \<Rightarrow> ptr \<Rightarrow> dword list \<Rightarrow> acl_thread \<Rightarrow> 'd \<Rightarrow> 'k \<Rightarrow> (int option \<times> acl_thread \<times> 'd \<times> 'k) result" where
  "acl_update_loop W Q conn [] t d k = Inr (None, t, d, k)"
| "acl_update_loop W Q conn (w # ws) t d k =
     res_bind (acl_update_turn W Q conn w t d k) (\<lambda>(x, t1, d1, k1).
       case x of
         Normal \<Rightarrow> acl_update_loop W Q conn ws t1 d1 k1
       | Break \<Rightarrow> Inr (Some 0, t1, d1, k1)
       | Return r \<Rightarrow> Inr (Some r, t1, d1, k1))"

text \<open>
  Starting and stopping from the main program, and the whole thread: its exit code, or \<open>None\<close>
  while it runs. \<open>ws\<close> are the results of its waits so far; \<open>acls\<close> reads the list at the address
  \<open>acl_connect\<close> returned. The five settings are the globals of \<open>main.cpp\<close>.
\<close>

definition acl_update_start :: "'k win32 \<Rightarrow> 'k \<Rightarrow> handle \<times> 'k" where
  "acl_update_start W k = CreateEvent W k"

definition acl_update_stop :: "'k win32 \<Rightarrow> handle \<Rightarrow> 'k \<Rightarrow> 'k" where
  "acl_update_stop W acl_update_event_exit k = snd (SetEvent W acl_update_event_exit k)"

definition acl_update_thread ::
  "'k win32 \<Rightarrow> 'd mysql \<Rightarrow> string option \<Rightarrow> string option \<Rightarrow> string option \<Rightarrow> string option \<Rightarrow> int \<Rightarrow>
   (ptr \<Rightarrow> acl_list) \<Rightarrow> dword list \<Rightarrow> mem \<Rightarrow> 'd \<Rightarrow> 'k \<Rightarrow> (int option \<times> acl_list option \<times> mem \<times> 'd \<times> 'k) result" where
  "acl_update_thread W Q host user pass name port acls ws m d k =
     (let (conn, d1) = mysql_init Q d;
          (ok, d2) = mysql_real_connect Q conn host user pass name port d1
      in if ok = NULL then Inr (Some (- 1), None, m, d2, k)
      else res_bind (acl_connect W m k) (\<lambda>(acl, _, m1, k1).
        if acl = NULL then Inr (Some (- 2), None, m1, d2, k1)
        else res_bind (acl_update_loop W Q conn ws
               \<lparr>at_counter = 0, at_last_update = last_update_init, at_acl = acls acl\<rparr> d2 k1) (\<lambda>(code, t, d3, k2).
          Inr (code, Some (at_acl t), m1, d3, k2))))"

section \<open>Lemmas: parsing\<close>

lemma acl_parse_loop_step:
  assumes "idx < bufsize" "idx < length buf" "strtoul16 s = (v, rest)"
  shows "acl_parse_loop buf bufsize s idx =
    (if rest = [] then Inr (buf[idx := ucast v])
     else acl_parse_loop (buf[idx := ucast v]) bufsize (tl rest) (Suc idx))"
  using assms by (subst acl_parse_loop.simps) simp

lemma ucast_ucast_byte: "(ucast (ucast (b :: byte) :: dword) :: byte) = b"
  by (rule bit_word_eqI) (simp add: bit_simps)

lemma acl_parse_loop_hw_string:
  assumes "as \<noteq> []" "idx + length as \<le> n" "n \<le> length buf"
  shows "acl_parse_loop buf n (hw_string as) idx =
    Inr (take idx buf @ as @ drop (idx + length as) buf)"
  using assms
proof (induction as arbitrary: idx buf rule: hw_string.induct)
  case (2 b)
  have "strtoul16 (hex2 b) = (ucast b, [])" using strtoul16_hex2 [of "[]" b] by simp
  with 2 show ?case
    by (simp add: acl_parse_loop_step ucast_ucast_byte upd_conv_take_nth_drop)
next
  case (3 b v va)
  let ?rest = "CHR '':'' # hw_string (v # va)"
  let ?buf = "buf[idx := b]"
  have "strtoul16 (hex2 b @ ?rest) = (ucast b, ?rest)" by (rule strtoul16_hex2) simp
  then have "acl_parse_loop buf n (hw_string (b # v # va)) idx =
      acl_parse_loop ?buf n (hw_string (v # va)) (Suc idx)"
    using 3 by (simp add: acl_parse_loop_step ucast_ucast_byte)
  also have "\<dots> = Inr (take (Suc idx) ?buf @ (v # va) @ drop (Suc idx + length (v # va)) ?buf)"
    using "3.prems" by (intro "3.IH") simp_all
  also have "take (Suc idx) ?buf = take idx buf @ [b]"
    using "3.prems" by (simp add: take_Suc_conv_app_nth)
  finally show ?case by simp
qed simp

lemma acl_parse_loop_length: "acl_parse_loop buf n s idx = Inr r \<Longrightarrow> length r = length buf"
proof (induction buf n s idx rule: acl_parse_loop.induct)
  case (1 buf n s idx)
  obtain v rest where v: "strtoul16 s = (v, rest)" by force
  show ?case
  proof (cases "idx < n")
    case True
    with "1.prems" v obtain buf1 where b: "wr buf (int idx) (ucast v) = Inr buf1"
      and r: "(if rest = [] then Inr buf1 else acl_parse_loop buf1 n (tl rest) (Suc idx)) = Inr r"
      by (subst (asm) acl_parse_loop.simps) (auto simp: res_bind_eq_Inr)
    show ?thesis
    proof (cases "rest = []")
      case True
      with r b show ?thesis by (simp add: wr_length)
    next
      case False
      with r have "acl_parse_loop buf1 n (tl rest) (Suc idx) = Inr r" by simp
      then have "length r = length buf1" using "1.IH" [OF True refl v [symmetric] b False] by simp
      with b show ?thesis by (simp add: wr_length)
    qed
  next
    case False
    with "1.prems" show ?thesis by (simp add: acl_parse_loop.simps [of buf n s idx])
  qed
qed

lemma acl_parse_loop_total: "n \<le> length buf \<Longrightarrow> \<exists>r. acl_parse_loop buf n s idx = Inr r"
proof (induction buf n s idx rule: acl_parse_loop.induct)
  case (1 buf n s idx)
  obtain v rest where v: "strtoul16 s = (v, rest)" by force
  show ?case
  proof (cases "idx < n")
    case True
    with 1 v show ?thesis by (auto simp: acl_parse_loop_step)
  next
    case False
    then show ?thesis by (simp add: acl_parse_loop.simps [of buf n s idx])
  qed
qed

lemma digits_run_append:
  "list_all (\<lambda>c. val c \<noteq> None) xs \<Longrightarrow>
   digits_run val base acc (xs @ ys) = digits_run val base (fst (digits_run val base acc xs)) ys"
  by (induction xs arbitrary: acc) (auto split: option.splits)

lemma dec_val_hexdigits: "k < 10 \<Longrightarrow> dec_val (hexdigits ! k) = Some k"
proof -
  assume "k < 10"
  then have "k \<in> set [0..<10]" by simp
  moreover have "list_all (\<lambda>k. dec_val (hexdigits ! k) = Some k) [0..<10]"
    by (simp add: upt_rec dec_val_def hexdigits_def)
  ultimately show ?thesis unfolding list_all_iff by blast
qed

lemma dec_digits_all: "list_all (\<lambda>c. dec_val c \<noteq> None) (dec_digits n)"
proof (induction n rule: dec_digits.induct)
  case (1 n)
  then show ?case by (subst dec_digits.simps) (simp add: dec_val_hexdigits)
qed

lemma digits_run_dec_digits: "digits_run dec_val 10 0 (dec_digits n) = (n, [])"
proof (induction n rule: dec_digits.induct)
  case (1 n)
  show ?case
  proof (cases "n < 10")
    case True
    then show ?thesis by (subst dec_digits.simps) (simp add: dec_val_hexdigits)
  next
    case False
    then have d: "dec_digits n = dec_digits (n div 10) @ [hexdigits ! (n mod 10)]"
      by (subst dec_digits.simps) simp
    show ?thesis
      unfolding d using 1 [OF False] dec_digits_all
      by (simp add: digits_run_append dec_val_hexdigits)
  qed
qed

lemma dec_digits_head: "\<exists>k r. k < 10 \<and> dec_digits n = hexdigits ! k # r"
proof (induction n rule: dec_digits.induct)
  case (1 n)
  then show ?case by (subst dec_digits.simps) (cases "n < 10"; auto)
qed

lemma c_atoi_dec_digits: "c_atoi (dec_digits n) = int n"
proof -
  obtain k r where k: "k < 10" "dec_digits n = hexdigits ! k # r" using dec_digits_head by blast
  then have "dropWhile c_isspace (dec_digits n) = dec_digits n"
    "skip_sign (dec_digits n) = (False, dec_digits n)"
    using hexdigit_not_special [of k] by (auto simp: skip_sign_def)
  then show ?thesis by (simp add: c_atoi_def digits_run_dec_digits)
qed

section \<open>Lemmas: loading\<close>

text \<open>The entries of a result set, row by row.\<close>

fun acl_rows :: "mysql_row list \<Rightarrow> acl_entry list result" where
  "acl_rows [] = Inr []"
| "acl_rows (r # rs) = res_bind (acl_row_entry zero_entry r) (\<lambda>e. res_bind (acl_rows rs) (\<lambda>es. Inr (e # es)))"

lemma wf_zero_entry: "wf_entry zero_entry"
  by (simp add: wf_entry_def zero_entry_def)

lemma acl_row_entry_wf: "acl_row_entry e r = Inr e' \<Longrightarrow> wf_entry e \<Longrightarrow> wf_entry e'"
  by (auto simp: acl_row_entry_def res_bind_eq_Inr wf_entry_def acl_parse_hwaddr_def dest: acl_parse_loop_length)

lemma acl_rows_wf: "acl_rows rs = Inr es \<Longrightarrow> list_all wf_entry es \<and> length es = length rs"
  by (induction rs arbitrary: es) (auto simp: res_bind_eq_Inr dest: acl_row_entry_wf [OF _ wf_zero_entry])

lemma acl_load_loop_ok:
  assumes "acl_rows (take (2048 - length pre) rows) = Inr es" "length pre \<le> 2048"
  shows "acl_load_loop (pre @ replicate (2048 - length pre) zero_entry) rows (length pre) =
    Inr (pre @ es @ replicate (2048 - length pre - length es) zero_entry, length pre + length es)"
  using assms
proof (induction rows arbitrary: pre es)
  case (Cons row rows)
  show ?case
  proof (cases "length pre < 2048")
    case True
    then obtain n where n: "2048 - length pre = Suc n" by (metis Suc_diff_Suc)
    with Cons.prems obtain e es' where e: "acl_row_entry zero_entry row = Inr e"
      and es': "acl_rows (take n rows) = Inr es'" and es: "es = e # es'"
      by (auto simp: res_bind_eq_Inr)
    have n': "2048 - length (pre @ [e]) = n" using n by simp
    let ?buff = "pre @ zero_entry # replicate n zero_entry"
    have "rd ?buff (int (length pre)) = Inr zero_entry" by (subst rd_in) simp_all
    moreover have "wr ?buff (int (length pre)) e = Inr (pre @ e # replicate n zero_entry)"
      by (subst wr_in) simp_all
    moreover have "acl_load_loop ((pre @ [e]) @ replicate (2048 - length (pre @ [e])) zero_entry) rows (length (pre @ [e])) =
        Inr ((pre @ [e]) @ es' @ replicate (2048 - length (pre @ [e]) - length es') zero_entry,
             length (pre @ [e]) + length es')"
      using es' n' True by (intro Cons.IH) simp_all
    ultimately show ?thesis using True n n' e es by simp
  next
    case False
    with Cons.prems show ?thesis by simp
  qed
qed simp

lemma acl_load_table:
  assumes "acl_rows (take 2048 rows) = Inr es"
  shows "acl_load_loop (replicate 2048 zero_entry) rows 0 =
    Inr (es @ replicate (2048 - length es) zero_entry, length es)"
  using acl_load_loop_ok [of "[]" rows es] assms by simp

lemma acl_debug_loop_ok:
  assumes "list_all wf_entry es" "48 \<le> length b1" "48 \<le> length b2"
  shows "acl_debug_loop b1 b2 es = Inr ()"
  using assms
proof (induction es arbitrary: b1 b2)
  case (Cons e es)
  have wf: "length (HwAddr e) = 16" "length (HwMask e) = 16" "list_all wf_entry es"
    using Cons.prems(1) wf_entry_def [of e] by simp_all
  have fmt: "hw_addr_write D C Z b a 16 = Inr (butlast (concat (map (hw_group D C) (take 16 a))) @ [Z] @ drop 48 b)"
    if "length a = 16" "48 \<le> length b" for D C Z and a :: "byte list" and b :: "char list"
    using hw_addr_write_ok [of 16 a b D C Z] that by simp
  show ?case
    using Cons wf by (simp add: dhcp_hw_addr_ansi_def fmt)
qed simp

lemma length_acl_rows_le: "acl_rows (take 2048 rows) = Inr es \<Longrightarrow> length es \<le> 2048"
  by (auto dest: acl_rows_wf)

lemma acl_do_update_ok:
  assumes "mysql_store_result Q conn (snd (mysql_query Q conn acl_select_query d)) = (Some rows, d2)"
    and "acl_rows (take 2048 rows) = Inr es" "length es \<le> length (acl_entry_mem acl)"
  shows "acl_do_update W Q conn acl d k =
    Inr (\<lparr>acl_length = of_nat (length es),
          acl_entry_mem = c_qsort acl_compartor es @ drop (length es) (acl_entry_mem acl)\<rparr>,
         mysql_free_result Q d2, acl_write_unlock W (acl_write_lock W k))"
proof -
  have "list_all wf_entry (c_qsort acl_compartor es)"
    using acl_rows_wf [OF assms(2)] by (simp add: list_all_iff)
  then have "acl_debug_loop hwbuff_init hwbuff_init (c_qsort acl_compartor es) = Inr ()"
    by (rule acl_debug_loop_ok) (simp_all add: hwbuff_init_def)
  then show ?thesis
    using assms
    by (simp add: acl_do_update_def acl_load_table acl_sort_entry_def memcpy_at_def)
qed

section \<open>Properties\<close>

text \<open>C24. Printing and parsing agree: the text \<open>dhcp_hw_addr_ansi\<close> writes for one to sixteen bytes,
  read as a C string, is parsed by \<open>acl_parse_hwaddr\<close> back into the same bytes, and the rest of the
  16-byte array keeps its zeros.\<close>

theorem hwaddr_print_parse:
  assumes "0 < length as" "length as \<le> 16" "3 * length as \<le> length buff"
  shows "\<exists>txt s. dhcp_hw_addr_ansi buff as (int (length as)) = Inr txt \<and> c_str txt = Inr s \<and>
    acl_parse_hwaddr (replicate 16 0) 16 s = Inr (as @ replicate (16 - length as) 0)"
proof -
  have ne: "as \<noteq> []" using assms(1) by auto
  have w: "dhcp_hw_addr_ansi buff as (int (length as)) = Inr (hw_string as @ CHR 0x00 # drop (3 * length as) buff)"
    using hw_addr_write_ok [of "length as" as buff hexdigits "CHR '':''" "CHR 0x00"] assms ne
    by (simp add: dhcp_hw_addr_ansi_def butlast_hw_groups)
  have "CHR 0x00 \<notin> set (hw_string as)"
    using set_hw_string [of as] by (auto simp: hexdigits_def)
  then have c: "c_str (hw_string as @ CHR 0x00 # drop (3 * length as) buff) = Inr (hw_string as)"
    by (rule c_str_terminated)
  have "acl_parse_hwaddr (replicate 16 0) 16 (hw_string as) = Inr (as @ replicate (16 - length as) 0)"
    using acl_parse_loop_hw_string [OF ne, of 0 16 "replicate 16 0"] assms
    by (simp add: acl_parse_hwaddr_def)
  with w c show ?thesis by blast
qed

theorem hwaddr_print_parse_witness:
  "\<exists>txt s. dhcp_hw_addr_ansi (replicate 20 (CHR ''x'')) [0, 0x1B, 0xFE] (int (length [0, 0x1B, 0xFE :: byte])) = Inr txt \<and>
    c_str txt = Inr s \<and>
    acl_parse_hwaddr (replicate 16 0) 16 s = Inr ([0, 0x1B, 0xFE] @ replicate (16 - length [0, 0x1B, 0xFE :: byte]) 0)"
  by (rule hwaddr_print_parse) simp_all

text \<open>C26. \<open>acl_parse_hwaddr\<close> accepts any text: it terminates after at most sixteen numbers, never
  writes outside the 16-byte array and keeps its length.\<close>

theorem acl_parse_hwaddr_total:
  assumes "length buf = 16"
  shows "\<exists>r. acl_parse_hwaddr buf 16 str = Inr r \<and> length r = 16"
proof -
  obtain r where r: "acl_parse_loop buf 16 str 0 = Inr r"
    using acl_parse_loop_total [of 16 buf str 0] assms by auto
  then show ?thesis using acl_parse_loop_length [OF r] assms by (simp add: acl_parse_hwaddr_def)
qed

theorem acl_parse_hwaddr_total_witness:
  "\<exists>r. acl_parse_hwaddr (replicate 16 0) 16 ''zz:-1:0x1ff'' = Inr r \<and> length r = 16"
  by (rule acl_parse_hwaddr_total) simp

text \<open>C25. A reload installs the table: when every one of the first 2048 rows parses and the shared block has room for them, the list
  ends up with exactly those entries, in comparator order and well-formed, with the matching
  \<open>length\<close>, the memory behind them unchanged, and the exclusive lock released.\<close>

theorem acl_do_update_installs:
  assumes "mysql_store_result Q conn (snd (mysql_query Q conn acl_select_query d)) = (Some rows, d2)"
    and "acl_rows (take 2048 rows) = Inr es" "length es \<le> length (acl_entry_mem acl)"
  shows "\<exists>acl'. acl_do_update W Q conn acl d k =
      Inr (acl', mysql_free_result Q d2, ReleaseSRWLockExclusive W Acl_SRW (AcquireSRWLockExclusive W Acl_SRW k)) \<and>
    unat (acl_length acl') = length es \<and>
    mset (take (length es) (acl_entry_mem acl')) = mset es \<and>
    sorted_wrt (\<lambda>a b. acl_compartor a b \<le> 0) (take (length es) (acl_entry_mem acl')) \<and>
    list_all wf_entry (take (length es) (acl_entry_mem acl')) \<and>
    drop (length es) (acl_entry_mem acl') = drop (length es) (acl_entry_mem acl)"
proof -
  have wf: "list_all wf_entry es" and len: "length es \<le> 2048"
    using acl_rows_wf [OF assms(2)] by auto
  have "unat (of_nat (length es) :: dword) = length es"
    using len by (simp add: unat_of_nat)
  then show ?thesis
    using acl_do_update_ok [OF assms(1,2), of acl W k] wf len assms(3) acl_qsort.sorted_srt [OF wf]
    by (simp add: acl_write_lock_def acl_write_unlock_def list_all_iff)
qed

definition demo_rows :: "mysql_row list" where
  "demo_rows = [[Some ''1'', Some ''aa:bb'', Some ''ff:ff'', Some ''0''],
                [Some ''1'', Some ''00'', Some ''00'', Some ''1'']]"

definition demo_db :: sim_db where
  "demo_db = \<lparr>db_log = [], db_result = Some demo_rows\<rparr>"

definition demo_rows_entries :: "acl_entry list" where
  "demo_rows_entries =
     [\<lparr>HwType = 1, HwAddr = [0xAA, 0xBB] @ replicate 14 0, HwMask = [0xFF, 0xFF] @ replicate 14 0, access = 0\<rparr>,
      \<lparr>HwType = 1, HwAddr = replicate 16 0, HwMask = replicate 16 0, access = 1\<rparr>]"

lemma c_atoi_demo: "c_atoi ''1'' = 1" "c_atoi ''0'' = 0"
  by (simp_all add: c_atoi_def c_isspace_def skip_sign_def dec_val_def)

lemma hw_string_demo: "''aa:bb'' = hw_string [0xAA, 0xBB]" "''ff:ff'' = hw_string [0xFF, 0xFF]" "''00'' = hw_string [0]"
  by (simp_all add: hex2_def hexdigits_def)

lemma acl_parse_demo:
  "acl_parse_loop (replicate 16 0) 16 ''aa:bb'' 0 = Inr ([0xAA, 0xBB] @ replicate 14 0)"
  "acl_parse_loop (replicate 16 0) 16 ''ff:ff'' 0 = Inr ([0xFF, 0xFF] @ replicate 14 0)"
  "acl_parse_loop (replicate 16 0) 16 ''00'' 0 = Inr (replicate 16 0)"
  unfolding hw_string_demo
  by (simp_all add: acl_parse_loop_hw_string del: hw_string.simps flip: replicate_Suc)

lemma demo_rows_parse: "acl_rows (take 2048 demo_rows) = Inr demo_rows_entries"
  by (simp add: demo_rows_def demo_rows_entries_def acl_row_entry_def column_def rd_def
      acl_parse_hwaddr_def zero_entry_def acl_parse_demo c_atoi_demo)

theorem acl_do_update_installs_witness:
  "\<exists>acl'. acl_do_update sim_win32 sim_mysql 1 \<lparr>acl_length = 0, acl_entry_mem = replicate 2048 zero_entry\<rparr>
       demo_db sim_start =
      Inr (acl', mysql_free_result sim_mysql (demo_db\<lparr>db_log := [acl_select_query]\<rparr>),
           ReleaseSRWLockExclusive sim_win32 Acl_SRW (AcquireSRWLockExclusive sim_win32 Acl_SRW sim_start)) \<and>
    unat (acl_length acl') = length demo_rows_entries \<and>
    mset (take (length demo_rows_entries) (acl_entry_mem acl')) = mset demo_rows_entries \<and>
    sorted_wrt (\<lambda>a b. acl_compartor a b \<le> 0) (take (length demo_rows_entries) (acl_entry_mem acl')) \<and>
    list_all wf_entry (take (length demo_rows_entries) (acl_entry_mem acl')) \<and>
    drop (length demo_rows_entries) (acl_entry_mem acl') =
      drop (length demo_rows_entries) (acl_entry_mem \<lparr>acl_length = 0, acl_entry_mem = replicate 2048 zero_entry\<rparr>)"
  by (rule acl_do_update_installs [OF _ demo_rows_parse])
     (simp_all add: sim_mysql_def demo_db_def, simp add: demo_rows_entries_def)

text \<open>The columns of a row that spells out an entry.\<close>

definition row_text :: "acl_entry \<Rightarrow> mysql_row" where
  "row_text e = [Some (dec_digits (unat (HwType e))), Some (hw_string (HwAddr e)),
     Some (hw_string (HwMask e)), Some (dec_digits (unat (access e)))]"

lemma acl_parse_full:
  "length as = 16 \<Longrightarrow> length buf = 16 \<Longrightarrow> acl_parse_loop buf 16 (hw_string as) 0 = Inr as"
  using acl_parse_loop_hw_string [of as 0 16 buf] by fastforce

lemma acl_row_entry_text: "wf_entry e \<Longrightarrow> acl_row_entry zero_entry (row_text e) = Inr e"
  by (simp add: acl_row_entry_def row_text_def column_def rd_def acl_parse_hwaddr_def acl_parse_full
      wf_entry_def zero_entry_def c_atoi_dec_digits)

lemma acl_rows_text: "list_all wf_entry es \<Longrightarrow> acl_rows (map row_text es) = Inr es"
  by (induction es) (simp_all add: acl_row_entry_text)

text \<open>C18. From the table to the decision: for a table of at most 2048 rows that spell out
  well-formed entries and fit into the shared block, after \<open>acl_do_update\<close> the filter's search of the shared list answers every
  client (address length up to 16) by an entry of the table that matches it and is least in the
  comparator's order among the matching ones, and permits the client when no entry matches.\<close>

theorem acl_update_then_filter:
  assumes "list_all wf_entry es" "length es \<le> 2048" "list_all (\<lambda>e. unat (access e) < 2 ^ 31) es"
    and "mysql_store_result Q conn (snd (mysql_query Q conn acl_select_query d)) = (Some (map row_text es), d2)"
    and "length es \<le> length (acl_entry_mem acl)" "list_all wf_entry (acl_entry_mem acl)"
    and "n \<le> 16" "n \<le> length addr"
  shows "\<exists>acl' d' k' r. acl_do_update W Q conn acl d k = Inr (acl', d', k') \<and>
    acl_filter_loop (acl_entry_mem acl') (unat (acl_length acl')) t addr n 0 = Inr r \<and>
    (if \<exists>e \<in> set es. acl_matches t (take n addr) e
     then \<exists>e \<in> set es. acl_matches t (take n addr) e \<and> r = access e \<and>
       (\<forall>e' \<in> set es. acl_matches t (take n addr) e' \<longrightarrow> acl_key e \<le> acl_key e')
     else r = ACCESS_PERMIT)"
proof -
  let ?s = "c_qsort acl_compartor es"
  have rows: "acl_rows (take 2048 (map row_text es)) = Inr es"
    using acl_rows_text [OF assms(1)] assms(2) by simp
  have len: "unat (of_nat (length es) :: dword) = length es"
    using assms(2) by (simp add: unat_of_nat)
  have mem: "list_all wf_entry (?s @ drop (length es) (acl_entry_mem acl))"
    using assms(1,6) by (auto simp: list_all_iff dest: in_set_dropD)
  have "acl_filter_loop (?s @ drop (length es) (acl_entry_mem acl)) (length es) t addr n 0 =
      Inr (acl_decide ?s t (take n addr))"
    using acl_filter_loop_correct [OF mem assms(7,8), of "length es" 0] by simp
  moreover have "if \<exists>e \<in> set es. acl_matches t (take n addr) e
     then \<exists>e \<in> set es. acl_matches t (take n addr) e \<and> acl_decide ?s t (take n addr) = access e \<and>
       (\<forall>e' \<in> set es. acl_matches t (take n addr) e' \<longrightarrow> acl_key e \<le> acl_key e')
     else acl_decide ?s t (take n addr) = ACCESS_PERMIT"
    using acl_qsort.find_srt_None [of "acl_matches t (take n addr)" es]
      acl_qsort.find_srt_least [OF assms(1), of "acl_matches t (take n addr)"]
    by (cases "find (acl_matches t (take n addr)) ?s") (auto simp: acl_decide_def)
  ultimately show ?thesis
    using acl_do_update_ok [OF assms(4) rows, of acl W k] assms(2,5) len by auto
qed

lemma demo_entries_ok:
  "list_all wf_entry demo_rows_entries" "length demo_rows_entries \<le> 2048"
  "list_all (\<lambda>e. unat (access e) < 2 ^ 31) demo_rows_entries"
  by (simp_all add: demo_rows_entries_def wf_entry_def)

theorem acl_update_then_filter_witness:
  "\<exists>acl' d' k' r. acl_do_update sim_win32 sim_mysql 1
      \<lparr>acl_length = 0, acl_entry_mem = replicate 2048 zero_entry\<rparr>
      \<lparr>db_log = [], db_result = Some (map row_text demo_rows_entries)\<rparr> sim_start = Inr (acl', d', k') \<and>
    acl_filter_loop (acl_entry_mem acl') (unat (acl_length acl')) 1 [0xAA, 0xBB, 3] 3 0 = Inr r \<and>
    (if \<exists>e \<in> set demo_rows_entries. acl_matches 1 (take 3 [0xAA, 0xBB, 3]) e
     then \<exists>e \<in> set demo_rows_entries. acl_matches 1 (take 3 [0xAA, 0xBB, 3]) e \<and> r = access e \<and>
       (\<forall>e' \<in> set demo_rows_entries. acl_matches 1 (take 3 [0xAA, 0xBB, 3]) e' \<longrightarrow> acl_key e \<le> acl_key e')
     else r = ACCESS_PERMIT)"
  by (rule acl_update_then_filter [OF demo_entries_ok])
     (simp_all add: sim_mysql_def list_all_iff wf_zero_entry, simp add: demo_rows_entries_def)

text \<open>A reload whose query fails keeps the list: nothing is written and no lock is taken when
  \<open>mysql_store_result\<close> returns \<open>NULL\<close>.\<close>

lemma acl_do_update_query_failed:
  assumes "mysql_store_result Q conn (snd (mysql_query Q conn acl_select_query d)) = (None, d2)"
  shows "acl_do_update W Q conn acl d k = Inr (acl, d2, k)"
  using assms by (simp add: acl_do_update_def)

text \<open>The time stamp is kept in 16 bytes without a terminator of its own: a stamp of up to 15
  characters is found again by the next check, a longer one (such as a time stamp with fractional
  seconds) leaves an unterminated array, and the next check reads past its end.\<close>

theorem last_update_termination:
  assumes "mysql_store_result Q conn (snd (mysql_query Q conn (acl_check_query ts) d)) = (Some ([Some stamp] # rows), d2)"
    and "c_str lu = Inr ts" "length ts < 200" "CHR 0x00 \<notin> set stamp"
  shows "\<exists>lu'. acl_check_last_update Q conn lu d = Inr (True, lu', mysql_free_result Q d2) \<and>
    c_str lu' = (if length stamp < 16 then Inr stamp else Inl Unterminated_String) \<and>
    (16 \<le> length stamp \<longrightarrow> acl_check_last_update Q conn lu' d' = Inl Unterminated_String)"
proof -
  have "acl_check_last_update Q conn lu d = Inr (True, c_strncpy stamp 16, mysql_free_result Q d2)"
    using assms by (simp add: acl_check_last_update_def acl_check_query_def rd_def)
  moreover have "c_str (c_strncpy stamp 16) = (if length stamp < 16 then Inr stamp else Inl Unterminated_String)"
    using assms(4) by (simp add: c_str_strncpy c_str_strncpy_long)
  ultimately show ?thesis by (auto simp: acl_check_last_update_def)
qed

theorem last_update_termination_witness:
  "\<exists>lu'. acl_check_last_update sim_mysql 1 last_update_init
      \<lparr>db_log = [], db_result = Some [[Some ''20240131235959.000000'']]\<rparr> =
      Inr (True, lu', mysql_free_result sim_mysql \<lparr>db_log = [acl_check_query ''0''],
        db_result = Some [[Some ''20240131235959.000000'']]\<rparr>) \<and>
    c_str lu' = (if length ''20240131235959.000000'' < 16 then Inr ''20240131235959.000000'' else Inl Unterminated_String) \<and>
    (16 \<le> length ''20240131235959.000000'' \<longrightarrow>
      acl_check_last_update sim_mysql 1 lu' demo_db = Inl Unterminated_String)"
  by (rule last_update_termination [where ts = "''0''" and rows = "[]"])
     (simp_all add: sim_mysql_def last_update_init_def c_str_strncpy)

lemma end_switch_Break: "end_switch x \<noteq> Break"
  by (cases x) simp_all

lemma acl_update_cases_exit: "acl_update_cases W Q conn w t d k = Inr (x, t1, d1, k1) \<Longrightarrow> x \<noteq> Return r"
  by (auto simp: acl_update_cases_def Let_def res_bind_eq_Inr split: if_splits prod.splits)

lemma acl_update_turn_stays: "acl_update_turn W Q conn w t d k = Inr (x, t1, d1, k1) \<Longrightarrow> x = Normal"
  by (cases x) (auto simp: acl_update_turn_def res_bind_eq_Inr end_switch_Break elim: end_switch.elims
      dest: acl_update_cases_exit)

lemma acl_update_loop_stays: "acl_update_loop W Q conn ws t d k = Inr (code, t', d', k') \<Longrightarrow> code = None"
proof (induction ws arbitrary: t d k)
  case (Cons w ws)
  then show ?case by (auto simp: res_bind_eq_Inr dest!: acl_update_turn_stays)
qed simp

lemma acl_update_loop_no_timeout:
  "list_all (\<lambda>w. w \<noteq> WAIT_TIMEOUT) ws \<Longrightarrow> acl_update_loop W Q conn ws t d k = Inr (None, t, d, k)"
  by (induction ws) (auto simp: acl_update_turn_def acl_update_cases_def)

text \<open>C34. \<open>acl_update_stop\<close> does not stop the thread. When the database refuses the connection the
  thread ends with \<open>-1\<close>, and when \<open>acl_connect\<close> returns null with \<open>-2\<close>. Otherwise, whatever its waits
  return, no run of the loop ends with an exit code; and waits that return the exit event, in any
  number, leave the loop running and change nothing at all.\<close>

theorem acl_update_thread_never_stops:
  assumes "mysql_init Q d = (conn, d1)" "mysql_real_connect Q conn host user pass name port d1 = (ok, d2)"
    and "acl_connect W m k = Inr (acl, blk, m1, k1)"
  shows "(ok = NULL \<longrightarrow>
      acl_update_thread W Q host user pass name port acls ws m d k = Inr (Some (- 1), None, m, d2, k)) \<and>
    (ok \<noteq> NULL \<and> acl = NULL \<longrightarrow>
      acl_update_thread W Q host user pass name port acls ws m d k = Inr (Some (- 2), None, m1, d2, k1)) \<and>
    (ok \<noteq> NULL \<and> acl \<noteq> NULL \<longrightarrow>
      (\<forall>code l m' d' k'. acl_update_thread W Q host user pass name port acls ws m d k = Inr (code, l, m', d', k') \<longrightarrow>
         code = None) \<and>
      acl_update_thread W Q host user pass name port acls (replicate n WAIT_OBJECT_0) m d k =
        Inr (None, Some (acls acl), m1, d2, k1))"
proof (intro conjI impI)
  let ?run = "\<lambda>ws. acl_update_thread W Q host user pass name port acls ws m d k"
  let ?t = "\<lparr>at_counter = 0, at_last_update = last_update_init, at_acl = acls acl\<rparr>"
  show "?run ws = Inr (Some (- 1), None, m, d2, k)" if "ok = NULL"
    using assms that by (simp add: acl_update_thread_def)
  show "?run ws = Inr (Some (- 2), None, m1, d2, k1)" if "ok \<noteq> NULL \<and> acl = NULL"
    using assms that by (simp add: acl_update_thread_def)
  assume "ok \<noteq> NULL \<and> acl \<noteq> NULL"
  then have run: "?run us = res_bind (acl_update_loop W Q conn us ?t d2 k1) (\<lambda>(code, t, d3, k2).
      Inr (code, Some (at_acl t), m1, d3, k2))" for us
    using assms by (simp add: acl_update_thread_def)
  show "\<forall>code l m' d' k'. ?run ws = Inr (code, l, m', d', k') \<longrightarrow> code = None"
    unfolding run by (auto simp: res_bind_eq_Inr dest: acl_update_loop_stays)
  have "list_all (\<lambda>w. w \<noteq> WAIT_TIMEOUT) (replicate n WAIT_OBJECT_0)"
    by (simp add: list_all_iff WAIT_OBJECT_0_def WAIT_TIMEOUT_def)
  then show "?run (replicate n WAIT_OBJECT_0) = Inr (None, Some (acls acl), m1, d2, k1)"
    unfolding run by (simp add: acl_update_loop_no_timeout)
qed

theorem acl_update_thread_never_stops_witness:
  "acl_update_thread sim_win32 sim_mysql None None None None 3306 (\<lambda>_. \<lparr>acl_length = 0, acl_entry_mem = []\<rparr>)
     (replicate 2 WAIT_OBJECT_0) [3 \<mapsto> demo_view] demo_db sim_start =
   Inr (None, Some \<lparr>acl_length = 0, acl_entry_mem = []\<rparr>, [3 \<mapsto> demo_view], demo_db, sim_start\<lparr>next_handle := 4\<rparr>)"
proof -
  have "\<exists>blk. acl_connect sim_win32 [3 \<mapsto> demo_view] sim_start = Inr (3, blk, [3 \<mapsto> demo_view], sim_start\<lparr>next_handle := 4\<rparr>)"
    by (simp add: acl_connect_def shm_init_def shm_enable_privileges_def shm_init_objects_def sim_defs demo_view_def
        SHM_LOCK_NONE_def shm_codes FAILED_def) (simp add: numeral_3_eq_3)
  then obtain blk where "acl_connect sim_win32 [3 \<mapsto> demo_view] sim_start = Inr (3, blk, [3 \<mapsto> demo_view], sim_start\<lparr>next_handle := 4\<rparr>)"
    by blast
  from acl_update_thread_never_stops [OF _ _ this, of sim_mysql demo_db 1 demo_db None None None None 3306 1 demo_db
      "\<lambda>_. \<lparr>acl_length = 0, acl_entry_mem = []\<rparr>" "[]" 2]
  show ?thesis by (simp add: sim_mysql_def)
qed

end
