(* ===== verification/Mysql_Codec.thy ===== *)
theory Mysql_Codec
  imports Prelude
begin

text \<open>
  The integer and floating-point codecs of the MySQL client headers the database component
  is compiled against: the big-endian macros of \<open>libmysql/include/myisampack.h\<close> and the
  low-byte-first macros of \<open>libmysql/include/my_global.h\<close>, in the IA-32/Win32 form (native
  loads and stores) and in the portable form (byte by byte). \<open>uint\<close>, \<open>ulong\<close> and \<open>uint32\<close>
  are 32 bits wide on the modelled target, \<open>ulonglong\<close> 64, and \<open>char\<close> is signed. A signed
  result is the word with that two's complement pattern. Every read and every write is
  checked against the buffer it is given.
\<close>

section \<open>Checked buffer access\<close>

definition loads :: "nat \<Rightarrow> byte list \<Rightarrow> 'a \<Rightarrow> 'a result" where
  "loads n A v = (if n \<le> length A then Inr v else Inl Read_Out_Of_Bounds)"

fun stores :: "byte list \<Rightarrow> (nat \<times> byte) list \<Rightarrow> byte list result" where
  "stores T [] = Inr T"
| "stores T ((i, b) # ws) = res_bind (wr T (int i) b) (\<lambda>T'. stores T' ws)"

lemma loads_in [simp]: "n \<le> length A \<Longrightarrow> loads n A v = Inr v"
  by (simp add: loads_def)

lemma loads_fault [simp]: "length A < n \<Longrightarrow> loads n A v = Inl Read_Out_Of_Bounds"
  by (simp add: loads_def)

lemma stores_Cons_in [simp]:
  "i < length T \<Longrightarrow> stores T ((i, b) # ws) = stores (T[i := b]) ws"
  by simp

lemma stores_Cons_out [simp]:
  "length T \<le> i \<Longrightarrow> stores T ((i, b) # ws) = Inl Buffer_Overflow"
  by (simp add: wr_def)

lemma stores_append: "stores T (us @ vs) = res_bind (stores T us) (\<lambda>T'. stores T' vs)"
  by (induction T us rule: stores.induct) (auto simp: res_bind_def split: sum.splits)

lemma stores_ok: "\<forall>w\<in>set ws. fst w < length T \<Longrightarrow> \<exists>T'. stores T ws = Inr T' \<and> length T' = length T"
  by (induction T ws rule: stores.induct) (auto simp: res_bind_def wr_def split: sum.splits)

lemma stores_overflow: "\<exists>w\<in>set ws. length T \<le> fst w \<Longrightarrow> stores T ws = Inl Buffer_Overflow"
proof (induction T ws rule: stores.induct)
  case (2 T i b ws)
  show ?case
  proof (cases "length T \<le> i")
    case False
    then have wr: "wr T (int i) b = Inr (T[i := b])" by simp
    have "\<exists>w\<in>set ws. length (T[i := b]) \<le> fst w"
      using 2(2) False by auto
    then show ?thesis using 2(1) [OF wr] wr by simp
  qed (simp add: wr_def)
qed simp

declare stores.simps(2) [simp del]

section \<open>Reference encoding\<close>

text \<open>
  Low byte first, any width. The big-endian layout is the reverse.
\<close>

fun le_word :: "byte list \<Rightarrow> 'w::len word" where
  "le_word [] = 0"
| "le_word (b # bs) = ucast b + 256 * le_word bs"

fun le_bytes :: "nat \<Rightarrow> 'w::len word \<Rightarrow> byte list" where
  "le_bytes 0 w = []"
| "le_bytes (Suc n) w = ucast w # le_bytes n (drop_bit 8 w)"

lemma length_le_bytes [simp]: "length (le_bytes n w) = n"
  by (induction n arbitrary: w) auto

lemma ucast_low_byte:
  fixes w :: "'w::len word"
  assumes "8 \<le> LENGTH('w)"
  shows "(ucast (ucast w :: byte) :: 'w word) = take_bit 8 w"
  using assms by (intro bit_word_eqI) (auto simp: bit_simps)

lemma mult_256: "256 * (w :: 'w::len word) = push_bit 8 w"
  by (simp add: push_bit_eq_mult mult.commute)

lemma take_bit_byte_step:
  "take_bit 8 w + push_bit 8 (take_bit n (drop_bit 8 w)) = take_bit (8 + n) (w :: 'w::len word)"
proof -
  have "drop_bit 8 (take_bit (8 + n) w) = take_bit n (drop_bit 8 w)"
    by (rule bit_word_eqI) (auto simp: bit_simps)
  moreover have "take_bit 8 (take_bit (8 + n) w) = take_bit 8 w"
    by simp
  ultimately show ?thesis
    using bits_ident [of 8 "take_bit (8 + n) w"] by (simp add: add.commute)
qed

lemma le_word_le_bytes:
  fixes w :: "'w::len word"
  assumes "8 \<le> LENGTH('w)"
  shows "le_word (le_bytes n w) = take_bit (8 * n) w"
proof (induction n arbitrary: w)
  case (Suc n)
  have "8 * Suc n = 8 + 8 * n" by simp
  then show ?case
    by (simp only: le_bytes.simps le_word.simps Suc ucast_low_byte [OF assms] mult_256
        take_bit_byte_step)
qed simp

fun le_nat :: "byte list \<Rightarrow> nat" where
  "le_nat [] = 0"
| "le_nat (b # bs) = unat b + 256 * le_nat bs"

lemma le_nat_less: "le_nat bs < 256 ^ length bs"
proof (induction bs)
  case (Cons b bs)
  then show ?case using unat_byte [of b] by simp
qed simp

lemma le_word_of_nat: "le_word bs = (word_of_nat (le_nat bs) :: 'w::len word)"
proof (induction bs)
  case (Cons b bs)
  have "(ucast b :: 'w word) = word_of_nat (unat b)"
    by simp
  then show ?case using Cons by simp
qed simp

lemma unat_le_word:
  assumes "8 * length bs \<le> LENGTH('w)"
  shows "unat (le_word bs :: 'w::len word) = le_nat bs"
proof -
  have "le_nat bs < 2 ^ (8 * length bs)"
    using le_nat_less [of bs] by (simp add: power_mult)
  also have "\<dots> \<le> 2 ^ LENGTH('w)"
    using assms by (intro power_increasing) simp_all
  finally show ?thesis
    by (simp add: le_word_of_nat unat_of_nat)
qed

lemma ucast_le_word:
  assumes "8 * length bs \<le> LENGTH('v)"
  shows "(ucast (le_word bs :: 'v::len word) :: 'w::len word) = le_word bs"
proof -
  have "(ucast (le_word bs :: 'v word) :: 'w word) = word_of_nat (unat (le_word bs :: 'v word))"
    by simp
  also have "\<dots> = le_word bs"
    by (subst unat_le_word [OF assms]) (rule le_word_of_nat [symmetric])
  finally show ?thesis .
qed

section \<open>High byte first: \<open>myisampack.h\<close>\<close>

subsection \<open>Reading\<close>

definition mi_sint1korr :: "byte list \<Rightarrow> 8 word result" where
  "mi_sint1korr A = loads 1 A
     (A ! 0)"

definition mi_uint1korr :: "byte list \<Rightarrow> 8 word result" where
  "mi_uint1korr A = loads 1 A
     (A ! 0)"

definition mi_sint2korr :: "byte list \<Rightarrow> 16 word result" where
  "mi_sint2korr A = loads 2 A
     (ucast ((ucast (A ! 1) :: dword) + push_bit 8 (scast (A ! 0))))"

definition mi_sint3korr :: "byte list \<Rightarrow> 32 word result" where
  "mi_sint3korr A = loads 3 A
     (if A ! 0 AND 128 \<noteq> 0
      then push_bit 24 255 OR push_bit 16 (ucast (A ! 0)) OR push_bit 8 (ucast (A ! 1)) OR ucast (A ! 2)
      else push_bit 16 (ucast (A ! 0)) OR push_bit 8 (ucast (A ! 1)) OR ucast (A ! 2))"

definition mi_sint4korr :: "byte list \<Rightarrow> 32 word result" where
  "mi_sint4korr A = loads 4 A
     (ucast (A ! 3) + push_bit 8 (ucast (A ! 2)) + push_bit 16 (ucast (A ! 1)) +
      push_bit 24 (scast (A ! 0)))"

definition mi_uint2korr :: "byte list \<Rightarrow> 16 word result" where
  "mi_uint2korr A = loads 2 A
     (ucast ((ucast (A ! 1) :: dword) + push_bit 8 (ucast (A ! 0))))"

definition mi_uint3korr :: "byte list \<Rightarrow> 32 word result" where
  "mi_uint3korr A = loads 3 A
     ((ucast (A ! 2) :: dword) + push_bit 8 (ucast (A ! 1) :: dword) + push_bit 16 (ucast (A ! 0) :: dword))"

definition mi_uint4korr :: "byte list \<Rightarrow> 32 word result" where
  "mi_uint4korr A = loads 4 A
     ((ucast (A ! 3) :: dword) + push_bit 8 (ucast (A ! 2) :: dword) +
      push_bit 16 (ucast (A ! 1) :: dword) + push_bit 24 (ucast (A ! 0) :: dword))"

definition mi_uint5korr :: "byte list \<Rightarrow> 64 word result" where
  "mi_uint5korr A = loads 5 A
     (ucast ((ucast (A ! 4) :: dword) + push_bit 8 (ucast (A ! 3) :: dword) +
      push_bit 16 (ucast (A ! 2) :: dword) + push_bit 24 (ucast (A ! 1) :: dword)) +
      push_bit 32 (ucast (A ! 0)))"

definition mi_uint6korr :: "byte list \<Rightarrow> 64 word result" where
  "mi_uint6korr A = loads 6 A
     (ucast ((ucast (A ! 5) :: dword) + push_bit 8 (ucast (A ! 4) :: dword) +
      push_bit 16 (ucast (A ! 3) :: dword) + push_bit 24 (ucast (A ! 2) :: dword)) +
      push_bit 32 (ucast ((ucast (A ! 1) :: dword) + push_bit 8 (ucast (A ! 0) :: dword))))"

definition mi_uint7korr :: "byte list \<Rightarrow> 64 word result" where
  "mi_uint7korr A = loads 7 A
     (ucast ((ucast (A ! 6) :: dword) + push_bit 8 (ucast (A ! 5) :: dword) +
      push_bit 16 (ucast (A ! 4) :: dword) + push_bit 24 (ucast (A ! 3) :: dword)) +
      push_bit 32 (ucast ((ucast (A ! 2) :: dword) + push_bit 8 (ucast (A ! 1) :: dword) +
      push_bit 16 (ucast (A ! 0) :: dword))))"

definition mi_uint8korr :: "byte list \<Rightarrow> 64 word result" where
  "mi_uint8korr A = loads 8 A
     (ucast ((ucast (A ! 7) :: dword) + push_bit 8 (ucast (A ! 6) :: dword) +
      push_bit 16 (ucast (A ! 5) :: dword) + push_bit 24 (ucast (A ! 4) :: dword)) +
      push_bit 32 (ucast ((ucast (A ! 3) :: dword) + push_bit 8 (ucast (A ! 2) :: dword) +
      push_bit 16 (ucast (A ! 1) :: dword) + push_bit 24 (ucast (A ! 0) :: dword))))"

definition mi_sint8korr :: "byte list \<Rightarrow> 64 word result" where
  "mi_sint8korr A = mi_uint8korr A"

subsection \<open>Writing\<close>

definition mi_int1store :: "byte list \<Rightarrow> dword \<Rightarrow> byte list result" where
  "mi_int1store T A = stores T [(0, ucast A)]"

definition mi_int2store :: "byte list \<Rightarrow> 32 word \<Rightarrow> byte list result" where
  "mi_int2store T A =
     (let def_temp = A in
      stores T [(1, ucast def_temp), (0, ucast (drop_bit 8 def_temp))])"

definition mi_int3store :: "byte list \<Rightarrow> 32 word \<Rightarrow> byte list result" where
  "mi_int3store T A =
     (let def_temp = A in
      stores T [(2, ucast def_temp), (1, ucast (drop_bit 8 def_temp)), (0, ucast (drop_bit 16 def_temp))])"

definition mi_int4store :: "byte list \<Rightarrow> 32 word \<Rightarrow> byte list result" where
  "mi_int4store T A =
     (let def_temp = A in
      stores T [(3, ucast def_temp), (2, ucast (drop_bit 8 def_temp)), (1, ucast (drop_bit 16 def_temp)), (0, ucast (drop_bit 24 def_temp))])"

definition mi_int5store :: "byte list \<Rightarrow> 64 word \<Rightarrow> byte list result" where
  "mi_int5store T A =
     (let def_temp = (ucast A :: dword); def_temp2 = (ucast (drop_bit 32 A) :: dword) in
      stores T [(4, ucast def_temp), (3, ucast (drop_bit 8 def_temp)), (2, ucast (drop_bit 16 def_temp)), (1, ucast (drop_bit 24 def_temp)),
        (0, ucast def_temp2)])"

definition mi_int6store :: "byte list \<Rightarrow> 64 word \<Rightarrow> byte list result" where
  "mi_int6store T A =
     (let def_temp = (ucast A :: dword); def_temp2 = (ucast (drop_bit 32 A) :: dword) in
      stores T [(5, ucast def_temp), (4, ucast (drop_bit 8 def_temp)), (3, ucast (drop_bit 16 def_temp)), (2, ucast (drop_bit 24 def_temp)),
        (1, ucast def_temp2), (0, ucast (drop_bit 8 def_temp2))])"

definition mi_int7store :: "byte list \<Rightarrow> 64 word \<Rightarrow> byte list result" where
  "mi_int7store T A =
     (let def_temp = (ucast A :: dword); def_temp2 = (ucast (drop_bit 32 A) :: dword) in
      stores T [(6, ucast def_temp), (5, ucast (drop_bit 8 def_temp)), (4, ucast (drop_bit 16 def_temp)), (3, ucast (drop_bit 24 def_temp)),
        (2, ucast def_temp2), (1, ucast (drop_bit 8 def_temp2)), (0, ucast (drop_bit 16 def_temp2))])"

text \<open>A store through \<open>(T) + k\<close>: the first \<open>k\<close> bytes are left alone.\<close>

definition store_at :: "nat \<Rightarrow> (byte list \<Rightarrow> byte list result) \<Rightarrow> byte list \<Rightarrow> byte list result" where
  "store_at k st T =
     (if length T < k then Inl Buffer_Overflow
      else res_bind (st (drop k T)) (\<lambda>T'. Inr (take k T @ T')))"

definition mi_int8store :: "byte list \<Rightarrow> 64 word \<Rightarrow> byte list result" where
  "mi_int8store T A =
     (let def_temp3 = (ucast A :: dword); def_temp4 = (ucast (drop_bit 32 A) :: dword) in
      res_bind (store_at 0 (\<lambda>T. mi_int4store T def_temp4) T) (\<lambda>T.
      store_at 4 (\<lambda>T. mi_int4store T def_temp3) T))"

section \<open>Low byte first: \<open>my_global.h\<close>\<close>

text \<open>
  A load or a store through a pointer to an integer type, on the little-endian machine.
\<close>

definition native_load :: "nat \<Rightarrow> byte list \<Rightarrow> 'w::len word result" where
  "native_load n A = loads n A (le_word (take n A))"

definition native_store :: "nat \<Rightarrow> byte list \<Rightarrow> 'w::len word \<Rightarrow> byte list result" where
  "native_store n T w = memcpy_at T 0 (le_bytes n w) n"

subsection \<open>The form compiled on Win32\<close>

definition x86_sint2korr :: "byte list \<Rightarrow> 16 word result" where
  "x86_sint2korr A =
     native_load 2 A"

definition x86_sint3korr :: "byte list \<Rightarrow> 32 word result" where
  "x86_sint3korr A =
     loads 3 A
     (if A ! 2 AND 128 \<noteq> 0
      then push_bit 24 255 OR push_bit 16 (ucast (A ! 2)) OR push_bit 8 (ucast (A ! 1)) OR ucast (A ! 0)
      else push_bit 16 (ucast (A ! 2)) OR push_bit 8 (ucast (A ! 1)) OR ucast (A ! 0))"

definition x86_sint4korr :: "byte list \<Rightarrow> 32 word result" where
  "x86_sint4korr A =
     native_load 4 A"

definition x86_uint2korr :: "byte list \<Rightarrow> 16 word result" where
  "x86_uint2korr A =
     native_load 2 A"

definition x86_uint3korr :: "byte list \<Rightarrow> 32 word result" where
  "x86_uint3korr A =
     res_bind (native_load 4 A :: dword result) (\<lambda>w. Inr (w AND 0xFFFFFF))"

definition x86_uint4korr :: "byte list \<Rightarrow> 32 word result" where
  "x86_uint4korr A =
     native_load 4 A"

definition x86_uint5korr :: "byte list \<Rightarrow> 64 word result" where
  "x86_uint5korr A =
     loads 5 A
     (ucast ((ucast (A ! 0) :: dword) + push_bit 8 (ucast (A ! 1) :: dword) +
      push_bit 16 (ucast (A ! 2) :: dword) + push_bit 24 (ucast (A ! 3) :: dword)) +
      push_bit 32 (ucast (A ! 4)))"

definition x86_uint6korr :: "byte list \<Rightarrow> 64 word result" where
  "x86_uint6korr A =
     loads 6 A
     (ucast ((ucast (A ! 0) :: dword) + push_bit 8 (ucast (A ! 1) :: dword) +
      push_bit 16 (ucast (A ! 2) :: dword) + push_bit 24 (ucast (A ! 3) :: dword)) +
      push_bit 32 (ucast (A ! 4)) + push_bit 40 (ucast (A ! 5)))"

definition x86_uint8korr :: "byte list \<Rightarrow> 64 word result" where
  "x86_uint8korr A =
     native_load 8 A"

definition x86_sint8korr :: "byte list \<Rightarrow> 64 word result" where
  "x86_sint8korr A =
     native_load 8 A"

definition x86_int2store :: "byte list \<Rightarrow> 32 word \<Rightarrow> byte list result" where
  "x86_int2store T A =
     native_store 2 T (ucast A :: 16 word)"

definition x86_int3store :: "byte list \<Rightarrow> 32 word \<Rightarrow> byte list result" where
  "x86_int3store T A =
     stores T [(0, ucast A), (1, ucast (drop_bit 8 A)), (2, ucast (drop_bit 16 A))]"

definition x86_int4store :: "byte list \<Rightarrow> 32 word \<Rightarrow> byte list result" where
  "x86_int4store T A =
     native_store 4 T A"

definition x86_int5store :: "byte list \<Rightarrow> 64 word \<Rightarrow> byte list result" where
  "x86_int5store T A =
     stores T [(0, ucast A), (1, ucast (drop_bit 8 A)), (2, ucast (drop_bit 16 A)),
        (3, ucast (drop_bit 24 A)), (4, ucast (drop_bit 32 A))]"

definition x86_int6store :: "byte list \<Rightarrow> 64 word \<Rightarrow> byte list result" where
  "x86_int6store T A =
     stores T [(0, ucast A), (1, ucast (drop_bit 8 A)), (2, ucast (drop_bit 16 A)),
        (3, ucast (drop_bit 24 A)), (4, ucast (drop_bit 32 A)), (5, ucast (drop_bit 40 A))]"

definition x86_int8store :: "byte list \<Rightarrow> 64 word \<Rightarrow> byte list result" where
  "x86_int8store T A =
     native_store 8 T A"

subsection \<open>The portable form\<close>

definition gen_sint2korr :: "byte list \<Rightarrow> 16 word result" where
  "gen_sint2korr A =
     loads 2 A
     (ucast ((ucast (A ! 0) :: dword) + push_bit 8 (scast (A ! 1))))"

definition gen_sint3korr :: "byte list \<Rightarrow> 32 word result" where
  "gen_sint3korr A =
     loads 3 A
     (if A ! 2 AND 128 \<noteq> 0
      then push_bit 24 255 OR push_bit 16 (ucast (A ! 2)) OR push_bit 8 (ucast (A ! 1)) OR ucast (A ! 0)
      else push_bit 16 (ucast (A ! 2)) OR push_bit 8 (ucast (A ! 1)) OR ucast (A ! 0))"

definition gen_sint4korr :: "byte list \<Rightarrow> 32 word result" where
  "gen_sint4korr A =
     loads 4 A
     (ucast (A ! 0) + push_bit 8 (ucast (A ! 1)) + push_bit 16 (ucast (A ! 2)) +
      push_bit 24 (scast (A ! 3)))"

definition gen_uint2korr :: "byte list \<Rightarrow> 16 word result" where
  "gen_uint2korr A =
     loads 2 A
     (ucast ((ucast (A ! 0) :: dword) + push_bit 8 (ucast (A ! 1))))"

definition gen_uint3korr :: "byte list \<Rightarrow> 32 word result" where
  "gen_uint3korr A =
     loads 3 A
     ((ucast (A ! 0) :: dword) + push_bit 8 (ucast (A ! 1) :: dword) +
      push_bit 16 (ucast (A ! 2) :: dword))"

definition gen_uint4korr :: "byte list \<Rightarrow> 32 word result" where
  "gen_uint4korr A =
     loads 4 A
     ((ucast (A ! 0) :: dword) + push_bit 8 (ucast (A ! 1) :: dword) +
      push_bit 16 (ucast (A ! 2) :: dword) + push_bit 24 (ucast (A ! 3) :: dword))"

definition gen_uint5korr :: "byte list \<Rightarrow> 64 word result" where
  "gen_uint5korr A =
     loads 5 A
     (ucast ((ucast (A ! 0) :: dword) + push_bit 8 (ucast (A ! 1) :: dword) +
      push_bit 16 (ucast (A ! 2) :: dword) + push_bit 24 (ucast (A ! 3) :: dword)) +
      push_bit 32 (ucast (A ! 4)))"

definition gen_uint6korr :: "byte list \<Rightarrow> 64 word result" where
  "gen_uint6korr A =
     loads 6 A
     (ucast ((ucast (A ! 0) :: dword) + push_bit 8 (ucast (A ! 1) :: dword) +
      push_bit 16 (ucast (A ! 2) :: dword) + push_bit 24 (ucast (A ! 3) :: dword)) +
      push_bit 32 (ucast (A ! 4)) + push_bit 40 (ucast (A ! 5)))"

definition gen_uint8korr :: "byte list \<Rightarrow> 64 word result" where
  "gen_uint8korr A =
     loads 8 A
     (ucast ((ucast (A ! 0) :: dword) + push_bit 8 (ucast (A ! 1) :: dword) +
      push_bit 16 (ucast (A ! 2) :: dword) + push_bit 24 (ucast (A ! 3) :: dword)) +
      push_bit 32 (ucast ((ucast (A ! 4) :: dword) + push_bit 8 (ucast (A ! 5) :: dword) +
      push_bit 16 (ucast (A ! 6) :: dword) + push_bit 24 (ucast (A ! 7) :: dword))))"

definition gen_sint8korr :: "byte list \<Rightarrow> 64 word result" where
  "gen_sint8korr A =
     gen_uint8korr A"

definition gen_int2store :: "byte list \<Rightarrow> 32 word \<Rightarrow> byte list result" where
  "gen_int2store T A =
     (let def_temp = A in stores T [(0, ucast def_temp), (1, ucast (drop_bit 8 def_temp))])"

definition gen_int3store :: "byte list \<Rightarrow> 32 word \<Rightarrow> byte list result" where
  "gen_int3store T A =
     stores T [(0, ucast A), (1, ucast (drop_bit 8 A)), (2, ucast (drop_bit 16 A))]"

definition gen_int4store :: "byte list \<Rightarrow> 32 word \<Rightarrow> byte list result" where
  "gen_int4store T A =
     stores T [(0, ucast A), (1, ucast (drop_bit 8 A)), (2, ucast (drop_bit 16 A)),
        (3, ucast (drop_bit 24 A))]"

definition gen_int5store :: "byte list \<Rightarrow> 64 word \<Rightarrow> byte list result" where
  "gen_int5store T A =
     stores T [(0, ucast A), (1, ucast (drop_bit 8 A)), (2, ucast (drop_bit 16 A)),
        (3, ucast (drop_bit 24 A)), (4, ucast (drop_bit 32 A))]"

definition gen_int6store :: "byte list \<Rightarrow> 64 word \<Rightarrow> byte list result" where
  "gen_int6store T A =
     stores T [(0, ucast A), (1, ucast (drop_bit 8 A)), (2, ucast (drop_bit 16 A)),
        (3, ucast (drop_bit 24 A)), (4, ucast (drop_bit 32 A)), (5, ucast (drop_bit 40 A))]"

definition gen_int8store :: "byte list \<Rightarrow> 64 word \<Rightarrow> byte list result" where
  "gen_int8store T A =
     (let def_temp = (ucast A :: dword); def_temp2 = (ucast (drop_bit 32 A) :: dword) in
      res_bind (gen_int4store T def_temp) (\<lambda>T.
      store_at 4 (\<lambda>T. gen_int4store T def_temp2) T))"

subsection \<open>Network byte order\<close>

definition int4net :: "byte list \<Rightarrow> 32 word result" where
  "int4net A =
     loads 4 A
     (ucast (A ! 3) OR push_bit 8 (ucast (A ! 2)) OR push_bit 16 (ucast (A ! 1)) OR push_bit 24 (ucast (A ! 0)))"

subsection \<open>Machine format\<close>

text \<open>
  Reading and storing in the byte order of the machine: the branch for little-endian machines,
  the one compiled here, and the one for big-endian machines (\<open>be_\<close>), on which the first byte of
  an integer in memory is its highest.
\<close>

definition ushortget :: "byte list \<Rightarrow> 16 word result" where
  "ushortget M = x86_uint2korr M"

definition shortget :: "byte list \<Rightarrow> 16 word result" where
  "shortget M = x86_sint2korr M"

definition longget :: "byte list \<Rightarrow> 32 word result" where
  "longget M = x86_sint4korr M"

definition ulongget :: "byte list \<Rightarrow> 32 word result" where
  "ulongget M = x86_uint4korr M"

definition shortstore :: "byte list \<Rightarrow> 32 word \<Rightarrow> byte list result" where
  "shortstore T V = x86_int2store T V"

definition longstore :: "byte list \<Rightarrow> 32 word \<Rightarrow> byte list result" where
  "longstore T V = x86_int4store T V"

definition longlongget :: "byte list \<Rightarrow> 64 word result" where
  "longlongget M = loads 8 M (le_word (take 8 M))"

definition longlongstore :: "byte list \<Rightarrow> 64 word \<Rightarrow> byte list result" where
  "longlongstore T V = memcpy_at T 0 (le_bytes 8 V) 8"

definition be_ushortget :: "byte list \<Rightarrow> 16 word result" where
  "be_ushortget M = loads 2 M
     (ucast ((ucast (M ! 1) :: dword) + push_bit 8 (ucast (M ! 0))))"

definition be_shortget :: "byte list \<Rightarrow> 16 word result" where
  "be_shortget M = loads 2 M
     (ucast ((ucast (M ! 1) :: dword) + push_bit 8 (scast (M ! 0))))"

definition be_longget :: "byte list \<Rightarrow> 32 word result" where
  "be_longget M = loads 4 M
     (let def_temp = [M ! 0, M ! 1, M ! 2, M ! 3] in le_word (rev def_temp))"

definition be_ulongget :: "byte list \<Rightarrow> 32 word result" where
  "be_ulongget M = loads 4 M
     (let def_temp = [M ! 0, M ! 1, M ! 2, M ! 3] in le_word (rev def_temp))"

definition be_shortstore :: "byte list \<Rightarrow> 32 word \<Rightarrow> byte list result" where
  "be_shortstore T A =
     (let def_temp = A in stores T [(1, ucast def_temp), (0, ucast (drop_bit 8 def_temp))])"

definition be_longstore :: "byte list \<Rightarrow> 32 word \<Rightarrow> byte list result" where
  "be_longstore T A =
     stores T [(3, ucast A), (2, ucast (drop_bit 8 A)), (1, ucast (drop_bit 16 A)), (0, ucast (drop_bit 24 A))]"

definition be_longlongget :: "byte list \<Rightarrow> 64 word result" where
  "be_longlongget M = loads 8 M (le_word (rev (take 8 M)))"

definition be_longlongstore :: "byte list \<Rightarrow> 64 word \<Rightarrow> byte list result" where
  "be_longlongstore T V = memcpy_at T 0 (rev (le_bytes 8 V)) 8"

section \<open>The macros against the reference encoding\<close>

lemma length_ge_split:
  "2 \<le> length T \<Longrightarrow> \<exists>a b R. T = a # b # R"
  "3 \<le> length T \<Longrightarrow> \<exists>a b c R. T = a # b # c # R"
  "4 \<le> length T \<Longrightarrow> \<exists>a b c d R. T = a # b # c # d # R"
  "5 \<le> length T \<Longrightarrow> \<exists>a b c d e R. T = a # b # c # d # e # R"
  "6 \<le> length T \<Longrightarrow> \<exists>a b c d e f R. T = a # b # c # d # e # f # R"
  "7 \<le> length T \<Longrightarrow> \<exists>a b c d e f g R. T = a # b # c # d # e # f # g # R"
  "8 \<le> length T \<Longrightarrow> \<exists>a b c d e f g h R. T = a # b # c # d # e # f # g # h # R"
  by (auto simp: numeral_eq_Suc Suc_le_length_iff)

lemma loads_cong: "(n \<le> length A \<Longrightarrow> v = w) \<Longrightarrow> loads n A v = loads n A w"
  by (simp add: loads_def)

lemma push_scast_24: "push_bit 24 (scast (b :: byte) :: dword) = push_bit 24 (ucast b)"
  by (rule bit_word_eqI) (auto simp: bit_simps)

lemma add_push_or: "(ucast (a :: byte) :: dword) + push_bit 8 y = ucast a OR push_bit 8 y"
  by (rule disjunctive_add) (auto simp: bit_simps dest: bit_imp_le_length)

lemma ucast16_add_push:
  "(ucast ((ucast (a :: byte) :: dword) + push_bit 8 (scast b)) :: 16 word)
     = ucast ((ucast a :: dword) + push_bit 8 (ucast (b :: byte)))"
  unfolding add_push_or by (rule bit_word_eqI) (auto simp: bit_simps)

lemma le_word_expand:
  "push_bit 8 w = 256 * w" "push_bit 16 w = 65536 * w" "push_bit 24 w = 16777216 * w"
  "push_bit 32 w = 4294967296 * w" "push_bit 40 w = 1099511627776 * w" for w :: "'w::len word"
  by (simp_all add: push_bit_eq_mult mult.commute)

lemma ucast_le_word_32:
  "(ucast (ucast a + 256 * ucast b :: dword) :: 'w::len word) = le_word [a, b]"
  "(ucast (ucast a + 256 * ucast b + 65536 * ucast c :: dword) :: 'w word) = le_word [a, b, c]"
  "(ucast (ucast a + 256 * ucast b + 65536 * ucast c + 16777216 * ucast d :: dword) :: 'w word)
     = le_word [a, b, c, d]" for a b c d :: byte
  using ucast_le_word [of "[a, b]", where 'v = 32 and 'w = 'w]
    ucast_le_word [of "[a, b, c]", where 'v = 32 and 'w = 'w]
    ucast_le_word [of "[a, b, c, d]", where 'v = 32 and 'w = 'w]
  by (simp_all add: algebra_simps)

lemma take_nths:
  "1 \<le> length A \<Longrightarrow> take 1 A = [A ! 0]"
  "2 \<le> length A \<Longrightarrow> take 2 A = [A ! 0, A ! 1]"
  "3 \<le> length A \<Longrightarrow> take 3 A = [A ! 0, A ! 1, A ! 2]"
  "4 \<le> length A \<Longrightarrow> take 4 A = [A ! 0, A ! 1, A ! 2, A ! 3]"
  "5 \<le> length A \<Longrightarrow> take 5 A = [A ! 0, A ! 1, A ! 2, A ! 3, A ! 4]"
  "6 \<le> length A \<Longrightarrow> take 6 A = [A ! 0, A ! 1, A ! 2, A ! 3, A ! 4, A ! 5]"
  "7 \<le> length A \<Longrightarrow> take 7 A = [A ! 0, A ! 1, A ! 2, A ! 3, A ! 4, A ! 5, A ! 6]"
  "8 \<le> length A \<Longrightarrow> take 8 A = [A ! 0, A ! 1, A ! 2, A ! 3, A ! 4, A ! 5, A ! 6, A ! 7]"
  by (auto simp: Suc_le_length_iff dest!: length_ge_split)

lemma loads_ref:
  "loads 1 A (f (take 1 A)) = loads 1 A (f [A ! 0])"
  "loads 2 A (f (take 2 A)) = loads 2 A (f [A ! 0, A ! 1])"
  "loads 3 A (f (take 3 A)) = loads 3 A (f [A ! 0, A ! 1, A ! 2])"
  "loads 4 A (f (take 4 A)) = loads 4 A (f [A ! 0, A ! 1, A ! 2, A ! 3])"
  "loads 5 A (f (take 5 A)) = loads 5 A (f [A ! 0, A ! 1, A ! 2, A ! 3, A ! 4])"
  "loads 6 A (f (take 6 A)) = loads 6 A (f [A ! 0, A ! 1, A ! 2, A ! 3, A ! 4, A ! 5])"
  "loads 7 A (f (take 7 A)) = loads 7 A (f [A ! 0, A ! 1, A ! 2, A ! 3, A ! 4, A ! 5, A ! 6])"
  "loads 8 A (f (take 8 A)) = loads 8 A (f [A ! 0, A ! 1, A ! 2, A ! 3, A ! 4, A ! 5, A ! 6, A ! 7])"
  by (simp_all only: loads_def take_nths cong: if_cong)

lemma mi_uint_ref:
  "mi_uint1korr A = loads 1 A (le_word (rev (take 1 A)))"
  "mi_uint2korr A = loads 2 A (le_word (rev (take 2 A)))"
  "mi_uint3korr A = loads 3 A (le_word (rev (take 3 A)))"
  "mi_uint4korr A = loads 4 A (le_word (rev (take 4 A)))"
  "mi_uint5korr A = loads 5 A (le_word (rev (take 5 A)))"
  "mi_uint6korr A = loads 6 A (le_word (rev (take 6 A)))"
  "mi_uint7korr A = loads 7 A (le_word (rev (take 7 A)))"
  "mi_uint8korr A = loads 8 A (le_word (rev (take 8 A)))"
  unfolding mi_uint1korr_def mi_uint2korr_def mi_uint3korr_def mi_uint4korr_def mi_uint5korr_def
    mi_uint6korr_def mi_uint7korr_def mi_uint8korr_def le_word_expand ucast_le_word_32
  by (simp_all add: loads_ref [where f = "\<lambda>xs. le_word (rev xs)"] algebra_simps del: One_nat_def)

lemma gen_uint_ref:
  "gen_uint2korr A = loads 2 A (le_word (take 2 A))"
  "gen_uint3korr A = loads 3 A (le_word (take 3 A))"
  "gen_uint4korr A = loads 4 A (le_word (take 4 A))"
  "gen_uint5korr A = loads 5 A (le_word (take 5 A))"
  "gen_uint6korr A = loads 6 A (le_word (take 6 A))"
  "gen_uint8korr A = loads 8 A (le_word (take 8 A))"
  unfolding gen_uint2korr_def gen_uint3korr_def gen_uint4korr_def gen_uint5korr_def
    gen_uint6korr_def gen_uint8korr_def le_word_expand ucast_le_word_32
  by (simp_all add: loads_ref [where f = le_word] algebra_simps)

lemma mi_sint_ref:
  "mi_sint1korr A = mi_uint1korr A"
  "mi_sint2korr A = mi_uint2korr A"
  "mi_sint4korr A = mi_uint4korr A"
  "mi_sint8korr A = mi_uint8korr A"
  by (simp_all add: mi_sint1korr_def mi_uint1korr_def mi_sint2korr_def mi_uint2korr_def
      mi_sint4korr_def mi_uint4korr_def mi_sint8korr_def ucast16_add_push push_scast_24)

lemma gen_sint_ref:
  "gen_sint2korr A = gen_uint2korr A"
  "gen_sint4korr A = gen_uint4korr A"
  "gen_sint8korr A = gen_uint8korr A"
  by (simp_all add: gen_sint2korr_def gen_uint2korr_def gen_sint4korr_def gen_uint4korr_def
      gen_sint8korr_def ucast16_add_push push_scast_24)

text \<open>Three bytes are sign-extended from bit 23.\<close>

lemma sint3_extend:
  fixes a b c :: byte
  shows "(if a AND 128 \<noteq> 0
          then push_bit 24 255 OR push_bit 16 (ucast a) OR push_bit 8 (ucast b) OR ucast c
          else push_bit 16 (ucast a) OR push_bit 8 (ucast b) OR ucast c)
       = signed_take_bit 23 (le_word [c, b, a] :: dword)"
proof -
  have or: "(le_word [c, b, a] :: dword) = push_bit 16 (ucast a) OR push_bit 8 (ucast b) OR ucast c"
  proof -
    have "(le_word [c, b, a] :: dword) = ucast c + push_bit 8 (ucast b + push_bit 8 (ucast a))"
      by (simp only: le_word.simps mult_256) simp
    also have "\<dots> = push_bit 16 (ucast a) OR push_bit 8 (ucast b) OR ucast c"
      unfolding add_push_or by (simp add: push_bit_or ac_simps)
    finally show ?thesis .
  qed
  have sign: "a AND 128 \<noteq> 0 \<longleftrightarrow> bit a 7"
    using and_exp_eq_0_iff_not_bit [of a 7] by simp
  have mask: "(push_bit 24 255 :: dword) = push_bit 24 (mask 8)"
    by (simp add: mask_eq_exp_minus_1)
  have c: "\<not> bit c (n :: nat)" if "8 \<le> n" for n
    using that bit_imp_le_length [of c n] by auto
  have a: "\<not> bit a (n :: nat)" if "8 \<le> n" for n
    using that bit_imp_le_length [of a n] by auto
  have b: "\<not> bit b (n :: nat)" if "8 \<le> n" for n
    using that bit_imp_le_length [of b n] by auto
  have top: "bit a (n - 16) \<longleftrightarrow> n = 23 \<and> bit a 7" if "23 \<le> n" for n
    using that a [of "n - 16"] by (cases "n = 23") auto
  show ?thesis
    unfolding or sign mask
    by (rule bit_word_eqI) (auto simp: bit_simps a b c top min_def)
qed

lemma sint3_ref:
  "mi_sint3korr A = loads 3 A (signed_take_bit 23 (le_word (rev (take 3 A))))"
  "gen_sint3korr A = loads 3 A (signed_take_bit 23 (le_word (take 3 A)))"
  "x86_sint3korr A = gen_sint3korr A"
  unfolding mi_sint3korr_def gen_sint3korr_def x86_sint3korr_def sint3_extend
    loads_ref [where f = "\<lambda>xs. signed_take_bit 23 (le_word (rev xs))"]
    loads_ref [where f = "\<lambda>xs. signed_take_bit 23 (le_word xs)"]
  by simp_all

text \<open>
  The native loads of the Win32 form read what the portable form computes; for three bytes
  the Win32 form needs a fourth readable byte.
\<close>

lemma x86_uint_ref:
  "x86_uint2korr A = gen_uint2korr A" "x86_uint4korr A = gen_uint4korr A"
  "x86_uint5korr A = gen_uint5korr A" "x86_uint6korr A = gen_uint6korr A"
  "x86_uint8korr A = gen_uint8korr A"
  unfolding gen_uint_ref x86_uint2korr_def x86_uint4korr_def x86_uint8korr_def native_load_def
  by (simp_all add: x86_uint5korr_def x86_uint6korr_def gen_uint5korr_def gen_uint6korr_def
      flip: gen_uint_ref)

lemma x86_sint_ref:
  "x86_sint2korr A = gen_sint2korr A" "x86_sint4korr A = gen_sint4korr A"
  "x86_sint8korr A = gen_sint8korr A"
  unfolding gen_sint_ref gen_uint_ref x86_sint2korr_def x86_sint4korr_def x86_sint8korr_def
    native_load_def
  by simp_all

lemma x86_uint3_ref: "x86_uint3korr A = (if length A < 4 then Inl Read_Out_Of_Bounds else gen_uint3korr A)"
proof (cases "4 \<le> length A")
  case True
  have "(le_word [p, q, r, s] :: dword) AND 0xFFFFFF = le_word [p, q, r]" for p q r s :: byte
  proof -
    have "unat (take_bit 24 (le_word [p, q, r, s] :: dword)) = le_nat [p, q, r, s] mod 2 ^ 24"
      by (subst unsigned_take_bit_eq, subst unat_le_word, simp) (rule take_bit_eq_mod)
    also have "le_nat [p, q, r, s] = le_nat [p, q, r] + 2 ^ 24 * unat s"
      by simp
    also have "(le_nat [p, q, r] + 2 ^ 24 * unat s) mod 2 ^ 24 = le_nat [p, q, r]"
      using le_nat_less [of "[p, q, r]"] by (simp del: le_nat.simps)
    also have "le_nat [p, q, r] = unat (le_word [p, q, r] :: dword)"
      by (rule unat_le_word [symmetric]) simp
    finally have "take_bit 24 (le_word [p, q, r, s] :: dword) = le_word [p, q, r]"
      by (rule word_unat_eq_iff [THEN iffD2])
    moreover have "(0xFFFFFF :: dword) = mask 24" by (simp add: mask_eq_exp_minus_1)
    ultimately show ?thesis by (simp only: flip: take_bit_eq_mask)
  qed
  with True show ?thesis
    by (simp add: x86_uint3korr_def native_load_def gen_uint_ref take_nths del: le_word.simps)
qed (simp add: x86_uint3korr_def native_load_def)

definition puts :: "nat \<Rightarrow> byte list \<Rightarrow> byte list \<Rightarrow> byte list result" where
  "puts n T bs = (if n \<le> length T then Inr (bs @ drop n T) else Inl Buffer_Overflow)"

lemma stores_puts:
  assumes "set (map fst ws) = {..<n}" and "0 < n"
    and "\<And>T. n \<le> length T \<Longrightarrow> stores T ws = Inr (bs @ drop n T)"
  shows "stores T ws = puts n T bs"
proof (cases "n \<le> length T")
  case False
  have "n - 1 \<in> set (map fst ws)" using assms(1,2) by simp
  then have "\<exists>w\<in>set ws. length T \<le> fst w" using False by force
  then show ?thesis using False by (simp add: puts_def stores_overflow)
qed (simp add: puts_def assms(3))

lemma stores_down:
  "stores T [(0, a)] = puts 1 T [a]"
  "stores T [(1, b), (0, a)] = puts 2 T [a, b]"
  "stores T [(2, c), (1, b), (0, a)] = puts 3 T [a, b, c]"
  "stores T [(3, d), (2, c), (1, b), (0, a)] = puts 4 T [a, b, c, d]"
  "stores T [(4, e), (3, d), (2, c), (1, b), (0, a)] = puts 5 T [a, b, c, d, e]"
  "stores T [(5, f), (4, e), (3, d), (2, c), (1, b), (0, a)] = puts 6 T [a, b, c, d, e, f]"
  "stores T [(6, g), (5, f), (4, e), (3, d), (2, c), (1, b), (0, a)] = puts 7 T [a, b, c, d, e, f, g]"
  by (rule stores_puts,
      force, simp, (drule length_ge_split)?, force simp: Suc_le_length_iff eval_nat_numeral)+

lemma stores_up:
  "stores T [(0, a), (1, b)] = puts 2 T [a, b]"
  "stores T [(0, a), (1, b), (2, c)] = puts 3 T [a, b, c]"
  "stores T [(0, a), (1, b), (2, c), (3, d)] = puts 4 T [a, b, c, d]"
  "stores T [(0, a), (1, b), (2, c), (3, d), (4, e)] = puts 5 T [a, b, c, d, e]"
  "stores T [(0, a), (1, b), (2, c), (3, d), (4, e), (5, f)] = puts 6 T [a, b, c, d, e, f]"
  "stores T [(0, a), (1, b), (2, c), (3, d), (4, e), (5, f), (6, g), (7, h)] = puts 8 T [a, b, c, d, e, f, g, h]"
  by (rule stores_puts,
      force, simp, (drule length_ge_split)?, force simp: Suc_le_length_iff eval_nat_numeral)+

lemma le_bytes_expand:
  "le_bytes 1 w = [ucast w]"
  "le_bytes 2 w = [ucast w, ucast (drop_bit 8 w)]"
  "le_bytes 3 w = [ucast w, ucast (drop_bit 8 w), ucast (drop_bit 16 w)]"
  "le_bytes 4 w = [ucast w, ucast (drop_bit 8 w), ucast (drop_bit 16 w), ucast (drop_bit 24 w)]"
  "le_bytes 5 w = [ucast w, ucast (drop_bit 8 w), ucast (drop_bit 16 w), ucast (drop_bit 24 w),
     ucast (drop_bit 32 w)]"
  "le_bytes 6 w = [ucast w, ucast (drop_bit 8 w), ucast (drop_bit 16 w), ucast (drop_bit 24 w),
     ucast (drop_bit 32 w), ucast (drop_bit 40 w)]"
  "le_bytes 7 w = [ucast w, ucast (drop_bit 8 w), ucast (drop_bit 16 w), ucast (drop_bit 24 w),
     ucast (drop_bit 32 w), ucast (drop_bit 40 w), ucast (drop_bit 48 w)]"
  "le_bytes 8 w = [ucast w, ucast (drop_bit 8 w), ucast (drop_bit 16 w), ucast (drop_bit 24 w),
     ucast (drop_bit 32 w), ucast (drop_bit 40 w), ucast (drop_bit 48 w), ucast (drop_bit 56 w)]"
  by (simp_all add: eval_nat_numeral)

lemma ucast_byte_dword:
  "(ucast (ucast w :: dword) :: byte) = ucast w"
  "(ucast (drop_bit 8 (ucast w :: dword)) :: byte) = ucast (drop_bit 8 w)"
  "(ucast (drop_bit 16 (ucast w :: dword)) :: byte) = ucast (drop_bit 16 w)"
  "(ucast (drop_bit 24 (ucast w :: dword)) :: byte) = ucast (drop_bit 24 w)" for w :: "64 word"
  by (auto intro!: bit_word_eqI simp: bit_simps)

lemmas le_bytes_simps = le_bytes_expand ucast_byte_dword drop_bit_drop_bit

lemma mi_store_ref:
  "mi_int1store T A = puts 1 T (rev (le_bytes 1 A))"
  "mi_int2store T A = puts 2 T (rev (le_bytes 2 A))"
  "mi_int3store T A = puts 3 T (rev (le_bytes 3 A))"
  "mi_int4store T A = puts 4 T (rev (le_bytes 4 A))"
  "mi_int5store T B = puts 5 T (rev (le_bytes 5 B))"
  "mi_int6store T B = puts 6 T (rev (le_bytes 6 B))"
  "mi_int7store T B = puts 7 T (rev (le_bytes 7 B))"
  unfolding mi_int1store_def mi_int2store_def mi_int3store_def mi_int4store_def mi_int5store_def
    mi_int6store_def mi_int7store_def Let_def
  by (simp_all add: stores_down le_bytes_simps del: One_nat_def)

lemma gen_store_ref:
  "gen_int2store T A = puts 2 T (le_bytes 2 A)"
  "gen_int3store T A = puts 3 T (le_bytes 3 A)"
  "gen_int4store T A = puts 4 T (le_bytes 4 A)"
  "gen_int5store T B = puts 5 T (le_bytes 5 B)"
  "gen_int6store T B = puts 6 T (le_bytes 6 B)"
  unfolding gen_int2store_def gen_int3store_def gen_int4store_def gen_int5store_def
    gen_int6store_def Let_def
  by (simp_all add: stores_up le_bytes_simps del: One_nat_def)

lemma two_puts:
  assumes "length bs = k" "length cs = m"
  shows "res_bind (puts k T bs) (\<lambda>T. store_at k (\<lambda>T. puts m T cs) T) = puts (k + m) T (bs @ cs)"
  using assms by (auto simp: puts_def store_at_def add.commute)

lemma store8_ref:
  "mi_int8store T B = puts 8 T (rev (le_bytes 8 B))"
  "gen_int8store T B = puts 8 T (le_bytes 8 B)"
proof -
  have "store_at 0 (\<lambda>T. puts 4 T bs) T = puts 4 T bs" for bs
    by (auto simp: store_at_def puts_def)
  then show "mi_int8store T B = puts 8 T (rev (le_bytes 8 B))"
    using two_puts [of "rev (le_bytes 4 (ucast (drop_bit 32 B) :: dword))" 4
        "rev (le_bytes 4 (ucast B :: dword))" 4 T]
    by (simp add: mi_int8store_def mi_store_ref le_bytes_simps)
  show "gen_int8store T B = puts 8 T (le_bytes 8 B)"
    using two_puts [of "le_bytes 4 (ucast B :: dword)" 4
        "le_bytes 4 (ucast (drop_bit 32 B) :: dword)" 4 T]
    by (simp add: gen_int8store_def gen_store_ref le_bytes_simps)
qed

lemma native_store_puts: "native_store n T w = puts n T (le_bytes n w)"
  by (simp add: native_store_def memcpy_at_def puts_def)

lemma x86_store_ref:
  "x86_int2store T A = gen_int2store T A" "x86_int3store T A = gen_int3store T A"
  "x86_int4store T A = gen_int4store T A" "x86_int5store T B = gen_int5store T B"
  "x86_int6store T B = gen_int6store T B" "x86_int8store T B = gen_int8store T B"
proof -
  have "(ucast (ucast A :: 16 word) :: byte) = ucast A"
    "(ucast (drop_bit 8 (ucast A :: 16 word)) :: byte) = ucast (drop_bit 8 A)"
    by (auto intro!: bit_word_eqI simp: bit_simps)
  then show "x86_int2store T A = gen_int2store T A"
    by (simp add: x86_int2store_def native_store_puts gen_store_ref le_bytes_expand)
qed (simp_all add: x86_int3store_def x86_int4store_def x86_int5store_def x86_int6store_def
    x86_int8store_def native_store_puts gen_store_ref store8_ref stores_up le_bytes_simps
    del: One_nat_def)

section \<open>The codec interface\<close>

text \<open>
  The contract of a store and a load macro over buffers of every length: the store writes exactly
  the \<open>n\<close> bytes \<open>enc v\<close>, leaves what is behind them alone and overflows a shorter buffer; the load
  needs \<open>m\<close> readable bytes, and then gives back the part \<open>keep v\<close> of the value that the bytes hold.
\<close>

definition reads_back ::
  "(byte list \<Rightarrow> 'v \<Rightarrow> byte list result) \<Rightarrow> nat \<Rightarrow> ('v \<Rightarrow> byte list) \<Rightarrow> (byte list \<Rightarrow> 'r result) \<Rightarrow> nat \<Rightarrow> ('v \<Rightarrow> 'r) \<Rightarrow> bool" where
  "reads_back store n enc load m keep \<longleftrightarrow>
     (\<forall>v. length (enc v) = n) \<and>
     (\<forall>T v. store T v = (if n \<le> length T then Inr (enc v @ drop n T) else Inl Buffer_Overflow)) \<and>
     (\<forall>R v. load (enc v @ R) = (if m \<le> n + length R then Inr (keep v) else Inl Read_Out_Of_Bounds)) \<and>
     (\<forall>A. length A < m \<longrightarrow> load A = Inl Read_Out_Of_Bounds)"

text \<open>
  What a pair of store and load macros promises: \<open>store\<close> writes the \<open>n\<close> bytes \<open>enc v\<close> at the
  front of a buffer that is long enough and faults on a shorter one; \<open>load\<close> reads \<open>n\<close> bytes and
  gives back the part \<open>keep v\<close> of the value that fits them.
\<close>

locale buf_codec =
  fixes store :: "byte list \<Rightarrow> 'v \<Rightarrow> byte list result"
    and load :: "byte list \<Rightarrow> 'r result"
    and n :: nat
    and enc :: "'v \<Rightarrow> byte list"
    and keep :: "'v \<Rightarrow> 'r"
  assumes length_enc: "length (enc v) = n"
    and store_puts: "store T v = puts n T (enc v)"
    and load_enc: "load (enc v @ R) = Inr (keep v)"
    and load_short: "length A < n \<Longrightarrow> load A = Inl Read_Out_Of_Bounds"
begin

lemma load_store:
  assumes "n \<le> length T"
  shows "\<exists>T'. store T v = Inr T' \<and> load T' = Inr (keep v) \<and> length T' = length T \<and> drop n T' = drop n T"
  using assms by (simp add: store_puts puts_def load_enc length_enc)

lemma store_fault_iff: "is_fault (store T v) \<longleftrightarrow> length T < n"
  by (simp add: store_puts puts_def)

lemma load_bind_store: "n \<le> length T \<Longrightarrow> res_bind (store T v) load = Inr (keep v)"
  by (simp add: store_puts puts_def load_enc)

lemma reads_back: "reads_back store n enc load n keep"
  by (simp add: reads_back_def store_puts puts_def length_enc load_enc load_short)

lemma store_last_wins: "n \<le> length T \<Longrightarrow> res_bind (store T v) (\<lambda>T. store T w) = store T w"
  by (simp add: store_puts puts_def length_enc)

end

lemma le_word_enc:
  fixes w :: "'w::len word"
  assumes "8 \<le> LENGTH('w)" "8 * n \<le> LENGTH('w)"
  shows "(le_word (le_bytes n w) :: 'r::len word) = ucast (take_bit (8 * n) w)"
  using ucast_le_word [of "le_bytes n w", where 'v = 'w and 'w = 'r] assms
  by (simp add: le_word_le_bytes)

lemma be_codec:
  fixes load :: "byte list \<Rightarrow> 'r::len word result" and store :: "byte list \<Rightarrow> 'w::len word \<Rightarrow> byte list result"
  assumes "\<And>A. load A = loads n A (le_word (rev (take n A)))"
    and "\<And>T v. store T v = puts n T (rev (le_bytes n v))"
    and "8 \<le> LENGTH('w)" "8 * n \<le> LENGTH('w)"
  shows "buf_codec store load n (\<lambda>v. rev (le_bytes n v)) (\<lambda>v. ucast (take_bit (8 * n) v))"
  by unfold_locales (simp_all add: assms le_word_enc)

lemma le_codec:
  fixes load :: "byte list \<Rightarrow> 'r::len word result" and store :: "byte list \<Rightarrow> 'w::len word \<Rightarrow> byte list result"
  assumes "\<And>A. load A = loads n A (le_word (take n A))"
    and "\<And>T v. store T v = puts n T (le_bytes n v)"
    and "8 \<le> LENGTH('w)" "8 * n \<le> LENGTH('w)"
  shows "buf_codec store load n (le_bytes n) (\<lambda>v. ucast (take_bit (8 * n) v))"
  by unfold_locales (simp_all add: assms le_word_enc)

lemmas codec_refs = mi_uint_ref mi_sint_ref gen_uint_ref gen_sint_ref x86_uint_ref x86_sint_ref
  mi_store_ref gen_store_ref store8_ref x86_store_ref

interpretation mi1: buf_codec mi_int1store mi_uint1korr 1 "\<lambda>v. rev (le_bytes 1 v)" "\<lambda>v. ucast (take_bit (8 * 1) v)"
  by (rule be_codec) (simp_all only: codec_refs, simp_all)

interpretation mi2: buf_codec mi_int2store mi_uint2korr 2 "\<lambda>v. rev (le_bytes 2 v)" "\<lambda>v. ucast (take_bit (8 * 2) v)"
  by (rule be_codec) (simp_all only: codec_refs, simp_all)

interpretation mi3: buf_codec mi_int3store mi_uint3korr 3 "\<lambda>v. rev (le_bytes 3 v)" "\<lambda>v. ucast (take_bit (8 * 3) v)"
  by (rule be_codec) (simp_all only: codec_refs, simp_all)

interpretation mi4: buf_codec mi_int4store mi_uint4korr 4 "\<lambda>v. rev (le_bytes 4 v)" "\<lambda>v. ucast (take_bit (8 * 4) v)"
  by (rule be_codec) (simp_all only: codec_refs, simp_all)

interpretation mi5: buf_codec mi_int5store mi_uint5korr 5 "\<lambda>v. rev (le_bytes 5 v)" "\<lambda>v. ucast (take_bit (8 * 5) v)"
  by (rule be_codec) (simp_all only: codec_refs, simp_all)

interpretation mi6: buf_codec mi_int6store mi_uint6korr 6 "\<lambda>v. rev (le_bytes 6 v)" "\<lambda>v. ucast (take_bit (8 * 6) v)"
  by (rule be_codec) (simp_all only: codec_refs, simp_all)

interpretation mi7: buf_codec mi_int7store mi_uint7korr 7 "\<lambda>v. rev (le_bytes 7 v)" "\<lambda>v. ucast (take_bit (8 * 7) v)"
  by (rule be_codec) (simp_all only: codec_refs, simp_all)

interpretation mi8: buf_codec mi_int8store mi_uint8korr 8 "\<lambda>v. rev (le_bytes 8 v)" "\<lambda>v. ucast (take_bit (8 * 8) v)"
  by (rule be_codec) (simp_all only: codec_refs, simp_all)

interpretation gen2: buf_codec gen_int2store gen_uint2korr 2 "le_bytes 2" "\<lambda>v. ucast (take_bit (8 * 2) v)"
  by (rule le_codec) (simp_all only: codec_refs, simp_all)

interpretation gen3: buf_codec gen_int3store gen_uint3korr 3 "le_bytes 3" "\<lambda>v. ucast (take_bit (8 * 3) v)"
  by (rule le_codec) (simp_all only: codec_refs, simp_all)

interpretation gen4: buf_codec gen_int4store gen_uint4korr 4 "le_bytes 4" "\<lambda>v. ucast (take_bit (8 * 4) v)"
  by (rule le_codec) (simp_all only: codec_refs, simp_all)

interpretation gen5: buf_codec gen_int5store gen_uint5korr 5 "le_bytes 5" "\<lambda>v. ucast (take_bit (8 * 5) v)"
  by (rule le_codec) (simp_all only: codec_refs, simp_all)

interpretation gen6: buf_codec gen_int6store gen_uint6korr 6 "le_bytes 6" "\<lambda>v. ucast (take_bit (8 * 6) v)"
  by (rule le_codec) (simp_all only: codec_refs, simp_all)

interpretation gen8: buf_codec gen_int8store gen_uint8korr 8 "le_bytes 8" "\<lambda>v. ucast (take_bit (8 * 8) v)"
  by (rule le_codec) (simp_all only: codec_refs, simp_all)

interpretation x862: buf_codec x86_int2store x86_uint2korr 2 "le_bytes 2" "\<lambda>v. ucast (take_bit (8 * 2) v)"
  by (rule le_codec) (simp_all only: codec_refs, simp_all)

interpretation x864: buf_codec x86_int4store x86_uint4korr 4 "le_bytes 4" "\<lambda>v. ucast (take_bit (8 * 4) v)"
  by (rule le_codec) (simp_all only: codec_refs, simp_all)

interpretation x865: buf_codec x86_int5store x86_uint5korr 5 "le_bytes 5" "\<lambda>v. ucast (take_bit (8 * 5) v)"
  by (rule le_codec) (simp_all only: codec_refs, simp_all)

interpretation x866: buf_codec x86_int6store x86_uint6korr 6 "le_bytes 6" "\<lambda>v. ucast (take_bit (8 * 6) v)"
  by (rule le_codec) (simp_all only: codec_refs, simp_all)

interpretation x868: buf_codec x86_int8store x86_uint8korr 8 "le_bytes 8" "\<lambda>v. ucast (take_bit (8 * 8) v)"
  by (rule le_codec) (simp_all only: codec_refs, simp_all)

section \<open>Floating point\<close>

text \<open>
  A \<open>float\<close> or a \<open>double\<close> is its object representation, the list of its four or eight bytes
  in memory order; the macros only permute those bytes. The suffix names the byte order of
  the machine the branch of the header is for: \<open>be\<close>, \<open>le\<close>, or \<open>mixed\<close> for little-endian
  words in big-endian word order.
\<close>

definition mi_float4store_be :: "byte list \<Rightarrow> byte list \<Rightarrow> byte list result" where
  "mi_float4store_be T V = stores T
      [(0, V ! 0), (1, V ! 1), (2, V ! 2), (3, V ! 3)]"

definition mi_float4get_be :: "byte list \<Rightarrow> byte list result" where
  "mi_float4get_be M = loads 4 M [M ! 0, M ! 1, M ! 2, M ! 3]"

definition mi_float8store_be :: "byte list \<Rightarrow> byte list \<Rightarrow> byte list result" where
  "mi_float8store_be T V = stores T
      [(0, V ! 0), (1, V ! 1), (2, V ! 2), (3, V ! 3),
       (4, V ! 4), (5, V ! 5), (6, V ! 6), (7, V ! 7)]"

definition mi_float8get_be :: "byte list \<Rightarrow> byte list result" where
  "mi_float8get_be M = loads 8 M [M ! 0, M ! 1, M ! 2, M ! 3, M ! 4, M ! 5, M ! 6, M ! 7]"

definition mi_float4store_le :: "byte list \<Rightarrow> byte list \<Rightarrow> byte list result" where
  "mi_float4store_le T V = stores T
      [(0, V ! 3), (1, V ! 2), (2, V ! 1), (3, V ! 0)]"

definition mi_float4get_le :: "byte list \<Rightarrow> byte list result" where
  "mi_float4get_le M = loads 4 M [M ! 3, M ! 2, M ! 1, M ! 0]"

definition mi_float8store_mixed :: "byte list \<Rightarrow> byte list \<Rightarrow> byte list result" where
  "mi_float8store_mixed T V = stores T
      [(0, V ! 3), (1, V ! 2), (2, V ! 1), (3, V ! 0),
       (4, V ! 7), (5, V ! 6), (6, V ! 5), (7, V ! 4)]"

definition mi_float8get_mixed :: "byte list \<Rightarrow> byte list result" where
  "mi_float8get_mixed M = loads 8 M [M ! 3, M ! 2, M ! 1, M ! 0, M ! 7, M ! 6, M ! 5, M ! 4]"

definition mi_float8store_le :: "byte list \<Rightarrow> byte list \<Rightarrow> byte list result" where
  "mi_float8store_le T V = stores T
      [(0, V ! 7), (1, V ! 6), (2, V ! 5), (3, V ! 4),
       (4, V ! 3), (5, V ! 2), (6, V ! 1), (7, V ! 0)]"

definition mi_float8get_le :: "byte list \<Rightarrow> byte list result" where
  "mi_float8get_le M = loads 8 M [M ! 7, M ! 6, M ! 5, M ! 4, M ! 3, M ! 2, M ! 1, M ! 0]"

text \<open>\<open>my_global.h\<close>: the low byte of the value first.\<close>

definition x86_doubleget :: "byte list \<Rightarrow> byte list result" where
  "x86_doubleget M =
     res_bind (native_load 4 M :: dword result) (\<lambda>m0.
     res_bind (native_load 4 (drop 4 M) :: dword result) (\<lambda>m1.
     Inr (le_bytes 4 m0 @ le_bytes 4 m1)))"

definition x86_doublestore :: "byte list \<Rightarrow> byte list \<Rightarrow> byte list result" where
  "x86_doublestore T V =
     res_bind (native_load 4 V :: dword result) (\<lambda>m0.
     res_bind (native_store 4 T m0) (\<lambda>T.
     res_bind (native_load 4 (drop 4 V) :: dword result) (\<lambda>m1.
     store_at 4 (\<lambda>T. native_store 4 T m1) T)))"

definition x86_float4get :: "byte list \<Rightarrow> byte list result" where
  "x86_float4get M = loads 4 M (take 4 M)"

definition x86_float4store :: "byte list \<Rightarrow> byte list \<Rightarrow> byte list result" where
  "x86_float4store T V = memcpy_at T 0 V 4"

definition float4store_be :: "byte list \<Rightarrow> byte list \<Rightarrow> byte list result" where
  "float4store_be T V = stores T
      [(0, V ! 3), (1, V ! 2), (2, V ! 1), (3, V ! 0)]"

definition float4get_be :: "byte list \<Rightarrow> byte list result" where
  "float4get_be M = loads 4 M [M ! 3, M ! 2, M ! 1, M ! 0]"

definition float8store_be :: "byte list \<Rightarrow> byte list \<Rightarrow> byte list result" where
  "float8store_be T V = stores T
      [(0, V ! 7), (1, V ! 6), (2, V ! 5), (3, V ! 4),
       (4, V ! 3), (5, V ! 2), (6, V ! 1), (7, V ! 0)]"

definition float8get_be :: "byte list \<Rightarrow> byte list result" where
  "float8get_be M = loads 8 M [M ! 7, M ! 6, M ! 5, M ! 4, M ! 3, M ! 2, M ! 1, M ! 0]"

definition doublestore_mixed :: "byte list \<Rightarrow> byte list \<Rightarrow> byte list result" where
  "doublestore_mixed T V = stores T
      [(0, V ! 4), (1, V ! 5), (2, V ! 6), (3, V ! 7),
       (4, V ! 0), (5, V ! 1), (6, V ! 2), (7, V ! 3)]"

definition doubleget_mixed :: "byte list \<Rightarrow> byte list result" where
  "doubleget_mixed M = loads 8 M [M ! 4, M ! 5, M ! 6, M ! 7, M ! 0, M ! 1, M ! 2, M ! 3]"

lemma nths_of_length:
  "length V = 4 \<Longrightarrow> [V ! 0, V ! 1, V ! 2, V ! 3] = V"
  "length V = 8 \<Longrightarrow> [V ! 0, V ! 1, V ! 2, V ! 3, V ! 4, V ! 5, V ! 6, V ! 7] = V"
  using take_nths(4) [of V] take_nths(8) [of V] by simp_all

interpretation mif4be: buf_codec mi_float4store_be mi_float4get_be 4
  "\<lambda>V. [V ! 0, V ! 1, V ! 2, V ! 3]" "\<lambda>V. [V ! 0, V ! 1, V ! 2, V ! 3]"
  by unfold_locales (simp_all add: mi_float4store_be_def mi_float4get_be_def stores_up del: One_nat_def)

interpretation mif8be: buf_codec mi_float8store_be mi_float8get_be 8
  "\<lambda>V. [V ! 0, V ! 1, V ! 2, V ! 3, V ! 4, V ! 5, V ! 6, V ! 7]" "\<lambda>V. [V ! 0, V ! 1, V ! 2, V ! 3, V ! 4, V ! 5, V ! 6, V ! 7]"
  by unfold_locales (simp_all add: mi_float8store_be_def mi_float8get_be_def stores_up del: One_nat_def)

interpretation mif4le: buf_codec mi_float4store_le mi_float4get_le 4
  "\<lambda>V. [V ! 3, V ! 2, V ! 1, V ! 0]" "\<lambda>V. [V ! 0, V ! 1, V ! 2, V ! 3]"
  by unfold_locales (simp_all add: mi_float4store_le_def mi_float4get_le_def stores_up del: One_nat_def)

interpretation mif8mx: buf_codec mi_float8store_mixed mi_float8get_mixed 8
  "\<lambda>V. [V ! 3, V ! 2, V ! 1, V ! 0, V ! 7, V ! 6, V ! 5, V ! 4]" "\<lambda>V. [V ! 0, V ! 1, V ! 2, V ! 3, V ! 4, V ! 5, V ! 6, V ! 7]"
  by unfold_locales (simp_all add: mi_float8store_mixed_def mi_float8get_mixed_def stores_up del: One_nat_def)

interpretation mif8le: buf_codec mi_float8store_le mi_float8get_le 8
  "\<lambda>V. [V ! 7, V ! 6, V ! 5, V ! 4, V ! 3, V ! 2, V ! 1, V ! 0]" "\<lambda>V. [V ! 0, V ! 1, V ! 2, V ! 3, V ! 4, V ! 5, V ! 6, V ! 7]"
  by unfold_locales (simp_all add: mi_float8store_le_def mi_float8get_le_def stores_up del: One_nat_def)

interpretation f4be: buf_codec float4store_be float4get_be 4
  "\<lambda>V. [V ! 3, V ! 2, V ! 1, V ! 0]" "\<lambda>V. [V ! 0, V ! 1, V ! 2, V ! 3]"
  by unfold_locales (simp_all add: float4store_be_def float4get_be_def stores_up del: One_nat_def)

interpretation f8be: buf_codec float8store_be float8get_be 8
  "\<lambda>V. [V ! 7, V ! 6, V ! 5, V ! 4, V ! 3, V ! 2, V ! 1, V ! 0]" "\<lambda>V. [V ! 0, V ! 1, V ! 2, V ! 3, V ! 4, V ! 5, V ! 6, V ! 7]"
  by unfold_locales (simp_all add: float8store_be_def float8get_be_def stores_up del: One_nat_def)

interpretation f8mx: buf_codec doublestore_mixed doubleget_mixed 8
  "\<lambda>V. [V ! 4, V ! 5, V ! 6, V ! 7, V ! 0, V ! 1, V ! 2, V ! 3]" "\<lambda>V. [V ! 0, V ! 1, V ! 2, V ! 3, V ! 4, V ! 5, V ! 6, V ! 7]"
  by unfold_locales (simp_all add: doublestore_mixed_def doubleget_mixed_def stores_up del: One_nat_def)

lemma le_bytes_le_word4: "4 \<le> length V \<Longrightarrow> le_bytes 4 (le_word (take 4 V) :: dword) = take 4 V"
proof -
  have "le_word bs = bytes_dword bs" if len: "length bs = 4" for bs
  proof -
    obtain a b c d where bs: "bs = [a, b, c, d]" using list_of_length_4 [OF len] by blast
    have "(le_word bs :: dword) = ucast a + push_bit 8 (ucast b + push_bit 8 (ucast c + push_bit 8 (ucast d)))"
      unfolding bs by (simp only: le_word.simps mult_256) simp
    also have "\<dots> = bytes_dword bs"
      unfolding add_push_or by (simp add: bs bytes_dword_def push_bit_or ac_simps)
    finally show ?thesis .
  qed
  moreover have "le_bytes 4 w = dword_bytes w" for w :: dword
    by (simp add: le_bytes_expand dword_bytes_def)
  ultimately show "4 \<le> length V \<Longrightarrow> ?thesis" by (simp add: dword_bytes_dword)
qed

lemma x86_double_roundtrip:
  assumes "length V = 8" "8 \<le> length T"
  shows "x86_doublestore T V = Inr (V @ drop 8 T)" "x86_doubleget (V @ R) = Inr V"
proof -
  have "le_bytes 4 (le_word (take 4 V) :: dword) = take 4 V"
    "le_bytes 4 (le_word (take 4 (drop 4 V)) :: dword) = drop 4 V"
    using le_bytes_le_word4 [of V] le_bytes_le_word4 [of "drop 4 V"] assms(1) by simp_all
  then show "x86_doublestore T V = Inr (V @ drop 8 T)" "x86_doubleget (V @ R) = Inr V"
    using assms by (simp_all add: x86_doublestore_def x86_doubleget_def native_load_def
        native_store_puts puts_def store_at_def)
qed

section \<open>Row numbers and file sizes\<close>

definition mi_rowstore_big :: "byte list \<Rightarrow> 64 word \<Rightarrow> byte list result" where
  "mi_rowstore_big T A = mi_int8store T A"

definition mi_rowkorr_big :: "byte list \<Rightarrow> 64 word result" where
  "mi_rowkorr_big T = mi_uint8korr T"

definition mi_rowstore_small :: "byte list \<Rightarrow> dword \<Rightarrow> byte list result" where
  "mi_rowstore_small T A =
     res_bind (mi_int4store T 0) (\<lambda>T. store_at 4 (\<lambda>T. mi_int4store T A) T)"

definition mi_rowkorr_small :: "byte list \<Rightarrow> dword result" where
  "mi_rowkorr_small T = (if length T < 4 then Inl Read_Out_Of_Bounds else mi_uint4korr (drop 4 T))"

definition mi_sizestore_8 :: "byte list \<Rightarrow> 64 word \<Rightarrow> byte list result" where
  "mi_sizestore_8 T A = mi_int8store T A"

definition mi_sizekorr_8 :: "byte list \<Rightarrow> 64 word result" where
  "mi_sizekorr_8 T = mi_uint8korr T"

definition mi_sizestore_4 :: "byte list \<Rightarrow> dword \<Rightarrow> byte list result" where
  "mi_sizestore_4 T A =
     (if A = - 1 then memcpy_at T 0 (replicate 8 255) 8
      else res_bind (mi_int4store T 0) (\<lambda>T. store_at 4 (\<lambda>T. mi_int4store T A) T))"

definition mi_sizekorr_4 :: "byte list \<Rightarrow> dword result" where
  "mi_sizekorr_4 T = (if length T < 4 then Inl Read_Out_Of_Bounds else mi_uint4korr (drop 4 T))"

text \<open>The signed loads are the unsigned ones on the same bits, except for three bytes.\<close>

lemma sint_ext:
  "mi_sint1korr = mi_uint1korr" "mi_sint2korr = mi_uint2korr" "mi_sint4korr = mi_uint4korr" "mi_sint8korr = mi_uint8korr"
  "gen_sint2korr = gen_uint2korr" "gen_sint4korr = gen_uint4korr" "gen_sint8korr = gen_uint8korr"
  "x86_sint2korr = x86_uint2korr" "x86_sint4korr = x86_uint4korr" "x86_sint8korr = x86_uint8korr"
  by (simp_all add: fun_eq_iff mi_sint_ref x86_sint_ref x86_uint_ref gen_sint_ref)

lemma machine_ext:
  "ushortget = x86_uint2korr" "shortget = x86_sint2korr" "longget = x86_sint4korr" "ulongget = x86_uint4korr"
  "shortstore = x86_int2store" "longstore = x86_int4store"
  "longlongget = x86_uint8korr" "longlongstore = x86_int8store"
  "be_ushortget = mi_uint2korr" "be_shortget = mi_sint2korr" "be_longget = mi_uint4korr" "be_ulongget = mi_uint4korr"
  "be_shortstore = mi_int2store" "be_longstore = mi_int4store"
  "be_longlongget = mi_uint8korr" "be_longlongstore = mi_int8store"
proof -
  have "be_longget M = mi_uint4korr M" "be_ulongget M = mi_uint4korr M" for M
    unfolding be_longget_def be_ulongget_def mi_uint_ref loads_ref [where f = "\<lambda>xs. le_word (rev xs)"] Let_def by simp_all
  then show "be_longget = mi_uint4korr" "be_ulongget = mi_uint4korr" by auto
  show "longlongstore = x86_int8store" by (simp add: fun_eq_iff longlongstore_def x86_int8store_def native_store_def)
  show "be_longlongstore = mi_int8store"
    by (simp add: fun_eq_iff be_longlongstore_def store8_ref puts_def memcpy_at_def)
qed (simp_all add: fun_eq_iff ushortget_def shortget_def longget_def ulongget_def shortstore_def longstore_def
    longlongget_def x86_uint8korr_def native_load_def be_ushortget_def mi_uint2korr_def be_shortget_def mi_sint2korr_def
    be_shortstore_def mi_int2store_def be_longstore_def mi_int4store_def be_longlongget_def mi_uint_ref)

text \<open>What is kept of a value of four or of eight bytes.\<close>

lemma keeps:
  "(\<lambda>v :: dword. (ucast (take_bit (8 * 1) v) :: byte)) = ucast"
  "(\<lambda>v :: dword. (ucast (take_bit (8 * 2) v) :: 16 word)) = ucast"
  "(\<lambda>v :: dword. (ucast (take_bit (8 * 3) v) :: dword)) = take_bit 24"
  "(\<lambda>v :: dword. (ucast (take_bit (8 * 4) v) :: dword)) = (\<lambda>v. v)"
  "(\<lambda>v :: 64 word. (ucast (take_bit (8 * 5) v) :: 64 word)) = take_bit 40"
  "(\<lambda>v :: 64 word. (ucast (take_bit (8 * 6) v) :: 64 word)) = take_bit 48"
  "(\<lambda>v :: 64 word. (ucast (take_bit (8 * 7) v) :: 64 word)) = take_bit 56"
  "(\<lambda>v :: 64 word. (ucast (take_bit (8 * 8) v) :: 64 word)) = (\<lambda>v. v)"
  by (auto simp: fun_eq_iff bit_simps intro!: bit_word_eqI)

lemma three_bytes:
  "reads_back mi_int3store 3 (\<lambda>v. rev (le_bytes 3 v)) mi_sint3korr 3 (signed_take_bit 23)"
  "reads_back gen_int3store 3 (le_bytes 3) gen_sint3korr 3 (signed_take_bit 23)"
  "reads_back x86_int3store 3 (le_bytes 3) x86_sint3korr 3 (signed_take_bit 23)"
  "reads_back x86_int3store 3 (le_bytes 3) x86_uint3korr 4 (take_bit 24)"
proof -
  have sign: "signed_take_bit 23 (le_word (le_bytes 3 a) :: dword) = signed_take_bit 23 a" for a :: dword
    by (simp add: le_word_le_bytes) (rule bit_word_eqI, auto simp: bit_simps min_def)
  show "reads_back mi_int3store 3 (\<lambda>v. rev (le_bytes 3 v)) mi_sint3korr 3 (signed_take_bit 23)"
    "reads_back gen_int3store 3 (le_bytes 3) gen_sint3korr 3 (signed_take_bit 23)"
    "reads_back x86_int3store 3 (le_bytes 3) x86_sint3korr 3 (signed_take_bit 23)"
    by (simp_all add: reads_back_def codec_refs puts_def sint3_ref sign)
  show "reads_back x86_int3store 3 (le_bytes 3) x86_uint3korr 4 (take_bit 24)"
    using gen3.load_enc unfolding keeps
    by (auto simp: reads_back_def codec_refs puts_def x86_uint3_ref fun_eq_iff le_word_le_bytes gen_uint_ref
        Suc_le_eq)
qed

lemma mi_codecs:
  shows "reads_back mi_int1store 1 (\<lambda>v. rev (le_bytes 1 v)) mi_uint1korr 1 ucast"
    "reads_back mi_int1store 1 (\<lambda>v. rev (le_bytes 1 v)) mi_sint1korr 1 ucast"
    "reads_back mi_int2store 2 (\<lambda>v. rev (le_bytes 2 v)) mi_uint2korr 2 ucast"
    "reads_back mi_int2store 2 (\<lambda>v. rev (le_bytes 2 v)) mi_sint2korr 2 ucast"
    "reads_back mi_int3store 3 (\<lambda>v. rev (le_bytes 3 v)) mi_uint3korr 3 (take_bit 24)"
    "reads_back mi_int3store 3 (\<lambda>v. rev (le_bytes 3 v)) mi_sint3korr 3 (signed_take_bit 23)"
    "reads_back mi_int4store 4 (\<lambda>v. rev (le_bytes 4 v)) mi_uint4korr 4 (\<lambda>v. v)"
    "reads_back mi_int4store 4 (\<lambda>v. rev (le_bytes 4 v)) mi_sint4korr 4 (\<lambda>v. v)"
    "reads_back mi_int5store 5 (\<lambda>v. rev (le_bytes 5 v)) mi_uint5korr 5 (take_bit 40)"
    "reads_back mi_int6store 6 (\<lambda>v. rev (le_bytes 6 v)) mi_uint6korr 6 (take_bit 48)"
    "reads_back mi_int7store 7 (\<lambda>v. rev (le_bytes 7 v)) mi_uint7korr 7 (take_bit 56)"
    "reads_back mi_int8store 8 (\<lambda>v. rev (le_bytes 8 v)) mi_uint8korr 8 (\<lambda>v. v)"
    "reads_back mi_int8store 8 (\<lambda>v. rev (le_bytes 8 v)) mi_sint8korr 8 (\<lambda>v. v)"
  unfolding sint_ext
  using three_bytes(1) mi1.reads_back mi2.reads_back mi3.reads_back mi4.reads_back mi5.reads_back mi6.reads_back
    mi7.reads_back mi8.reads_back
  unfolding keeps by simp_all

lemma low_first_codecs:
  shows "reads_back x86_int2store 2 (le_bytes 2) x86_uint2korr 2 ucast"
    "reads_back x86_int2store 2 (le_bytes 2) x86_sint2korr 2 ucast"
    "reads_back x86_int3store 3 (le_bytes 3) x86_uint3korr 4 (take_bit 24)"
    "reads_back x86_int3store 3 (le_bytes 3) x86_sint3korr 3 (signed_take_bit 23)"
    "reads_back x86_int4store 4 (le_bytes 4) x86_uint4korr 4 (\<lambda>v. v)"
    "reads_back x86_int4store 4 (le_bytes 4) x86_sint4korr 4 (\<lambda>v. v)"
    "reads_back x86_int5store 5 (le_bytes 5) x86_uint5korr 5 (take_bit 40)"
    "reads_back x86_int6store 6 (le_bytes 6) x86_uint6korr 6 (take_bit 48)"
    "reads_back x86_int8store 8 (le_bytes 8) x86_uint8korr 8 (\<lambda>v. v)"
    "reads_back x86_int8store 8 (le_bytes 8) x86_sint8korr 8 (\<lambda>v. v)"
    "reads_back gen_int2store 2 (le_bytes 2) gen_uint2korr 2 ucast"
    "reads_back gen_int2store 2 (le_bytes 2) gen_sint2korr 2 ucast"
    "reads_back gen_int3store 3 (le_bytes 3) gen_uint3korr 3 (take_bit 24)"
    "reads_back gen_int3store 3 (le_bytes 3) gen_sint3korr 3 (signed_take_bit 23)"
    "reads_back gen_int4store 4 (le_bytes 4) gen_uint4korr 4 (\<lambda>v. v)"
    "reads_back gen_int4store 4 (le_bytes 4) gen_sint4korr 4 (\<lambda>v. v)"
    "reads_back gen_int5store 5 (le_bytes 5) gen_uint5korr 5 (take_bit 40)"
    "reads_back gen_int6store 6 (le_bytes 6) gen_uint6korr 6 (take_bit 48)"
    "reads_back gen_int8store 8 (le_bytes 8) gen_uint8korr 8 (\<lambda>v. v)"
    "reads_back gen_int8store 8 (le_bytes 8) gen_sint8korr 8 (\<lambda>v. v)"
  unfolding sint_ext
  using three_bytes(2-4) gen2.reads_back gen3.reads_back gen4.reads_back gen5.reads_back gen6.reads_back gen8.reads_back
    x862.reads_back x864.reads_back x865.reads_back x866.reads_back x868.reads_back
  unfolding keeps by simp_all

lemma machine_codecs:
  shows "reads_back shortstore 2 (le_bytes 2) ushortget 2 ucast"
    "reads_back shortstore 2 (le_bytes 2) shortget 2 ucast"
    "reads_back longstore 4 (le_bytes 4) longget 4 (\<lambda>v. v)"
    "reads_back longstore 4 (le_bytes 4) ulongget 4 (\<lambda>v. v)"
    "reads_back longlongstore 8 (le_bytes 8) longlongget 8 (\<lambda>v. v)"
    "reads_back be_shortstore 2 (\<lambda>v. rev (le_bytes 2 v)) be_ushortget 2 ucast"
    "reads_back be_shortstore 2 (\<lambda>v. rev (le_bytes 2 v)) be_shortget 2 ucast"
    "reads_back be_longstore 4 (\<lambda>v. rev (le_bytes 4 v)) be_longget 4 (\<lambda>v. v)"
    "reads_back be_longstore 4 (\<lambda>v. rev (le_bytes 4 v)) be_ulongget 4 (\<lambda>v. v)"
    "reads_back be_longlongstore 8 (\<lambda>v. rev (le_bytes 8 v)) be_longlongget 8 (\<lambda>v. v)"
  unfolding machine_ext using low_first_codecs mi_codecs by simp_all

lemma high_half_puts:
  "res_bind (mi_int4store T 0) (\<lambda>T. store_at 4 (\<lambda>T. mi_int4store T A) T)
     = puts 8 T (replicate 4 0 @ rev (le_bytes 4 A))"
proof -
  have "rev (le_bytes 4 (0 :: dword)) = replicate 4 0" by code_simp
  then show ?thesis
    using two_puts [of "rev (le_bytes 4 (0 :: dword))" 4 "rev (le_bytes 4 A)" 4 T] by (simp add: mi_store_ref)
qed

lemma row_codecs:
  shows "reads_back mi_rowstore_big 8 (\<lambda>v. rev (le_bytes 8 v)) mi_rowkorr_big 8 (\<lambda>v. v)"
    "reads_back mi_rowstore_small 8 (\<lambda>v. replicate 4 0 @ rev (le_bytes 4 v)) mi_rowkorr_small 8 (\<lambda>v. v)"
    "reads_back mi_sizestore_8 8 (\<lambda>v. rev (le_bytes 8 v)) mi_sizekorr_8 8 (\<lambda>v. v)"
    "reads_back mi_sizestore_4 8 (\<lambda>v. replicate 4 (if v = - 1 then 255 else 0) @ rev (le_bytes 4 v)) mi_sizekorr_4 8 (\<lambda>v. v)"
proof -
  have ones: "rev (le_bytes 4 (- 1 :: dword)) = replicate 4 255" by code_simp
  have size: "mi_sizestore_4 T A = puts 8 T (replicate 4 (if A = - 1 then 255 else 0) @ rev (le_bytes 4 A))" for T A
    by (auto simp: mi_sizestore_4_def high_half_puts puts_def memcpy_at_def ones
        simp flip: replicate_add)
  show "reads_back mi_rowstore_big 8 (\<lambda>v. rev (le_bytes 8 v)) mi_rowkorr_big 8 (\<lambda>v. v)" "reads_back mi_sizestore_8 8 (\<lambda>v. rev (le_bytes 8 v)) mi_sizekorr_8 8 (\<lambda>v. v)"
    using mi8.reads_back unfolding keeps
    by (simp_all add: reads_back_def mi_rowstore_big_def mi_rowkorr_big_def mi_sizestore_8_def mi_sizekorr_8_def)
  show "reads_back mi_rowstore_small 8 (\<lambda>v. replicate 4 0 @ rev (le_bytes 4 v)) mi_rowkorr_small 8 (\<lambda>v. v)" "reads_back mi_sizestore_4 8 (\<lambda>v. replicate 4 (if v = - 1 then 255 else 0) @ rev (le_bytes 4 v)) mi_sizekorr_4 8 (\<lambda>v. v)"
    by (auto simp: reads_back_def mi_rowstore_small_def mi_rowkorr_small_def size mi_sizekorr_4_def high_half_puts puts_def
        mi_uint_ref le_word_le_bytes take_bit_word_eq_self)
qed

section \<open>Properties\<close>

text \<open>C37. Every integer store macro of \<open>my_global.h\<close> and \<open>myisampack.h\<close> is undone by the load macros
  of its width, in the form compiled on Win32, the portable form, the high-byte-first form, the
  machine format of either byte order, and for row numbers and file sizes of both widths. For
  buffers of every length the store writes the bytes of the value in the order of its form and
  nothing else, or overflows a buffer that is too short; the load gives back the value reduced to
  the bytes stored (sign-extended for three signed bytes), or reads out of bounds of a buffer that
  is too short. The one load that needs more than its width is \<open>uint3korr\<close> on Win32.\<close>

theorem int_codec_roundtrip:
  "reads_back mi_int1store 1 (\<lambda>v. rev (le_bytes 1 v)) mi_uint1korr 1 ucast
   \<and> reads_back mi_int1store 1 (\<lambda>v. rev (le_bytes 1 v)) mi_sint1korr 1 ucast
   \<and> reads_back mi_int2store 2 (\<lambda>v. rev (le_bytes 2 v)) mi_uint2korr 2 ucast
   \<and> reads_back mi_int2store 2 (\<lambda>v. rev (le_bytes 2 v)) mi_sint2korr 2 ucast
   \<and> reads_back mi_int3store 3 (\<lambda>v. rev (le_bytes 3 v)) mi_uint3korr 3 (take_bit 24)
   \<and> reads_back mi_int3store 3 (\<lambda>v. rev (le_bytes 3 v)) mi_sint3korr 3 (signed_take_bit 23)
   \<and> reads_back mi_int4store 4 (\<lambda>v. rev (le_bytes 4 v)) mi_uint4korr 4 (\<lambda>v. v)
   \<and> reads_back mi_int4store 4 (\<lambda>v. rev (le_bytes 4 v)) mi_sint4korr 4 (\<lambda>v. v)
   \<and> reads_back mi_int5store 5 (\<lambda>v. rev (le_bytes 5 v)) mi_uint5korr 5 (take_bit 40)
   \<and> reads_back mi_int6store 6 (\<lambda>v. rev (le_bytes 6 v)) mi_uint6korr 6 (take_bit 48)
   \<and> reads_back mi_int7store 7 (\<lambda>v. rev (le_bytes 7 v)) mi_uint7korr 7 (take_bit 56)
   \<and> reads_back mi_int8store 8 (\<lambda>v. rev (le_bytes 8 v)) mi_uint8korr 8 (\<lambda>v. v)
   \<and> reads_back mi_int8store 8 (\<lambda>v. rev (le_bytes 8 v)) mi_sint8korr 8 (\<lambda>v. v)
   \<and> reads_back x86_int2store 2 (le_bytes 2) x86_uint2korr 2 ucast
   \<and> reads_back x86_int2store 2 (le_bytes 2) x86_sint2korr 2 ucast
   \<and> reads_back x86_int3store 3 (le_bytes 3) x86_uint3korr 4 (take_bit 24)
   \<and> reads_back x86_int3store 3 (le_bytes 3) x86_sint3korr 3 (signed_take_bit 23)
   \<and> reads_back x86_int4store 4 (le_bytes 4) x86_uint4korr 4 (\<lambda>v. v)
   \<and> reads_back x86_int4store 4 (le_bytes 4) x86_sint4korr 4 (\<lambda>v. v)
   \<and> reads_back x86_int5store 5 (le_bytes 5) x86_uint5korr 5 (take_bit 40)
   \<and> reads_back x86_int6store 6 (le_bytes 6) x86_uint6korr 6 (take_bit 48)
   \<and> reads_back x86_int8store 8 (le_bytes 8) x86_uint8korr 8 (\<lambda>v. v)
   \<and> reads_back x86_int8store 8 (le_bytes 8) x86_sint8korr 8 (\<lambda>v. v)
   \<and> reads_back gen_int2store 2 (le_bytes 2) gen_uint2korr 2 ucast
   \<and> reads_back gen_int2store 2 (le_bytes 2) gen_sint2korr 2 ucast
   \<and> reads_back gen_int3store 3 (le_bytes 3) gen_uint3korr 3 (take_bit 24)
   \<and> reads_back gen_int3store 3 (le_bytes 3) gen_sint3korr 3 (signed_take_bit 23)
   \<and> reads_back gen_int4store 4 (le_bytes 4) gen_uint4korr 4 (\<lambda>v. v)
   \<and> reads_back gen_int4store 4 (le_bytes 4) gen_sint4korr 4 (\<lambda>v. v)
   \<and> reads_back gen_int5store 5 (le_bytes 5) gen_uint5korr 5 (take_bit 40)
   \<and> reads_back gen_int6store 6 (le_bytes 6) gen_uint6korr 6 (take_bit 48)
   \<and> reads_back gen_int8store 8 (le_bytes 8) gen_uint8korr 8 (\<lambda>v. v)
   \<and> reads_back gen_int8store 8 (le_bytes 8) gen_sint8korr 8 (\<lambda>v. v)
   \<and> reads_back shortstore 2 (le_bytes 2) ushortget 2 ucast
   \<and> reads_back shortstore 2 (le_bytes 2) shortget 2 ucast
   \<and> reads_back longstore 4 (le_bytes 4) longget 4 (\<lambda>v. v)
   \<and> reads_back longstore 4 (le_bytes 4) ulongget 4 (\<lambda>v. v)
   \<and> reads_back longlongstore 8 (le_bytes 8) longlongget 8 (\<lambda>v. v)
   \<and> reads_back be_shortstore 2 (\<lambda>v. rev (le_bytes 2 v)) be_ushortget 2 ucast
   \<and> reads_back be_shortstore 2 (\<lambda>v. rev (le_bytes 2 v)) be_shortget 2 ucast
   \<and> reads_back be_longstore 4 (\<lambda>v. rev (le_bytes 4 v)) be_longget 4 (\<lambda>v. v)
   \<and> reads_back be_longstore 4 (\<lambda>v. rev (le_bytes 4 v)) be_ulongget 4 (\<lambda>v. v)
   \<and> reads_back be_longlongstore 8 (\<lambda>v. rev (le_bytes 8 v)) be_longlongget 8 (\<lambda>v. v)
   \<and> reads_back mi_rowstore_big 8 (\<lambda>v. rev (le_bytes 8 v)) mi_rowkorr_big 8 (\<lambda>v. v)
   \<and> reads_back mi_rowstore_small 8 (\<lambda>v. replicate 4 0 @ rev (le_bytes 4 v)) mi_rowkorr_small 8 (\<lambda>v. v)
   \<and> reads_back mi_sizestore_8 8 (\<lambda>v. rev (le_bytes 8 v)) mi_sizekorr_8 8 (\<lambda>v. v)
   \<and> reads_back mi_sizestore_4 8 (\<lambda>v. replicate 4 (if v = - 1 then 255 else 0) @ rev (le_bytes 4 v)) mi_sizekorr_4 8 (\<lambda>v. v)"
  by (intro conjI mi_codecs low_first_codecs machine_codecs row_codecs)

text \<open>The macros compiled on Win32, which load and store through integer pointers, agree
  with the portable byte-by-byte macros on every buffer, faults included; the one exception
  is \<open>uint3korr\<close>, which reads a fourth byte and so faults on a buffer of exactly three.\<close>

theorem x86_agrees_with_portable:
  "x86_uint2korr A = gen_uint2korr A \<and> x86_uint4korr A = gen_uint4korr A
   \<and> x86_uint5korr A = gen_uint5korr A \<and> x86_uint6korr A = gen_uint6korr A
   \<and> x86_uint8korr A = gen_uint8korr A \<and> x86_sint2korr A = gen_sint2korr A
   \<and> x86_sint3korr A = gen_sint3korr A \<and> x86_sint4korr A = gen_sint4korr A
   \<and> x86_sint8korr A = gen_sint8korr A
   \<and> x86_uint3korr A = (if length A < 4 then Inl Read_Out_Of_Bounds else gen_uint3korr A)
   \<and> gen_uint3korr A = loads 3 A (le_word (take 3 A))
   \<and> x86_int2store T a = gen_int2store T a \<and> x86_int3store T a = gen_int3store T a
   \<and> x86_int4store T a = gen_int4store T a \<and> x86_int5store T b = gen_int5store T b
   \<and> x86_int6store T b = gen_int6store T b \<and> x86_int8store T b = gen_int8store T b"
  by (intro conjI x86_uint_ref x86_sint_ref sint3_ref x86_uint3_ref gen_uint_ref x86_store_ref)

lemma int4net_ref: "int4net A = mi_uint4korr A"
proof -
  have "(ucast d OR push_bit 8 (ucast c) OR push_bit 16 (ucast b) OR push_bit 24 (ucast a) :: dword)
      = le_word [d, c, b, a]" for a b c d :: byte
  proof -
    have "(le_word [d, c, b, a] :: dword)
        = ucast d + push_bit 8 (ucast c + push_bit 8 (ucast b + push_bit 8 (ucast a)))"
      by (simp only: le_word.simps mult_256) simp
    then show ?thesis
      unfolding add_push_or by (simp add: push_bit_or ac_simps del: le_word.simps)
  qed
  then show ?thesis
    by (simp add: int4net_def mi_uint_ref loads_ref [where f = "\<lambda>xs. le_word (rev xs)"] del: le_word.simps)
qed

text \<open>The stored form of a floating-point value does not depend on the machine: for one
  value, whose bytes are \<open>F\<close> or \<open>D\<close> on a big-endian machine, the little-endian and the
  mixed-order branches write the same bytes as the big-endian branch, and every branch reads
  back what it wrote.\<close>

theorem float_format_machine_independent:
  assumes "length F = 4" "length D = 8" "8 \<le> length T"
  shows "mi_float4store_le T (rev F) = mi_float4store_be T F
    \<and> mi_float8store_le T (rev D) = mi_float8store_be T D
    \<and> mi_float8store_mixed T (rev (take 4 D) @ rev (drop 4 D)) = mi_float8store_be T D
    \<and> float4store_be T F = x86_float4store T (rev F)
    \<and> float8store_be T D = x86_doublestore T (rev D)
    \<and> doublestore_mixed T (rev (take 4 D) @ rev (drop 4 D)) = x86_doublestore T (rev D)
    \<and> res_bind (mi_float4store_le T F) mi_float4get_le = Inr F
    \<and> res_bind (mi_float8store_le T D) mi_float8get_le = Inr D
    \<and> res_bind (mi_float8store_mixed T D) mi_float8get_mixed = Inr D
    \<and> res_bind (doublestore_mixed T D) doubleget_mixed = Inr D
    \<and> res_bind (x86_doublestore T D) x86_doubleget = Inr D"
proof -
  obtain a b c d where F: "F = [a, b, c, d]" using list_of_length_4 [OF assms(1)] by blast
  obtain p q r s t u v w where D: "D = [p, q, r, s, t, u, v, w]"
    using length_ge_split(7) [of D] assms(2) by auto
  note simps = mi_float4store_le_def mi_float4store_be_def mi_float8store_le_def mi_float8store_be_def
    mi_float8store_mixed_def float4store_be_def float8store_be_def doublestore_mixed_def
    x86_float4store_def memcpy_at_def stores_up puts_def
  have x: "x86_doublestore T (rev D) = Inr (rev D @ drop 8 T)"
    using x86_double_roundtrip(1) [of "rev D" T] assms by simp
  have enc: "mi_float4store_le T (rev F) = mi_float4store_be T F"
    "mi_float8store_le T (rev D) = mi_float8store_be T D"
    "mi_float8store_mixed T (rev (take 4 D) @ rev (drop 4 D)) = mi_float8store_be T D"
    "float4store_be T F = x86_float4store T (rev F)"
    "float8store_be T D = x86_doublestore T (rev D)"
    "doublestore_mixed T (rev (take 4 D) @ rev (drop 4 D)) = x86_doublestore T (rev D)"
    unfolding x using assms(3) by (simp_all add: simps F D del: One_nat_def)
  have "4 \<le> length T" using assms(3) by simp
  note rt = mif4le.load_bind_store [OF this, of F] mif8le.load_bind_store [OF assms(3), of D]
    mif8mx.load_bind_store [OF assms(3), of D] f8mx.load_bind_store [OF assms(3), of D]
  have "res_bind (x86_doublestore T D) x86_doubleget = Inr D"
    using x86_double_roundtrip(1) [OF assms(2,3)] x86_double_roundtrip(2) [OF assms(2,3), of "drop 8 T"]
    by simp
  then show ?thesis
    using enc rt nths_of_length(1) [OF assms(1)] nths_of_length(2) [OF assms(2)] by simp
qed

theorem float_format_machine_independent_witness:
  "mi_float4store_le (replicate 8 0) (rev [0x40, 0x49, 0x0F, 0xDB])
     = mi_float4store_be (replicate 8 0) [0x40, 0x49, 0x0F, 0xDB]"
  using float_format_machine_independent
    [of "[0x40, 0x49, 0x0F, 0xDB]" "replicate 8 1" "replicate 8 0"] by simp

end
