(* ===== verification/Mysql_Bits.thy ===== *)
theory Mysql_Bits
  imports Prelude
begin

text \<open>
  The inline bit functions of \<open>libmysql/include/my_bit.h\<close> and the bitmap macros of
  \<open>libmysql/include/my_bitmap.h\<close>. The tables \<open>_my_bits_nbits\<close> and \<open>_my_bits_reverse_table\<close> are
  only declared in the header; they are arguments of the functions that index them.
\<close>

section \<open>\<open>my_bit.h\<close>\<close>

function bit_log2_loop :: "dword \<Rightarrow> dword \<Rightarrow> dword" where
  "bit_log2_loop v n = (if v > 1 then bit_log2_loop (drop_bit 1 v) (n + 1) else n)"
  by auto
termination
proof (relation "measure (\<lambda>(v, n). unat v)")
  fix v n :: dword
  assume "v > 1"
  then have "unat v > 1" by (simp add: word_less_nat_alt)
  then show "((drop_bit 1 v, n + 1), (v, n)) \<in> measure (\<lambda>(v, n). unat v)"
    by (simp add: drop_bit_eq_div unat_div)
qed simp

definition my_bit_log2 :: "dword \<Rightarrow> dword" where
  "my_bit_log2 v = bit_log2_loop v 0"

definition my_count_bits :: "byte list \<Rightarrow> 64 word \<Rightarrow> dword" where
  "my_count_bits nbits v =
     (let v2 = (ucast (drop_bit 32 v) :: dword);
          n = (\<lambda>b :: byte. nbits ! unat b) in
      ucast (n (ucast v) + n (ucast (drop_bit 8 v)) + n (ucast (drop_bit 16 v)) +
        n (ucast (drop_bit 24 v)) + n (ucast v2) + n (ucast (drop_bit 8 v2)) +
        n (ucast (drop_bit 16 v2)) + n (ucast (drop_bit 24 v2))))"

definition my_count_bits_ushort :: "byte list \<Rightarrow> 16 word \<Rightarrow> dword result" where
  "my_count_bits_ushort nbits v =
     res_bind (rd nbits (int (unat v))) (\<lambda>n. Inr (ucast n))"

definition my_round_up_to_next_power :: "dword \<Rightarrow> dword" where
  "my_round_up_to_next_power v0 =
     (let v = v0 - 1;
          v = v OR drop_bit 1 v;
          v = v OR drop_bit 2 v;
          v = v OR drop_bit 4 v;
          v = v OR drop_bit 8 v;
          v = v OR drop_bit 16 v in
      v + 1)"

definition my_clear_highest_bit :: "dword \<Rightarrow> dword" where
  "my_clear_highest_bit v =
     (let w = drop_bit 1 v;
          w = w OR drop_bit 1 w;
          w = w OR drop_bit 2 w;
          w = w OR drop_bit 4 w;
          w = w OR drop_bit 8 w;
          w = w OR drop_bit 16 w in
      v AND w)"

definition my_reverse_bits :: "byte list \<Rightarrow> dword \<Rightarrow> dword" where
  "my_reverse_bits rtab key =
     (let t = (\<lambda>i :: dword. ucast (rtab ! unat i) :: dword) in
      push_bit 24 (t (key AND 255)) OR
      push_bit 16 (t (drop_bit 8 key AND 255)) OR
      push_bit 8 (t (drop_bit 16 key AND 255)) OR
      t (drop_bit 24 key))"

section \<open>\<open>my_bitmap.h\<close>\<close>

text \<open>
  The words of a bitmap are its bytes in memory; the operations address bytes.
  \<open>last_word_ptr\<close> is the offset of the last word in \<open>bitmap\<close>.
\<close>

record my_bitmap =
  bitmap :: "byte list"
  n_bits :: dword
  last_word_mask :: dword
  last_word_ptr :: nat

definition MY_BIT_NONE :: dword where
  "MY_BIT_NONE = NOT 0"

definition bitmap_buffer_size :: "dword \<Rightarrow> dword" where
  "bitmap_buffer_size bits = ((bits + 31) div 32) * 4"

definition no_bytes_in_map :: "my_bitmap \<Rightarrow> dword" where
  "no_bytes_in_map m = (n_bits m + 7) div 8"

definition no_words_in_map :: "my_bitmap \<Rightarrow> dword" where
  "no_words_in_map m = (n_bits m + 31) div 32"

definition bytes_word_aligned :: "dword \<Rightarrow> dword" where
  "bytes_word_aligned bytes = 4 * ((bytes + 3) div 4)"

text \<open>The read-modify-write of the byte that holds a bit.\<close>

definition bit_update :: "(byte \<Rightarrow> byte \<Rightarrow> byte) \<Rightarrow> my_bitmap \<Rightarrow> dword \<Rightarrow> my_bitmap result" where
  "bit_update f m b =
     res_bind (rd (bitmap m) (int (unat (b div 8)))) (\<lambda>old.
     res_bind (wr (bitmap m) (int (unat (b div 8))) (f old (push_bit (unat (b AND 7)) 1))) (\<lambda>bs.
     Inr (m\<lparr>bitmap := bs\<rparr>)))"

definition bitmap_set_bit_raw :: "my_bitmap \<Rightarrow> dword \<Rightarrow> my_bitmap result" where
  "bitmap_set_bit_raw = bit_update (\<lambda>old k. old OR k)"

definition bitmap_flip_bit_raw :: "my_bitmap \<Rightarrow> dword \<Rightarrow> my_bitmap result" where
  "bitmap_flip_bit_raw = bit_update (\<lambda>old k. old XOR k)"

definition bitmap_clear_bit_raw :: "my_bitmap \<Rightarrow> dword \<Rightarrow> my_bitmap result" where
  "bitmap_clear_bit_raw = bit_update (\<lambda>old k. old AND NOT k)"

definition bitmap_is_set_raw :: "my_bitmap \<Rightarrow> dword \<Rightarrow> dword result" where
  "bitmap_is_set_raw m b =
     res_bind (rd (bitmap m) (int (unat (b div 8)))) (\<lambda>old.
     Inr (ucast (old AND push_bit (unat (b AND 7)) 1)))"

text \<open>
  The inline functions of a debug build: \<open>None\<close> is a failed \<open>DBUG_ASSERT\<close>.
\<close>

definition asserted :: "(my_bitmap \<Rightarrow> dword \<Rightarrow> 'a result) \<Rightarrow> my_bitmap \<Rightarrow> dword \<Rightarrow> 'a result option" where
  "asserted f m b = (if b < n_bits m then Some (f m b) else None)"

definition bitmap_set_bit :: "my_bitmap \<Rightarrow> dword \<Rightarrow> my_bitmap result option" where
  "bitmap_set_bit = asserted bitmap_set_bit_raw"

definition bitmap_flip_bit :: "my_bitmap \<Rightarrow> dword \<Rightarrow> my_bitmap result option" where
  "bitmap_flip_bit = asserted bitmap_flip_bit_raw"

definition bitmap_clear_bit :: "my_bitmap \<Rightarrow> dword \<Rightarrow> my_bitmap result option" where
  "bitmap_clear_bit = asserted bitmap_clear_bit_raw"

definition bitmap_is_set :: "my_bitmap \<Rightarrow> dword \<Rightarrow> dword result option" where
  "bitmap_is_set = asserted bitmap_is_set_raw"

text \<open>\<open>*last_word_ptr |= last_word_mask\<close>\<close>

definition fill_last_word :: "my_bitmap \<Rightarrow> my_bitmap result" where
  "fill_last_word m =
     (if length (bitmap m) < last_word_ptr m + 4 then Inl Read_Out_Of_Bounds
      else res_bind (memcpy_at (bitmap m) (last_word_ptr m)
               (dword_bytes (bytes_dword (slice (last_word_ptr m) 4 (bitmap m)) OR last_word_mask m)) 4)
             (\<lambda>bs. Inr (m\<lparr>bitmap := bs\<rparr>)))"

definition bitmap_cmp :: "my_bitmap \<Rightarrow> my_bitmap \<Rightarrow> (my_bitmap \<times> my_bitmap \<times> bool) result" where
  "bitmap_cmp m1 m2 =
     res_bind (fill_last_word m1) (\<lambda>m1.
     res_bind (fill_last_word m2) (\<lambda>m2.
     let n = unat (4 * no_words_in_map m1) in
     if length (bitmap m1) < n \<or> length (bitmap m2) < n then Inl Read_Out_Of_Bounds
     else Inr (m1, m2, take n (bitmap m1) = take n (bitmap m2))))"

definition bitmap_fill :: "byte \<Rightarrow> my_bitmap \<Rightarrow> my_bitmap result" where
  "bitmap_fill c m =
     (let n = unat (4 * no_words_in_map m) in
      res_bind (memcpy_at (bitmap m) 0 (replicate n c) n) (\<lambda>bs. Inr (m\<lparr>bitmap := bs\<rparr>)))"

definition bitmap_clear_all :: "my_bitmap \<Rightarrow> my_bitmap result" where
  "bitmap_clear_all = bitmap_fill 0"

definition bitmap_set_all :: "my_bitmap \<Rightarrow> my_bitmap result" where
  "bitmap_set_all = bitmap_fill 0xFF"

text \<open>Bits of one integer; the returned number is the value of the macro.\<close>

definition bit_is_set :: "'w::len word \<Rightarrow> nat \<Rightarrow> int" where
  "bit_is_set I B =
     (if LENGTH('w) > B then (if (ucast I :: 64 word) AND push_bit B 1 = 0 then 0 else 1) else - 1)"

definition bit_do_set :: "'w::len word \<Rightarrow> nat \<Rightarrow> 'w word \<times> int" where
  "bit_do_set I B =
     (if LENGTH('w) > B then (ucast ((ucast I :: 64 word) OR push_bit B 1), 1) else (I, - 1))"

definition bit_do_clear :: "'w::len word \<Rightarrow> nat \<Rightarrow> 'w word \<times> int" where
  "bit_do_clear I B =
     (if LENGTH('w) > B then (ucast ((ucast I :: 64 word) AND NOT (push_bit B 1)), 0) else (I, - 1))"

declare bit_log2_loop.simps [simp del]

section \<open>The bit functions\<close>

lemma bit_log2_loop_floor:
  "v \<noteq> 0 \<Longrightarrow> \<exists>k<32. bit_log2_loop v n = n + word_of_nat k \<and> 2 ^ k \<le> unat v \<and> unat v < 2 ^ Suc k"
proof (induction v n rule: bit_log2_loop.induct)
  case (1 v n)
  show ?case
  proof (cases "v > 1")
    case True
    then have two: "2 \<le> unat v" by (simp add: word_less_nat_alt)
    have half: "unat (drop_bit 1 v) = unat v div 2"
      by (simp add: drop_bit_eq_div unat_div)
    have "drop_bit 1 v \<noteq> 0"
      using two half by (auto simp: unat_eq_zero [symmetric])
    then obtain k where k: "bit_log2_loop (drop_bit 1 v) (n + 1) = n + 1 + word_of_nat k"
      "2 ^ k \<le> unat v div 2" "unat v div 2 < 2 ^ Suc k"
      using 1 True half by auto
    have "2 ^ Suc k \<le> unat v" using k(2) by simp
    moreover have "unat v < 2 ^ Suc (Suc k)" using k(3) by simp
    moreover have "Suc k < 32"
    proof (rule ccontr)
      assume "\<not> Suc k < 32"
      then have "(2 :: nat) ^ 32 \<le> 2 ^ Suc k" by (intro power_increasing) simp_all
      with \<open>2 ^ Suc k \<le> unat v\<close> show False using unsigned_less [of v, where 'a = nat] by simp
    qed
    ultimately show ?thesis
      using k(1) True by (intro exI [of _ "Suc k"]) (simp add: bit_log2_loop.simps [of v])
  next
    case False
    with 1(2) have "unat v = 1"
      by (simp add: word_less_nat_alt unat_eq_zero [symmetric])
    with False show ?thesis
      by (intro exI [of _ 0]) (simp add: bit_log2_loop.simps [of v])
  qed
qed

text \<open>
  \<open>smeared d x v\<close>: bit \<open>n\<close> of \<open>x\<close> is set when one of the \<open>d\<close> bits of \<open>v\<close> from \<open>n\<close> upwards is.
  Each \<open>x |= x >> d\<close> doubles \<open>d\<close>.
\<close>

definition smeared :: "nat \<Rightarrow> dword \<Rightarrow> dword \<Rightarrow> bool" where
  "smeared d x v \<longleftrightarrow> (\<forall>n. bit x n \<longleftrightarrow> (\<exists>j<d. bit v (n + j)))"

lemma smeared_start: "smeared 1 v v"
  by (simp add: smeared_def)

lemma smeared_step:
  assumes "smeared d x v"
  shows "smeared (d + d) (x OR drop_bit d x) v"
proof -
  have "(\<exists>j<d + d. bit v (n + j)) \<longleftrightarrow> (\<exists>j<d. bit v (n + j)) \<or> (\<exists>j<d. bit v (n + (d + j)))" for n
  proof
    assume "\<exists>j<d + d. bit v (n + j)"
    then obtain j where j: "j < d + d" "bit v (n + j)" by blast
    show "(\<exists>j<d. bit v (n + j)) \<or> (\<exists>j<d. bit v (n + (d + j)))"
    proof (cases "j < d")
      case False
      then have "j - d < d" "bit v (n + (d + (j - d)))" using j by simp_all
      then show ?thesis by blast
    qed (use j in blast)
  next
    assume "(\<exists>j<d. bit v (n + j)) \<or> (\<exists>j<d. bit v (n + (d + j)))"
    then show "\<exists>j<d + d. bit v (n + j)" by (meson add_strict_left_mono trans_less_add1)
  qed
  then show ?thesis
    using assms by (simp add: smeared_def bit_simps add.assoc add.left_commute)
qed

lemma smeared_32:
  assumes "smeared 32 x v" and "v \<noteq> 0" and "2 ^ k \<le> unat v" and "unat v < 2 ^ Suc k"
  shows "x = mask (Suc k)"
proof (rule bit_word_eqI)
  fix n :: nat
  assume "n < LENGTH(32)"
  have top: "bit v k"
  proof -
    have "unat v div 2 ^ k = 1" using assms(3,4) by (simp add: div_nat_eqI)
    then have "bit (unat v) k" by (simp add: bit_iff_odd)
    then show ?thesis by (simp add: bit_unsigned_iff)
  qed
  have above: "\<not> bit v m" if "Suc k \<le> m" for m
  proof -
    have "unat v < 2 ^ m" using assms(4) that by (rule less_le_trans [OF _ power_increasing]) simp
    then have "\<not> bit (unat v) m" by (simp add: bit_iff_odd)
    then show ?thesis by (simp add: bit_unsigned_iff)
  qed
  have "k < 32" using top bit_imp_le_length by fastforce
  have "(\<exists>j<32. bit v (n + j)) \<longleftrightarrow> n \<le> k"
  proof
    assume "n \<le> k"
    then show "\<exists>j<32. bit v (n + j)" using top \<open>k < 32\<close> by (intro exI [of _ "k - n"]) simp
  next
    assume "\<exists>j<32. bit v (n + j)"
    then show "n \<le> k" using above by (metis add_leD1 not_less_eq_eq)
  qed
  then show "bit x n \<longleftrightarrow> bit (mask (Suc k) :: dword) n"
    using assms(1) \<open>n < LENGTH(32)\<close> by (auto simp: smeared_def bit_mask_iff)
qed

definition smear :: "dword \<Rightarrow> dword" where
  "smear v =
     (let v = v OR drop_bit 1 v; v = v OR drop_bit 2 v; v = v OR drop_bit 4 v;
          v = v OR drop_bit 8 v in v OR drop_bit 16 v)"

lemma smeared_smear: "smeared 32 (smear v) v"
proof -
  have step: "smeared (2 * d) (x OR drop_bit d x) v" if "smeared d x v" for d x
    using smeared_step [OF that] by (simp add: mult_2)
  define a where "a = v OR drop_bit 1 v"
  define b where "b = a OR drop_bit 2 a"
  define c where "c = b OR drop_bit 4 b"
  define e where "e = c OR drop_bit 8 c"
  have a: "smeared 2 a v" using step [OF smeared_start] by (simp add: a_def)
  have b: "smeared 4 b v" using step [OF a] by (simp add: b_def)
  have c: "smeared 8 c v" using step [OF b] by (simp add: c_def)
  have e: "smeared 16 e v" using step [OF c] by (simp add: e_def)
  have "smeared 32 (e OR drop_bit 16 e) v" using step [OF e] by simp
  then show ?thesis by (simp only: smear_def Let_def a_def b_def c_def e_def)
qed

lemma floor_log_exists:
  fixes v :: dword
  assumes "v \<noteq> 0"
  obtains k where "k < 32" "2 ^ k \<le> unat v" "unat v < 2 ^ Suc k"
  using bit_log2_loop_floor [OF assms] by blast

lemma smear_mask: "2 ^ k \<le> unat v \<Longrightarrow> unat v < 2 ^ Suc k \<Longrightarrow> smear v = mask (Suc k)"
  by (rule smeared_32 [OF smeared_smear]) auto

lemma smear_0: "smear 0 = 0"
  by (simp add: smear_def)

lemma round_up_smear: "my_round_up_to_next_power v = smear (v - 1) + 1"
  by (simp only: my_round_up_to_next_power_def smear_def Let_def)

lemma clear_highest_smear: "my_clear_highest_bit v = v AND smear (drop_bit 1 v)"
  by (simp only: my_clear_highest_bit_def smear_def Let_def)

lemma mask_plus_1: "mask n + 1 = (2 ^ n :: dword)"
  by (simp add: mask_eq_exp_minus_1)

lemma unat_power2: "k < 32 \<Longrightarrow> unat (2 ^ k :: dword) = 2 ^ k"
proof -
  assume "k < 32"
  then have "(2 :: nat) ^ k < 2 ^ 32" by (intro power_strict_increasing) simp_all
  moreover have "(2 ^ k :: dword) = word_of_nat (2 ^ k)" by simp
  ultimately show ?thesis by (simp add: unat_of_nat del: of_nat_power)
qed

lemma unat_pred: "v \<noteq> 0 \<Longrightarrow> unat (v - 1 :: dword) = unat v - 1"
  by (simp add: unat_minus_one)

text \<open>\<open>my_round_up_to_next_power\<close> gives the least power of two that is not below its
  argument, up to \<open>2^31\<close>; zero and everything above \<open>2^31\<close> give zero.\<close>

theorem round_up_to_next_power_least:
  "my_round_up_to_next_power 0 = 0
   \<and> (0 < unat v \<and> unat v \<le> 2 ^ 31 \<longrightarrow>
        (\<exists>k\<le>31. unat (my_round_up_to_next_power v) = 2 ^ k \<and> unat v \<le> 2 ^ k \<and> (\<forall>j. unat v \<le> 2 ^ j \<longrightarrow> k \<le> j)))
   \<and> (2 ^ 31 < unat v \<longrightarrow> my_round_up_to_next_power v = 0)"
proof (intro conjI impI)
  show "my_round_up_to_next_power 0 = 0"
    by (simp add: my_round_up_to_next_power_def)
next
  assume v: "0 < unat v \<and> unat v \<le> 2 ^ 31"
  then have nz: "v \<noteq> 0" by auto
  show "\<exists>k\<le>31. unat (my_round_up_to_next_power v) = 2 ^ k \<and> unat v \<le> 2 ^ k \<and> (\<forall>j. unat v \<le> 2 ^ j \<longrightarrow> k \<le> j)"
  proof (cases "v = 1")
    case True
    then show ?thesis by (intro exI [of _ 0]) (simp add: round_up_smear smear_0)
  next
    case False
    then have "v - 1 \<noteq> 0" by simp
    then obtain k where k: "2 ^ k \<le> unat (v - 1)" "unat (v - 1) < 2 ^ Suc k"
      by (rule floor_log_exists)
    then have b: "2 ^ k < unat v" "unat v \<le> 2 ^ Suc k"
      using v by (simp_all add: unat_pred [OF nz])
    have "k < 31"
    proof (rule ccontr)
      assume "\<not> k < 31"
      then have "(2 :: nat) ^ 31 \<le> 2 ^ k" by (intro power_increasing) simp_all
      then show False using b v by simp
    qed
    then have "unat (2 ^ Suc k :: dword) = 2 ^ Suc k"
      by (intro unat_power2) simp
    then have "unat (my_round_up_to_next_power v) = 2 ^ Suc k"
      by (simp only: round_up_smear smear_mask [OF k] mask_plus_1)
    moreover have "Suc k \<le> j" if "unat v \<le> 2 ^ j" for j
      using less_le_trans [OF b(1) that] by (simp add: power_less_imp_less_exp Suc_le_eq)
    ultimately show ?thesis using b \<open>k < 31\<close> by (intro exI [of _ "Suc k"]) simp
  qed
next
  assume v: "2 ^ 31 < unat v"
  then have nz: "v \<noteq> 0" by auto
  have "2 ^ 31 \<le> unat (v - 1)" "unat (v - 1) < 2 ^ Suc 31"
    using v unsigned_less [of "v - 1", where 'a = nat] by (simp_all add: unat_pred [OF nz])
  then have "smear (v - 1) = mask 32"
    using smear_mask [of 31 "v - 1"] by simp
  then show "my_round_up_to_next_power v = 0"
    by (simp add: round_up_smear mask_eq_exp_minus_1)
qed

theorem round_up_to_next_power_least_witness:
  "\<exists>k\<le>31. unat (my_round_up_to_next_power 1000) = 2 ^ k \<and> 1000 \<le> (2 :: nat) ^ k
     \<and> (\<forall>j. 1000 \<le> (2 :: nat) ^ j \<longrightarrow> k \<le> j)"
  using round_up_to_next_power_least [of 1000] by simp

text \<open>\<open>my_bit_log2\<close> is the position of the highest set bit, the logarithm rounded down;
  the header's comment promises the logarithm rounded up, which differs whenever the argument
  is not a power of two.\<close>

theorem my_bit_log2_rounds_down:
  assumes "v \<noteq> 0"
  shows "2 ^ unat (my_bit_log2 v) \<le> unat v \<and> unat v < 2 ^ Suc (unat (my_bit_log2 v))
    \<and> (unat v \<le> 2 ^ unat (my_bit_log2 v) \<longleftrightarrow> unat v = 2 ^ unat (my_bit_log2 v))"
proof -
  obtain k where k: "k < 32" "my_bit_log2 v = word_of_nat k" "2 ^ k \<le> unat v" "unat v < 2 ^ Suc k"
    using bit_log2_loop_floor [OF assms, of 0] by (auto simp: my_bit_log2_def)
  then have "unat (my_bit_log2 v) = k" by (simp add: unat_of_nat)
  with k show ?thesis by auto
qed

theorem my_bit_log2_rounds_down_witness:
  "2 ^ unat (my_bit_log2 1000) \<le> (1000 :: nat) \<and> 1000 < (2 :: nat) ^ Suc (unat (my_bit_log2 1000))"
  using my_bit_log2_rounds_down [of 1000] by simp

lemma my_clear_highest_bit_clears:
  assumes "2 ^ k \<le> unat v" "unat v < 2 ^ Suc k" "k < 32"
  shows "my_clear_highest_bit v = take_bit k v"
proof (cases k)
  case 0
  then have "v = 1" using assms(1,2) by (simp add: word_unat_eq_iff)
  then show ?thesis using 0 by (simp add: clear_highest_smear smear_0)
next
  case (Suc j)
  have "unat (drop_bit 1 v) = unat v div 2" by (simp add: drop_bit_eq_div unat_div)
  then have "2 ^ j \<le> unat (drop_bit 1 v)" "unat (drop_bit 1 v) < 2 ^ Suc j"
    using assms(1,2) Suc by auto
  then have "smear (drop_bit 1 v) = mask k" using smear_mask Suc by simp
  then show ?thesis by (simp add: clear_highest_smear take_bit_eq_mask)
qed

definition popcount :: "'w::len word \<Rightarrow> nat" where
  "popcount w = length (filter (bit w) [0..<LENGTH('w)])"

lemma popcount_byte_of:
  fixes v :: "64 word"
  shows "popcount (ucast (drop_bit k v) :: byte) = length (filter (bit v) [k..<k + 8])"
proof -
  have "filter (bit v) [k..<k + 8] = filter (bit v) (map (\<lambda>n. n + k) [0..<8])"
    by (simp add: map_add_upt add.commute)
  also have "\<dots> = map (\<lambda>n. n + k) (filter (\<lambda>n. bit v (n + k)) [0..<8])"
    by (simp add: filter_map comp_def)
  also have "filter (\<lambda>n. bit v (n + k)) [0..<8] = filter (bit (ucast (drop_bit k v) :: byte)) [0..<8]"
    by (rule filter_cong) (auto simp: bit_simps add.commute)
  finally show ?thesis by (simp add: popcount_def)
qed

lemma popcount_byte_le: "popcount (b :: byte) \<le> 8"
  using length_filter_le [of "bit b" "[0..<8]"] by (simp add: popcount_def)

lemma popcount_64:
  fixes v :: "64 word"
  shows "popcount v = (\<Sum>i<8. popcount (ucast (drop_bit (8 * i) v) :: byte))"
proof -
  have "length (filter (bit v) [0..<8 * n]) = (\<Sum>i<n. length (filter (bit v) [8 * i..<8 * i + 8]))" for n
  proof (induction n)
    case (Suc n)
    have "[0..<8 * Suc n] = [0..<8 * n] @ [8 * n..<8 * n + 8]"
      using upt_add_eq_append [of 0 "8 * n" 8] by (simp add: add.commute)
    then show ?case by (simp add: Suc)
  qed simp
  from this [of 8] show ?thesis
    unfolding popcount_byte_of by (simp add: popcount_def)
qed

definition nbits_table :: "byte list \<Rightarrow> bool" where
  "nbits_table nbits \<longleftrightarrow> (\<forall>b :: byte. nbits ! unat b = word_of_nat (popcount b))"

definition reverse_table :: "byte list \<Rightarrow> bool" where
  "reverse_table rtab \<longleftrightarrow> (\<forall>b :: byte. \<forall>n<8. bit (rtab ! unat b) n \<longleftrightarrow> bit b (7 - n))"

text \<open>With tables that hold the bit count and the reversal of every byte,
  \<open>my_count_bits\<close> is the number of set bits of its 64-bit argument and \<open>my_reverse_bits\<close>
  mirrors the 32 bits of its own.\<close>

theorem table_functions_correct:
  assumes "nbits_table nbits" and "reverse_table rtab"
  shows "unat (my_count_bits nbits v) = popcount v
    \<and> (\<forall>n<32. bit (my_reverse_bits rtab key) n \<longleftrightarrow> bit key (31 - n))"
proof
  define p where "p k = popcount (ucast (drop_bit k v) :: byte)" for k
  have eq: "(ucast (ucast (drop_bit 32 v) :: dword) :: byte) = ucast (drop_bit 32 v)"
    "(ucast (drop_bit 8 (ucast (drop_bit 32 v) :: dword)) :: byte) = ucast (drop_bit 40 v)"
    "(ucast (drop_bit 16 (ucast (drop_bit 32 v) :: dword)) :: byte) = ucast (drop_bit 48 v)"
    "(ucast (drop_bit 24 (ucast (drop_bit 32 v) :: dword)) :: byte) = ucast (drop_bit 56 v)"
    by (auto intro!: bit_word_eqI simp: bit_simps)
  have zero: "p 0 = popcount (ucast v :: byte)" by (simp add: p_def)
  have total: "popcount v = p 0 + p 8 + p 16 + p 24 + p 32 + p 40 + p 48 + p 56"
    by (simp add: popcount_64 p_def lessThan_nat_numeral lessThan_Suc)
  have "my_count_bits nbits v = ucast (word_of_nat (popcount v) :: byte)"
    using assms(1) unfolding my_count_bits_def nbits_table_def Let_def eq
    by (simp only: total zero) (simp add: p_def)
  moreover have "popcount v \<le> 64"
    using length_filter_le [of "bit v" "[0..<64]"] by (simp add: popcount_def)
  ultimately show "unat (my_count_bits nbits v) = popcount v"
    by (simp add: unsigned_ucast_eq unat_of_nat take_bit_nat_eq_self)
next
  have idx: "rtab ! unat (drop_bit k key AND 255) = rtab ! unat (ucast (drop_bit k key) :: byte)" for k
  proof -
    have "drop_bit k key AND 255 = take_bit 8 (drop_bit k key)"
      by (simp add: take_bit_eq_mask mask_eq_exp_minus_1)
    moreover have "unat (take_bit 8 (drop_bit k key)) = unat (ucast (drop_bit k key) :: byte)"
      by (simp add: unsigned_ucast_eq unsigned_take_bit_eq)
    ultimately show ?thesis by simp
  qed
  have top: "rtab ! unat (drop_bit 24 key) = rtab ! unat (ucast (drop_bit 24 key) :: byte)"
  proof -
    have "take_bit 8 (drop_bit 24 key) = drop_bit 24 key"
      by (rule bit_word_eqI) (auto simp: bit_simps dest: bit_imp_le_length)
    then show ?thesis using idx [of 24] by (simp add: take_bit_eq_mask mask_eq_exp_minus_1)
  qed
  have rev: "bit (rtab ! unat (ucast (drop_bit k key) :: byte)) n \<longleftrightarrow> n < 8 \<and> bit key (k + (7 - n))" for k n
    using assms(2) bit_imp_le_length [of "rtab ! unat (ucast (drop_bit k key) :: byte)" n]
    by (auto simp: reverse_table_def bit_simps)
  have rev0: "bit (rtab ! unat (ucast key :: byte)) n \<longleftrightarrow> n < 8 \<and> bit key (7 - n)" for n
    using rev [of 0] by simp
  show "\<forall>n<32. bit (my_reverse_bits rtab key) n \<longleftrightarrow> bit key (31 - n)"
  proof (intro allI impI)
    fix n :: nat
    assume "n < 32"
    then consider "n < 8" | "8 \<le> n" "n < 16" | "16 \<le> n" "n < 24" | "24 \<le> n" "n < 32"
      by fastforce
    then show "bit (my_reverse_bits rtab key) n \<longleftrightarrow> bit key (31 - n)"
      unfolding my_reverse_bits_def Let_def idx top
      using idx [of 0] by cases (auto simp: bit_simps rev rev0)
  qed
qed

lemma count_bits_ushort_out_of_table:
  "length nbits = 256 \<Longrightarrow> 256 \<le> unat v \<Longrightarrow> my_count_bits_ushort nbits v = Inl Read_Out_Of_Bounds"
  unfolding my_count_bits_ushort_def
  by (subst rd_out) (simp_all only: of_nat_le_iff simp_thms res_bind_Inl)

definition nbits_of_bytes :: "byte list" where
  "nbits_of_bytes = map (\<lambda>k. word_of_nat (popcount (word_of_nat k :: byte))) [0..<256]"

definition reverse_of_bytes :: "byte list" where
  "reverse_of_bytes = map (\<lambda>k. horner_sum of_bool 2 (rev (map (bit (word_of_nat k :: byte)) [0..<8]))) [0..<256]"

lemma sample_tables: "nbits_table nbits_of_bytes" "reverse_table reverse_of_bytes"
  using unat_byte
  by (auto simp: nbits_table_def nbits_of_bytes_def reverse_table_def reverse_of_bytes_def
      bit_horner_sum_bit_iff rev_nth)

theorem table_functions_correct_witness:
  "nbits_table nbits_of_bytes \<and> reverse_table reverse_of_bytes
   \<and> unat (my_count_bits nbits_of_bytes 0xF0F0) = popcount (0xF0F0 :: 64 word)
   \<and> (bit (my_reverse_bits reverse_of_bytes 1) 31 \<longleftrightarrow> bit (1 :: dword) 0)"
  using table_functions_correct [OF sample_tables, of "0xF0F0" 1] sample_tables
  by (simp del: bit_1_iff)

section \<open>The bitmap as a set of numbers\<close>

definition bits_of :: "my_bitmap \<Rightarrow> nat set" where
  "bits_of m = {i. i < unat (n_bits m) \<and> bit (bitmap m ! (i div 8)) (i mod 8)}"

definition bitmap_wf :: "my_bitmap \<Rightarrow> bool" where
  "bitmap_wf m \<longleftrightarrow> unat (n_bits m) \<le> 8 * length (bitmap m)"

lemma bit_position:
  fixes b :: dword
  shows "unat (b div 8) = unat b div 8" "unat (b AND 7) = unat b mod 8"
proof -
  show "unat (b div 8) = unat b div 8" by (simp add: unat_div)
  have "b AND 7 = take_bit 3 b" by (simp add: take_bit_eq_mask mask_eq_exp_minus_1)
  also have "\<dots> = b mod 8" by (simp add: take_bit_eq_mod)
  finally show "unat (b AND 7) = unat b mod 8" by (simp add: unat_mod)
qed

lemma in_buffer:
  assumes "bitmap_wf m" "b < n_bits m"
  shows "unat b div 8 < length (bitmap m)"
  using assms by (simp add: bitmap_wf_def word_less_nat_alt)

lemma same_cell_iff: "i div 8 = j div 8 \<and> i mod 8 = j mod 8 \<longleftrightarrow> i = (j :: nat)"
  by (metis div_mult_mod_eq)

lemma bit_update_ok:
  assumes "bitmap_wf m" "b < n_bits m"
    and f: "\<And>old n. n < 8 \<Longrightarrow> bit (f old (push_bit (unat b mod 8) 1)) n
              \<longleftrightarrow> (if n = unat b mod 8 then g (bit old n) else bit old n)"
  obtains m' where "bit_update f m b = Inr m'" "bitmap_wf m'" "n_bits m' = n_bits m"
    "\<And>i. i \<in> bits_of m' \<longleftrightarrow> i < unat (n_bits m) \<and> (if i = unat b then g (unat b \<in> bits_of m) else i \<in> bits_of m)"
proof -
  define k where "k = unat b div 8"
  define m' where "m' = m\<lparr>bitmap := (bitmap m)[k := f (bitmap m ! k) (push_bit (unat b mod 8) 1)]\<rparr>"
  have k: "k < length (bitmap m)" using in_buffer [OF assms(1,2)] by (simp add: k_def)
  have up: "bit_update f m b = Inr m'"
    using k unfolding bit_update_def bit_position k_def [symmetric] m'_def by simp
  have cell: "bit (bitmap m' ! (i div 8)) (i mod 8)
      \<longleftrightarrow> (if i = unat b then g (bit (bitmap m ! (i div 8)) (i mod 8)) else bit (bitmap m ! (i div 8)) (i mod 8))" for i
    using k f same_cell_iff [of i "unat b"]
    by (cases "i div 8 = k") (auto simp: m'_def k_def)
  have "i \<in> bits_of m' \<longleftrightarrow> i < unat (n_bits m) \<and> (if i = unat b then g (unat b \<in> bits_of m) else i \<in> bits_of m)" for i
    using assms(2) cell [of i] by (auto simp: bits_of_def m'_def word_less_nat_alt)
  moreover have "bitmap_wf m'" "n_bits m' = n_bits m"
    using assms(1) by (simp_all add: bitmap_wf_def m'_def)
  ultimately show thesis using that up by blast
qed

text \<open>
  The set interface of a bitmap: operations that fail an assertion outside the bitmap and
  change exactly one member inside it.
\<close>

locale bit_set =
  fixes set_bit' :: "'m \<Rightarrow> 'i \<Rightarrow> 'm result option"
    and clear_bit' :: "'m \<Rightarrow> 'i \<Rightarrow> 'm result option"
    and is_set' :: "'m \<Rightarrow> 'i \<Rightarrow> dword result option"
    and members :: "'m \<Rightarrow> 'i set"
    and invar :: "'m \<Rightarrow> bool"
    and valid :: "'m \<Rightarrow> 'i \<Rightarrow> bool"
  assumes set_in: "invar m \<Longrightarrow> valid m i \<Longrightarrow> \<exists>m'. set_bit' m i = Some (Inr m') \<and> invar m'
            \<and> (\<forall>j. valid m' j = valid m j) \<and> members m' = insert i (members m)"
    and clear_in: "invar m \<Longrightarrow> valid m i \<Longrightarrow> \<exists>m'. clear_bit' m i = Some (Inr m') \<and> invar m'
            \<and> (\<forall>j. valid m' j = valid m j) \<and> members m' = members m - {i}"
    and test_in: "invar m \<Longrightarrow> valid m i \<Longrightarrow> \<exists>r. is_set' m i = Some (Inr r) \<and> (r \<noteq> 0 \<longleftrightarrow> i \<in> members m)"
    and assert_out: "\<not> valid m i \<Longrightarrow> set_bit' m i = None \<and> clear_bit' m i = None \<and> is_set' m i = None"
begin

fun set_all_of :: "'m \<Rightarrow> 'i list \<Rightarrow> 'm result option" where
  "set_all_of m [] = Some (Inr m)"
| "set_all_of m (i # is) =
     (case set_bit' m i of Some (Inr m') \<Rightarrow> set_all_of m' is | r \<Rightarrow> r)"

lemma set_all_of_members:
  "invar m \<Longrightarrow> \<forall>i\<in>set is. valid m i \<Longrightarrow>
     \<exists>m'. set_all_of m is = Some (Inr m') \<and> invar m' \<and> members m' = set is \<union> members m"
proof (induction "is" arbitrary: m)
  case (Cons i "is")
  then obtain m' where m': "set_bit' m i = Some (Inr m')" "invar m'"
    "\<forall>j. valid m' j = valid m j" "members m' = insert i (members m)"
    using set_in [of m i] by auto
  with Cons show ?case by (auto simp: m'(4) dest!: Cons.IH [of m'])
qed simp

lemma set_then_clear:
  assumes "invar m" "valid m i" "i \<notin> members m"
  shows "\<exists>m' m''. set_bit' m i = Some (Inr m') \<and> clear_bit' m' i = Some (Inr m'') \<and> members m'' = members m"
  using set_in [OF assms(1,2)] clear_in assms(2,3)
  by (metis Diff_insert_absorb)

end

lemma asserted_in: "b < n_bits m \<Longrightarrow> asserted f m b = Some (f m b)"
  by (simp add: asserted_def)

lemma bitmap_set_ok:
  assumes "bitmap_wf m" "b < n_bits m"
  shows "\<exists>m'. bitmap_set_bit m b = Some (Inr m') \<and> bitmap_wf m' \<and> n_bits m' = n_bits m
    \<and> bits_of m' = insert (unat b) (bits_of m)"
proof -
  obtain m' where "bit_update (\<lambda>old k. old OR k) m b = Inr m'" "bitmap_wf m'" "n_bits m' = n_bits m"
    "\<And>i. i \<in> bits_of m' \<longleftrightarrow> i < unat (n_bits m) \<and> (if i = unat b then True else i \<in> bits_of m)"
    by (rule bit_update_ok [OF assms, where f = "\<lambda>old k. old OR k" and g = "\<lambda>_. True"])
       (auto simp: bit_simps)
  then show ?thesis
    using assms(2) by (auto simp: bitmap_set_bit_def asserted_in bitmap_set_bit_raw_def bits_of_def word_less_nat_alt)
qed

lemma bitmap_clear_ok:
  assumes "bitmap_wf m" "b < n_bits m"
  shows "\<exists>m'. bitmap_clear_bit m b = Some (Inr m') \<and> bitmap_wf m' \<and> n_bits m' = n_bits m
    \<and> bits_of m' = bits_of m - {unat b}"
proof -
  obtain m' where "bit_update (\<lambda>old k. old AND NOT k) m b = Inr m'" "bitmap_wf m'" "n_bits m' = n_bits m"
    "\<And>i. i \<in> bits_of m' \<longleftrightarrow> i < unat (n_bits m) \<and> (if i = unat b then False else i \<in> bits_of m)"
    by (rule bit_update_ok [OF assms, where f = "\<lambda>old k. old AND NOT k" and g = "\<lambda>_. False"])
       (auto simp: bit_simps)
  then show ?thesis
    using assms(2) by (auto simp: bitmap_clear_bit_def asserted_in bitmap_clear_bit_raw_def bits_of_def)
qed

lemma bitmap_flip_ok:
  assumes "bitmap_wf m" "b < n_bits m"
  shows "\<exists>m'. bitmap_flip_bit m b = Some (Inr m') \<and> bitmap_wf m' \<and> n_bits m' = n_bits m
    \<and> bits_of m' = (if unat b \<in> bits_of m then bits_of m - {unat b} else insert (unat b) (bits_of m))"
proof -
  obtain m' where "bit_update (\<lambda>old k. old XOR k) m b = Inr m'" "bitmap_wf m'" "n_bits m' = n_bits m"
    "\<And>i. i \<in> bits_of m' \<longleftrightarrow> i < unat (n_bits m) \<and> (if i = unat b then unat b \<notin> bits_of m else i \<in> bits_of m)"
    by (rule bit_update_ok [OF assms, where f = "\<lambda>old k. old XOR k" and g = Not])
       (auto simp: bit_simps)
  then show ?thesis
    using assms(2) by (auto simp: bitmap_flip_bit_def asserted_in bitmap_flip_bit_raw_def bits_of_def word_less_nat_alt)
qed

lemma bitmap_is_set_ok:
  assumes "bitmap_wf m" "b < n_bits m"
  shows "\<exists>r. bitmap_is_set m b = Some (Inr r) \<and> (r \<noteq> 0 \<longleftrightarrow> unat b \<in> bits_of m)"
proof -
  have "(ucast (x AND push_bit n 1) :: dword) \<noteq> 0 \<longleftrightarrow> bit x n" if "n < 8" for x :: byte and n
  proof -
    have "unat (x AND 2 ^ n) < 2 ^ 32" using unat_byte [of "x AND 2 ^ n"] by simp
    then have "(ucast (x AND push_bit n 1) :: dword) = 0 \<longleftrightarrow> x AND 2 ^ n = 0"
      by (simp add: push_bit_eq_mult word_unat_eq_iff unsigned_ucast_eq take_bit_nat_eq_self)
    then show ?thesis by (simp add: and_exp_eq_0_iff_not_bit)
  qed
  then show ?thesis
    using assms(2) in_buffer [OF assms]
    by (simp add: bitmap_is_set_def asserted_in bitmap_is_set_raw_def bit_position bits_of_def word_less_nat_alt
        flip: of_nat_div)
qed

definition bit_members :: "my_bitmap \<Rightarrow> dword set" where
  "bit_members m = {b. unat b \<in> bits_of m}"

interpretation bm: bit_set bitmap_set_bit bitmap_clear_bit bitmap_is_set bit_members bitmap_wf "\<lambda>m b. b < n_bits m"
proof unfold_locales
  fix m i
  assume a: "bitmap_wf m" "i < n_bits m"
  show "\<exists>m'. bitmap_set_bit m i = Some (Inr m') \<and> bitmap_wf m' \<and> (\<forall>j. (j < n_bits m') = (j < n_bits m))
      \<and> bit_members m' = insert i (bit_members m)"
    using bitmap_set_ok [OF a] by (auto simp: bit_members_def dest: word_unat_eq_iff [THEN iffD2])
  show "\<exists>m'. bitmap_clear_bit m i = Some (Inr m') \<and> bitmap_wf m' \<and> (\<forall>j. (j < n_bits m') = (j < n_bits m))
      \<and> bit_members m' = bit_members m - {i}"
    using bitmap_clear_ok [OF a] by (auto simp: bit_members_def dest: word_unat_eq_iff [THEN iffD2])
  show "\<exists>r. bitmap_is_set m i = Some (Inr r) \<and> (r \<noteq> 0) = (i \<in> bit_members m)"
    using bitmap_is_set_ok [OF a] by (simp add: bit_members_def)
qed (simp add: bitmap_set_bit_def bitmap_clear_bit_def bitmap_is_set_def asserted_def)

lemma words_of_map:
  assumes "unat (n_bits m) + 31 < 2 ^ 32"
  shows "unat (4 * no_words_in_map m) = 4 * ((unat (n_bits m) + 31) div 32)"
proof -
  have "unat (n_bits m + 31) = unat (n_bits m) + 31"
    using assms by (simp add: unat_word_ariths)
  then have "unat (no_words_in_map m) = (unat (n_bits m) + 31) div 32"
    by (simp add: no_words_in_map_def unat_div)
  moreover have "4 * ((unat (n_bits m) + 31) div 32) < 2 ^ 32"
    using assms by simp
  ultimately show ?thesis by (simp add: unat_word_ariths)
qed

lemma bitmap_fill_ok:
  assumes "unat (n_bits m) + 31 < 2 ^ 32" "4 * ((unat (n_bits m) + 31) div 32) \<le> length (bitmap m)"
  shows "\<exists>m'. bitmap_fill c m = Inr m' \<and> bitmap_wf m' \<and> n_bits m' = n_bits m
    \<and> bits_of m' = {i. i < unat (n_bits m) \<and> bit c (i mod 8)}"
proof -
  define n where "n = 4 * ((unat (n_bits m) + 31) div 32)"
  define m' where "m' = m\<lparr>bitmap := replicate n c @ drop n (bitmap m)\<rparr>"
  have "bitmap_fill c m = Inr m'"
    using assms(2) by (simp add: bitmap_fill_def words_of_map [OF assms(1)] memcpy_at_def m'_def n_def Let_def)
  moreover have "bitmap_wf m'"
    using assms(2) by (simp add: bitmap_wf_def m'_def n_def)
  moreover have "bitmap m' ! (i div 8) = c" if "i < unat (n_bits m)" for i
  proof -
    have "i div 8 < n" using that by (simp add: n_def)
    then show ?thesis by (simp add: m'_def nth_append)
  qed
  ultimately show ?thesis
    by (auto simp: bits_of_def m'_def)
qed

text \<open>C38. A bitmap is a set of bit numbers below \<open>n_bits\<close>: on a bitmap whose buffer holds its
  bits, setting, clearing and flipping a bit change exactly that member and keep the bitmap
  well-formed, testing a bit is membership, none of them touches memory outside the buffer,
  filling gives the empty and the full set, and a bit number outside the bitmap fails the
  assertion of the debug build.\<close>

theorem bitmap_refines_set:
  assumes "bitmap_wf m"
  shows "(b < n_bits m \<longrightarrow>
      (\<exists>m'. bitmap_set_bit m b = Some (Inr m') \<and> bitmap_wf m' \<and> bits_of m' = insert (unat b) (bits_of m))
    \<and> (\<exists>m'. bitmap_clear_bit m b = Some (Inr m') \<and> bitmap_wf m' \<and> bits_of m' = bits_of m - {unat b})
    \<and> (\<exists>m'. bitmap_flip_bit m b = Some (Inr m') \<and> bitmap_wf m'
         \<and> bits_of m' = (if unat b \<in> bits_of m then bits_of m - {unat b} else insert (unat b) (bits_of m)))
    \<and> (\<exists>r. bitmap_is_set m b = Some (Inr r) \<and> (r \<noteq> 0 \<longleftrightarrow> unat b \<in> bits_of m)))
   \<and> (\<not> b < n_bits m \<longrightarrow> bitmap_set_bit m b = None \<and> bitmap_is_set m b = None)
   \<and> (unat (n_bits m) + 31 < 2 ^ 32 \<and> 4 * ((unat (n_bits m) + 31) div 32) \<le> length (bitmap m) \<longrightarrow>
        (\<exists>m'. bitmap_clear_all m = Inr m' \<and> bits_of m' = {})
      \<and> (\<exists>m'. bitmap_set_all m = Inr m' \<and> bits_of m' = {..<unat (n_bits m)}))"
proof (intro conjI impI)
  assume b: "b < n_bits m"
  show "\<exists>m'. bitmap_set_bit m b = Some (Inr m') \<and> bitmap_wf m' \<and> bits_of m' = insert (unat b) (bits_of m)"
    using bitmap_set_ok [OF assms b] by blast
  show "\<exists>m'. bitmap_clear_bit m b = Some (Inr m') \<and> bitmap_wf m' \<and> bits_of m' = bits_of m - {unat b}"
    using bitmap_clear_ok [OF assms b] by blast
  show "\<exists>m'. bitmap_flip_bit m b = Some (Inr m') \<and> bitmap_wf m'
      \<and> bits_of m' = (if unat b \<in> bits_of m then bits_of m - {unat b} else insert (unat b) (bits_of m))"
    using bitmap_flip_ok [OF assms b] by blast
  show "\<exists>r. bitmap_is_set m b = Some (Inr r) \<and> (r \<noteq> 0 \<longleftrightarrow> unat b \<in> bits_of m)"
    by (rule bitmap_is_set_ok [OF assms b])
next
  assume b: "\<not> b < n_bits m"
  show "bitmap_set_bit m b = None" "bitmap_is_set m b = None"
    using bm.assert_out [OF b] by blast+
next
  assume s: "unat (n_bits m) + 31 < 2 ^ 32 \<and> 4 * ((unat (n_bits m) + 31) div 32) \<le> length (bitmap m)"
  show "\<exists>m'. bitmap_clear_all m = Inr m' \<and> bits_of m' = {}"
    using bitmap_fill_ok [of m 0] s by (auto simp: bitmap_clear_all_def)
  have "bit (0xFF :: byte) k" if "k < 8" for k
    using that bit_mask_iff [of 8 k, where 'a = byte] by (simp add: mask_eq_exp_minus_1)
  then show "\<exists>m'. bitmap_set_all m = Inr m' \<and> bits_of m' = {..<unat (n_bits m)}"
    using bitmap_fill_ok [of m "0xFF"] s by (auto simp: bitmap_set_all_def lessThan_def)
qed

theorem bitmap_refines_set_witness:
  "\<exists>m'. bitmap_set_bit \<lparr>bitmap = [0, 0, 0, 0], n_bits = 20, last_word_mask = 0xFFF00000, last_word_ptr = 0\<rparr> 19
       = Some (Inr m') \<and> bitmap_wf m' \<and> 19 \<in> bits_of m'"
  using bitmap_refines_set
    [of "\<lparr>bitmap = [0, 0, 0, 0], n_bits = 20, last_word_mask = 0xFFF00000, last_word_ptr = 0\<rparr>" 19]
  by (auto simp: bitmap_wf_def)

text \<open>The one-integer macros.\<close>

lemma bit_is_set_iff: "LENGTH('w::len) \<le> 64 \<Longrightarrow>
  bit_is_set (I :: 'w word) B = (if B < LENGTH('w) then of_bool (bit I B) else - 1)"
  using and_exp_eq_0_iff_not_bit [of "ucast I :: 64 word" B]
  by (auto simp: bit_is_set_def push_bit_eq_mult bit_simps)

lemma bit_do_set_bit: "LENGTH('w::len) \<le> 64 \<Longrightarrow> B < LENGTH('w) \<Longrightarrow>
  bit (fst (bit_do_set (I :: 'w word) B)) n \<longleftrightarrow> n < LENGTH('w) \<and> (n = B \<or> bit I n)"
  by (auto simp: bit_do_set_def bit_simps dest: bit_imp_le_length)

lemma bit_do_clear_bit: "LENGTH('w::len) \<le> 64 \<Longrightarrow> B < LENGTH('w) \<Longrightarrow>
  bit (fst (bit_do_clear (I :: 'w word) B)) n \<longleftrightarrow> n \<noteq> B \<and> bit I n"
  by (auto simp: bit_do_clear_def bit_simps dest: bit_imp_le_length)

end
