(* ===== verification/Mysql_Strings.thy ===== *)
theory Mysql_Strings
  imports Prelude
begin

text \<open>
  \<open>skip_trailing_space\<close> of \<open>libmysql/include/m_string.h\<close>, which scans a string for trailing
  spaces a word at a time where alignment allows it. The string is the list \<open>mem\<close> of its
  bytes and \<open>ptr\<close> the address of the first of them, a natural number, so that no address wraps
  around; every access is checked against it. The
  \<open>DBUG_ASSERT\<close> of the function expands to nothing in the modelled build.
\<close>

definition SIZEOF_INT :: nat where "SIZEOF_INT = 4"
definition SPACE_INT :: dword where "SPACE_INT = 0x20202020"

definition byte_at :: "byte list \<Rightarrow> nat \<Rightarrow> nat \<Rightarrow> byte result" where
  "byte_at mem ptr a = rd mem (int a - int ptr)"

definition word_at :: "byte list \<Rightarrow> nat \<Rightarrow> nat \<Rightarrow> dword result" where
  "word_at mem ptr a =
     (if ptr \<le> a \<and> a + SIZEOF_INT \<le> ptr + length mem
      then Inr (bytes_dword (slice (a - ptr) SIZEOF_INT mem)) else Inl Read_Out_Of_Bounds)"

text \<open>\<open>while (end > low && end[-1] == 0x20) end--;\<close>\<close>

fun skip_bytes :: "byte list \<Rightarrow> nat \<Rightarrow> nat \<Rightarrow> nat \<Rightarrow> nat result" where
  "skip_bytes mem ptr low 0 = Inr 0"
| "skip_bytes mem ptr low (Suc e) =
     (if Suc e > low
      then res_bind (byte_at mem ptr e) (\<lambda>b. if b = 0x20 then skip_bytes mem ptr low e else Inr (Suc e))
      else Inr (Suc e))"

text \<open>\<open>while (end > start_words && ((unsigned *)end)[-1] == SPACE_INT) end -= SIZEOF_INT;\<close>\<close>

function skip_words :: "byte list \<Rightarrow> nat \<Rightarrow> nat \<Rightarrow> nat \<Rightarrow> nat result" where
  "skip_words mem ptr start_words e =
     (if e > start_words
      then (if e < SIZEOF_INT then Inl Buffer_Underflow
            else res_bind (word_at mem ptr (e - SIZEOF_INT)) (\<lambda>w.
              if w = SPACE_INT then skip_words mem ptr start_words (e - SIZEOF_INT) else Inr e))
      else Inr e)"
  by auto
termination
  by (relation "measure (\<lambda>(mem, ptr, s, e). e)") (auto simp: SIZEOF_INT_def)

definition skip_trailing_space :: "byte list \<Rightarrow> nat \<Rightarrow> nat result" where
  "skip_trailing_space mem ptr =
     (let len = length mem; e = ptr + len in
      res_bind
        (if len > 20
         then (let end_words = e div SIZEOF_INT * SIZEOF_INT;
                   start_words = (ptr + SIZEOF_INT - 1) div SIZEOF_INT * SIZEOF_INT in
               if end_words > ptr
               then res_bind (skip_bytes mem ptr end_words e) (\<lambda>e.
                    res_bind (byte_at mem ptr (e - 1)) (\<lambda>b.
                    if b = 0x20 \<and> start_words < end_words
                    then skip_words mem ptr start_words e else Inr e))
               else Inr e)
         else Inr e)
        (\<lambda>e. skip_bytes mem ptr ptr e))"

declare skip_words.simps [simp del]

section \<open>The naive scan\<close>

definition blank_stripped :: "byte list \<Rightarrow> byte list" where
  "blank_stripped mem = rev (dropWhile (\<lambda>b. b = 0x20) (rev mem))"

lemma blank_stripped_snoc [simp]:
  "blank_stripped (xs @ [b]) = (if b = 0x20 then blank_stripped xs else xs @ [b])"
  "blank_stripped [] = []"
  by (simp_all add: blank_stripped_def)

lemma blank_stripped_append:
  "\<forall>b\<in>set ys. b = 0x20 \<Longrightarrow> blank_stripped (xs @ ys) = blank_stripped xs"
proof (induction ys rule: rev_induct)
  case (snoc b ys)
  then show ?case using blank_stripped_snoc(1) [of "xs @ ys" b] by (simp del: blank_stripped_snoc)
qed simp

text \<open>A scan that went from \<open>e\<close> down to \<open>e'\<close> passed only spaces.\<close>

definition only_spaces :: "byte list \<Rightarrow> nat \<Rightarrow> nat \<Rightarrow> nat \<Rightarrow> bool" where
  "only_spaces mem ptr e' e \<longleftrightarrow>
     ptr \<le> e' \<and> e' \<le> e \<and> (\<forall>b\<in>set (slice (e' - ptr) (e - e') mem). b = 0x20)"

lemma only_spaces_refl: "ptr \<le> e \<Longrightarrow> only_spaces mem ptr e e"
  by (simp add: only_spaces_def slice_def)

lemma only_spaces_trans:
  assumes "only_spaces mem ptr a b" "only_spaces mem ptr b c"
  shows "only_spaces mem ptr a c"
proof -
  have "slice (a - ptr) (c - a) mem = slice (a - ptr) (b - a) mem @ slice (b - ptr) (c - b) mem"
    using slice_join [of "a - ptr" "b - a" mem "c - b"] assms by (simp add: only_spaces_def)
  then show ?thesis using assms by (auto simp: only_spaces_def)
qed

lemma only_spaces_stripped:
  assumes "only_spaces mem ptr e' e" "e \<le> ptr + length mem"
  shows "blank_stripped (take (e - ptr) mem) = blank_stripped (take (e' - ptr) mem)"
proof -
  have "take (e - ptr) mem = take (e' - ptr) mem @ slice (e' - ptr) (e - e') mem"
    using assms(1) take_add [of "e' - ptr" "e - e'" mem] by (simp add: only_spaces_def slice_def)
  then show ?thesis using assms(1) blank_stripped_append by (simp add: only_spaces_def)
qed

lemma byte_at_in: "ptr \<le> a \<Longrightarrow> a < ptr + length mem \<Longrightarrow> byte_at mem ptr a = Inr (mem ! (a - ptr))"
  by (simp add: byte_at_def rd_def nat_diff_distrib' flip: of_nat_diff)

lemma skip_bytes_zone:
  assumes "ptr \<le> low" "low \<le> e" "e \<le> ptr + length mem"
  shows "\<exists>e'. skip_bytes mem ptr low e = Inr e' \<and> low \<le> e' \<and> only_spaces mem ptr e' e
           \<and> (e' = low \<or> mem ! (e' - 1 - ptr) \<noteq> 0x20)"
  using assms
proof (induction e)
  case (Suc e)
  show ?case
  proof (cases "Suc e > low \<and> mem ! (e - ptr) = 0x20")
    case True
    then obtain e' where e': "skip_bytes mem ptr low e = Inr e'" "low \<le> e'" "only_spaces mem ptr e' e"
      "e' = low \<or> mem ! (e' - 1 - ptr) \<noteq> 0x20"
      using Suc by auto
    have "only_spaces mem ptr e (Suc e)"
      using True Suc.prems by (simp add: only_spaces_def slice_def take_Suc_conv_app_nth hd_drop_conv_nth)
    with e' True Suc.prems show ?thesis
      by (auto simp: byte_at_in intro: only_spaces_trans)
  next
    case False
    then show ?thesis
      using Suc.prems by (cases "Suc e > low") (auto simp: byte_at_in only_spaces_refl)
  qed
qed (simp add: only_spaces_refl)

lemma space_word:
  assumes "length bs = 4" "bytes_dword bs = SPACE_INT"
  shows "\<forall>b\<in>set bs. b = 0x20"
proof -
  have "bs = dword_bytes SPACE_INT" using dword_bytes_dword [OF assms(1)] assms(2) by simp
  also have "\<dots> = [0x20, 0x20, 0x20, 0x20]" by code_simp
  finally show ?thesis by simp
qed

lemma skip_words_zone:
  assumes "ptr \<le> start" "start \<le> e" "e \<le> ptr + length mem" "4 dvd e - start"
  shows "\<exists>e'. skip_words mem ptr start e = Inr e' \<and> start \<le> e' \<and> only_spaces mem ptr e' e"
  using assms
proof (induction mem ptr start e rule: skip_words.induct)
  case (1 mem ptr start e)
  show ?case
  proof (cases "e > start")
    case True
    with "1.prems"(4) have four: "start + 4 \<le> e"
      using dvd_imp_le [of 4 "e - start"] by simp
    define bs where "bs = slice (e - 4 - ptr) 4 mem"
    have len: "length bs = 4" using four "1.prems" by (simp add: bs_def length_slice)
    have read: "word_at mem ptr (e - SIZEOF_INT) = Inr (bytes_dword bs)"
      using four "1.prems" by (simp add: word_at_def SIZEOF_INT_def bs_def)
    show ?thesis
    proof (cases "bytes_dword bs = SPACE_INT")
      case True
      have "4 dvd e - 4 - start" using dvd_diff_nat [OF "1.prems"(4) dvd_refl] by (simp add: add.commute)
      moreover have "start \<le> e - 4" "e - 4 \<le> ptr + length mem" using four "1.prems" by linarith+
      ultimately obtain e' where e': "skip_words mem ptr start (e - 4) = Inr e'" "start \<le> e'" "only_spaces mem ptr e' (e - 4)"
        using "1.IH" [OF \<open>e > start\<close> _ read True] four "1.prems" by (auto simp: SIZEOF_INT_def)
      have "only_spaces mem ptr (e - 4) e"
        using space_word [OF len True] four "1.prems" by (simp add: only_spaces_def bs_def)
      with e' show ?thesis
        using True \<open>e > start\<close> four read
        by (auto simp: skip_words.simps [of mem ptr start e] SIZEOF_INT_def intro: only_spaces_trans)
    next
      case False
      then show ?thesis
        using \<open>e > start\<close> four read "1.prems"
        by (auto simp: skip_words.simps [of mem ptr start e] SIZEOF_INT_def only_spaces_refl)
    qed
  next
    case False
    then have "skip_words mem ptr start e = Inr e" by (simp add: skip_words.simps)
    then show ?thesis using "1.prems" by (simp add: only_spaces_refl)
  qed
qed

lemma final_scan:
  assumes "only_spaces mem ptr e (ptr + length mem)"
  shows "skip_bytes mem ptr ptr e = Inr (ptr + length (blank_stripped mem))"
proof -
  have e: "ptr \<le> e" "e \<le> ptr + length mem" using assms by (simp_all add: only_spaces_def)
  obtain e' where e': "skip_bytes mem ptr ptr e = Inr e'" "only_spaces mem ptr e' e"
    "e' = ptr \<or> mem ! (e' - 1 - ptr) \<noteq> 0x20"
    using skip_bytes_zone [OF order_refl e] by blast
  have all: "only_spaces mem ptr e' (ptr + length mem)" using e'(2) assms by (rule only_spaces_trans)
  have "blank_stripped mem = blank_stripped (take (e' - ptr) mem)"
    using only_spaces_stripped [OF all] by simp
  also have "\<dots> = take (e' - ptr) mem"
  proof (cases "e' = ptr")
    case False
    then have "take (e' - ptr) mem = take (e' - 1 - ptr) mem @ [mem ! (e' - 1 - ptr)]"
      using all take_Suc_conv_app_nth [of "e' - 1 - ptr" mem] order_le_imp_less_or_eq [of ptr e']
      by (auto simp: only_spaces_def Suc_diff_Suc)
    then show ?thesis using e'(3) False by simp
  qed simp
  finally have "length (blank_stripped mem) = e' - ptr" using all by (auto simp: only_spaces_def)
  then show ?thesis using e'(1) all by (simp add: only_spaces_def)
qed

text \<open>C36. \<open>skip_trailing_space\<close> finds the end of the string without its trailing spaces, as a
  scan byte by byte would, for every string and every alignment of its first byte, and reads
  no byte outside the string.\<close>

theorem skip_trailing_space_correct:
  "skip_trailing_space mem ptr = Inr (ptr + length (blank_stripped mem))"
proof -
  define e where "e = ptr + length mem"
  define ew where "ew = e div SIZEOF_INT * SIZEOF_INT"
  define sw where "sw = (ptr + SIZEOF_INT - 1) div SIZEOF_INT * SIZEOF_INT"
  have ew: "ew \<le> e" "4 dvd ew" and sw: "ptr \<le> sw" "4 dvd sw"
    unfolding ew_def sw_def SIZEOF_INT_def by simp_all
  show ?thesis
  proof (cases "length mem > 20 \<and> ew > ptr")
    case False
    then show ?thesis
      using final_scan [of mem ptr e] only_spaces_refl [of ptr e mem]
      by (auto simp: skip_trailing_space_def Let_def e_def ew_def)
  next
    case True
    then obtain e1 where e1: "skip_bytes mem ptr ew e = Inr e1" "ew \<le> e1" "only_spaces mem ptr e1 e"
      "e1 = ew \<or> mem ! (e1 - 1 - ptr) \<noteq> 0x20"
      using skip_bytes_zone [of ptr ew e mem] ew(1) by (auto simp: e_def)
    have last: "byte_at mem ptr (e1 - 1) = Inr (mem ! (e1 - 1 - ptr))"
      using e1(2,3) True by (intro byte_at_in) (auto simp: only_spaces_def e_def)
    have "\<exists>e2. (if mem ! (e1 - 1 - ptr) = 0x20 \<and> sw < ew then skip_words mem ptr sw e1 else Inr e1) = Inr e2
        \<and> only_spaces mem ptr e2 e"
    proof (cases "mem ! (e1 - 1 - ptr) = 0x20 \<and> sw < ew")
      case words: True
      then have "e1 = ew" using e1(4) by blast
      moreover have "4 dvd ew - sw" using ew(2) sw(2) by (rule dvd_diff_nat)
      ultimately show ?thesis
        using words skip_words_zone [of ptr sw ew mem] sw(1) ew(1) e1(3)
        by (auto simp: e_def intro: only_spaces_trans)
    qed (use e1(3) in auto)
    then obtain e2 where e2: "(if mem ! (e1 - 1 - ptr) = 0x20 \<and> sw < ew then skip_words mem ptr sw e1 else Inr e1) = Inr e2"
      "only_spaces mem ptr e2 e" by blast
    have "skip_trailing_space mem ptr = skip_bytes mem ptr ptr e2"
      using True e1(1) last e2(1)
      unfolding skip_trailing_space_def Let_def e_def [symmetric] ew_def [symmetric] sw_def [symmetric]
      by (simp del: One_nat_def)
    then show ?thesis using final_scan [of mem ptr e2] e2(2) by (simp add: e_def)
  qed
qed

end
