(* ===== verification/Mysql_Trie.thy ===== *)
theory Mysql_Trie
  imports Prelude
begin

text \<open>
  The keyword trie of \<open>libmysql/include/my_trie.h\<close>: nodes in a heap, linked by pointers as the
  structure has them, key search, and the Aho--Corasick step. The loops follow pointers, so
  they are partial functions whose value \<open>None\<close> is a loop that does not end. Building a trie and
  its failure links happens outside the headers; the theorems state what they need of it.
\<close>

section \<open>Nodes and operations\<close>

record trie_node =
  tn_leaf :: "16 word"
  tn_c :: byte
  tn_next :: ptr
  tn_links :: ptr
  tn_fail :: ptr

type_synonym trie_heap = "ptr \<Rightarrow> trie_node option"

record ac_trie_state =
  as_root :: ptr
  as_node :: ptr

text \<open>\<open>for (next= node->links; next; next= next->next) if (next->c == c) return next;\<close>\<close>

partial_function (option) edge_loop :: "trie_heap \<Rightarrow> ptr \<Rightarrow> byte \<Rightarrow> ptr result option" where
  "edge_loop h a ch =
     (if a = NULL then Some (Inr NULL)
      else case h a of
        None \<Rightarrow> Some (Inl Use_After_Free)
      | Some n \<Rightarrow> if tn_c n = ch then Some (Inr a) else edge_loop h (tn_next n) ch)"

definition trie_goto :: "trie_heap \<Rightarrow> ptr \<Rightarrow> ptr \<Rightarrow> byte \<Rightarrow> ptr result option" where
  "trie_goto h root node ch =
     (case h node of
        None \<Rightarrow> Some (Inl Use_After_Free)
      | Some n \<Rightarrow>
          (case edge_loop h (tn_links n) ch of
             None \<Rightarrow> None
           | Some (Inl e) \<Rightarrow> Some (Inl e)
           | Some (Inr a) \<Rightarrow>
               if a \<noteq> NULL then Some (Inr a)
               else if root = node then Some (Inr root)
               else Some (Inr NULL)))"

text \<open>\<open>while (! (state->node= trie_goto(root, node, *c))) node= node->fail;\<close>\<close>

partial_function (option) ac_loop :: "trie_heap \<Rightarrow> ptr \<Rightarrow> ptr \<Rightarrow> byte \<Rightarrow> ptr result option" where
  "ac_loop h root node ch =
     (case trie_goto h root node ch of
        None \<Rightarrow> None
      | Some (Inl e) \<Rightarrow> Some (Inl e)
      | Some (Inr a) \<Rightarrow>
          if a \<noteq> NULL then Some (Inr a)
          else (case h node of
                  None \<Rightarrow> Some (Inl Use_After_Free)
                | Some n \<Rightarrow> ac_loop h root (tn_fail n) ch))"

definition ac_trie_next :: "trie_heap \<Rightarrow> ac_trie_state \<Rightarrow> byte \<Rightarrow> (16 word \<times> ac_trie_state) result option" where
  "ac_trie_next h st ch =
     (case ac_loop h (as_root st) (as_node st) ch of
        None \<Rightarrow> None
      | Some (Inl e) \<Rightarrow> Some (Inl e)
      | Some (Inr a) \<Rightarrow>
          (case h a of
             None \<Rightarrow> Some (Inl Use_After_Free)
           | Some n \<Rightarrow> Some (Inr (tn_leaf n, st\<lparr>as_node := a\<rparr>))))"

text \<open>The search: at every character of the key, the sibling list is walked to its label.\<close>

fun search_loop :: "trie_heap \<Rightarrow> ptr \<Rightarrow> byte list \<Rightarrow> bool result option" where
  "search_loop h node [] =
     (case h node of None \<Rightarrow> Some (Inl Use_After_Free) | Some n \<Rightarrow> Some (Inr (tn_leaf n > 0)))"
| "search_loop h node (p # ps) =
     (case h node of
        None \<Rightarrow> Some (Inl Use_After_Free)
      | Some n \<Rightarrow>
          if tn_links n = NULL then Some (Inr False)
          else (case edge_loop h (tn_links n) p of
                  None \<Rightarrow> None
                | Some (Inl e) \<Rightarrow> Some (Inl e)
                | Some (Inr a) \<Rightarrow> if a = NULL then Some (Inr False) else search_loop h a ps))"

definition trie_search :: "trie_heap \<Rightarrow> ptr \<Rightarrow> byte list \<Rightarrow> bool result option" where
  "trie_search h root key = search_loop h root key"

section \<open>Tries in the heap\<close>

datatype trie = Trie "16 word" "(byte \<times> trie) list"

fun rep :: "trie_heap \<Rightarrow> ptr \<Rightarrow> trie \<Rightarrow> bool"
  and reps :: "trie_heap \<Rightarrow> ptr \<Rightarrow> (byte \<times> trie) list \<Rightarrow> bool" where
  "rep h a (Trie l cs) = (case h a of None \<Rightarrow> False | Some n \<Rightarrow> tn_leaf n = l \<and> reps h (tn_links n) cs)"
| "reps h a [] = (a = NULL)"
| "reps h a ((b, t) # cs) =
     (a \<noteq> NULL \<and> rep h a t \<and> (case h a of None \<Rightarrow> False | Some n \<Rightarrow> tn_c n = b \<and> reps h (tn_next n) cs))"

fun trie_lookup :: "trie \<Rightarrow> byte list \<Rightarrow> 16 word option" where
  "trie_lookup (Trie l cs) [] = Some l"
| "trie_lookup (Trie l cs) (k # ks) =
     (case map_of cs k of None \<Rightarrow> None | Some t \<Rightarrow> trie_lookup t ks)"

lemma edge_loop_NULL [simp]: "edge_loop h 0 ch = Some (Inr 0)"
  by (simp add: edge_loop.simps)

lemma edge_loop_finds:
  "reps h a cs \<Longrightarrow>
     (case map_of cs ch of
        None \<Rightarrow> edge_loop h a ch = Some (Inr NULL)
      | Some t \<Rightarrow> \<exists>b. edge_loop h a ch = Some (Inr b) \<and> b \<noteq> NULL \<and> rep h b t)"
proof (induction cs arbitrary: a)
  case (Cons x cs)
  obtain b t where x: "x = (b, t)" by fastforce
  from Cons.prems obtain n where n: "a \<noteq> 0" "rep h a t" "h a = Some n" "tn_c n = b" "reps h (tn_next n) cs"
    by (auto simp: x split: option.splits)
  then show ?case
    using Cons.IH [OF n(5)] edge_loop.simps [of h a ch] by (auto simp: x split: option.splits)
qed simp

text \<open>For a trie laid out in the heap, key search ends, touches only nodes of the trie, and
  answers whether the key is stored: whether the path of the key leads to a node marked as the
  end of a word.\<close>

theorem trie_search_correct:
  "rep h root t \<Longrightarrow>
     trie_search h root key = Some (Inr (case trie_lookup t key of None \<Rightarrow> False | Some l \<Rightarrow> l > 0))"
  unfolding trie_search_def
proof (induction t key arbitrary: root rule: trie_lookup.induct)
  case (1 l cs)
  then show ?case by (auto split: option.splits)
next
  case (2 l cs k ks)
  then obtain n where n: "h root = Some n" "reps h (tn_links n) cs"
    by (auto split: option.splits)
  show ?case
  proof (cases "tn_links n = NULL")
    case True
    with n(2) have "cs = []" by (cases cs) auto
    then show ?thesis using n True by simp
  next
    case False
    then show ?thesis
      using n edge_loop_finds [OF n(2), of k] 2 by (auto split: option.splits)
  qed
qed

text \<open>A trie with the words \<open>ab\<close> and \<open>b\<close>; the root has two edges in its sibling list.\<close>

definition sample_heap :: trie_heap where
  "sample_heap = [1 \<mapsto> \<lparr>tn_leaf = 0, tn_c = 0, tn_next = 0, tn_links = 2, tn_fail = 0\<rparr>,
     2 \<mapsto> \<lparr>tn_leaf = 0, tn_c = 97, tn_next = 4, tn_links = 3, tn_fail = 1\<rparr>,
     3 \<mapsto> \<lparr>tn_leaf = 2, tn_c = 98, tn_next = 0, tn_links = 0, tn_fail = 4\<rparr>,
     4 \<mapsto> \<lparr>tn_leaf = 1, tn_c = 98, tn_next = 0, tn_links = 0, tn_fail = 1\<rparr>]"

theorem trie_search_correct_witness:
  "trie_search sample_heap 1 [97, 98]
     = Some (Inr (case trie_lookup (Trie 0 [(97, Trie 0 [(98, Trie 2 [])]), (98, Trie 1 [])]) [97, 98] of
         None \<Rightarrow> False | Some l \<Rightarrow> l > 0))"
  by (rule trie_search_correct) (simp add: sample_heap_def)

section \<open>The Aho--Corasick step\<close>

text \<open>
  The nodes stand for the words of \<open>P\<close>, the prefixes of the keywords, node \<open>adr w\<close> for \<open>w\<close>.
  \<open>lsuf P s\<close> is the longest suffix of \<open>s\<close> in \<open>P\<close>.
\<close>

fun lsuf :: "byte list list \<Rightarrow> byte list \<Rightarrow> byte list" where
  "lsuf P [] = []"
| "lsuf P (x # s) = (if x # s \<in> set P then x # s else lsuf P s)"

definition prefix_closed :: "byte list list \<Rightarrow> bool" where
  "prefix_closed P \<longleftrightarrow> [] \<in> set P \<and> (\<forall>w\<in>set P. butlast w \<in> set P)"

lemma lsuf_in: "prefix_closed P \<Longrightarrow> lsuf P s \<in> set P"
  by (induction s) (simp_all add: prefix_closed_def)

lemma lsuf_self: "s \<in> set P \<Longrightarrow> lsuf P s = s"
  by (cases s) simp_all

lemma lsuf_suffix: "\<exists>p. s = p @ lsuf P s"
proof (induction s)
  case (Cons x s)
  then obtain p where "s = p @ lsuf P s" by blast
  then show ?case by (auto intro: exI [of _ "[]"] exI [of _ "x # p"])
qed simp

lemma lsuf_longest: "s = p @ w \<Longrightarrow> w \<in> set P \<Longrightarrow> length w \<le> length (lsuf P s)"
proof (induction s arbitrary: p)
  case (Cons x s)
  show ?case
  proof (cases "x # s \<in> set P")
    case False
    then have "p \<noteq> []" using Cons.prems by auto
    then obtain p' where "s = p' @ w" using Cons.prems(1) by (cases p) auto
    then show ?thesis using Cons.IH Cons.prems(2) False by simp
  next
    case True
    then show ?thesis using lsuf_self [OF True] Cons.prems(1) by simp
  qed
qed simp

lemma lsuf_snoc:
  assumes "prefix_closed P"
  shows "lsuf P (lsuf P s @ [c]) = lsuf P (s @ [c])"
proof (induction s)
  case (Cons x s)
  show ?case
  proof (cases "x # s \<in> set P")
    case False
    then have "x # s @ [c] \<notin> set P"
      using assms by (metis append_Cons butlast_snoc prefix_closed_def)
    then show ?thesis using Cons False by simp
  qed simp
qed simp

text \<open>
  The sibling list that starts at \<open>a\<close>: its nodes in order, each with the label on its edge.
\<close>

fun siblings :: "trie_heap \<Rightarrow> ptr \<Rightarrow> (byte \<times> ptr) list \<Rightarrow> bool" where
  "siblings h a [] = (a = NULL)"
| "siblings h a ((c, p) # es) =
     (a = p \<and> p \<noteq> NULL \<and> (case h p of None \<Rightarrow> False | Some n \<Rightarrow> tn_c n = c \<and> siblings h (tn_next n) es))"

lemma edge_loop_siblings:
  "siblings h a es \<Longrightarrow> edge_loop h a c = Some (Inr (case map_of es c of None \<Rightarrow> NULL | Some p \<Rightarrow> p))"
proof (induction es arbitrary: a)
  case (Cons e es)
  obtain b p where e: "e = (b, p)" by fastforce
  then obtain n where "a = p" "p \<noteq> NULL" "h p = Some n" "tn_c n = b" "siblings h (tn_next n) es"
    using Cons.prems by (auto split: option.splits)
  then show ?case using Cons.IH [of "tn_next n"] edge_loop.simps [of h p c] by (simp add: e)
qed simp

text \<open>
  What building the automaton leaves in the heap: every word of \<open>P\<close> has its own node, marked with
  \<open>leaf w\<close>; the edges of a node are a sibling list of the one-letter extensions in \<open>P\<close>, in any order,
  each labelled with its letter; and the failure link of a node leads to the longest proper suffix
  in \<open>P\<close>.
\<close>

definition prepared :: "trie_heap \<Rightarrow> byte list list \<Rightarrow> (byte list \<Rightarrow> ptr) \<Rightarrow> (byte list \<Rightarrow> 16 word) \<Rightarrow> bool" where
  "prepared h P adr leaf \<longleftrightarrow> prefix_closed P \<and> inj_on adr (set P) \<and>
     (\<forall>w\<in>set P. adr w \<noteq> NULL \<and>
        (case h (adr w) of
           None \<Rightarrow> False
         | Some n \<Rightarrow> tn_leaf n = leaf w \<and>
             (\<exists>cs. set cs = {c. w @ [c] \<in> set P} \<and> siblings h (tn_links n) (map (\<lambda>c. (c, adr (w @ [c]))) cs)) \<and>
             (w \<noteq> [] \<longrightarrow> tn_fail n = adr (lsuf P (tl w)))))"

lemma prepared_node:
  assumes "prepared h P adr leaf" "w \<in> set P"
  obtains n where "h (adr w) = Some n" "tn_leaf n = leaf w" "w \<noteq> [] \<Longrightarrow> tn_fail n = adr (lsuf P (tl w))"
    "\<And>c. edge_loop h (tn_links n) c = Some (Inr (if w @ [c] \<in> set P then adr (w @ [c]) else NULL))"
proof -
  obtain n where n: "h (adr w) = Some n" "tn_leaf n = leaf w" "w \<noteq> [] \<Longrightarrow> tn_fail n = adr (lsuf P (tl w))"
    "\<exists>cs. set cs = {c. w @ [c] \<in> set P} \<and> siblings h (tn_links n) (map (\<lambda>c. (c, adr (w @ [c]))) cs)"
    using assms unfolding prepared_def by (cases "h (adr w)") force+
  then obtain cs where cs: "set cs = {c. w @ [c] \<in> set P}" "siblings h (tn_links n) (map (\<lambda>c. (c, adr (w @ [c]))) cs)"
    by blast
  have "edge_loop h (tn_links n) c = Some (Inr (if w @ [c] \<in> set P then adr (w @ [c]) else NULL))" for c
    using edge_loop_siblings [OF cs(2), of c] cs(1) by (simp add: map_of_map_restrict restrict_map_def)
  with n show thesis by (intro that) auto
qed

lemma prepared_goto:
  assumes "prepared h P adr leaf" "w \<in> set P"
  shows "trie_goto h (adr []) (adr w) c
    = Some (Inr (if w @ [c] \<in> set P then adr (w @ [c]) else if w = [] then adr [] else NULL))"
proof -
  have "[] \<in> set P" "inj_on adr (set P)" using assms(1) by (simp_all add: prepared_def prefix_closed_def)
  then have root: "adr [] = adr w \<longleftrightarrow> w = []" using assms(2) by (auto dest: inj_onD)
  have nz: "w @ [c] \<in> set P \<Longrightarrow> adr (w @ [c]) \<noteq> 0" using assms(1) by (simp add: prepared_def)
  obtain n where n: "h (adr w) = Some n"
    "edge_loop h (tn_links n) c = Some (Inr (if w @ [c] \<in> set P then adr (w @ [c]) else NULL))"
    using prepared_node [OF assms] by metis
  show ?thesis
  proof (cases "w @ [c] \<in> set P")
    case True
    then show ?thesis using n nz [OF True] by (simp add: trie_goto_def)
  next
    case False
    then show ?thesis using n root by (simp add: trie_goto_def)
  qed
qed

lemma ac_loop_step:
  assumes "prepared h P adr leaf" "w \<in> set P"
  shows "ac_loop h (adr []) (adr w) c = Some (Inr (adr (lsuf P (w @ [c]))))"
  using assms(2)
proof (induction "length w" arbitrary: w rule: less_induct)
  case less
  have pc: "prefix_closed P" using assms(1) by (simp add: prepared_def)
  have nz: "\<forall>v\<in>set P. adr v \<noteq> 0" using assms(1) by (simp add: prepared_def)
  note goto = prepared_goto [OF assms(1) less.prems, of c]
  consider (edge) "w @ [c] \<in> set P" | (root) "w @ [c] \<notin> set P" "w = []" | (fail) "w @ [c] \<notin> set P" "w \<noteq> []"
    by blast
  then show ?case
  proof cases
    case edge
    then show ?thesis using goto nz by (simp add: ac_loop.simps lsuf_self)
  next
    case root
    then show ?thesis using goto nz less.prems by (simp add: ac_loop.simps)
  next
    case fail
    define v where "v = lsuf P (tl w)"
    have v: "v \<in> set P" "length v < length w"
    proof -
      show "v \<in> set P" using lsuf_in [OF pc] by (simp add: v_def)
      obtain p where "tl w = p @ v" using lsuf_suffix [of "tl w" P] by (auto simp: v_def)
      then have "length v \<le> length (tl w)" by simp
      then show "length v < length w" using fail(2) by (cases w) simp_all
    qed
    obtain n where n: "h (adr w) = Some n" "tn_fail n = adr v"
      using prepared_node [OF assms(1) less.prems] fail(2) by (metis v_def)
    have "lsuf P (w @ [c]) = lsuf P (tl w @ [c])" using fail by (cases w) simp_all
    also have "\<dots> = lsuf P (v @ [c])" by (simp add: v_def lsuf_snoc [OF pc])
    finally show ?thesis
      using goto fail n less.hyps [OF v(2,1)] by (simp add: ac_loop.simps [of h "adr []" "adr w"])
  qed
qed

text \<open>Feeding a text, one step per character; the results of the steps are collected.\<close>

fun ac_run :: "trie_heap \<Rightarrow> ac_trie_state \<Rightarrow> byte list \<Rightarrow> (16 word list \<times> ac_trie_state) result option" where
  "ac_run h st [] = Some (Inr ([], st))"
| "ac_run h st (c # cs) =
     (case ac_trie_next h st c of
        None \<Rightarrow> None
      | Some (Inl e) \<Rightarrow> Some (Inl e)
      | Some (Inr (l, st')) \<Rightarrow>
          (case ac_run h st' cs of
             None \<Rightarrow> None
           | Some (Inl e) \<Rightarrow> Some (Inl e)
           | Some (Inr (ls, st'')) \<Rightarrow> Some (Inr (l # ls, st''))))"

lemma ac_trie_next_step:
  assumes "prepared h P adr leaf" "w \<in> set P"
  shows "ac_trie_next h \<lparr>as_root = adr [], as_node = adr w\<rparr> c
      = Some (Inr (leaf (lsuf P (w @ [c])), \<lparr>as_root = adr [], as_node = adr (lsuf P (w @ [c]))\<rparr>))"
proof -
  have "lsuf P (w @ [c]) \<in> set P" using assms(1) by (simp add: prepared_def lsuf_in)
  then obtain n where "h (adr (lsuf P (w @ [c]))) = Some n" "tn_leaf n = leaf (lsuf P (w @ [c]))"
    using prepared_node [OF assms(1)] by metis
  then show ?thesis by (simp add: ac_trie_next_def ac_loop_step [OF assms])
qed

lemma ac_run_from:
  assumes "prepared h P adr leaf"
  shows "ac_run h \<lparr>as_root = adr [], as_node = adr (lsuf P s)\<rparr> cs
    = Some (Inr (map (\<lambda>i. leaf (lsuf P (s @ take (Suc i) cs))) [0..<length cs],
        \<lparr>as_root = adr [], as_node = adr (lsuf P (s @ cs))\<rparr>))"
proof (induction cs arbitrary: s)
  case (Cons c cs)
  have pc: "prefix_closed P" using assms by (simp add: prepared_def)
  have "ac_trie_next h \<lparr>as_root = adr [], as_node = adr (lsuf P s)\<rparr> c
      = Some (Inr (leaf (lsuf P (s @ [c])), \<lparr>as_root = adr [], as_node = adr (lsuf P (s @ [c]))\<rparr>))"
    using ac_trie_next_step [OF assms lsuf_in [OF pc], of s c] unfolding lsuf_snoc [OF pc] .
  then show ?case using Cons.IH [of "s @ [c]"] by (simp add: upt_conv_Cons map_Suc_upt [symmetric] del: upt_Suc)
qed simp

text \<open>C35. The Aho--Corasick step always ends, and the automaton is right: started at the root of a
  trie with its failure links and fed any text, every step returns the mark of the longest suffix
  of the text so far that is a prefix of a keyword, no step leaves the trie, and in the end the
  automaton stands at the node of the longest such suffix of the whole text.\<close>

theorem ac_trie_tracks_longest_suffix:
  assumes "prepared h P adr leaf"
  shows "ac_run h \<lparr>as_root = adr [], as_node = adr []\<rparr> s
      = Some (Inr (map (\<lambda>i. leaf (lsuf P (take (Suc i) s))) [0..<length s],
          \<lparr>as_root = adr [], as_node = adr (lsuf P s)\<rparr>))
    \<and> lsuf P s \<in> set P \<and> (\<exists>p. s = p @ lsuf P s)
    \<and> (\<forall>p w. s = p @ w \<and> w \<in> set P \<longrightarrow> length w \<le> length (lsuf P s))"
proof (intro conjI)
  have pc: "prefix_closed P" using assms by (simp add: prepared_def)
  show "ac_run h \<lparr>as_root = adr [], as_node = adr []\<rparr> s
      = Some (Inr (map (\<lambda>i. leaf (lsuf P (take (Suc i) s))) [0..<length s],
          \<lparr>as_root = adr [], as_node = adr (lsuf P s)\<rparr>))"
    using ac_run_from [OF assms, of "[]" s] by simp
  show "lsuf P s \<in> set P" by (rule lsuf_in [OF pc])
  show "\<exists>p. s = p @ lsuf P s" by (rule lsuf_suffix)
  show "\<forall>p w. s = p @ w \<and> w \<in> set P \<longrightarrow> length w \<le> length (lsuf P s)"
    using lsuf_longest by blast
qed

definition sample_adr :: "byte list \<Rightarrow> ptr" where
  "sample_adr w = (if w = [] then 1 else if w = [97] then 2 else if w = [97, 98] then 3 else 4)"

definition sample_leaf :: "byte list \<Rightarrow> 16 word" where
  "sample_leaf w = (if w = [97, 98] then 2 else if w = [98] then 1 else 0)"

lemma sample_edges:
  "{c. [c] \<in> set [[], [97], [97, 98], [98 :: byte]]} = set [97, 98]"
  "{c. [97, c] \<in> set [[], [97], [97, 98], [98 :: byte]]} = set [98]"
  "{c. [97, 98, c] \<in> set [[], [97], [97, 98], [98 :: byte]]} = set []"
  "{c. [98, c] \<in> set [[], [97], [97, 98], [98 :: byte]]} = set []"
  by auto

lemma sample_prepared: "prepared sample_heap [[], [97], [97, 98], [98]] sample_adr sample_leaf"
proof -
  let ?P = "[[], [97], [97, 98], [98 :: byte]]"
  let ?node = "\<lambda>w. case sample_heap (sample_adr w) of None \<Rightarrow> False
      | Some n \<Rightarrow> tn_leaf n = sample_leaf w \<and>
          (\<exists>cs. set cs = {c. w @ [c] \<in> set ?P} \<and> siblings sample_heap (tn_links n) (map (\<lambda>c. (c, sample_adr (w @ [c]))) cs)) \<and>
          (w \<noteq> [] \<longrightarrow> tn_fail n = sample_adr (lsuf ?P (tl w)))"
  note simps = sample_heap_def sample_adr_def sample_leaf_def
  have "?node []" using sample_edges(1) by (simp add: simps) (rule exI [of _ "[97, 98]"], simp)
  moreover have "?node [97]" using sample_edges(2) by (simp add: simps) (rule exI [of _ "[98]"], simp)
  moreover have "?node [97, 98]" "?node [98]" using sample_edges(3,4) by (simp_all add: simps)
  ultimately have "\<forall>w\<in>set ?P. ?node w" by simp
  moreover have "prefix_closed ?P" "inj_on sample_adr (set ?P)" "\<forall>w\<in>set ?P. sample_adr w \<noteq> NULL"
    by (simp_all add: prefix_closed_def inj_on_def sample_adr_def)
  ultimately show ?thesis unfolding prepared_def by blast
qed

theorem ac_trie_tracks_longest_suffix_witness:
  "ac_run sample_heap \<lparr>as_root = 1, as_node = 1\<rparr> [98, 97, 98]
     = Some (Inr ([1, 0, 2], \<lparr>as_root = 1, as_node = 3\<rparr>))"
  using ac_trie_tracks_longest_suffix [OF sample_prepared, of "[98, 97, 98]"]
  by (simp add: sample_adr_def sample_leaf_def upt_rec)

end
