(* ===== verification/Mysql_Ctype.thy ===== *)
theory Mysql_Ctype
  imports Mysql_Uctype
begin

text \<open>
  Character classes of \<open>libmysql/include/m_ctype.h\<close>: the class bits, the predicates over the
  class table of a character set, the flags of character sets and of weight strings, and the
  plain data of a \<open>CHARSET_INFO\<close>. The handlers of a character set are functions outside the
  headers and are not part of the record.
\<close>

section \<open>Sizes, class bits and flags\<close>

definition MY_CS_NAME_SIZE :: nat where "MY_CS_NAME_SIZE = 32"
definition MY_CS_CTYPE_TABLE_SIZE :: nat where "MY_CS_CTYPE_TABLE_SIZE = 257"
definition MY_CS_TO_LOWER_TABLE_SIZE :: nat where "MY_CS_TO_LOWER_TABLE_SIZE = 256"
definition MY_CS_TO_UPPER_TABLE_SIZE :: nat where "MY_CS_TO_UPPER_TABLE_SIZE = 256"
definition MY_CS_SORT_ORDER_TABLE_SIZE :: nat where "MY_CS_SORT_ORDER_TABLE_SIZE = 256"
definition MY_CS_TO_UNI_TABLE_SIZE :: nat where "MY_CS_TO_UNI_TABLE_SIZE = 256"

definition MY_U :: byte where "MY_U = 1"
definition MY_L :: byte where "MY_L = 2"
definition MY_NMR :: byte where "MY_NMR = 4"
definition MY_SPC :: byte where "MY_SPC = 8"
definition MY_PNT :: byte where "MY_PNT = 16"
definition MY_CTR :: byte where "MY_CTR = 32"
definition MY_B :: byte where "MY_B = 64"
definition MY_X :: byte where "MY_X = 128"

definition cs_flags :: "(string \<times> dword) list" where
  "cs_flags = [
   (''MY_CS_COMPILED'', 0x1),
   (''MY_CS_CONFIG'', 0x2),
   (''MY_CS_INDEX'', 0x4),
   (''MY_CS_LOADED'', 0x8),
   (''MY_CS_BINSORT'', 0x10),
   (''MY_CS_PRIMARY'', 0x20),
   (''MY_CS_STRNXFRM'', 0x40),
   (''MY_CS_UNICODE'', 0x80),
   (''MY_CS_READY'', 0x100),
   (''MY_CS_AVAILABLE'', 0x200),
   (''MY_CS_CSSORT'', 0x400),
   (''MY_CS_HIDDEN'', 0x800),
   (''MY_CS_PUREASCII'', 0x1000),
   (''MY_CS_NONASCII'', 0x2000)]"

definition MY_CS_BINSORT :: dword where "MY_CS_BINSORT = 16"
definition MY_CS_STRNXFRM :: dword where "MY_CS_STRNXFRM = 64"

definition MY_REPERTOIRE_ASCII :: dword where "MY_REPERTOIRE_ASCII = 1"
definition MY_REPERTOIRE_EXTENDED :: dword where "MY_REPERTOIRE_EXTENDED = 2"
definition MY_REPERTOIRE_UNICODE30 :: dword where "MY_REPERTOIRE_UNICODE30 = 3"

definition strxfrm_levels :: "(string \<times> dword) list" where
  "strxfrm_levels = [
   (''MY_STRXFRM_LEVEL1'', 0x1),
   (''MY_STRXFRM_LEVEL2'', 0x2),
   (''MY_STRXFRM_LEVEL3'', 0x4),
   (''MY_STRXFRM_LEVEL4'', 0x8),
   (''MY_STRXFRM_LEVEL5'', 0x10),
   (''MY_STRXFRM_LEVEL6'', 0x20)]"

definition strxfrm_desc :: "(string \<times> dword) list" where
  "strxfrm_desc = [
   (''MY_STRXFRM_DESC_LEVEL1'', 0x100),
   (''MY_STRXFRM_DESC_LEVEL2'', 0x200),
   (''MY_STRXFRM_DESC_LEVEL3'', 0x300),
   (''MY_STRXFRM_DESC_LEVEL4'', 0x800),
   (''MY_STRXFRM_DESC_LEVEL5'', 0x1000),
   (''MY_STRXFRM_DESC_LEVEL6'', 0x2000)]"

definition strxfrm_reverse :: "(string \<times> dword) list" where
  "strxfrm_reverse = [
   (''MY_STRXFRM_REVERSE_LEVEL1'', 0x10000),
   (''MY_STRXFRM_REVERSE_LEVEL2'', 0x20000),
   (''MY_STRXFRM_REVERSE_LEVEL3'', 0x40000),
   (''MY_STRXFRM_REVERSE_LEVEL4'', 0x80000),
   (''MY_STRXFRM_REVERSE_LEVEL5'', 0x100000),
   (''MY_STRXFRM_REVERSE_LEVEL6'', 0x200000)]"

definition MY_STRXFRM_LEVEL_ALL :: dword where "MY_STRXFRM_LEVEL_ALL = 63"
definition MY_STRXFRM_PAD_WITH_SPACE :: dword where "MY_STRXFRM_PAD_WITH_SPACE = 64"
definition MY_STRXFRM_PAD_TO_MAXLEN :: dword where "MY_STRXFRM_PAD_TO_MAXLEN = 128"
definition MY_STRXFRM_NLEVELS :: nat where "MY_STRXFRM_NLEVELS = 6"
definition MY_STRXFRM_DESC_SHIFT :: nat where "MY_STRXFRM_DESC_SHIFT = 8"
definition MY_STRXFRM_REVERSE_SHIFT :: nat where "MY_STRXFRM_REVERSE_SHIFT = 16"

text \<open>Return codes of the conversions between bytes and code points.\<close>

definition MY_CS_ILSEQ :: int where "MY_CS_ILSEQ = 0"
definition MY_CS_ILUNI :: int where "MY_CS_ILUNI = 0"
definition MY_CS_TOOSMALL :: int where "MY_CS_TOOSMALL = - 101"
definition MY_CS_TOOSMALL2 :: int where "MY_CS_TOOSMALL2 = - 102"
definition MY_CS_TOOSMALL3 :: int where "MY_CS_TOOSMALL3 = - 103"
definition MY_CS_TOOSMALL4 :: int where "MY_CS_TOOSMALL4 = - 104"
definition MY_CS_TOOSMALL5 :: int where "MY_CS_TOOSMALL5 = - 105"
definition MY_CS_TOOSMALL6 :: int where "MY_CS_TOOSMALL6 = - 106"

definition MY_CS_TOOSMALLN :: "int \<Rightarrow> int" where
  "MY_CS_TOOSMALLN n = - 100 - n"

section \<open>Data of a character set\<close>

record my_unicase_info =
  uc_toupper :: wchar
  uc_tolower :: wchar
  uc_sort :: wchar

record my_uni_idx =
  uni_from :: wchar
  uni_to :: wchar
  uni_tab :: "byte list"

record my_match =
  m_beg :: dword
  m_end :: dword
  m_mb_len :: dword

datatype my_lex_states =
    MY_LEX_START
  | MY_LEX_CHAR
  | MY_LEX_IDENT
  | MY_LEX_IDENT_SEP
  | MY_LEX_IDENT_START
  | MY_LEX_REAL
  | MY_LEX_HEX_NUMBER
  | MY_LEX_BIN_NUMBER
  | MY_LEX_CMP_OP
  | MY_LEX_LONG_CMP_OP
  | MY_LEX_STRING
  | MY_LEX_COMMENT
  | MY_LEX_END
  | MY_LEX_OPERATOR_OR_IDENT
  | MY_LEX_NUMBER_IDENT
  | MY_LEX_INT_OR_REAL
  | MY_LEX_REAL_OR_POINT
  | MY_LEX_BOOL
  | MY_LEX_EOL
  | MY_LEX_ESCAPE
  | MY_LEX_LONG_COMMENT
  | MY_LEX_END_LONG_COMMENT
  | MY_LEX_SEMICOLON
  | MY_LEX_SET_VAR
  | MY_LEX_USER_END
  | MY_LEX_HOSTNAME
  | MY_LEX_SKIP
  | MY_LEX_USER_VARIABLE_DELIMITER
  | MY_LEX_SYSTEM_VAR
  | MY_LEX_IDENT_OR_KEYWORD
  | MY_LEX_IDENT_OR_HEX
  | MY_LEX_IDENT_OR_BIN
  | MY_LEX_IDENT_OR_NCHAR
  | MY_LEX_STRING_OR_DELIMITER

record charset_info =
  cs_number :: dword
  cs_primary_number :: dword
  cs_binary_number :: dword
  cs_state :: dword
  cs_csname :: string
  cs_name :: string
  cs_comment :: string
  cs_tailoring :: string
  cs_ctype :: "byte list"
  cs_to_lower :: "byte list"
  cs_to_upper :: "byte list"
  cs_sort_order :: "byte list"
  cs_contractions :: "wchar list"
  cs_sort_order_big :: "wchar list list"
  cs_tab_to_uni :: "wchar list"
  cs_tab_from_uni :: "my_uni_idx list"
  cs_caseinfo :: "my_unicase_info list list"
  cs_state_map :: "byte list"
  cs_ident_map :: "byte list"
  cs_strxfrm_multiply :: dword
  cs_caseup_multiply :: byte
  cs_casedn_multiply :: byte
  cs_mbminlen :: dword
  cs_mbmaxlen :: dword
  cs_min_sort_char :: wchar
  cs_max_sort_char :: wchar
  cs_pad_char :: byte
  cs_escape_with_backslash_is_dangerous :: bool
  cs_levels_for_compare :: byte
  cs_levels_for_order :: byte

section \<open>Predicates\<close>

definition my_isascii :: "dword \<Rightarrow> bool" where
  "my_isascii c \<longleftrightarrow> c AND NOT 127 = 0"

definition my_toascii :: "dword \<Rightarrow> dword" where
  "my_toascii c = c AND 127"

definition my_tocntrl :: "dword \<Rightarrow> dword" where
  "my_tocntrl c = c AND 31"

definition my_toprint :: "dword \<Rightarrow> dword" where
  "my_toprint c = c OR 64"

definition my_toupper :: "charset_info \<Rightarrow> dword \<Rightarrow> byte result" where
  "my_toupper s c = rd (cs_to_upper s) (int (unat (ucast c :: byte)))"

definition my_tolower :: "charset_info \<Rightarrow> dword \<Rightarrow> byte result" where
  "my_tolower s c = rd (cs_to_lower s) (int (unat (ucast c :: byte)))"

text \<open>\<open>((s)->ctype+1)[(uchar) (c)] & m\<close>\<close>

definition ctype_and :: "byte \<Rightarrow> charset_info \<Rightarrow> dword \<Rightarrow> byte result" where
  "ctype_and m s c =
     res_bind (rd (cs_ctype s) (1 + int (unat (ucast c :: byte)))) (\<lambda>k. Inr (k AND m))"

definition my_isalpha :: "charset_info \<Rightarrow> dword \<Rightarrow> byte result" where
  "my_isalpha = ctype_and (MY_U OR MY_L)"

definition my_isupper :: "charset_info \<Rightarrow> dword \<Rightarrow> byte result" where
  "my_isupper = ctype_and (MY_U)"

definition my_islower :: "charset_info \<Rightarrow> dword \<Rightarrow> byte result" where
  "my_islower = ctype_and (MY_L)"

definition my_isdigit :: "charset_info \<Rightarrow> dword \<Rightarrow> byte result" where
  "my_isdigit = ctype_and (MY_NMR)"

definition my_isxdigit :: "charset_info \<Rightarrow> dword \<Rightarrow> byte result" where
  "my_isxdigit = ctype_and (MY_X)"

definition my_isalnum :: "charset_info \<Rightarrow> dword \<Rightarrow> byte result" where
  "my_isalnum = ctype_and (MY_U OR MY_L OR MY_NMR)"

definition my_isspace :: "charset_info \<Rightarrow> dword \<Rightarrow> byte result" where
  "my_isspace = ctype_and (MY_SPC)"

definition my_ispunct :: "charset_info \<Rightarrow> dword \<Rightarrow> byte result" where
  "my_ispunct = ctype_and (MY_PNT)"

definition my_isprint :: "charset_info \<Rightarrow> dword \<Rightarrow> byte result" where
  "my_isprint = ctype_and (MY_PNT OR MY_U OR MY_L OR MY_NMR OR MY_B)"

definition my_isgraph :: "charset_info \<Rightarrow> dword \<Rightarrow> byte result" where
  "my_isgraph = ctype_and (MY_PNT OR MY_U OR MY_L OR MY_NMR)"

definition my_iscntrl :: "charset_info \<Rightarrow> dword \<Rightarrow> byte result" where
  "my_iscntrl = ctype_and (MY_CTR)"

definition my_isvar :: "charset_info \<Rightarrow> dword \<Rightarrow> bool result" where
  "my_isvar s c = res_bind (my_isalnum s c) (\<lambda>k. Inr (k \<noteq> 0 \<or> c = 95))"

definition my_isvar_start :: "charset_info \<Rightarrow> dword \<Rightarrow> bool result" where
  "my_isvar_start s c = res_bind (my_isalpha s c) (\<lambda>k. Inr (k \<noteq> 0 \<or> c = 95))"

definition my_binary_compare :: "charset_info \<Rightarrow> bool" where
  "my_binary_compare s \<longleftrightarrow> cs_state s AND MY_CS_BINSORT \<noteq> 0"

definition use_strnxfrm :: "charset_info \<Rightarrow> bool" where
  "use_strnxfrm s \<longleftrightarrow> cs_state s AND MY_CS_STRNXFRM \<noteq> 0"

lemmas class_bits = MY_U_def MY_L_def MY_NMR_def MY_SPC_def MY_PNT_def MY_CTR_def MY_B_def MY_X_def

lemma ctype_and_ok:
  assumes "length (cs_ctype s) = MY_CS_CTYPE_TABLE_SIZE"
  shows "ctype_and m s c = Inr (cs_ctype s ! Suc (unat (ucast c :: byte)) AND m)"
proof -
  have "Suc (unat (ucast c :: byte)) < length (cs_ctype s)"
    using assms unat_byte [of "ucast c"] by (simp add: MY_CS_CTYPE_TABLE_SIZE_def)
  then show ?thesis
    using rd_in [of "Suc (unat (ucast c :: byte))" "cs_ctype s"] by (simp add: ctype_and_def del: rd_in)
qed

lemma and_or_zero: "k AND (a OR b) = 0 \<longleftrightarrow> k AND a = 0 \<and> k AND b = (0 :: byte)"
  by (simp add: bit.conj_disj_distrib or_eq_0_iff)

definition holds :: "byte result \<Rightarrow> bool" where
  "holds r \<longleftrightarrow> (case r of Inl _ \<Rightarrow> False | Inr k \<Rightarrow> k \<noteq> 0)"

text \<open>For a character set whose class table has the 257 entries the header prescribes, every
  class predicate is defined for every character, without a read outside the table, and the
  composed predicates are the unions of the simple ones; a table of one entry less is read
  past its end for the character 255.\<close>

theorem ctype_predicates_defined:
  assumes "length (cs_ctype s) = MY_CS_CTYPE_TABLE_SIZE"
  shows "\<not> is_fault (my_isalpha s c) \<and> \<not> is_fault (my_isprint s c) \<and> \<not> is_fault (my_isvar s c)
    \<and> (holds (my_isalpha s c) \<longleftrightarrow> holds (my_isupper s c) \<or> holds (my_islower s c))
    \<and> (holds (my_isalnum s c) \<longleftrightarrow> holds (my_isalpha s c) \<or> holds (my_isdigit s c))
    \<and> (holds (my_isgraph s c) \<longleftrightarrow> holds (my_isalnum s c) \<or> holds (my_ispunct s c))
    \<and> (holds (my_isgraph s c) \<longrightarrow> holds (my_isprint s c))
    \<and> (my_isvar s c = Inr True \<longleftrightarrow> holds (my_isalnum s c) \<or> c = 95)
    \<and> is_fault (my_isalpha (s\<lparr>cs_ctype := butlast (cs_ctype s)\<rparr>) 255)"
proof -
  note defs = my_isalpha_def my_isupper_def my_islower_def my_isdigit_def my_isalnum_def
    my_ispunct_def my_isprint_def my_isgraph_def my_isvar_def holds_def
  have "is_fault (my_isalpha (s\<lparr>cs_ctype := butlast (cs_ctype s)\<rparr>) 255)"
    using assms by (simp add: my_isalpha_def ctype_and_def rd_def MY_CS_CTYPE_TABLE_SIZE_def)
  then show ?thesis
    by (auto simp: defs ctype_and_ok [OF assms] and_or_zero)
qed

definition sample_charset :: charset_info where
  "sample_charset = \<lparr>cs_number = 8, cs_primary_number = 0, cs_binary_number = 0, cs_state = 1,
     cs_csname = ''latin1'', cs_name = ''latin1_swedish_ci'', cs_comment = [], cs_tailoring = [],
     cs_ctype = replicate 257 MY_U, cs_to_lower = [], cs_to_upper = [], cs_sort_order = [],
     cs_contractions = [], cs_sort_order_big = [], cs_tab_to_uni = [], cs_tab_from_uni = [],
     cs_caseinfo = [], cs_state_map = [], cs_ident_map = [], cs_strxfrm_multiply = 1,
     cs_caseup_multiply = 1, cs_casedn_multiply = 1, cs_mbminlen = 1, cs_mbmaxlen = 1,
     cs_min_sort_char = 0, cs_max_sort_char = 255, cs_pad_char = 32,
     cs_escape_with_backslash_is_dangerous = False, cs_levels_for_compare = 1, cs_levels_for_order = 1\<rparr>"

theorem ctype_predicates_defined_witness:
  "holds (my_isalnum sample_charset 65)
    \<longleftrightarrow> holds (my_isalpha sample_charset 65) \<or> holds (my_isdigit sample_charset 65)"
  using ctype_predicates_defined [of sample_charset 65]
  by (simp add: MY_CS_CTYPE_TABLE_SIZE_def sample_charset_def)

text \<open>The weight-string flags: the six level flags are the bits of \<open>MY_STRXFRM_LEVEL_ALL\<close>, a
  level's reverse flag is its level flag shifted by \<open>MY_STRXFRM_REVERSE_SHIFT\<close>, and a level's
  descending flag is its level flag shifted by \<open>MY_STRXFRM_DESC_SHIFT\<close> for every level but
  the third, whose value is the union of the flags of levels one and two.\<close>

theorem strxfrm_flags_overlap:
  "fold (OR) (map snd strxfrm_levels) 0 = MY_STRXFRM_LEVEL_ALL
   \<and> length strxfrm_levels = MY_STRXFRM_NLEVELS
   \<and> map snd strxfrm_reverse = map (push_bit MY_STRXFRM_REVERSE_SHIFT \<circ> snd) strxfrm_levels
   \<and> [i \<leftarrow> [0..<6]. snd (strxfrm_desc ! i) \<noteq> push_bit MY_STRXFRM_DESC_SHIFT (snd (strxfrm_levels ! i))] = [2]
   \<and> snd (strxfrm_desc ! 2) = snd (strxfrm_desc ! 0) OR snd (strxfrm_desc ! 1)"
  by code_simp

definition ascii_class :: "nat \<Rightarrow> byte" where
  "ascii_class n =
     (if n < 32 \<or> n = 127 then MY_CTR
      else if n = 32 then MY_SPC
      else if 48 \<le> n \<and> n \<le> 57 then MY_NMR
      else if 65 \<le> n \<and> n \<le> 90 then MY_U OR MY_X
      else if 97 \<le> n \<and> n \<le> 122 then MY_L OR MY_X
      else MY_PNT)"

lemma page_00_ascii: "take 128 uctype_page00 = map ascii_class [0..<128]"
  by code_simp

lemma first_page: "my_uni_ctype ! 0 = uc 0 (Some uctype_page00)"
  by (simp add: my_uni_ctype_def my_uni_ctype_low_def)

text \<open>The Unicode table classifies the ASCII characters as controls, one space, digits,
  upper-case letters, lower-case letters and punctuation; the hexadecimal-digit bit is set for
  all fifty-two letters and for no digit.\<close>

theorem unicode_ascii_classes:
  "ctype (my_uni_ctype ! 0) = Some uctype_page00 \<and> take 128 uctype_page00 = map ascii_class [0..<128] \<and>
   [n \<leftarrow> [0..<128]. ascii_class n AND MY_X \<noteq> 0] = [65..<91] @ [97..<123]"
proof (intro conjI)
  show "[n \<leftarrow> [0..<128]. ascii_class n AND MY_X \<noteq> 0] = [65..<91] @ [97..<123]" by code_simp
qed (simp_all add: page_00_ascii first_page uc_def)

end
