(* ===== verification/Mysql_Thai.thy ===== *)
theory Mysql_Thai
  imports Prelude
begin

text \<open>
  Thai collation symbols and character classes of \<open>libmysql/include/t_ctype.h\<close>. An enumeration
  is the list of its symbols in order; the number of a symbol is its place, counted from
  \<open>TOT_LEVELS\<close>. The table \<open>t_ctype\<close> is not part of the headers and is an argument.
\<close>

section \<open>Levels and symbols\<close>

definition TOT_LEVELS :: nat where "TOT_LEVELS = 5"
definition LAST_LEVEL :: nat where "LAST_LEVEL = 4"
definition IGNORE :: nat where "IGNORE = 0"

definition numbered :: "string list \<Rightarrow> (string \<times> nat) list" where
  "numbered names = zip names [TOT_LEVELS..<TOT_LEVELS + length names]"

definition l1_symbols :: "(string \<times> nat) list" where
  "l1_symbols = numbered [
   ''L1_08'', ''L1_18'', ''L1_28'', ''L1_38'', ''L1_48'',
   ''L1_58'', ''L1_68'', ''L1_78'', ''L1_88'', ''L1_98'',
   ''L1_A8'', ''L1_B8'', ''L1_C8'', ''L1_D8'', ''L1_E8'',
   ''L1_F8'', ''L1_G8'', ''L1_H8'', ''L1_I8'', ''L1_J8'',
   ''L1_K8'', ''L1_L8'', ''L1_M8'', ''L1_N8'', ''L1_O8'',
   ''L1_P8'', ''L1_Q8'', ''L1_R8'', ''L1_S8'', ''L1_T8'',
   ''L1_U8'', ''L1_V8'', ''L1_W8'', ''L1_X8'', ''L1_Y8'',
   ''L1_Z8'', ''L1_KO_KAI'', ''L1_KHO_KHAI'', ''L1_KHO_KHUAT'', ''L1_KHO_KHWAI'',
   ''L1_KHO_KHON'', ''L1_KHO_RAKHANG'', ''L1_NGO_NGU'', ''L1_CHO_CHAN'', ''L1_CHO_CHING'',
   ''L1_CHO_CHANG'', ''L1_SO_SO'', ''L1_CHO_CHOE'', ''L1_YO_YING'', ''L1_DO_CHADA'',
   ''L1_TO_PATAK'', ''L1_THO_THAN'', ''L1_THO_NANGMONTHO'', ''L1_THO_PHUTHAO'', ''L1_NO_NEN'',
   ''L1_DO_DEK'', ''L1_TO_TAO'', ''L1_THO_THUNG'', ''L1_THO_THAHAN'', ''L1_THO_THONG'',
   ''L1_NO_NU'', ''L1_BO_BAIMAI'', ''L1_PO_PLA'', ''L1_PHO_PHUNG'', ''L1_FO_FA'',
   ''L1_PHO_PHAN'', ''L1_FO_FAN'', ''L1_PHO_SAMPHAO'', ''L1_MO_MA'', ''L1_YO_YAK'',
   ''L1_RO_RUA'', ''L1_RU'', ''L1_LO_LING'', ''L1_LU'', ''L1_WO_WAEN'',
   ''L1_SO_SALA'', ''L1_SO_RUSI'', ''L1_SO_SUA'', ''L1_HO_HIP'', ''L1_LO_CHULA'',
   ''L1_O_ANG'', ''L1_HO_NOKHUK'', ''L1_NKHIT'', ''L1_SARA_A'', ''L1_MAI_HAN_AKAT'',
   ''L1_SARA_AA'', ''L1_SARA_AM'', ''L1_SARA_I'', ''L1_SARA_II'', ''L1_SARA_UE'',
   ''L1_SARA_UEE'', ''L1_SARA_U'', ''L1_SARA_UU'', ''L1_SARA_E'', ''L1_SARA_AE'',
   ''L1_SARA_O'', ''L1_SARA_AI_MAIMUAN'', ''L1_SARA_AI_MAIMALAI'']"

definition l2_symbols :: "(string \<times> nat) list" where
  "l2_symbols = numbered [
   ''L2_BLANK'', ''L2_THAII'', ''L2_YAMAK'', ''L2_PINTHU'', ''L2_GARAN'',
   ''L2_TYKHU'', ''L2_TONE1'', ''L2_TONE2'', ''L2_TONE3'', ''L2_TONE4'']"

definition l3_symbols :: "(string \<times> nat) list" where
  "l3_symbols = numbered [
   ''L3_BLANK'', ''L3_SPACE'', ''L3_NB_SACE'', ''L3_LOW_LINE'', ''L3_HYPHEN'',
   ''L3_COMMA'', ''L3_SEMICOLON'', ''L3_COLON'', ''L3_EXCLAMATION'', ''L3_QUESTION'',
   ''L3_SOLIDUS'', ''L3_FULL_STOP'', ''L3_PAIYAN_NOI'', ''L3_MAI_YAMOK'', ''L3_GRAVE'',
   ''L3_CIRCUMFLEX'', ''L3_TILDE'', ''L3_APOSTROPHE'', ''L3_QUOTATION'', ''L3_L_PARANTHESIS'',
   ''L3_L_BRACKET'', ''L3_L_BRACE'', ''L3_R_BRACE'', ''L3_R_BRACKET'', ''L3_R_PARENTHESIS'',
   ''L3_AT'', ''L3_BAHT'', ''L3_DOLLAR'', ''L3_FONGMAN'', ''L3_ANGKHANKHU'',
   ''L3_KHOMUT'', ''L3_ASTERISK'', ''L3_BK_SOLIDUS'', ''L3_AMPERSAND'', ''L3_NUMBER'',
   ''L3_PERCENT'', ''L3_PLUS'', ''L3_LESS_THAN'', ''L3_EQUAL'', ''L3_GREATER_THAN'',
   ''L3_V_LINE'']"

definition l4_symbols :: "(string \<times> nat) list" where
  "l4_symbols = numbered [
   ''L4_BLANK'', ''L4_MIN'', ''L4_CAP'', ''L4_EXT'']"

definition level_symbols :: "(string \<times> nat) list" where
  "level_symbols = numbered [
   ''L_UPRUPR'', ''L_UPPER'', ''L_MIDDLE'', ''L_LOWER'']"

section \<open>Class bits\<close>

definition t_level :: dword where "t_level = 8"
definition t_consnt :: dword where "t_consnt = 16"
definition t_ldvowel :: dword where "t_ldvowel = 32"
definition t_fllwvowel :: dword where "t_fllwvowel = 64"
definition t_uprvowel :: dword where "t_uprvowel = 128"
definition t_lwrvowel :: dword where "t_lwrvowel = 256"
definition t_tone :: dword where "t_tone = 512"
definition t_diacrt1 :: dword where "t_diacrt1 = 1024"
definition t_diacrt2 :: dword where "t_diacrt2 = 2048"
definition t_combine :: dword where "t_combine = 4096"
definition t_stone :: dword where "t_stone = 8192"
definition t_tdig :: dword where "t_tdig = 16384"
definition t_rearvowel :: dword where "t_rearvowel = t_fllwvowel OR t_uprvowel OR t_lwrvowel"
definition t_diacrt :: dword where "t_diacrt = t_diacrt1 OR t_diacrt2"

section \<open>Predicates\<close>

text \<open>\<open>_is(c)\<close>: the last column of the row of \<open>c\<close>.\<close>

definition t_is :: "dword list list \<Rightarrow> int \<Rightarrow> dword result" where
  "t_is t_ctype c = res_bind (rd t_ctype c) (\<lambda>row. rd row (int LAST_LEVEL))"

definition t_and :: "dword \<Rightarrow> dword list list \<Rightarrow> int \<Rightarrow> dword result" where
  "t_and m t_ctype c = res_bind (t_is t_ctype c) (\<lambda>k. Inr (k AND m))"

definition isthai :: "int \<Rightarrow> bool" where
  "isthai c \<longleftrightarrow> c \<ge> 128"

definition levelof :: "dword list list \<Rightarrow> int \<Rightarrow> dword result" where
  "levelof = t_and (t_level)"

definition istalpha :: "dword list list \<Rightarrow> int \<Rightarrow> dword result" where
  "istalpha = t_and (t_consnt OR t_ldvowel OR t_rearvowel OR t_tone OR t_diacrt1 OR t_diacrt2)"

definition isconsnt :: "dword list list \<Rightarrow> int \<Rightarrow> dword result" where
  "isconsnt = t_and (t_consnt)"

definition isldvowel :: "dword list list \<Rightarrow> int \<Rightarrow> dword result" where
  "isldvowel = t_and (t_ldvowel)"

definition isfllwvowel :: "dword list list \<Rightarrow> int \<Rightarrow> dword result" where
  "isfllwvowel = t_and (t_fllwvowel)"

definition ismidvowel :: "dword list list \<Rightarrow> int \<Rightarrow> dword result" where
  "ismidvowel = t_and (t_ldvowel OR t_fllwvowel)"

definition isuprvowel :: "dword list list \<Rightarrow> int \<Rightarrow> dword result" where
  "isuprvowel = t_and (t_uprvowel)"

definition islwrvowel :: "dword list list \<Rightarrow> int \<Rightarrow> dword result" where
  "islwrvowel = t_and (t_lwrvowel)"

definition isuprlwrvowel :: "dword list list \<Rightarrow> int \<Rightarrow> dword result" where
  "isuprlwrvowel = t_and (t_lwrvowel OR t_uprvowel)"

definition isrearvowel :: "dword list list \<Rightarrow> int \<Rightarrow> dword result" where
  "isrearvowel = t_and (t_rearvowel)"

definition isvowel :: "dword list list \<Rightarrow> int \<Rightarrow> dword result" where
  "isvowel = t_and (t_ldvowel OR t_rearvowel)"

definition istone :: "dword list list \<Rightarrow> int \<Rightarrow> dword result" where
  "istone = t_and (t_tone)"

definition isunldable :: "dword list list \<Rightarrow> int \<Rightarrow> dword result" where
  "isunldable = t_and (t_rearvowel OR t_tone OR t_diacrt1 OR t_diacrt2)"

definition iscombinable :: "dword list list \<Rightarrow> int \<Rightarrow> dword result" where
  "iscombinable = t_and (t_combine)"

definition istdigit :: "dword list list \<Rightarrow> int \<Rightarrow> dword result" where
  "istdigit = t_and (t_tdig)"

definition isstone :: "dword list list \<Rightarrow> int \<Rightarrow> dword result" where
  "isstone = t_and (t_stone)"

definition isdiacrt1 :: "dword list list \<Rightarrow> int \<Rightarrow> dword result" where
  "isdiacrt1 = t_and (t_diacrt1)"

definition isdiacrt2 :: "dword list list \<Rightarrow> int \<Rightarrow> dword result" where
  "isdiacrt2 = t_and (t_diacrt2)"

definition isdiacrt :: "dword list list \<Rightarrow> int \<Rightarrow> dword result" where
  "isdiacrt = t_and (t_diacrt)"

section \<open>Properties\<close>

lemma numbered_numbers: "map snd (numbered names) = [TOT_LEVELS..<TOT_LEVELS + length names]"
  by (simp add: numbered_def)

lemma symbol_counts:
  "length l1_symbols = 98"
  "length l2_symbols = 10"
  "length l3_symbols = 41"
  "length l4_symbols = 4"
  "length level_symbols = 4"
  by (simp_all add: l1_symbols_def l2_symbols_def l3_symbols_def l4_symbols_def level_symbols_def numbered_def)

lemmas t_bits = t_level_def t_consnt_def t_ldvowel_def t_fllwvowel_def t_uprvowel_def t_lwrvowel_def t_tone_def t_diacrt1_def t_diacrt2_def t_combine_def t_stone_def t_tdig_def

definition t_holds :: "dword result \<Rightarrow> bool" where
  "t_holds r \<longleftrightarrow> (case r of Inl _ \<Rightarrow> False | Inr k \<Rightarrow> k \<noteq> 0)"

definition wf_t_ctype :: "dword list list \<Rightarrow> bool" where
  "wf_t_ctype t \<longleftrightarrow> length t = 256 \<and> list_all (\<lambda>row. length row = TOT_LEVELS) t"

lemma t_and_ok:
  assumes "wf_t_ctype t" "0 \<le> c" "c < 256"
  shows "t_and m t c = Inr (t ! nat c ! LAST_LEVEL AND m)"
proof -
  have "nat c < length t" "length (t ! nat c) = TOT_LEVELS"
    using assms by (auto simp: wf_t_ctype_def list_all_length)
  then show ?thesis
    using assms by (simp add: t_and_def t_is_def rd_def LAST_LEVEL_def TOT_LEVELS_def)
qed

lemma t_and_or_zero: "k AND (a OR b) = 0 \<longleftrightarrow> k AND a = 0 \<and> k AND b = (0 :: dword)"
  by (simp add: bit.conj_disj_distrib or_eq_0_iff)

text \<open>The class bits of the Thai table are twelve different single bits, and the composed
  predicates are the unions their names promise for every character of a table of 256 rows:
  a vowel is a leading or a rear one, a rear vowel one that follows, stands above or below,
  and a Thai letter a consonant, a vowel, a tone or a diacritic.\<close>

theorem thai_predicates_compose:
  assumes "wf_t_ctype t" "0 \<le> c" "c < 256"
  shows "[t_level, t_consnt, t_ldvowel, t_fllwvowel, t_uprvowel, t_lwrvowel, t_tone, t_diacrt1, t_diacrt2, t_combine, t_stone, t_tdig] = map (\<lambda>k. 2 ^ k) [3..<15]
    \<and> (t_holds (isvowel t c) \<longleftrightarrow> t_holds (isldvowel t c) \<or> t_holds (isrearvowel t c))
    \<and> (t_holds (isrearvowel t c) \<longleftrightarrow>
         t_holds (isfllwvowel t c) \<or> t_holds (isuprvowel t c) \<or> t_holds (islwrvowel t c))
    \<and> (t_holds (ismidvowel t c) \<longleftrightarrow> t_holds (isldvowel t c) \<or> t_holds (isfllwvowel t c))
    \<and> (t_holds (isdiacrt t c) \<longleftrightarrow> t_holds (isdiacrt1 t c) \<or> t_holds (isdiacrt2 t c))
    \<and> (t_holds (istalpha t c) \<longleftrightarrow>
         t_holds (isconsnt t c) \<or> t_holds (isvowel t c) \<or> t_holds (istone t c) \<or> t_holds (isdiacrt t c))
    \<and> (t_holds (isunldable t c) \<longleftrightarrow>
         t_holds (isrearvowel t c) \<or> t_holds (istone t c) \<or> t_holds (isdiacrt t c))"
proof
  show "[t_level, t_consnt, t_ldvowel, t_fllwvowel, t_uprvowel, t_lwrvowel, t_tone, t_diacrt1, t_diacrt2, t_combine, t_stone, t_tdig] = map (\<lambda>k. 2 ^ k) [3..<15]"
    by (simp add: t_bits)
qed (auto simp: levelof_def istalpha_def isconsnt_def isldvowel_def isfllwvowel_def ismidvowel_def isuprvowel_def islwrvowel_def isuprlwrvowel_def isrearvowel_def isvowel_def istone_def isunldable_def iscombinable_def istdigit_def isstone_def isdiacrt1_def isdiacrt2_def isdiacrt_def
    t_rearvowel_def t_diacrt_def t_and_ok [OF assms] t_holds_def t_and_or_zero)

theorem thai_predicates_compose_witness:
  "t_holds (isvowel (replicate 256 (replicate 5 32)) 200)
     \<longleftrightarrow> t_holds (isldvowel (replicate 256 (replicate 5 32)) 200)
       \<or> t_holds (isrearvowel (replicate 256 (replicate 5 32)) 200)"
proof -
  have "wf_t_ctype (replicate 256 (replicate 5 32))"
    by (simp add: wf_t_ctype_def TOT_LEVELS_def list_all_iff)
  moreover have "(0 :: int) \<le> 200" "(200 :: int) < 256" by simp_all
  ultimately show ?thesis
    using thai_predicates_compose [of "replicate 256 (replicate 5 32)" 200] by blast
qed

end
