(* ===== verification/Mysql_Proto.thy ===== *)
theory Mysql_Proto
  imports Prelude
begin

text \<open>
  The client--server interface the database component is compiled against: the constants,
  commands, flags and field types of \<open>libmysql/include/mysql_com.h\<close>, the field macros and
  enumerations of \<open>mysql.h\<close>, dates of \<open>mysql_time.h\<close> and \<open>my_time.h\<close>, and the plain data of
  \<open>decimal.h\<close>.
\<close>

section \<open>Lengths\<close>

definition HOSTNAME_LENGTH :: nat where "HOSTNAME_LENGTH = 60"
definition SYSTEM_CHARSET_MBMAXLEN :: nat where "SYSTEM_CHARSET_MBMAXLEN = 4"
definition NAME_CHAR_LEN :: nat where "NAME_CHAR_LEN = 64"
definition USERNAME_CHAR_LENGTH :: nat where "USERNAME_CHAR_LENGTH = 16"
definition NAME_LEN :: nat where "NAME_LEN = NAME_CHAR_LEN * SYSTEM_CHARSET_MBMAXLEN"
definition USERNAME_LENGTH :: nat where "USERNAME_LENGTH = USERNAME_CHAR_LENGTH * SYSTEM_CHARSET_MBMAXLEN"
definition SERVER_VERSION_LENGTH :: nat where "SERVER_VERSION_LENGTH = 60"
definition SQLSTATE_LENGTH :: nat where "SQLSTATE_LENGTH = 5"
definition TABLE_COMMENT_INLINE_MAXLEN :: nat where "TABLE_COMMENT_INLINE_MAXLEN = 180"
definition TABLE_COMMENT_MAXLEN :: nat where "TABLE_COMMENT_MAXLEN = 2048"
definition COLUMN_COMMENT_MAXLEN :: nat where "COLUMN_COMMENT_MAXLEN = 1024"
definition INDEX_COMMENT_MAXLEN :: nat where "INDEX_COMMENT_MAXLEN = 1024"
definition USER_HOST_BUFF_SIZE :: nat where "USER_HOST_BUFF_SIZE = HOSTNAME_LENGTH + USERNAME_LENGTH + 2"
definition SCRAMBLE_LENGTH :: nat where "SCRAMBLE_LENGTH = 20"
definition SCRAMBLE_LENGTH_323 :: nat where "SCRAMBLE_LENGTH_323 = 8"
definition SCRAMBLED_PASSWORD_CHAR_LENGTH :: nat where "SCRAMBLED_PASSWORD_CHAR_LENGTH = SCRAMBLE_LENGTH * 2 + 1"
definition SCRAMBLED_PASSWORD_CHAR_LENGTH_323 :: nat where "SCRAMBLED_PASSWORD_CHAR_LENGTH_323 = SCRAMBLE_LENGTH_323 * 2"
definition MYSQL_ERRMSG_SIZE :: nat where "MYSQL_ERRMSG_SIZE = 512"
definition NET_READ_TIMEOUT :: nat where "NET_READ_TIMEOUT = 30"
definition NET_WRITE_TIMEOUT :: nat where "NET_WRITE_TIMEOUT = 60"
definition NET_WAIT_TIMEOUT :: nat where "NET_WAIT_TIMEOUT = 8 * 60 * 60"
definition MAX_TINYINT_WIDTH :: nat where "MAX_TINYINT_WIDTH = 3"
definition MAX_SMALLINT_WIDTH :: nat where "MAX_SMALLINT_WIDTH = 5"
definition MAX_MEDIUMINT_WIDTH :: nat where "MAX_MEDIUMINT_WIDTH = 8"
definition MAX_INT_WIDTH :: nat where "MAX_INT_WIDTH = 10"
definition MAX_BIGINT_WIDTH :: nat where "MAX_BIGINT_WIDTH = 20"
definition MAX_CHAR_WIDTH :: nat where "MAX_CHAR_WIDTH = 255"
definition MAX_BLOB_WIDTH :: nat where "MAX_BLOB_WIDTH = 16777216"
definition NET_HEADER_SIZE :: nat where "NET_HEADER_SIZE = 4"
definition COMP_HEADER_SIZE :: nat where "COMP_HEADER_SIZE = 3"
definition MYSQL_STMT_HEADER :: nat where "MYSQL_STMT_HEADER = 4"
definition MYSQL_LONG_DATA_HEADER :: nat where "MYSQL_LONG_DATA_HEADER = 6"

section \<open>Commands, flags and types\<close>

datatype enum_server_command =
    COM_SLEEP
  | COM_QUIT
  | COM_INIT_DB
  | COM_QUERY
  | COM_FIELD_LIST
  | COM_CREATE_DB
  | COM_DROP_DB
  | COM_REFRESH
  | COM_SHUTDOWN
  | COM_STATISTICS
  | COM_PROCESS_INFO
  | COM_CONNECT
  | COM_PROCESS_KILL
  | COM_DEBUG
  | COM_PING
  | COM_TIME
  | COM_DELAYED_INSERT
  | COM_CHANGE_USER
  | COM_BINLOG_DUMP
  | COM_TABLE_DUMP
  | COM_CONNECT_OUT
  | COM_REGISTER_SLAVE
  | COM_STMT_PREPARE
  | COM_STMT_EXECUTE
  | COM_STMT_SEND_LONG_DATA
  | COM_STMT_CLOSE
  | COM_STMT_RESET
  | COM_SET_OPTION
  | COM_STMT_FETCH
  | COM_DAEMON
  | COM_END

definition field_flags :: "(string \<times> dword) list" where
  "field_flags = [
   (''NOT_NULL_FLAG'', 1),
   (''PRI_KEY_FLAG'', 2),
   (''UNIQUE_KEY_FLAG'', 4),
   (''MULTIPLE_KEY_FLAG'', 8),
   (''BLOB_FLAG'', 16),
   (''UNSIGNED_FLAG'', 32),
   (''ZEROFILL_FLAG'', 64),
   (''BINARY_FLAG'', 128),
   (''ENUM_FLAG'', 256),
   (''AUTO_INCREMENT_FLAG'', 512),
   (''TIMESTAMP_FLAG'', 1024),
   (''SET_FLAG'', 2048),
   (''NO_DEFAULT_VALUE_FLAG'', 4096),
   (''ON_UPDATE_NOW_FLAG'', 8192),
   (''NUM_FLAG'', 32768),
   (''PART_KEY_FLAG'', 16384),
   (''GROUP_FLAG'', 32768),
   (''UNIQUE_FLAG'', 65536),
   (''BINCMP_FLAG'', 131072),
   (''GET_FIXED_FIELDS_FLAG'', 262144),
   (''FIELD_IN_PART_FUNC_FLAG'', 524288),
   (''FIELD_IN_ADD_INDEX'', 1048576),
   (''FIELD_IS_RENAMED'', 2097152)]"

definition refresh_flags :: "(string \<times> dword) list" where
  "refresh_flags = [
   (''REFRESH_GRANT'', 1),
   (''REFRESH_LOG'', 2),
   (''REFRESH_TABLES'', 4),
   (''REFRESH_HOSTS'', 8),
   (''REFRESH_STATUS'', 16),
   (''REFRESH_THREADS'', 32),
   (''REFRESH_SLAVE'', 64),
   (''REFRESH_MASTER'', 128),
   (''REFRESH_READ_LOCK'', 16384),
   (''REFRESH_FAST'', 32768),
   (''REFRESH_QUERY_CACHE'', 65536),
   (''REFRESH_QUERY_CACHE_FREE'', 131072),
   (''REFRESH_DES_KEY_FILE'', 262144),
   (''REFRESH_USER_RESOURCES'', 524288),
   (''REFRESH_BACKUP_LOG'', 2097152)]"

definition client_flags :: "(string \<times> dword) list" where
  "client_flags = [
   (''CLIENT_LONG_PASSWORD'', 1),
   (''CLIENT_FOUND_ROWS'', 2),
   (''CLIENT_LONG_FLAG'', 4),
   (''CLIENT_CONNECT_WITH_DB'', 8),
   (''CLIENT_NO_SCHEMA'', 16),
   (''CLIENT_COMPRESS'', 32),
   (''CLIENT_ODBC'', 64),
   (''CLIENT_LOCAL_FILES'', 128),
   (''CLIENT_IGNORE_SPACE'', 256),
   (''CLIENT_PROTOCOL_41'', 512),
   (''CLIENT_INTERACTIVE'', 1024),
   (''CLIENT_SSL'', 2048),
   (''CLIENT_IGNORE_SIGPIPE'', 4096),
   (''CLIENT_TRANSACTIONS'', 8192),
   (''CLIENT_RESERVED'', 16384),
   (''CLIENT_SECURE_CONNECTION'', 32768),
   (''CLIENT_MULTI_STATEMENTS'', 65536),
   (''CLIENT_MULTI_RESULTS'', 131072),
   (''CLIENT_PS_MULTI_RESULTS'', 262144),
   (''CLIENT_SSL_VERIFY_SERVER_CERT'', 1073741824),
   (''CLIENT_REMEMBER_OPTIONS'', 2147483648)]"

definition CLIENT_COMPRESS :: dword where "CLIENT_COMPRESS = 32"
definition CLIENT_SSL :: dword where "CLIENT_SSL = 2048"
definition CLIENT_SSL_VERIFY_SERVER_CERT :: dword where "CLIENT_SSL_VERIFY_SERVER_CERT = 1073741824"

text \<open>The union of the flags above, in the order of the header.\<close>

definition CLIENT_ALL_FLAGS :: dword where
  "CLIENT_ALL_FLAGS =
     1 OR 2 OR 4 OR 8 OR 16 OR 32 OR
     64 OR 128 OR 256 OR 512 OR 1024 OR 2048 OR
     4096 OR 8192 OR 16384 OR 32768 OR 65536 OR 131072 OR
     262144 OR 1073741824 OR 2147483648"

definition CLIENT_BASIC_FLAGS :: dword where
  "CLIENT_BASIC_FLAGS =
     CLIENT_ALL_FLAGS AND NOT CLIENT_SSL AND NOT CLIENT_COMPRESS AND NOT CLIENT_SSL_VERIFY_SERVER_CERT"

definition server_status_flags :: "(string \<times> dword) list" where
  "server_status_flags = [
   (''SERVER_STATUS_IN_TRANS'', 1),
   (''SERVER_STATUS_AUTOCOMMIT'', 2),
   (''SERVER_MORE_RESULTS_EXISTS'', 8),
   (''SERVER_QUERY_NO_GOOD_INDEX_USED'', 16),
   (''SERVER_QUERY_NO_INDEX_USED'', 32),
   (''SERVER_STATUS_CURSOR_EXISTS'', 64),
   (''SERVER_STATUS_LAST_ROW_SENT'', 128),
   (''SERVER_STATUS_DB_DROPPED'', 256),
   (''SERVER_STATUS_NO_BACKSLASH_ESCAPES'', 512),
   (''SERVER_STATUS_METADATA_CHANGED'', 1024),
   (''SERVER_QUERY_WAS_SLOW'', 2048),
   (''SERVER_PS_OUT_PARAMS'', 4096)]"

definition SERVER_STATUS_CLEAR_SET :: dword where
  "SERVER_STATUS_CLEAR_SET = 16 OR 32 OR 8 OR 1024"

datatype enum_field_types =
    MYSQL_TYPE_DECIMAL
  | MYSQL_TYPE_TINY
  | MYSQL_TYPE_SHORT
  | MYSQL_TYPE_LONG
  | MYSQL_TYPE_FLOAT
  | MYSQL_TYPE_DOUBLE
  | MYSQL_TYPE_NULL
  | MYSQL_TYPE_TIMESTAMP
  | MYSQL_TYPE_LONGLONG
  | MYSQL_TYPE_INT24
  | MYSQL_TYPE_DATE
  | MYSQL_TYPE_TIME
  | MYSQL_TYPE_DATETIME
  | MYSQL_TYPE_YEAR
  | MYSQL_TYPE_NEWDATE
  | MYSQL_TYPE_VARCHAR
  | MYSQL_TYPE_BIT
  | MYSQL_TYPE_NEWDECIMAL
  | MYSQL_TYPE_ENUM
  | MYSQL_TYPE_SET
  | MYSQL_TYPE_TINY_BLOB
  | MYSQL_TYPE_MEDIUM_BLOB
  | MYSQL_TYPE_LONG_BLOB
  | MYSQL_TYPE_BLOB
  | MYSQL_TYPE_VAR_STRING
  | MYSQL_TYPE_STRING
  | MYSQL_TYPE_GEOMETRY
  | MAX_NO_FIELD_TYPES

fun field_type_code :: "enum_field_types \<Rightarrow> nat" where
  "field_type_code MYSQL_TYPE_DECIMAL = 0"
| "field_type_code MYSQL_TYPE_TINY = 1"
| "field_type_code MYSQL_TYPE_SHORT = 2"
| "field_type_code MYSQL_TYPE_LONG = 3"
| "field_type_code MYSQL_TYPE_FLOAT = 4"
| "field_type_code MYSQL_TYPE_DOUBLE = 5"
| "field_type_code MYSQL_TYPE_NULL = 6"
| "field_type_code MYSQL_TYPE_TIMESTAMP = 7"
| "field_type_code MYSQL_TYPE_LONGLONG = 8"
| "field_type_code MYSQL_TYPE_INT24 = 9"
| "field_type_code MYSQL_TYPE_DATE = 10"
| "field_type_code MYSQL_TYPE_TIME = 11"
| "field_type_code MYSQL_TYPE_DATETIME = 12"
| "field_type_code MYSQL_TYPE_YEAR = 13"
| "field_type_code MYSQL_TYPE_NEWDATE = 14"
| "field_type_code MYSQL_TYPE_VARCHAR = 15"
| "field_type_code MYSQL_TYPE_BIT = 16"
| "field_type_code MYSQL_TYPE_NEWDECIMAL = 246"
| "field_type_code MYSQL_TYPE_ENUM = 247"
| "field_type_code MYSQL_TYPE_SET = 248"
| "field_type_code MYSQL_TYPE_TINY_BLOB = 249"
| "field_type_code MYSQL_TYPE_MEDIUM_BLOB = 250"
| "field_type_code MYSQL_TYPE_LONG_BLOB = 251"
| "field_type_code MYSQL_TYPE_BLOB = 252"
| "field_type_code MYSQL_TYPE_VAR_STRING = 253"
| "field_type_code MYSQL_TYPE_STRING = 254"
| "field_type_code MYSQL_TYPE_GEOMETRY = 255"
| "field_type_code MAX_NO_FIELD_TYPES = 256"

definition field_type_names :: "(string \<times> enum_field_types) list" where
  "field_type_names = [
   (''FIELD_TYPE_DECIMAL'', MYSQL_TYPE_DECIMAL),
   (''FIELD_TYPE_NEWDECIMAL'', MYSQL_TYPE_NEWDECIMAL),
   (''FIELD_TYPE_TINY'', MYSQL_TYPE_TINY),
   (''FIELD_TYPE_SHORT'', MYSQL_TYPE_SHORT),
   (''FIELD_TYPE_LONG'', MYSQL_TYPE_LONG),
   (''FIELD_TYPE_FLOAT'', MYSQL_TYPE_FLOAT),
   (''FIELD_TYPE_DOUBLE'', MYSQL_TYPE_DOUBLE),
   (''FIELD_TYPE_NULL'', MYSQL_TYPE_NULL),
   (''FIELD_TYPE_TIMESTAMP'', MYSQL_TYPE_TIMESTAMP),
   (''FIELD_TYPE_LONGLONG'', MYSQL_TYPE_LONGLONG),
   (''FIELD_TYPE_INT24'', MYSQL_TYPE_INT24),
   (''FIELD_TYPE_DATE'', MYSQL_TYPE_DATE),
   (''FIELD_TYPE_TIME'', MYSQL_TYPE_TIME),
   (''FIELD_TYPE_DATETIME'', MYSQL_TYPE_DATETIME),
   (''FIELD_TYPE_YEAR'', MYSQL_TYPE_YEAR),
   (''FIELD_TYPE_NEWDATE'', MYSQL_TYPE_NEWDATE),
   (''FIELD_TYPE_ENUM'', MYSQL_TYPE_ENUM),
   (''FIELD_TYPE_SET'', MYSQL_TYPE_SET),
   (''FIELD_TYPE_TINY_BLOB'', MYSQL_TYPE_TINY_BLOB),
   (''FIELD_TYPE_MEDIUM_BLOB'', MYSQL_TYPE_MEDIUM_BLOB),
   (''FIELD_TYPE_LONG_BLOB'', MYSQL_TYPE_LONG_BLOB),
   (''FIELD_TYPE_BLOB'', MYSQL_TYPE_BLOB),
   (''FIELD_TYPE_VAR_STRING'', MYSQL_TYPE_VAR_STRING),
   (''FIELD_TYPE_STRING'', MYSQL_TYPE_STRING),
   (''FIELD_TYPE_CHAR'', MYSQL_TYPE_TINY),
   (''FIELD_TYPE_INTERVAL'', MYSQL_TYPE_ENUM),
   (''FIELD_TYPE_GEOMETRY'', MYSQL_TYPE_GEOMETRY),
   (''FIELD_TYPE_BIT'', MYSQL_TYPE_BIT)]"

definition shutdown_killable :: "(string \<times> byte) list" where
  "shutdown_killable = [
   (''MYSQL_SHUTDOWN_KILLABLE_CONNECT'', 1),
   (''MYSQL_SHUTDOWN_KILLABLE_TRANS'', 2),
   (''MYSQL_SHUTDOWN_KILLABLE_LOCK_TABLE'', 4),
   (''MYSQL_SHUTDOWN_KILLABLE_UPDATE'', 8)]"

datatype mysql_enum_shutdown_level =
    SHUTDOWN_DEFAULT
  | SHUTDOWN_WAIT_CONNECTIONS
  | SHUTDOWN_WAIT_TRANSACTIONS
  | SHUTDOWN_WAIT_UPDATES
  | SHUTDOWN_WAIT_ALL_BUFFERS
  | SHUTDOWN_WAIT_CRITICAL_BUFFERS
  | KILL_QUERY
  | KILL_CONNECTION

fun shutdown_level_code :: "mysql_enum_shutdown_level \<Rightarrow> nat" where
  "shutdown_level_code SHUTDOWN_DEFAULT = 0"
| "shutdown_level_code SHUTDOWN_WAIT_CONNECTIONS = 1"
| "shutdown_level_code SHUTDOWN_WAIT_TRANSACTIONS = 2"
| "shutdown_level_code SHUTDOWN_WAIT_UPDATES = 8"
| "shutdown_level_code SHUTDOWN_WAIT_ALL_BUFFERS = 16"
| "shutdown_level_code SHUTDOWN_WAIT_CRITICAL_BUFFERS = 17"
| "shutdown_level_code KILL_QUERY = 254"
| "shutdown_level_code KILL_CONNECTION = 255"

datatype enum_cursor_type =
    CURSOR_TYPE_NO_CURSOR
  | CURSOR_TYPE_READ_ONLY
  | CURSOR_TYPE_FOR_UPDATE
  | CURSOR_TYPE_SCROLLABLE

datatype enum_mysql_set_option =
    MYSQL_OPTION_MULTI_STATEMENTS_ON
  | MYSQL_OPTION_MULTI_STATEMENTS_OFF

datatype Item_result =
    STRING_RESULT
  | REAL_RESULT
  | INT_RESULT
  | ROW_RESULT
  | DECIMAL_RESULT
  | IMPOSSIBLE_RESULT
  | MAX_NO_ITEM_RESULTS

datatype mysql_option =
    MYSQL_OPT_CONNECT_TIMEOUT
  | MYSQL_OPT_COMPRESS
  | MYSQL_OPT_NAMED_PIPE
  | MYSQL_INIT_COMMAND
  | MYSQL_READ_DEFAULT_FILE
  | MYSQL_READ_DEFAULT_GROUP
  | MYSQL_SET_CHARSET_DIR
  | MYSQL_SET_CHARSET_NAME
  | MYSQL_OPT_LOCAL_INFILE
  | MYSQL_OPT_PROTOCOL
  | MYSQL_SHARED_MEMORY_BASE_NAME
  | MYSQL_OPT_READ_TIMEOUT
  | MYSQL_OPT_WRITE_TIMEOUT
  | MYSQL_OPT_USE_RESULT
  | MYSQL_OPT_USE_REMOTE_CONNECTION
  | MYSQL_OPT_USE_EMBEDDED_CONNECTION
  | MYSQL_OPT_GUESS_CONNECTION
  | MYSQL_SET_CLIENT_IP
  | MYSQL_SECURE_AUTH
  | MYSQL_REPORT_DATA_TRUNCATION
  | MYSQL_OPT_RECONNECT
  | MYSQL_OPT_SSL_VERIFY_SERVER_CERT

datatype mysql_status =
    MYSQL_STATUS_READY
  | MYSQL_STATUS_GET_RESULT
  | MYSQL_STATUS_USE_RESULT

datatype mysql_protocol_type =
    MYSQL_PROTOCOL_DEFAULT
  | MYSQL_PROTOCOL_TCP
  | MYSQL_PROTOCOL_SOCKET
  | MYSQL_PROTOCOL_PIPE
  | MYSQL_PROTOCOL_MEMORY

record mysql_field =
  f_name :: string
  f_org_name :: string
  f_table :: string
  f_org_table :: string
  f_db :: string
  f_catalog :: string
  f_def :: string
  f_length :: dword
  f_max_length :: dword
  f_name_length :: dword
  f_org_name_length :: dword
  f_table_length :: dword
  f_org_table_length :: dword
  f_db_length :: dword
  f_catalog_length :: dword
  f_def_length :: dword
  f_flags :: dword
  f_decimals :: dword
  f_charsetnr :: dword
  f_type :: enum_field_types

definition flag_of :: "string \<Rightarrow> dword" where
  "flag_of n = (case map_of field_flags n of None \<Rightarrow> 0 | Some v \<Rightarrow> v)"

definition IS_PRI_KEY :: "dword \<Rightarrow> dword" where "IS_PRI_KEY n = n AND flag_of ''PRI_KEY_FLAG''"
definition IS_NOT_NULL :: "dword \<Rightarrow> dword" where "IS_NOT_NULL n = n AND flag_of ''NOT_NULL_FLAG''"
definition IS_BLOB :: "dword \<Rightarrow> dword" where "IS_BLOB n = n AND flag_of ''BLOB_FLAG''"

definition IS_NUM :: "enum_field_types \<Rightarrow> bool" where
  "IS_NUM t \<longleftrightarrow> field_type_code t \<le> field_type_code MYSQL_TYPE_INT24
     \<or> t = MYSQL_TYPE_YEAR \<or> t = MYSQL_TYPE_NEWDECIMAL"

definition IS_NUM_FIELD :: "mysql_field \<Rightarrow> dword" where
  "IS_NUM_FIELD f = f_flags f AND flag_of ''NUM_FLAG''"

definition INTERNAL_NUM_FIELD :: "mysql_field \<Rightarrow> bool" where
  "INTERNAL_NUM_FIELD f \<longleftrightarrow>
     field_type_code (f_type f) \<le> field_type_code MYSQL_TYPE_INT24
       \<and> (f_type f \<noteq> MYSQL_TYPE_TIMESTAMP \<or> f_length f = 14 \<or> f_length f = 8)
     \<or> f_type f = MYSQL_TYPE_YEAR"

definition IS_LONGDATA :: "enum_field_types \<Rightarrow> bool" where
  "IS_LONGDATA t \<longleftrightarrow> field_type_code MYSQL_TYPE_TINY_BLOB \<le> field_type_code t
     \<and> field_type_code t \<le> field_type_code MYSQL_TYPE_STRING"

section \<open>Dates\<close>

datatype enum_mysql_timestamp_type =
    MYSQL_TIMESTAMP_NONE
  | MYSQL_TIMESTAMP_ERROR
  | MYSQL_TIMESTAMP_DATE
  | MYSQL_TIMESTAMP_DATETIME
  | MYSQL_TIMESTAMP_TIME

datatype interval_type =
    INTERVAL_YEAR
  | INTERVAL_QUARTER
  | INTERVAL_MONTH
  | INTERVAL_WEEK
  | INTERVAL_DAY
  | INTERVAL_HOUR
  | INTERVAL_MINUTE
  | INTERVAL_SECOND
  | INTERVAL_MICROSECOND
  | INTERVAL_YEAR_MONTH
  | INTERVAL_DAY_HOUR
  | INTERVAL_DAY_MINUTE
  | INTERVAL_DAY_SECOND
  | INTERVAL_HOUR_MINUTE
  | INTERVAL_HOUR_SECOND
  | INTERVAL_MINUTE_SECOND
  | INTERVAL_DAY_MICROSECOND
  | INTERVAL_HOUR_MICROSECOND
  | INTERVAL_MINUTE_MICROSECOND
  | INTERVAL_SECOND_MICROSECOND
  | INTERVAL_LAST

record mysql_time =
  t_year :: nat
  t_month :: nat
  t_day :: nat
  t_hour :: nat
  t_minute :: nat
  t_second :: nat
  t_second_part :: nat
  t_neg :: bool
  t_time_type :: enum_mysql_timestamp_type

definition YY_PART_YEAR :: nat where "YY_PART_YEAR = 70"
definition TIMESTAMP_MAX_YEAR :: nat where "TIMESTAMP_MAX_YEAR = 2038"
definition TIMESTAMP_MIN_YEAR :: nat where "TIMESTAMP_MIN_YEAR = 1900 + YY_PART_YEAR - 1"
definition TIME_MAX_HOUR :: nat where "TIME_MAX_HOUR = 838"
definition TIME_MAX_MINUTE :: nat where "TIME_MAX_MINUTE = 59"
definition TIME_MAX_SECOND :: nat where "TIME_MAX_SECOND = 59"
definition TIME_MAX_VALUE :: nat where "TIME_MAX_VALUE = TIME_MAX_HOUR * 10000 + TIME_MAX_MINUTE * 100 + TIME_MAX_SECOND"
definition TIME_MAX_VALUE_SECONDS :: nat where "TIME_MAX_VALUE_SECONDS = TIME_MAX_HOUR * 3600 + TIME_MAX_MINUTE * 60 + TIME_MAX_SECOND"
definition TIME_FUZZY_DATE :: nat where "TIME_FUZZY_DATE = 1"
definition TIME_DATETIME_ONLY :: nat where "TIME_DATETIME_ONLY = 2"
definition TIME_NO_ZERO_IN_DATE :: nat where "TIME_NO_ZERO_IN_DATE = 65536 * 2 * 2 * 2 * 2 * 2 * 2 * 2"
definition TIME_NO_ZERO_DATE :: nat where "TIME_NO_ZERO_DATE = TIME_NO_ZERO_IN_DATE * 2"
definition TIME_INVALID_DATES :: nat where "TIME_INVALID_DATES = TIME_NO_ZERO_DATE * 2"
definition MYSQL_TIME_WARN_TRUNCATED :: nat where "MYSQL_TIME_WARN_TRUNCATED = 1"
definition MYSQL_TIME_WARN_OUT_OF_RANGE :: nat where "MYSQL_TIME_WARN_OUT_OF_RANGE = 2"
definition MAX_DATE_STRING_REP_LENGTH :: nat where "MAX_DATE_STRING_REP_LENGTH = 30"

definition validate_timestamp_range :: "mysql_time \<Rightarrow> bool" where
  "validate_timestamp_range t =
     (if (t_year t > TIMESTAMP_MAX_YEAR \<or> t_year t < TIMESTAMP_MIN_YEAR)
         \<or> (t_year t = TIMESTAMP_MAX_YEAR \<and> (t_month t > 1 \<or> t_day t > 19))
         \<or> (t_year t = TIMESTAMP_MIN_YEAR \<and> (t_month t < 12 \<or> t_day t < 31))
      then False else True)"

section \<open>Decimals\<close>

datatype decimal_round_mode = TRUNCATE | HALF_EVEN | HALF_UP | CEILING | FLOOR

record decimal =
  d_intg :: int
  d_frac :: int
  d_len :: int
  d_sign :: bool
  d_buf :: "int list"

definition decimal_make_zero :: "decimal \<Rightarrow> decimal result" where
  "decimal_make_zero d =
     res_bind (wr (d_buf d) 0 0) (\<lambda>buf.
     Inr (d\<lparr>d_buf := buf, d_intg := 1, d_frac := 0, d_sign := False\<rparr>))"

definition decimal_string_size :: "decimal \<Rightarrow> int" where
  "decimal_string_size d =
     (if d_intg d \<noteq> 0 then d_intg d else 1) + d_frac d + (if d_frac d > 0 then 1 else 0) + 2"

definition decimal_neg :: "decimal \<Rightarrow> decimal" where
  "decimal_neg d = d\<lparr>d_sign := \<not> d_sign d\<rparr>"

definition e_dec :: "(string \<times> dword) list" where
  "e_dec = [
   (''E_DEC_OK'', 0),
   (''E_DEC_TRUNCATED'', 1),
   (''E_DEC_OVERFLOW'', 2),
   (''E_DEC_DIV_ZERO'', 4),
   (''E_DEC_BAD_NUM'', 8),
   (''E_DEC_OOM'', 16),
   (''E_DEC_ERROR'', 31),
   (''E_DEC_FATAL_ERROR'', 30)]"

section \<open>Properties\<close>

lemma client_flag_bits: "map snd client_flags = map (\<lambda>k. push_bit k 1) ([0..<19] @ [30, 31])"
  by code_simp

lemma client_all_flags: "fold (OR) (map snd client_flags) 0 = CLIENT_ALL_FLAGS"
  by code_simp

lemma client_basic_flags:
  "map fst (filter (\<lambda>(n, v). v AND CLIENT_BASIC_FLAGS = 0) client_flags)
     = [''CLIENT_COMPRESS'', ''CLIENT_SSL'', ''CLIENT_SSL_VERIFY_SERVER_CERT'']"
  by code_simp

lemma num_flag_is_group_flag: "flag_of ''NUM_FLAG'' = flag_of ''GROUP_FLAG''"
  by code_simp

lemma server_status_clear_set:
  "map fst (filter (\<lambda>(n, v). v AND SERVER_STATUS_CLEAR_SET \<noteq> 0) server_status_flags)
     = [''SERVER_MORE_RESULTS_EXISTS'', ''SERVER_QUERY_NO_GOOD_INDEX_USED'', ''SERVER_QUERY_NO_INDEX_USED'',
        ''SERVER_STATUS_METADATA_CHANGED'']"
  by code_simp

lemma user_host_fits:
  "length user \<le> USERNAME_LENGTH \<Longrightarrow> length host \<le> HOSTNAME_LENGTH \<Longrightarrow>
     length (user @ ''@'' @ host @ [CHR 0x00]) \<le> USER_HOST_BUFF_SIZE"
  by (simp add: USER_HOST_BUFF_SIZE_def)

lemma num_not_longdata: "IS_NUM t \<Longrightarrow> IS_LONGDATA t \<Longrightarrow> False"
  by (cases t) (simp_all add: IS_NUM_def IS_LONGDATA_def)

lemma field_type_code_inj: "inj field_type_code"
proof (rule injI)
  fix s t
  show "field_type_code s = field_type_code t \<Longrightarrow> s = t"
    by (cases s; cases t; simp only: field_type_code.simps; simp)
qed

lemma shutdown_levels_grow:
  "map shutdown_level_code [SHUTDOWN_DEFAULT, SHUTDOWN_WAIT_CONNECTIONS, SHUTDOWN_WAIT_TRANSACTIONS,
     SHUTDOWN_WAIT_UPDATES, SHUTDOWN_WAIT_ALL_BUFFERS, SHUTDOWN_WAIT_CRITICAL_BUFFERS, KILL_QUERY,
     KILL_CONNECTION] = [0, 1, 2, 8, 16, 17, 254, 255]"
  by simp

definition date_le :: "nat \<times> nat \<times> nat \<Rightarrow> nat \<times> nat \<times> nat \<Rightarrow> bool" where
  "date_le a b = (case (a, b) of ((y, m, d), (y', m', d')) \<Rightarrow>
     y < y' \<or> y = y' \<and> (m < m' \<or> m = m' \<and> d \<le> d'))"

text \<open>\<open>validate_timestamp_range\<close> answers \<open>TRUE\<close> for exactly the dates from 31 December 1969
  to 19 January 2038, and \<open>FALSE\<close> for the others; the comment above it promises the opposite
  values.\<close>

theorem validate_timestamp_range_iff:
  assumes "1 \<le> t_month t" "t_month t \<le> 12" "t_day t \<le> 31"
  shows "validate_timestamp_range t \<longleftrightarrow>
    date_le (1969, 12, 31) (t_year t, t_month t, t_day t)
    \<and> date_le (t_year t, t_month t, t_day t) (2038, 1, 19)"
  using assms
  by (auto simp: validate_timestamp_range_def date_le_def TIMESTAMP_MAX_YEAR_def TIMESTAMP_MIN_YEAR_def
      YY_PART_YEAR_def)

definition sample_time :: mysql_time where
  "sample_time = \<lparr>t_year = 2010, t_month = 5, t_day = 17, t_hour = 12, t_minute = 0, t_second = 0,
     t_second_part = 0, t_neg = False, t_time_type = MYSQL_TIMESTAMP_DATETIME\<rparr>"

theorem validate_timestamp_range_iff_witness: "validate_timestamp_range sample_time"
  using validate_timestamp_range_iff [of sample_time] by (simp add: sample_time_def date_le_def)

lemma decimal_neg_neg: "decimal_neg (decimal_neg d) = d"
  by (simp add: decimal_neg_def)

lemma decimal_zero_size: "decimal_make_zero d = Inr d' \<Longrightarrow> decimal_string_size d' = 3"
  by (auto simp: decimal_make_zero_def decimal_string_size_def res_simps)

lemma decimal_make_zero_empty: "d_buf d = [] \<Longrightarrow> decimal_make_zero d = Inl Buffer_Overflow"
  by (simp add: decimal_make_zero_def wr_def)

end
