(* ===== verification/Mysql_Atomic.thy ===== *)
theory Mysql_Atomic
  imports Prelude
begin

text \<open>
  The atomic operations of \<open>libmysql/include/my_atomic.h\<close> and its back ends \<open>atomic/generic-msvc.h\<close>,
  \<open>atomic/gcc_builtins.h\<close>, \<open>atomic/x86-gcc.h\<close> and \<open>atomic/rwlock.h\<close>. A back end defines bodies for some of
  the operations (the \<open>make_atomic_*_body\<close> macros), \<open>my_atomic.h\<close> fills in the others with
  compare-and-swap loops. The size suffix of the macros (32 or ptr) is the width of the word.
  The loops are modelled twice: alone, as partial functions, and in an arbitrary
  interleaving of threads, as a step function on the shared cell and the program counters.
\<close>

section \<open>Compiler intrinsics and instructions\<close>

text \<open>
  Each takes the memory cell first and returns its result and the new contents of the cell:
  the MSVC intrinsics, the builtins of GCC and the x86 instructions the headers use.
\<close>

definition InterlockedExchangeAdd :: "'a::len word \<Rightarrow> 'a word \<Rightarrow> 'a word \<times> 'a word" where
  "InterlockedExchangeAdd mem v = (mem, mem + v)"

definition InterlockedCompareExchange :: "'a::len word \<Rightarrow> 'a word \<Rightarrow> 'a word \<Rightarrow> 'a word \<times> 'a word" where
  "InterlockedCompareExchange mem exch cmp = (mem, if mem = cmp then exch else mem)"

definition InterlockedExchange :: "'a::len word \<Rightarrow> 'a word \<Rightarrow> 'a word \<times> 'a word" where
  "InterlockedExchange mem v = (mem, v)"

definition sync_fetch_and_add :: "'a::len word \<Rightarrow> 'a word \<Rightarrow> 'a word \<times> 'a word" where
  "sync_fetch_and_add mem v = (mem, mem + v)"

definition sync_lock_test_and_set :: "'a::len word \<Rightarrow> 'a word \<Rightarrow> 'a word \<times> 'a word" where
  "sync_lock_test_and_set mem v = (mem, v)"

definition sync_val_compare_and_swap :: "'a::len word \<Rightarrow> 'a word \<Rightarrow> 'a word \<Rightarrow> 'a word \<times> 'a word" where
  "sync_val_compare_and_swap mem old new = (mem, if mem = old then new else mem)"

definition sync_fetch_and_or :: "'a::len word \<Rightarrow> 'a word \<Rightarrow> 'a word \<times> 'a word" where
  "sync_fetch_and_or mem v = (mem, mem OR v)"

text \<open>\<open>xadd reg, mem\<close> and \<open>xchg reg, mem\<close>: the new register and the new cell.\<close>

definition insn_xadd :: "'a::len word \<Rightarrow> 'a word \<Rightarrow> 'a word \<times> 'a word" where
  "insn_xadd mem reg = (mem, mem + reg)"

definition insn_xchg :: "'a::len word \<Rightarrow> 'a word \<Rightarrow> 'a word \<times> 'a word" where
  "insn_xchg mem reg = (mem, reg)"

text \<open>\<open>cmpxchg reg, mem\<close>: the zero flag, the new accumulator and the new cell.\<close>

definition insn_cmpxchg :: "'a::len word \<Rightarrow> 'a word \<Rightarrow> 'a word \<Rightarrow> bool \<times> 'a word \<times> 'a word" where
  "insn_cmpxchg mem acc reg = (if acc = mem then (True, acc, reg) else (False, mem, mem))"

lemmas intrinsic_defs =
  InterlockedExchangeAdd_def InterlockedCompareExchange_def InterlockedExchange_def
  sync_fetch_and_add_def sync_lock_test_and_set_def sync_val_compare_and_swap_def
  sync_fetch_and_or_def insn_xadd_def insn_xchg_def insn_cmpxchg_def

section \<open>Back ends\<close>

text \<open>
  The bodies a header defines; \<open>None\<close> is a body it leaves to \<open>my_atomic.h\<close>. A \<open>cas\<close> body returns
  the value of \<open>ret\<close>, the new cell and the new \<open>*cmp\<close>; the others the returned value and the new
  cell, or the new cell alone.
\<close>

record 'v atomic_bodies =
  ab_cas :: "'v \<Rightarrow> 'v \<Rightarrow> 'v \<Rightarrow> bool \<times> 'v \<times> 'v"
  ab_add :: "('v \<Rightarrow> 'v \<Rightarrow> 'v \<times> 'v) option"
  ab_fas :: "('v \<Rightarrow> 'v \<Rightarrow> 'v \<times> 'v) option"
  ab_load :: "('v \<Rightarrow> 'v \<times> 'v) option"
  ab_store :: "('v \<Rightarrow> 'v \<Rightarrow> 'v) option"

definition msvc_add_body :: "'a::len word \<Rightarrow> 'a word \<Rightarrow> 'a word \<times> 'a word" where
  "msvc_add_body a v = InterlockedExchangeAdd a v"

definition msvc_cas_body :: "'a::len word \<Rightarrow> 'a word \<Rightarrow> 'a word \<Rightarrow> bool \<times> 'a word \<times> 'a word" where
  "msvc_cas_body a cmp new =
     (let initial_cmp = cmp;
          (initial_a, a1) = InterlockedCompareExchange a new initial_cmp;
          ret = (initial_a = initial_cmp)
      in (ret, a1, if \<not> ret then initial_a else cmp))"

text \<open>The header defines this one as \<open>make_atomic_swap_body\<close>, which nothing uses.\<close>

definition msvc_swap_body :: "'a::len word \<Rightarrow> 'a word \<Rightarrow> 'a word \<times> 'a word" where
  "msvc_swap_body a v = InterlockedExchange a v"

definition msvc_load_body :: "'a::len word \<Rightarrow> 'a word \<times> 'a word" where
  "msvc_load_body a = (let ret = 0 in InterlockedCompareExchange a ret ret)"

definition msvc_bodies :: "'a::len word atomic_bodies" where
  "msvc_bodies = \<lparr>ab_cas = msvc_cas_body, ab_add = Some msvc_add_body, ab_fas = None,
     ab_load = Some msvc_load_body, ab_store = None\<rparr>"

definition gcc_add_body :: "'a::len word \<Rightarrow> 'a word \<Rightarrow> 'a word \<times> 'a word" where
  "gcc_add_body a v = sync_fetch_and_add a v"

definition gcc_swap_body :: "'a::len word \<Rightarrow> 'a word \<Rightarrow> 'a word \<times> 'a word" where
  "gcc_swap_body a v = sync_lock_test_and_set a v"

definition gcc_cas_body :: "'a::len word \<Rightarrow> 'a word \<Rightarrow> 'a word \<Rightarrow> bool \<times> 'a word \<times> 'a word" where
  "gcc_cas_body a cmp new =
     (let (sav, a1) = sync_val_compare_and_swap a cmp new;
          ret = (sav = cmp)
      in (ret, a1, if \<not> ret then sav else cmp))"

definition gcc_load_body :: "bool \<Rightarrow> 'a::len word \<Rightarrow> 'a word \<times> 'a word" where
  "gcc_load_body mode_dummy a = (if mode_dummy then (a, a) else sync_fetch_and_or a 0)"

definition gcc_store_body :: "bool \<Rightarrow> 'a::len word \<Rightarrow> 'a word \<Rightarrow> 'a word" where
  "gcc_store_body mode_dummy a v = (if mode_dummy then v else snd (sync_lock_test_and_set a v))"

definition gcc_bodies :: "bool \<Rightarrow> 'a::len word atomic_bodies" where
  "gcc_bodies mode_dummy = \<lparr>ab_cas = gcc_cas_body, ab_add = Some gcc_add_body, ab_fas = None,
     ab_load = Some (gcc_load_body mode_dummy), ab_store = Some (gcc_store_body mode_dummy)\<rparr>"

definition x86_add_body :: "'a::len word \<Rightarrow> 'a word \<Rightarrow> 'a word \<times> 'a word" where
  "x86_add_body a v = insn_xadd a v"

definition x86_fas_body :: "'a::len word \<Rightarrow> 'a word \<Rightarrow> 'a word \<times> 'a word" where
  "x86_fas_body a v = insn_xchg a v"

definition x86_cas_body :: "'a::len word \<Rightarrow> 'a word \<Rightarrow> 'a word \<Rightarrow> bool \<times> 'a word \<times> 'a word" where
  "x86_cas_body a cmp new = (let (zf, acc, a1) = insn_cmpxchg a cmp new in (zf, a1, acc))"

definition x86_load_body :: "bool \<Rightarrow> 'a::len word \<Rightarrow> 'a word \<times> 'a word" where
  "x86_load_body mode_dummy a =
     (if mode_dummy then (a, a)
      else let ret = 0; (_, acc, a1) = insn_cmpxchg a ret ret in (acc, a1))"

definition x86_store_body :: "bool \<Rightarrow> 'a::len word \<Rightarrow> 'a word \<Rightarrow> 'a word" where
  "x86_store_body mode_dummy a v = (if mode_dummy then v else snd (insn_xchg a v))"

definition x86_bodies :: "bool \<Rightarrow> bool \<Rightarrow> 'a::len word atomic_bodies" where
  "x86_bodies no_xadd mode_dummy = \<lparr>ab_cas = x86_cas_body,
     ab_add = (if no_xadd then None else Some x86_add_body), ab_fas = Some x86_fas_body,
     ab_load = Some (x86_load_body mode_dummy), ab_store = Some (x86_store_body mode_dummy)\<rparr>"

text \<open>Plain assignments, run under the mutex that \<open>my_atomic_rwlock_wrlock\<close> takes.\<close>

definition rwlock_add_body :: "'a::len word \<Rightarrow> 'a word \<Rightarrow> 'a word \<times> 'a word" where
  "rwlock_add_body a v = (let sav = a; a1 = a + v in (sav, a1))"

definition rwlock_fas_body :: "'a::len word \<Rightarrow> 'a word \<Rightarrow> 'a word \<times> 'a word" where
  "rwlock_fas_body a v = (let sav = a; a1 = v in (sav, a1))"

definition rwlock_cas_body :: "'a::len word \<Rightarrow> 'a word \<Rightarrow> 'a word \<Rightarrow> bool \<times> 'a word \<times> 'a word" where
  "rwlock_cas_body a cmp new = (let ret = (a = cmp) in if ret then (ret, new, cmp) else (ret, a, a))"

definition rwlock_load_body :: "'a::len word \<Rightarrow> 'a word \<times> 'a word" where
  "rwlock_load_body a = (a, a)"

definition rwlock_store_body :: "'a::len word \<Rightarrow> 'a word \<Rightarrow> 'a word" where
  "rwlock_store_body a v = v"

definition rwlock_bodies :: "'a::len word atomic_bodies" where
  "rwlock_bodies = \<lparr>ab_cas = rwlock_cas_body, ab_add = Some rwlock_add_body,
     ab_fas = Some rwlock_fas_body, ab_load = Some rwlock_load_body,
     ab_store = Some rwlock_store_body\<rparr>"

lemmas body_defs =
  msvc_bodies_def msvc_add_body_def msvc_cas_body_def msvc_load_body_def
  gcc_bodies_def gcc_add_body_def gcc_cas_body_def gcc_load_body_def gcc_store_body_def
  x86_bodies_def x86_add_body_def x86_fas_body_def x86_cas_body_def x86_load_body_def
  x86_store_body_def rwlock_bodies_def rwlock_add_body_def rwlock_fas_body_def
  rwlock_cas_body_def rwlock_load_body_def rwlock_store_body_def

section \<open>The operations, run alone\<close>

text \<open>
  \<open>tmp=*a; while (!cas(a,&tmp,tmp+v)); v=tmp;\<close> and the same with \<open>v\<close> for \<open>tmp+v\<close>. The value is the
  final \<open>tmp\<close> and the new cell.
\<close>

partial_function (option) cas_add_loop ::
    "'a::len word atomic_bodies \<Rightarrow> 'a word \<Rightarrow> 'a word \<Rightarrow> 'a word \<Rightarrow> ('a word \<times> 'a word) option" where
  "cas_add_loop B a tmp v =
     (case ab_cas B a tmp (tmp + v) of
        (ret, a1, tmp1) \<Rightarrow> if \<not> ret then cas_add_loop B a1 tmp1 v else Some (tmp1, a1))"

partial_function (option) cas_fas_loop ::
    "'a::len word atomic_bodies \<Rightarrow> 'a word \<Rightarrow> 'a word \<Rightarrow> 'a word \<Rightarrow> ('a word \<times> 'a word) option" where
  "cas_fas_loop B a tmp v =
     (case ab_cas B a tmp v of
        (ret, a1, tmp1) \<Rightarrow> if \<not> ret then cas_fas_loop B a1 tmp1 v else Some (tmp1, a1))"

definition my_atomic_cas ::
    "'a::len word atomic_bodies \<Rightarrow> 'a word \<Rightarrow> 'a word \<Rightarrow> 'a word \<Rightarrow> bool \<times> 'a word \<times> 'a word" where
  "my_atomic_cas B a cmp new = ab_cas B a cmp new"

definition my_atomic_add ::
    "'a::len word atomic_bodies \<Rightarrow> 'a word \<Rightarrow> 'a word \<Rightarrow> ('a word \<times> 'a word) option" where
  "my_atomic_add B a v = (case ab_add B of Some body \<Rightarrow> Some (body a v) | None \<Rightarrow> cas_add_loop B a a v)"

definition my_atomic_fas ::
    "'a::len word atomic_bodies \<Rightarrow> 'a word \<Rightarrow> 'a word \<Rightarrow> ('a word \<times> 'a word) option" where
  "my_atomic_fas B a v = (case ab_fas B of Some body \<Rightarrow> Some (body a v) | None \<Rightarrow> cas_fas_loop B a a v)"

definition my_atomic_load :: "'a::len word atomic_bodies \<Rightarrow> 'a word \<Rightarrow> 'a word \<times> 'a word" where
  "my_atomic_load B a =
     (case ab_load B of
        Some body \<Rightarrow> body a
      | None \<Rightarrow> let ret = 0; (_, a1, ret1) = my_atomic_cas B a ret ret in (ret1, a1))"

definition my_atomic_store :: "'a::len word atomic_bodies \<Rightarrow> 'a word \<Rightarrow> 'a word \<Rightarrow> 'a word option" where
  "my_atomic_store B a v =
     (case ab_store B of
        Some body \<Rightarrow> Some (body a v)
      | None \<Rightarrow> map_option snd (my_atomic_fas B a v))"

section \<open>The operations, interleaved\<close>

text \<open>
  A thread performs one operation on the shared cell. A body supplied by the back end and
  one compare-and-swap are single steps (they are one locked instruction or intrinsic, and
  in \<open>rwlock.h\<close> they run under the mutex the comment of \<open>my_atomic.h\<close> asks the caller to hold); a loop reads \<open>*a\<close> into \<open>tmp\<close> in its first step and does one
  compare-and-swap in every further one.
\<close>

datatype 'v atomic_op = Op_Cas 'v 'v | Op_Add 'v | Op_Fas 'v | Op_Load | Op_Store 'v

datatype 'v atomic_ret = Ret_Cas bool 'v | Ret_Val 'v | Ret_Void

datatype 'v atomic_pc = Start | Loop 'v | Done "'v atomic_ret"

record 'v atomic_state =
  at_cell :: 'v
  at_pc :: "nat \<Rightarrow> 'v atomic_pc"

text \<open>The value a loop tries to store, and what its function returns with the final \<open>tmp\<close>.\<close>

fun loop_set :: "'a::len word atomic_op \<Rightarrow> 'a word \<Rightarrow> 'a word option" where
  "loop_set (Op_Add v) tmp = Some (tmp + v)"
| "loop_set (Op_Fas v) tmp = Some v"
| "loop_set (Op_Store v) tmp = Some v"
| "loop_set _ tmp = None"

fun loop_ret :: "'v atomic_op \<Rightarrow> 'v \<Rightarrow> 'v atomic_ret" where
  "loop_ret (Op_Store v) tmp = Ret_Void"
| "loop_ret _ tmp = Ret_Val tmp"

fun atomic_first ::
    "'a::len word atomic_bodies \<Rightarrow> 'a word atomic_op \<Rightarrow> 'a word \<Rightarrow> 'a word atomic_pc \<times> 'a word" where
  "atomic_first B (Op_Cas cmp new) a = (case my_atomic_cas B a cmp new of (r, a1, c1) \<Rightarrow> (Done (Ret_Cas r c1), a1))"
| "atomic_first B (Op_Add v) a =
     (case ab_add B of Some body \<Rightarrow> (case body a v of (r, a1) \<Rightarrow> (Done (Ret_Val r), a1)) | None \<Rightarrow> (Loop a, a))"
| "atomic_first B (Op_Fas v) a =
     (case ab_fas B of Some body \<Rightarrow> (case body a v of (r, a1) \<Rightarrow> (Done (Ret_Val r), a1)) | None \<Rightarrow> (Loop a, a))"
| "atomic_first B Op_Load a = (case my_atomic_load B a of (r, a1) \<Rightarrow> (Done (Ret_Val r), a1))"
| "atomic_first B (Op_Store v) a =
     (case ab_store B of
        Some body \<Rightarrow> (Done Ret_Void, body a v)
      | None \<Rightarrow> (case ab_fas B of Some body \<Rightarrow> (Done Ret_Void, snd (body a v)) | None \<Rightarrow> (Loop a, a)))"

fun atomic_turn ::
    "'a::len word atomic_bodies \<Rightarrow> 'a word atomic_op \<Rightarrow> 'a word atomic_pc \<Rightarrow> 'a word \<Rightarrow> 'a word atomic_pc \<times> 'a word" where
  "atomic_turn B opn Start a = atomic_first B opn a"
| "atomic_turn B opn (Loop tmp) a =
     (case loop_set opn tmp of
        None \<Rightarrow> (Loop tmp, a)
      | Some new \<Rightarrow>
          (case my_atomic_cas B a tmp new of
             (ret, a1, tmp1) \<Rightarrow> (if \<not> ret then Loop tmp1 else Done (loop_ret opn tmp1), a1)))"
| "atomic_turn B opn (Done r) a = (Done r, a)"

definition atomic_step ::
    "'a::len word atomic_bodies \<Rightarrow> (nat \<Rightarrow> 'a word atomic_op) \<Rightarrow> nat \<Rightarrow> 'a word atomic_state \<Rightarrow> 'a word atomic_state" where
  "atomic_step B ops t s =
     (case atomic_turn B (ops t) (at_pc s t) (at_cell s) of
        (p, a) \<Rightarrow> \<lparr>at_cell = a, at_pc = (at_pc s)(t := p)\<rparr>)"

definition atomic_start :: "'a::len word \<Rightarrow> 'a word atomic_state" where
  "atomic_start a = \<lparr>at_cell = a, at_pc = (\<lambda>_. Start)\<rparr>"

text \<open>A schedule is the sequence of the threads that take the steps.\<close>

primrec atomic_run ::
    "'a::len word atomic_bodies \<Rightarrow> (nat \<Rightarrow> 'a word atomic_op) \<Rightarrow> nat list \<Rightarrow> 'a word atomic_state \<Rightarrow> 'a word atomic_state" where
  "atomic_run B ops [] s = s"
| "atomic_run B ops (t # ts) s = atomic_run B ops ts (atomic_step B ops t s)"

section \<open>Specification\<close>

text \<open>What the comment at the top of \<open>my_atomic.h\<close> promises of each operation.\<close>

fun atomic_spec :: "'a::len word atomic_op \<Rightarrow> 'a word \<Rightarrow> 'a word atomic_ret \<times> 'a word" where
  "atomic_spec (Op_Cas old new) a = (if a = old then (Ret_Cas True old, new) else (Ret_Cas False a, a))"
| "atomic_spec (Op_Add v) a = (Ret_Val a, a + v)"
| "atomic_spec (Op_Fas v) a = (Ret_Val a, v)"
| "atomic_spec Op_Load a = (Ret_Val a, a)"
| "atomic_spec (Op_Store v) a = (Ret_Void, v)"

definition seq_after :: "(nat \<Rightarrow> 'a::len word atomic_op) \<Rightarrow> nat list \<Rightarrow> 'a word \<Rightarrow> 'a word" where
  "seq_after ops ts a = fold (\<lambda>t a. snd (atomic_spec (ops t) a)) ts a"

definition is_done :: "'v atomic_pc \<Rightarrow> bool" where
  "is_done p = (case p of Done _ \<Rightarrow> True | _ \<Rightarrow> False)"

text \<open>The order in which the threads finish in a schedule.\<close>

primrec finish_order ::
    "'a::len word atomic_bodies \<Rightarrow> (nat \<Rightarrow> 'a word atomic_op) \<Rightarrow> nat list \<Rightarrow> 'a word atomic_state \<Rightarrow> nat list" where
  "finish_order B ops [] s = []"
| "finish_order B ops (t # ts) s =
     (let s1 = atomic_step B ops t s
      in (if \<not> is_done (at_pc s t) \<and> is_done (at_pc s1 t) then [t] else []) @ finish_order B ops ts s1)"

lemma atomic_run_append: "atomic_run B ops (xs @ ys) s = atomic_run B ops ys (atomic_run B ops xs s)"
  by (induction xs arbitrary: s) simp_all

lemma finish_order_append:
  "finish_order B ops (xs @ ys) s = finish_order B ops xs s @ finish_order B ops ys (atomic_run B ops xs s)"
  by (induction xs arbitrary: s) (simp_all add: Let_def)

lemma seq_after_snoc: "seq_after ops (ts @ [t]) a = snd (atomic_spec (ops t) (seq_after ops ts a))"
  by (simp add: seq_after_def)

lemma is_done_simps [simp]: "\<not> is_done Start" "\<not> is_done (Loop x)" "is_done (Done r)"
  by (simp_all add: is_done_def)

lemma is_done_iff: "is_done p \<longleftrightarrow> (\<exists>r. p = Done r)"
  by (cases p) simp_all

section \<open>The contract of a back end\<close>

locale atomic_backend =
  fixes B :: "'a::len word atomic_bodies"
  assumes cas_law: "ab_cas B a cmp new = (if a = cmp then (True, new, cmp) else (False, a, a))"
    and add_law: "ab_add B = Some f \<Longrightarrow> f a v = (a, a + v)"
    and fas_law: "ab_fas B = Some f \<Longrightarrow> f a v = (a, v)"
    and load_law: "ab_load B = Some g \<Longrightarrow> g a = (a, a)"
    and store_law: "ab_store B = Some h \<Longrightarrow> h a v = v"
begin

lemma add_loop_returns: "cas_add_loop B a tmp v = Some (a, a + v)"
proof -
  have hit: "cas_add_loop B a a v = Some (a, a + v)"
    by (subst cas_add_loop.simps) (simp add: cas_law)
  show ?thesis
    by (subst cas_add_loop.simps) (simp add: cas_law hit)
qed

lemma fas_loop_returns: "cas_fas_loop B a tmp v = Some (a, v)"
proof -
  have hit: "cas_fas_loop B a a v = Some (a, v)"
    by (subst cas_fas_loop.simps) (simp add: cas_law)
  show ?thesis
    by (subst cas_fas_loop.simps) (simp add: cas_law hit)
qed

lemma my_atomic_ops:
  "my_atomic_cas B a cmp new = (if a = cmp then (True, new, cmp) else (False, a, a))"
  "my_atomic_add B a v = Some (a, a + v)"
  "my_atomic_fas B a v = Some (a, v)"
  "my_atomic_load B a = (a, a)"
  "my_atomic_store B a v = Some v"
proof -
  show cas: "my_atomic_cas B a cmp new = (if a = cmp then (True, new, cmp) else (False, a, a))" for cmp new
    by (simp add: my_atomic_cas_def cas_law)
  show "my_atomic_add B a v = Some (a, a + v)"
    by (cases "ab_add B") (simp_all add: my_atomic_add_def add_loop_returns add_law)
  show fas: "my_atomic_fas B a v = Some (a, v)"
    by (cases "ab_fas B") (simp_all add: my_atomic_fas_def fas_loop_returns fas_law)
  show "my_atomic_load B a = (a, a)"
    by (cases "ab_load B") (simp_all add: my_atomic_load_def load_law cas)
  show "my_atomic_store B a v = Some v"
    by (cases "ab_store B") (simp_all add: my_atomic_store_def store_law fas)
qed

text \<open>A first step completes the operation or enters a loop; a loop step completes or retries.\<close>

lemma atomic_first_cases:
  "atomic_first B opn a = (case atomic_spec opn a of (r, a1) \<Rightarrow> (Done r, a1)) \<or>
   atomic_first B opn a = (Loop a, a) \<and> loop_set opn a \<noteq> None"
proof (cases opn)
  case (Op_Add v)
  then show ?thesis by (cases "ab_add B") (simp_all add: add_law)
next
  case (Op_Fas v)
  then show ?thesis by (cases "ab_fas B") (simp_all add: fas_law)
next
  case (Op_Store v)
  then show ?thesis
    by (cases "ab_store B"; cases "ab_fas B") (simp_all add: store_law fas_law)
qed (simp_all add: my_atomic_ops)

lemma atomic_loop_cases:
  assumes "loop_set opn tmp \<noteq> None"
  shows "atomic_turn B opn (Loop tmp) a =
    (if a = tmp then (case atomic_spec opn a of (r, a1) \<Rightarrow> (Done r, a1)) else (Loop a, a))"
  using assms by (cases opn) (simp_all add: my_atomic_ops)

end

text \<open>
  The invariant of an interleaving: the finished threads returned what the specification
  gives in the order in which they finished, the cell is where that order leads, and a thread
  in its loop holds a value the cell had after a prefix of that order which is at least as
  long as the number of its attempts.
\<close>

definition atomic_inv ::
    "(nat \<Rightarrow> 'a::len word atomic_op) \<Rightarrow> 'a word \<Rightarrow> nat list \<Rightarrow> nat list \<Rightarrow> 'a word atomic_state \<Rightarrow> bool" where
  "atomic_inv ops a sched order s \<longleftrightarrow>
     distinct order \<and> set order \<subseteq> set sched \<and> at_cell s = seq_after ops order a \<and>
     (\<forall>t. t \<in> set order \<longleftrightarrow> is_done (at_pc s t)) \<and>
     (\<forall>i < length order. at_pc s (order ! i) =
        Done (fst (atomic_spec (ops (order ! i)) (seq_after ops (take i order) a)))) \<and>
     (\<forall>t tmp. at_pc s t = Loop tmp \<longrightarrow> loop_set (ops t) tmp \<noteq> None \<and>
        (\<exists>d \<le> length order. tmp = seq_after ops (take d order) a \<and> count_list sched t \<le> d + 1)) \<and>
     (\<forall>t. at_pc s t = Start \<longrightarrow> count_list sched t = 0)"

lemma atomic_inv_start: "atomic_inv ops a [] [] (atomic_start a)"
  by (simp add: atomic_inv_def atomic_start_def seq_after_def)

lemma atomic_inv_loop:
  assumes "atomic_inv ops a sched order s" and "at_pc s t = Loop tmp"
  obtains d where "loop_set (ops t) tmp \<noteq> None" "d \<le> length order"
    "tmp = seq_after ops (take d order) a" "count_list sched t \<le> d + 1"
  using assms unfolding atomic_inv_def by blast

lemma loop_set_any: "loop_set opn x \<noteq> None \<Longrightarrow> loop_set opn y \<noteq> None"
  by (cases opn) simp_all

text \<open>The three ways a step changes the state keep the invariant.\<close>

lemma atomic_inv_idle:
  assumes "atomic_inv ops a sched order s" and "is_done (at_pc s t)"
  shows "atomic_inv ops a (sched @ [t]) order s"
proof -
  have "count_list (sched @ [t]) u = count_list sched u" if "\<not> is_done (at_pc s u)" for u
    using assms(2) that by auto
  then show ?thesis
    using assms by (auto simp: atomic_inv_def)
qed

lemma atomic_inv_finish:
  assumes inv: "atomic_inv ops a sched order s" and nd: "\<not> is_done (at_pc s t)"
    and sp: "atomic_spec (ops t) (at_cell s) = (r, a1)"
  shows "atomic_inv ops a (sched @ [t]) (order @ [t]) \<lparr>at_cell = a1, at_pc = (at_pc s)(t := Done r)\<rparr>"
proof -
  let ?s = "\<lparr>at_cell = a1, at_pc = (at_pc s)(t := Done r)\<rparr>"
  have nin: "t \<notin> set order" using inv nd by (simp add: atomic_inv_def)
  have ret: "at_pc ?s ((order @ [t]) ! i) =
      Done (fst (atomic_spec (ops ((order @ [t]) ! i)) (seq_after ops (take i (order @ [t])) a)))"
    if "i < length (order @ [t])" for i
  proof (cases "i < length order")
    case True
    then have "order ! i \<noteq> t" using nin by auto
    then show ?thesis using inv True by (simp add: atomic_inv_def nth_append)
  next
    case False
    then have "i = length order" using that by simp
    then show ?thesis using inv sp by (simp add: atomic_inv_def)
  qed
  have loops: "loop_set (ops u) tmp \<noteq> None \<and>
      (\<exists>d \<le> length (order @ [t]). tmp = seq_after ops (take d (order @ [t])) a \<and> count_list (sched @ [t]) u \<le> d + 1)"
    if "at_pc ?s u = Loop tmp" for u tmp
  proof -
    have u: "u \<noteq> t" "at_pc s u = Loop tmp" using that by (auto split: if_splits)
    from atomic_inv_loop [OF inv u(2)] obtain d where l: "loop_set (ops u) tmp \<noteq> None"
        and d: "d \<le> length order" "tmp = seq_after ops (take d order) a" "count_list sched u \<le> d + 1" .
    then have "d \<le> length (order @ [t]) \<and> tmp = seq_after ops (take d (order @ [t])) a \<and>
        count_list (sched @ [t]) u \<le> d + 1"
      using u by simp
    with l show ?thesis by blast
  qed
  have cell: "at_cell ?s = seq_after ops (order @ [t]) a"
    using inv sp by (simp add: atomic_inv_def seq_after_snoc)
  show ?thesis
    unfolding atomic_inv_def
    using inv nin ret loops cell by (auto simp: atomic_inv_def)
qed

lemma atomic_inv_retry:
  assumes inv: "atomic_inv ops a sched order s"
    and st: "at_pc s t = Start \<or> (\<exists>tmp. at_pc s t = Loop tmp \<and> tmp \<noteq> at_cell s)"
    and l: "loop_set (ops t) (at_cell s) \<noteq> None"
  shows "atomic_inv ops a (sched @ [t]) order \<lparr>at_cell = at_cell s, at_pc = (at_pc s)(t := Loop (at_cell s))\<rparr>"
proof -
  let ?s = "\<lparr>at_cell = at_cell s, at_pc = (at_pc s)(t := Loop (at_cell s))\<rparr>"
  have nin: "t \<notin> set order" using inv st by (auto simp: atomic_inv_def)
  have cell: "at_cell s = seq_after ops order a" using inv by (simp add: atomic_inv_def)
  have attempts: "count_list sched t \<le> length order"
  proof (cases "at_pc s t = Start")
    case True
    then show ?thesis using inv by (simp add: atomic_inv_def)
  next
    case False
    then obtain tmp where tmp: "at_pc s t = Loop tmp" "tmp \<noteq> at_cell s" using st by blast
    from atomic_inv_loop [OF inv tmp(1)] obtain d where
        d: "d \<le> length order" "tmp = seq_after ops (take d order) a" "count_list sched t \<le> d + 1" .
    then have "d \<noteq> length order" using tmp(2) cell by auto
    then show ?thesis using d by simp
  qed
  have loops: "loop_set (ops u) tmp \<noteq> None \<and>
      (\<exists>d \<le> length order. tmp = seq_after ops (take d order) a \<and> count_list (sched @ [t]) u \<le> d + 1)"
    if "at_pc ?s u = Loop tmp" for u tmp
  proof (cases "u = t")
    case True
    then show ?thesis using that l attempts cell by (intro conjI exI [of _ "length order"]) auto
  next
    case False
    then show ?thesis using that inv by (simp add: atomic_inv_def)
  qed
  have ret: "at_pc ?s (order ! i) = at_pc s (order ! i)" if "i < length order" for i
    using nin that by auto
  show ?thesis
    unfolding atomic_inv_def
    using inv nin loops ret by (auto simp: atomic_inv_def)
qed

context atomic_backend
begin

lemma atomic_step_keeps_inv:
  assumes inv: "atomic_inv ops a sched order s"
  shows "atomic_inv ops a (sched @ [t]) (order @ finish_order B ops [t] s) (atomic_step B ops t s)"
proof (cases "at_pc s t")
  case (Done r)
  then have "atomic_step B ops t s = s" by (simp add: atomic_step_def fun_upd_idem)
  then show ?thesis using inv Done by (simp add: atomic_inv_idle)
next
  case Start
  obtain r a1 where sp: "atomic_spec (ops t) (at_cell s) = (r, a1)" by fastforce
  show ?thesis
    using atomic_first_cases [of "ops t" "at_cell s"]
  proof
    assume "atomic_first B (ops t) (at_cell s) = (case atomic_spec (ops t) (at_cell s) of (r, a1) \<Rightarrow> (Done r, a1))"
    then have "atomic_step B ops t s = \<lparr>at_cell = a1, at_pc = (at_pc s)(t := Done r)\<rparr>"
      using Start sp by (simp add: atomic_step_def)
    then show ?thesis using atomic_inv_finish [OF inv _ sp] Start by simp
  next
    assume f: "atomic_first B (ops t) (at_cell s) = (Loop (at_cell s), at_cell s) \<and> loop_set (ops t) (at_cell s) \<noteq> None"
    then have "atomic_step B ops t s = \<lparr>at_cell = at_cell s, at_pc = (at_pc s)(t := Loop (at_cell s))\<rparr>"
      using Start by (simp add: atomic_step_def)
    then show ?thesis using atomic_inv_retry [OF inv, of t] Start f by simp
  qed
next
  case (Loop tmp)
  then have l: "loop_set (ops t) tmp \<noteq> None" using inv by (simp add: atomic_inv_def)
  obtain r a1 where sp: "atomic_spec (ops t) (at_cell s) = (r, a1)" by fastforce
  show ?thesis
  proof (cases "at_cell s = tmp")
    case True
    then have "atomic_step B ops t s = \<lparr>at_cell = a1, at_pc = (at_pc s)(t := Done r)\<rparr>"
      using sp unfolding atomic_step_def Loop atomic_loop_cases [OF l] by simp
    then show ?thesis using atomic_inv_finish [OF inv _ sp] Loop by simp
  next
    case False
    then have "atomic_step B ops t s = \<lparr>at_cell = at_cell s, at_pc = (at_pc s)(t := Loop (at_cell s))\<rparr>"
      unfolding atomic_step_def Loop atomic_loop_cases [OF l] by simp
    then show ?thesis using atomic_inv_retry [OF inv, of t] Loop False loop_set_any [OF l] by simp
  qed
qed

lemma atomic_run_inv:
  "atomic_inv ops a sched (finish_order B ops sched (atomic_start a)) (atomic_run B ops sched (atomic_start a))"
proof (induction sched rule: rev_induct)
  case Nil
  show ?case by (simp add: atomic_inv_start)
next
  case (snoc t sched)
  then show ?case using atomic_step_keeps_inv [OF snoc.IH]
    by (simp add: atomic_run_append finish_order_append)
qed

text \<open>A thread that took more steps than there are threads has finished.\<close>

lemma finishes_within:
  assumes "card (set sched) < count_list sched t"
  shows "is_done (at_pc (atomic_run B ops sched (atomic_start a)) t)"
proof (rule ccontr)
  let ?s = "atomic_run B ops sched (atomic_start a)" and ?o = "finish_order B ops sched (atomic_start a)"
  assume nd: "\<not> is_done (at_pc ?s t)"
  have inv: "atomic_inv ops a sched ?o ?s" by (rule atomic_run_inv)
  have mem: "t \<in> set sched" using assms count_notin [of t sched] by fastforce
  have sub: "set ?o \<subseteq> set sched - {t}" using inv nd unfolding atomic_inv_def by blast
  have "length ?o = card (set ?o)" using inv by (simp add: atomic_inv_def distinct_card)
  also have "\<dots> \<le> card (set sched - {t})" using sub by (intro card_mono) simp_all
  also have "\<dots> < card (set sched)" using mem by (intro card_Diff1_less) simp_all
  finally have "length ?o < card (set sched)" .
  moreover have "count_list sched t \<le> length ?o + 1"
  proof (cases "at_pc ?s t")
    case Start
    then show ?thesis using inv by (simp add: atomic_inv_def)
  next
    case (Loop tmp)
    from atomic_inv_loop [OF inv Loop] obtain d where "d \<le> length ?o" "count_list sched t \<le> d + 1" .
    then show ?thesis by simp
  qed (use nd in simp)
  ultimately show False using assms by simp
qed

end

text \<open>Every header keeps the contract.\<close>

interpretation msvc: atomic_backend msvc_bodies
  by unfold_locales (auto simp: body_defs intrinsic_defs Let_def)

interpretation gcc: atomic_backend "gcc_bodies mode_dummy"
  by unfold_locales (auto simp: body_defs intrinsic_defs Let_def)

interpretation x86: atomic_backend "x86_bodies no_xadd mode_dummy"
  by unfold_locales (auto simp: body_defs intrinsic_defs Let_def split: if_splits)

interpretation rwlock: atomic_backend rwlock_bodies
  by unfold_locales (auto simp: body_defs Let_def)

section \<open>Properties\<close>

text \<open>
  The builds whose operations are meant to be atomic, the one with mutexes among them; the
  dummy modes of the headers are for a single processor, and only run alone.
\<close>

definition atomic_builds :: "'a::len word atomic_bodies list" where
  "atomic_builds = [msvc_bodies, gcc_bodies False, x86_bodies False False, x86_bodies True False,
     rwlock_bodies]"

definition dummy_builds :: "'a::len word atomic_bodies list" where
  "dummy_builds = [gcc_bodies True, x86_bodies False True, x86_bodies True True]"

lemma all_builds_backend: "B \<in> set (atomic_builds @ dummy_builds) \<Longrightarrow> atomic_backend B"
  using msvc.atomic_backend_axioms gcc.atomic_backend_axioms x86.atomic_backend_axioms
    rwlock.atomic_backend_axioms
  by (auto simp: atomic_builds_def dummy_builds_def)

lemma atomic_builds_backend: "B \<in> set atomic_builds \<Longrightarrow> atomic_backend B"
  by (rule all_builds_backend) simp

text \<open>C40. In every atomic build, and however the steps of any number of threads are interleaved, the atomic
  operations behave as if they were executed one after the other: the finished threads, in
  the order in which they finished, returned exactly what the comment of \<open>my_atomic.h\<close> promises
  (the old value for add and fetch-and-store, success or the current value for
  compare-and-swap, the value for load), and the cell holds what that sequence leaves. The
  order of a longer schedule extends the order of its beginning, so an operation that
  finished before another started stays before it.
\<close>

theorem atomic_ops_linearizable:
  assumes "B \<in> set atomic_builds"
    and "s = atomic_run B ops sched (atomic_start a)"
    and "order = finish_order B ops sched (atomic_start a)"
  shows "distinct order \<and>
    (\<forall>t. (\<exists>r. at_pc s t = Done r) \<longleftrightarrow> t \<in> set order) \<and>
    (\<forall>i < length order. at_pc s (order ! i) =
       Done (fst (atomic_spec (ops (order ! i)) (seq_after ops (take i order) a)))) \<and>
    at_cell s = seq_after ops order a \<and>
    (\<forall>ts. \<exists>later. finish_order B ops (sched @ ts) (atomic_start a) = order @ later)"
proof -
  have inv: "atomic_inv ops a sched order s"
    unfolding assms(2,3)
    by (rule atomic_backend.atomic_run_inv [OF atomic_builds_backend [OF assms(1)]])
  have "\<forall>ts. \<exists>later. finish_order B ops (sched @ ts) (atomic_start a) = order @ later"
    by (simp add: assms(3) finish_order_append)
  with inv show ?thesis
    unfolding atomic_inv_def is_done_iff by blast
qed

text \<open>
  Thread 1 stores 9 by the compare-and-swap loop of the MSVC build; thread 0 adds 5 between
  its read and its first attempt, which therefore fails and is repeated.
\<close>

definition sample_ops :: "nat \<Rightarrow> 32 word atomic_op" where
  "sample_ops t = (if t = 0 then Op_Add 5 else Op_Fas 9)"

lemmas sample_eval =
  sample_ops_def atomic_step_def atomic_start_def my_atomic_cas_def body_defs intrinsic_defs
  seq_after_def Let_def

theorem atomic_ops_linearizable_witness:
  "finish_order msvc_bodies sample_ops [1, 0, 1, 1] (atomic_start 2) = [0, 1] \<and>
   (let s = atomic_run msvc_bodies sample_ops [1, 0, 1, 1] (atomic_start 2)
    in at_pc s 0 = Done (Ret_Val 2) \<and> at_pc s 1 = Done (Ret_Val 7) \<and> at_cell s = 9)"
proof -
  have o: "finish_order msvc_bodies sample_ops [1, 0, 1, 1] (atomic_start 2) = [0, 1]"
    by (simp add: sample_eval)
  have mem: "msvc_bodies \<in> set atomic_builds" by (simp add: atomic_builds_def)
  note lin = atomic_ops_linearizable [OF mem refl refl, of sample_ops "[1, 0, 1, 1]" 2, unfolded o]
  have "at_pc (atomic_run msvc_bodies sample_ops [1, 0, 1, 1] (atomic_start 2)) ([0, 1] ! i) =
      Done (fst (atomic_spec (sample_ops ([0, 1] ! i)) (seq_after sample_ops (take i [0, 1]) 2)))" if "i < 2" for i
    using lin that by simp
  from this [of 0] this [of 1] lin show ?thesis
    unfolding o Let_def by (simp add: sample_ops_def seq_after_def del: atomic_run.simps)
qed

text \<open>No thread waits for ever: whatever the other threads do and however the steps are
  interleaved, a thread that has been scheduled more often than there are threads has
  finished its operation. A failed compare-and-swap means that another operation finished
  in between, so the loops of \<open>my_atomic.h\<close> are repeated at most once for each other thread.
\<close>

theorem atomic_ops_wait_free:
  assumes "B \<in> set atomic_builds"
    and "card (set sched) < count_list sched t"
  shows "\<exists>r. at_pc (atomic_run B ops sched (atomic_start a)) t = Done r"
  using atomic_backend.finishes_within [OF atomic_builds_backend [OF assms(1)] assms(2)]
  by (simp add: is_done_iff)

theorem atomic_ops_wait_free_witness:
  "card (set [1, 0, 1, 1]) < count_list [1, 0, 1, 1] (1 :: nat) \<and>
   (\<exists>r. at_pc (atomic_run msvc_bodies sample_ops [1, 0, 1, 1] (atomic_start 2)) 1 = Done r)"
proof -
  have mem: "msvc_bodies \<in> set atomic_builds" by (simp add: atomic_builds_def)
  have c: "card (set [1, 0, 1, 1]) < count_list [1, 0, 1, 1] (1 :: nat)" by (simp add: card_insert_if)
  show ?thesis using c atomic_ops_wait_free [OF mem c] by blast
qed

text \<open>
  Run alone, the functions of every build return and compute what the comment of \<open>my_atomic.h\<close>
  promises, so all builds agree.
\<close>

theorem atomic_ops_alone:
  assumes "B \<in> set (atomic_builds @ dummy_builds)"
  shows "my_atomic_add B a v = Some (a, a + v) \<and> my_atomic_fas B a v = Some (a, v) \<and>
    my_atomic_cas B a cmp new = (if a = cmp then (True, new, cmp) else (False, a, a)) \<and>
    my_atomic_load B a = (a, a) \<and> my_atomic_store B a v = Some v"
  using atomic_backend.my_atomic_ops [OF all_builds_backend [OF assms]] by blast

text \<open>Concurrent additions lose no update.\<close>

lemma seq_after_adds:
  "distinct ts \<Longrightarrow> \<forall>t. ops t = Op_Add (v t) \<Longrightarrow> seq_after ops ts a = a + sum v (set ts)"
proof (induction ts arbitrary: a)
  case (Cons t ts)
  then show ?case by (simp add: seq_after_def add.assoc)
qed (simp add: seq_after_def)

theorem concurrent_adds_sum:
  assumes "B \<in> set atomic_builds" and "\<forall>t. ops t = Op_Add (v t)"
    and "s = atomic_run B ops sched (atomic_start a)"
  shows "at_cell s = a + sum v {t. is_done (at_pc s t)}"
proof -
  let ?o = "finish_order B ops sched (atomic_start a)"
  have "atomic_inv ops a sched ?o s"
    unfolding assms(3)
    by (rule atomic_backend.atomic_run_inv [OF atomic_builds_backend [OF assms(1)]])
  then have "distinct ?o" "at_cell s = seq_after ops ?o a" "{t. is_done (at_pc s t)} = set ?o"
    unfolding atomic_inv_def by blast+
  then show ?thesis by (simp add: seq_after_adds assms(2))
qed

end
