(* ===== verification/Mysql_Sys.thy ===== *)
theory Mysql_Sys
  imports Prelude "HOL-Library.Signed_Division"
begin

text \<open>
  The macros with work of their own in \<open>libmysql/include/my_sys.h\<close> (the cached file \<open>IO_CACHE\<close>),
  \<open>my_pthread.h\<close> (absolute times) and \<open>my_global.h\<close> (comparison, masks, alignment). The functions a
  cache calls when its buffer is empty or full are function pointers; they are arguments of
  the model, with their contract as a hypothesis.
\<close>

section \<open>Numbers\<close>

definition CMP_NUM :: "int \<Rightarrow> int \<Rightarrow> int" where
  "CMP_NUM a b = (if a < b then - 1 else if a = b then 0 else 1)"

definition my_sgn :: "int \<Rightarrow> int" where
  "my_sgn a = (if a < 0 then - 1 else if a > 0 then 1 else 0)"

definition set_if_bigger :: "int \<Rightarrow> int \<Rightarrow> int" where
  "set_if_bigger a b = (if a < b then b else a)"

definition set_if_smaller :: "int \<Rightarrow> int \<Rightarrow> int" where
  "set_if_smaller a b = (if a > b then b else a)"

definition test_all_bits :: "'a::len word \<Rightarrow> 'a word \<Rightarrow> bool" where
  "test_all_bits a b \<longleftrightarrow> a AND b = b"

definition my_set_bits :: "nat \<Rightarrow> 'a::len word" where
  "my_set_bits bit_count = (if LENGTH('a) \<le> bit_count then NOT 0 else push_bit bit_count 1 - 1)"

definition MY_ALIGN :: "'a::len word \<Rightarrow> 'a word \<Rightarrow> 'a word" where
  "MY_ALIGN A L = (A + L - 1) AND NOT (L - 1)"

text \<open>\<open>sizeof(double)\<close> is 8.\<close>

definition ALIGN_SIZE :: "'a::len word \<Rightarrow> 'a word" where
  "ALIGN_SIZE A = MY_ALIGN A 8"

definition MY_DIV_UP :: "'a::len word \<Rightarrow> 'a word \<Rightarrow> 'a word" where
  "MY_DIV_UP A B = (A + B - 1) div B"

lemma CMP_NUM_sgn: "CMP_NUM a b = my_sgn (a - b)"
  by (simp add: CMP_NUM_def my_sgn_def)

lemma set_if_max_min: "set_if_bigger a b = max a b" "set_if_smaller a b = min a b"
  by (auto simp: set_if_bigger_def set_if_smaller_def)

lemma test_all_bits_iff: "test_all_bits a b \<longleftrightarrow> (\<forall>n. bit b n \<longrightarrow> bit a n)"
  by (auto simp: test_all_bits_def bit_eq_iff bit_simps dest: bit_imp_le_length)

lemma my_set_bits_mask: "my_set_bits n = mask n"
  by (rule bit_word_eqI)
     (auto simp: my_set_bits_def bit_simps push_bit_of_1 simp flip: mask_eq_exp_minus_1)

text \<open>
  Alignment to a power of two gives the least multiple that is not smaller, as long as the
  sum does not wrap around; it wraps exactly for sizes within one unit of the end.
\<close>

lemma unat_and_not_mask: "unat (x AND NOT (mask k) :: 'a::len word) = unat x - unat x mod 2 ^ k"
proof -
  have "x = (x AND NOT (mask k)) + take_bit k x"
    by (subst disjunctive_add) (auto simp: bit_simps intro!: bit_word_eqI)
  moreover have "x AND NOT (mask k) = x - take_bit k x"
    using calculation by (metis add_diff_cancel_right')
  moreover have t: "unat (take_bit k x) = unat x mod 2 ^ k"
    unfolding unsigned_take_bit_eq by (simp add: take_bit_eq_mod)
  moreover have "take_bit k x \<le> x"
    unfolding word_le_nat_alt t by simp
  ultimately show ?thesis by (simp only: unat_sub)
qed

lemma sub_mod_least:
  fixes a l :: nat
  assumes "0 < l"
  defines "r \<equiv> (a + l - 1) - (a + l - 1) mod l"
  shows "a \<le> r" "l dvd r" "l dvd m \<Longrightarrow> a \<le> m \<Longrightarrow> r \<le> m"
proof -
  have r: "r = l * ((a + l - 1) div l)" by (simp add: r_def minus_mod_eq_mult_div)
  then show "l dvd r" by simp
  have "(a + l - 1) mod l < l" using assms(1) by simp
  then show "a \<le> r" using assms(1) unfolding r_def by linarith
  assume "l dvd m" "a \<le> m"
  then obtain q where q: "m = l * q" by blast
  have "a + l - 1 < l * (q + 1)" using \<open>a \<le> m\<close> assms(1) q by simp
  then have "(a + l - 1) div l < q + 1" by (simp add: less_mult_imp_div_less mult.commute)
  then show "r \<le> m" unfolding r q by simp
qed

lemma unat_p2: "k < LENGTH('a) \<Longrightarrow> unat (2 ^ k :: 'a::len word) = 2 ^ k"
  by transfer (simp add: take_bit_eq_mod)

theorem MY_ALIGN_least:
  fixes A :: "'a::len word"
  assumes "k < LENGTH('a)" and "unat A + 2 ^ k - 1 < 2 ^ LENGTH('a)"
  shows "unat A \<le> unat (MY_ALIGN A (2 ^ k)) \<and> 2 ^ k dvd unat (MY_ALIGN A (2 ^ k)) \<and>
    (\<forall>m. 2 ^ k dvd m \<longrightarrow> unat A \<le> m \<longrightarrow> unat (MY_ALIGN A (2 ^ k)) \<le> m)"
proof -
  have p: "unat (mask k :: 'a word) = 2 ^ k - 1"
    using assms(1) unat_sub [of 1 "2 ^ k :: 'a word"]
    by (simp add: mask_eq_exp_minus_1 unat_p2 word_le_nat_alt)
  have s: "unat (A + mask k) = unat A + 2 ^ k - 1"
    using assms(2) p by (subst unat_add_lem [THEN iffD1]) auto
  have "MY_ALIGN A (2 ^ k) = (A + mask k) AND NOT (mask k)"
    by (simp add: MY_ALIGN_def mask_eq_exp_minus_1 add_diff_eq)
  then have "unat (MY_ALIGN A (2 ^ k)) = (unat A + 2 ^ k - 1) - (unat A + 2 ^ k - 1) mod 2 ^ k"
    by (simp add: unat_and_not_mask s)
  then show ?thesis using sub_mod_least [where l = "2 ^ k" and a = "unat A"] by simp
qed

section \<open>Absolute times\<close>

text \<open>The Win32 structure: 100 ns units since 1601, and the timeout in milliseconds as a \<open>long\<close>.\<close>

record timespec_win =
  tv_i64 :: "64 word"
  max_timeout_msec :: "32 word"

text \<open>\<open>(TIME)+(__int64)(NSEC)/100\<close> divides as a signed number; \<open>(long)((NSEC)/1000000)\<close> truncates.\<close>

definition set_timespec_time_nsec_win :: "64 word \<Rightarrow> 64 word \<Rightarrow> timespec_win" where
  "set_timespec_time_nsec_win TIME NSEC =
     \<lparr>tv_i64 = TIME + of_int (sint NSEC sdiv 100), max_timeout_msec = ucast (NSEC div 1000000)\<rparr>"

definition set_timespec_nsec_win :: "64 word \<Rightarrow> 64 word \<Rightarrow> timespec_win" where
  "set_timespec_nsec_win systime NSEC = set_timespec_time_nsec_win systime NSEC"

definition set_timespec_win :: "64 word \<Rightarrow> 64 word \<Rightarrow> timespec_win" where
  "set_timespec_win systime SEC = set_timespec_nsec_win systime (SEC * 1000000000)"

record timespec =
  MY_tv_sec :: "64 word"
  MY_tv_nsec :: "64 word"

definition set_timespec_time_nsec :: "64 word \<Rightarrow> 64 word \<Rightarrow> timespec" where
  "set_timespec_time_nsec TIME NSEC =
     (let nsec = NSEC; now = TIME + nsec div 100
      in \<lparr>MY_tv_sec = now div 10000000, MY_tv_nsec = now mod 10000000 * 100 + nsec mod 100\<rparr>)"

lemma sint_small:
  assumes "unat (w :: 64 word) < 2 ^ 63"
  shows "sint w = int (unat w)"
proof -
  have "int (unat w) < int (2 ^ 63)" using assms by (simp only: of_nat_less_iff)
  then have "uint w < 2 ^ 63" by simp
  then have "signed_take_bit 63 (uint w) = uint w"
    by (intro signed_take_bit_int_eq_self) (simp_all add: order_trans [OF _ uint_ge_0])
  then show ?thesis by (simp add: sint_uint)
qed

lemma sdiv_of_nat: "int n sdiv 100 = int (n div 100)"
  by (simp add: signed_divide_int_def sgn_if zdiv_int)

lemma signed_div_small:
  assumes "unat (w :: 64 word) < 2 ^ 63"
  shows "of_int (sint w sdiv 100) = w div 100"
proof -
  have "sint w sdiv 100 = int (unat w div 100)"
    unfolding sint_small [OF assms] by (rule sdiv_of_nat)
  moreover have "unat w div 100 = unat (w div 100)" by (simp add: unat_div)
  ultimately show ?thesis by (simp only: of_int_of_nat_eq) simp
qed

lemma unat_now:
  fixes TIME NSEC :: "64 word"
  assumes "unat TIME + unat NSEC div 100 < 2 ^ 64"
  shows "unat (TIME + NSEC div 100) = unat TIME + unat NSEC div 100"
  using assms by (subst unat_add_lem [THEN iffD1]) (simp_all add: unat_div)

text \<open>
  Both forms of \<open>set_timespec_time_nsec\<close> denote the same moment: the portable one keeps
  every nanosecond and a normalised fraction, the Win32 one the same in units of 100 ns.
\<close>

theorem timespec_forms_agree:
  assumes "unat TIME + unat NSEC div 100 < 2 ^ 64" and "unat NSEC < 2 ^ 63"
  shows "unat (MY_tv_sec (set_timespec_time_nsec TIME NSEC)) * 10 ^ 9 +
      unat (MY_tv_nsec (set_timespec_time_nsec TIME NSEC)) = unat TIME * 100 + unat NSEC \<and>
    unat (MY_tv_nsec (set_timespec_time_nsec TIME NSEC)) < 10 ^ 9 \<and>
    unat (tv_i64 (set_timespec_time_nsec_win TIME NSEC)) = unat TIME + unat NSEC div 100"
proof -
  let ?now = "TIME + NSEC div 100"
  let ?f = "?now mod 10000000 * 100 + NSEC mod 100"
  note now = unat_now [OF assms(1)]
  have m: "unat (?now mod 10000000) = unat ?now mod 10000000" by (simp add: unat_mod)
  have "unat ?now mod 10000000 < 10000000" by simp
  then have "unat (?now mod 10000000) * unat (100 :: 64 word) < 2 ^ LENGTH(64)"
    unfolding m by simp
  then have mul: "unat (?now mod 10000000 * 100) = unat ?now mod 10000000 * 100"
    using m by (simp add: unat_mult_lem [THEN iffD1])
  have small: "unat ?now mod 10000000 * 100 + unat NSEC mod 100 < 10 ^ 9"
  proof -
    have "unat ?now mod 10000000 \<le> 9999999" "unat NSEC mod 100 \<le> 99"
      by (simp_all add: less_Suc_eq_le [symmetric])
    then show ?thesis by simp
  qed
  then have f: "unat ?f = unat ?now mod 10000000 * 100 + unat NSEC mod 100"
    by (subst unat_add_lem [THEN iffD1]) (simp_all add: mul unat_mod)
  have "unat ?now div 10000000 * 10 ^ 9 + (unat ?now mod 10000000 * 100 + unat NSEC mod 100) =
      (unat ?now div 10000000 * 10000000 + unat ?now mod 10000000) * 100 + unat NSEC mod 100"
    by (simp only: distrib_right add.assoc [symmetric] mult.assoc) simp
  also have "\<dots> = unat TIME * 100 + unat NSEC" unfolding div_mult_mod_eq now by simp
  finally show ?thesis
    using small f now by (simp add: set_timespec_time_nsec_def set_timespec_time_nsec_win_def Let_def
        signed_div_small [OF assms(2)] unat_div)
qed

text \<open>
  The millisecond bound of the Win32 form is a \<open>long\<close>: it is right up to 2147483 seconds, and
  negative for one second more.
\<close>

theorem win_timeout_wraps:
  "max_timeout_msec (set_timespec_win t 2147483) = 2147483000 \<and>
   sint (max_timeout_msec (set_timespec_win t 2147483)) = 2147483000 \<and>
   sint (max_timeout_msec (set_timespec_win t 2147484)) < 0"
  by (simp add: set_timespec_win_def set_timespec_nsec_win_def set_timespec_time_nsec_win_def)

section \<open>Cached files\<close>

text \<open>
  The positions of \<open>IO_CACHE\<close> are offsets into the buffer they point into. \<open>current_pos\<close> and
  \<open>current_end\<close> point to the write positions of a \<open>WRITE_CACHE\<close> and to the read positions
  otherwise.
\<close>

datatype cache_type = TYPE_NOT_SET | READ_CACHE | WRITE_CACHE | SEQ_READ_APPEND | READ_FIFO | READ_NET | WRITE_NET

record io_cache =
  pos_in_file :: nat
  io_buffer :: "byte list"
  read_pos :: nat
  read_end :: nat
  request_pos :: nat
  write_buffer :: "byte list"
  write_pos :: nat
  write_end :: nat
  io_type :: cache_type

text \<open>The functions behind the pointers: the cache, the bytes or their number, and the file.\<close>

type_synonym 'f read_fun = "io_cache \<Rightarrow> nat \<Rightarrow> 'f \<Rightarrow> (int \<times> byte list \<times> io_cache \<times> 'f) result"
type_synonym 'f write_fun = "io_cache \<Rightarrow> byte list \<Rightarrow> 'f \<Rightarrow> (int \<times> io_cache \<times> 'f) result"

definition copy_out :: "byte list \<Rightarrow> nat \<Rightarrow> nat \<Rightarrow> byte list result" where
  "copy_out buf off n = (if length buf < off + n then Inl Read_Out_Of_Bounds else Inr (slice off n buf))"

definition my_b_read :: "'f read_fun \<Rightarrow> 'f read_fun" where
  "my_b_read read_function info Count f =
     (if read_pos info + Count \<le> read_end info then
        res_bind (copy_out (io_buffer info) (read_pos info) Count) (\<lambda>bs.
          Inr (0, bs, info\<lparr>read_pos := read_pos info + Count\<rparr>, f))
      else read_function info Count f)"

definition my_b_write :: "'f write_fun \<Rightarrow> 'f write_fun" where
  "my_b_write write_function info bs f =
     (if write_pos info + length bs \<le> write_end info then
        res_bind (memcpy_at (write_buffer info) (write_pos info) bs (length bs)) (\<lambda>buf.
          Inr (0, info\<lparr>write_buffer := buf, write_pos := write_pos info + length bs\<rparr>, f))
      else write_function info bs f)"

definition my_b_get :: "(io_cache \<Rightarrow> 'f \<Rightarrow> (int \<times> io_cache \<times> 'f) result) \<Rightarrow> io_cache \<Rightarrow> 'f \<Rightarrow> (int \<times> io_cache \<times> 'f) result" where
  "my_b_get b_get info f =
     (if read_pos info \<noteq> read_end info then
        res_bind (rd (io_buffer info) (int (read_pos info))) (\<lambda>b.
          Inr (uint b, info\<lparr>read_pos := read_pos info + 1\<rparr>, f))
      else b_get info f)"

definition put_byte :: "io_cache \<Rightarrow> byte \<Rightarrow> io_cache result" where
  "put_byte info chr =
     res_bind (wr (write_buffer info) (int (write_pos info)) chr) (\<lambda>buf.
       Inr (info\<lparr>write_buffer := buf, write_pos := write_pos info + 1\<rparr>))"

text \<open>The result of \<open>_my_b_write\<close> is dropped, as the comment of the macro says.\<close>

definition my_b_write_byte :: "'f write_fun \<Rightarrow> io_cache \<Rightarrow> byte \<Rightarrow> 'f \<Rightarrow> (io_cache \<times> 'f) result" where
  "my_b_write_byte b_write info chr f =
     (if write_pos info < write_end info then res_bind (put_byte info chr) (\<lambda>i. Inr (i, f))
      else res_bind (b_write info [] f) (\<lambda>(_, info1, f1).
           res_bind (put_byte info1 chr) (\<lambda>i. Inr (i, f1))))"

definition my_b_fill_cache :: "'f read_fun \<Rightarrow> io_cache \<Rightarrow> 'f \<Rightarrow> (int \<times> byte list \<times> io_cache \<times> 'f) result" where
  "my_b_fill_cache read_function info f = read_function (info\<lparr>read_end := read_pos info\<rparr>) 0 f"

definition current_pos :: "io_cache \<Rightarrow> nat" where
  "current_pos info = (if io_type info = WRITE_CACHE then write_pos info else read_pos info)"

definition current_end :: "io_cache \<Rightarrow> nat" where
  "current_end info = (if io_type info = WRITE_CACHE then write_end info else read_end info)"

definition my_b_tell :: "io_cache \<Rightarrow> int" where
  "my_b_tell info = int (pos_in_file info) + (int (current_pos info) - int (request_pos info))"

definition my_b_get_bytes_in_buffer :: "io_cache \<Rightarrow> int" where
  "my_b_get_bytes_in_buffer info = int (read_end info) - int (request_pos info)"

definition my_b_bytes_in_cache :: "io_cache \<Rightarrow> int" where
  "my_b_bytes_in_cache info = int (current_end info) - int (current_pos info)"

subsection \<open>Reading is reading the file\<close>

definition wf_reader :: "io_cache \<Rightarrow> bool" where
  "wf_reader info \<longleftrightarrow> read_pos info \<le> read_end info \<and> read_end info \<le> length (io_buffer info)"

text \<open>What is still to be read: the rest of the buffer and the rest of the file.\<close>

definition unread :: "('f \<Rightarrow> byte list) \<Rightarrow> io_cache \<Rightarrow> 'f \<Rightarrow> byte list" where
  "unread rest info f = slice (read_pos info) (read_end info - read_pos info) (io_buffer info) @ rest f"

text \<open>
  The contract of a read function, which is called only when the buffer does not hold all
  that is asked for: it delivers the next bytes, or reports an error at the end of the file.
\<close>

definition reads_on :: "('f \<Rightarrow> byte list) \<Rightarrow> 'f read_fun \<Rightarrow> bool" where
  "reads_on rest rf \<longleftrightarrow>
     (\<forall>info n f. wf_reader info \<longrightarrow> read_end info - read_pos info < n \<longrightarrow>
        (\<exists>r bs info' f'. rf info n f = Inr (r, bs, info', f') \<and> wf_reader info' \<and>
          (r = 0 \<longleftrightarrow> n \<le> length (unread rest info f)) \<and>
          (r = 0 \<longrightarrow> bs = take n (unread rest info f) \<and> unread rest info' f' = drop n (unread rest info f))))"

lemma my_b_read_next:
  assumes "reads_on rest rf" and "wf_reader info"
  obtains r bs info' f' where "my_b_read rf info n f = Inr (r, bs, info', f')" "wf_reader info'"
    "r = 0 \<longleftrightarrow> n \<le> length (unread rest info f)"
    "r = 0 \<Longrightarrow> bs = take n (unread rest info f) \<and> unread rest info' f' = drop n (unread rest info f)"
proof (cases "read_pos info + n \<le> read_end info")
  case True
  have "slice (read_pos info) (read_end info - read_pos info) (io_buffer info) =
      slice (read_pos info) n (io_buffer info) @
      slice (read_pos info + n) (read_end info - (read_pos info + n)) (io_buffer info)"
    using True by (simp add: slice_join)
  moreover have "length (slice (read_pos info) n (io_buffer info)) = n"
    using True assms(2) by (simp add: length_slice wf_reader_def)
  ultimately show ?thesis
    using True assms(2)
    by (intro that [of 0 "slice (read_pos info) n (io_buffer info)" "info\<lparr>read_pos := read_pos info + n\<rparr>" f])
       (auto simp: my_b_read_def copy_out_def wf_reader_def unread_def)
next
  case False
  then have "read_end info - read_pos info < n" using assms(2) by (auto simp: wf_reader_def)
  then obtain r bs info' f' where "rf info n f = Inr (r, bs, info', f') \<and> wf_reader info' \<and>
      (r = 0 \<longleftrightarrow> n \<le> length (unread rest info f)) \<and>
      (r = 0 \<longrightarrow> bs = take n (unread rest info f) \<and> unread rest info' f' = drop n (unread rest info f))"
    using assms unfolding reads_on_def by blast
  then show ?thesis using False by (intro that) (auto simp: my_b_read_def)
qed

text \<open>A sequence of reads, up to the first error.\<close>

fun read_calls :: "'f read_fun \<Rightarrow> nat list \<Rightarrow> io_cache \<Rightarrow> 'f \<Rightarrow> (bool \<times> byte list \<times> io_cache \<times> 'f) result" where
  "read_calls rf [] info f = Inr (True, [], info, f)"
| "read_calls rf (n # ns) info f =
     res_bind (my_b_read rf info n f) (\<lambda>(r, bs, info1, f1).
       if r \<noteq> 0 then Inr (False, [], info1, f1)
       else res_bind (read_calls rf ns info1 f1) (\<lambda>(ok, more_bs, info2, f2). Inr (ok, bs @ more_bs, info2, f2)))"

text \<open>
  Reading through the cache is reading the file: whatever the sizes of the reads and
  however they fall on the buffer, the bytes come in order, none twice and none lost, all
  inside the buffer, and an error is reported exactly when the file is too short.
\<close>

theorem cached_reads_are_file_reads:
  assumes "reads_on rest rf" and "wf_reader info"
  shows "\<exists>ok bs info' f'. read_calls rf ns info f = Inr (ok, bs, info', f') \<and> wf_reader info' \<and>
    (ok \<longleftrightarrow> sum_list ns \<le> length (unread rest info f)) \<and>
    (ok \<longrightarrow> bs = take (sum_list ns) (unread rest info f) \<and> unread rest info' f' = drop (sum_list ns) (unread rest info f))"
  using assms(2)
proof (induction ns arbitrary: info f)
  case (Cons n ns)
  let ?u = "unread rest info f"
  obtain r bs info1 f1 where r: "my_b_read rf info n f = Inr (r, bs, info1, f1)" "wf_reader info1"
      "r = 0 \<longleftrightarrow> n \<le> length ?u" "r = 0 \<Longrightarrow> bs = take n ?u \<and> unread rest info1 f1 = drop n ?u"
    using my_b_read_next [OF assms(1) Cons.prems, where n = n and f = f] by blast
  show ?case
  proof (cases "r = 0")
    case False
    then show ?thesis using r by auto
  next
    case True
    note u1 = r(4) [OF True]
    obtain ok bs2 info2 f2 where c: "read_calls rf ns info1 f1 = Inr (ok, bs2, info2, f2)" "wf_reader info2"
        "ok \<longleftrightarrow> sum_list ns \<le> length (drop n ?u)"
        "ok \<Longrightarrow> bs2 = take (sum_list ns) (drop n ?u) \<and> unread rest info2 f2 = drop (sum_list ns) (drop n ?u)"
      using Cons.IH [OF r(2), of f1] u1 by auto
    moreover have "n \<le> length ?u" using r(3) True by simp
    ultimately show ?thesis
      using r(1) True u1 by (auto simp: take_add add.commute)
  qed
qed auto

subsection \<open>Writing is appending to the file\<close>

definition wf_writer :: "io_cache \<Rightarrow> bool" where
  "wf_writer info \<longleftrightarrow> 0 < write_end info \<and> write_pos info \<le> write_end info \<and> write_end info \<le> length (write_buffer info)"

definition written :: "('f \<Rightarrow> byte list) \<Rightarrow> io_cache \<Rightarrow> 'f \<Rightarrow> byte list" where
  "written sent info f = sent f @ take (write_pos info) (write_buffer info)"

text \<open>
  The contract of a write function: it takes the bytes and leaves room for one more; called
  with no bytes, as \<open>my_b_write_byte\<close> does, it empties the full buffer.
\<close>

definition writes_on :: "('f \<Rightarrow> byte list) \<Rightarrow> 'f write_fun \<Rightarrow> bool" where
  "writes_on sent wfun \<longleftrightarrow>
     (\<forall>info bs f. wf_writer info \<longrightarrow> write_end info < write_pos info + length bs \<or> write_pos info = write_end info \<longrightarrow>
        (\<exists>info' f'. wfun info bs f = Inr (0, info', f') \<and> wf_writer info' \<and> write_pos info' < write_end info' \<and>
          written sent info' f' = written sent info f @ bs))"

lemma my_b_write_next:
  assumes "writes_on sent wfun" and "wf_writer info"
  shows "\<exists>info' f'. my_b_write wfun info bs f = Inr (0, info', f') \<and> wf_writer info' \<and>
    written sent info' f' = written sent info f @ bs"
proof (cases "write_pos info + length bs \<le> write_end info")
  case True
  then show ?thesis
    using assms(2) by (auto simp: my_b_write_def memcpy_at_def wf_writer_def written_def)
next
  case False
  then have "write_end info < write_pos info + length bs" by simp
  then obtain info' f' where "wfun info bs f = Inr (0, info', f')" "wf_writer info'"
      "written sent info' f' = written sent info f @ bs"
    using assms unfolding writes_on_def by blast
  then show ?thesis using False by (simp add: my_b_write_def)
qed

lemma put_byte_next:
  assumes "wf_writer info" and "write_pos info < write_end info"
  shows "\<exists>info'. put_byte info b = Inr info' \<and> wf_writer info' \<and> written sent info' f = written sent info f @ [b]"
  using assms by (auto simp: put_byte_def wf_writer_def written_def take_Suc_conv_app_nth)

lemma my_b_write_byte_next:
  assumes "writes_on sent wfun" and "wf_writer info"
  shows "\<exists>info' f'. my_b_write_byte wfun info b f = Inr (info', f') \<and> wf_writer info' \<and>
    written sent info' f' = written sent info f @ [b]"
proof (cases "write_pos info < write_end info")
  case True
  then show ?thesis using put_byte_next [OF assms(2) True, of b sent f] by (auto simp: my_b_write_byte_def)
next
  case False
  then have "write_pos info = write_end info" using assms(2) by (simp add: wf_writer_def)
  then obtain info1 f1 where w: "wfun info [] f = Inr (0, info1, f1)" "wf_writer info1"
      "write_pos info1 < write_end info1" "written sent info1 f1 = written sent info f @ []"
    using assms unfolding writes_on_def by blast
  then show ?thesis
    using False put_byte_next [OF w(2,3), of b sent f1] by (auto simp: my_b_write_byte_def)
qed

fun write_calls :: "'f write_fun \<Rightarrow> (byte list + byte) list \<Rightarrow> io_cache \<Rightarrow> 'f \<Rightarrow> (io_cache \<times> 'f) result" where
  "write_calls wfun [] info f = Inr (info, f)"
| "write_calls wfun (Inl bs # cs) info f =
     res_bind (my_b_write wfun info bs f) (\<lambda>(_, info1, f1). write_calls wfun cs info1 f1)"
| "write_calls wfun (Inr b # cs) info f =
     res_bind (my_b_write_byte wfun info b f) (\<lambda>(info1, f1). write_calls wfun cs info1 f1)"

definition call_bytes :: "byte list + byte \<Rightarrow> byte list" where
  "call_bytes c = (case c of Inl bs \<Rightarrow> bs | Inr b \<Rightarrow> [b])"

theorem cached_writes_are_appends:
  assumes "writes_on sent wfun" and "wf_writer info"
  shows "\<exists>info' f'. write_calls wfun cs info f = Inr (info', f') \<and> wf_writer info' \<and>
    written sent info' f' = written sent info f @ concat (map call_bytes cs)"
  using assms(2)
proof (induction cs arbitrary: info f)
  case (Cons c cs)
  show ?case
  proof (cases c)
    case (Inl bs)
    obtain info1 f1 where w: "my_b_write wfun info bs f = Inr (0, info1, f1)" "wf_writer info1"
        "written sent info1 f1 = written sent info f @ bs"
      using my_b_write_next [OF assms(1) Cons.prems, of bs f] by blast
    show ?thesis using Cons.IH [OF w(2), of f1] Inl w by (simp add: call_bytes_def)
  next
    case (Inr b)
    obtain info1 f1 where w: "my_b_write_byte wfun info b f = Inr (info1, f1)" "wf_writer info1"
        "written sent info1 f1 = written sent info f @ [b]"
      using my_b_write_byte_next [OF assms(1) Cons.prems, of b f] by blast
    show ?thesis using Cons.IH [OF w(2), of f1] Inr w by (simp add: call_bytes_def)
  qed
qed simp

text \<open>
  When \<open>_my_b_write\<close> fails and leaves a full buffer, the dropped error lets \<open>my_b_write_byte\<close> write
  behind the buffer.
\<close>

theorem write_byte_after_error:
  assumes "write_pos info = write_end info" and "write_end info = length (write_buffer info)"
    and "wfun info [] f = Inr (- 1, info, f)"
  shows "my_b_write_byte wfun info b f = Inl Buffer_Overflow"
  using assms by (simp add: my_b_write_byte_def put_byte_def wr_def)

subsection \<open>Functions that keep the contracts\<close>

text \<open>The simplest ones: read what is missing straight from the file, and write everything out.\<close>

definition direct_read :: "byte list read_fun" where
  "direct_read info n f =
     (let u = unread (\<lambda>f. f) info f; k = read_end info - read_pos info
      in if n \<le> length u then Inr (0, take n u, info\<lparr>read_pos := read_end info\<rparr>, drop (n - k) f)
         else Inr (1, [], info, f))"

definition direct_write :: "byte list write_fun" where
  "direct_write info bs f = Inr (0, info\<lparr>write_pos := 0\<rparr>, written (\<lambda>f. f) info f @ bs)"

lemma direct_read_reads_on: "reads_on (\<lambda>f. f) direct_read"
  unfolding reads_on_def
proof (intro allI impI)
  fix info :: io_cache and n f
  assume wf: "wf_reader info" and n: "read_end info - read_pos info < n"
  have "length (slice (read_pos info) (read_end info - read_pos info) (io_buffer info)) =
      read_end info - read_pos info"
    using wf by (intro length_slice) (simp add: wf_reader_def)
  then show "\<exists>r bs info' f'. direct_read info n f = Inr (r, bs, info', f') \<and> wf_reader info' \<and>
      (r = 0 \<longleftrightarrow> n \<le> length (unread (\<lambda>f. f) info f)) \<and>
      (r = 0 \<longrightarrow> bs = take n (unread (\<lambda>f. f) info f) \<and>
         unread (\<lambda>f. f) info' f' = drop n (unread (\<lambda>f. f) info f))"
    using wf n by (simp add: direct_read_def Let_def wf_reader_def unread_def slice_def)
qed

lemma direct_write_writes_on: "writes_on (\<lambda>f. f) direct_write"
  by (auto simp: writes_on_def direct_write_def wf_writer_def written_def)

end
