(* ===== verification/Mysql_Flags.thy ===== *)
theory Mysql_Flags
  imports Prelude
begin

text \<open>
  The option bits, enumerations and error numbers of \<open>libmysql/include/my_base.h\<close>, \<open>my_sys.h\<close>,
  \<open>thr_lock.h\<close> and \<open>my_getopt.h\<close>. A group of option bits is a table of names and values; the contract of
  such a group is the locale \<open>flag_group\<close>: a set of options can be passed as the OR of its values
  and read back. A name with the value 0, which stands for the default, is not in the table.
\<close>

section \<open>Groups of option bits\<close>

text \<open>The OR of the chosen options, and the options a word contains.\<close>

primrec put_flags :: "(string \<times> dword) list \<Rightarrow> string list \<Rightarrow> dword" where
  "put_flags [] S = 0"
| "put_flags (e # t) S = (if fst e \<in> set S then snd e else 0) OR put_flags t S"

definition get_flags :: "(string \<times> dword) list \<Rightarrow> dword \<Rightarrow> string list" where
  "get_flags t w = map fst (filter (\<lambda>e. w AND snd e = snd e) t)"

primrec disjoint_flags :: "dword list \<Rightarrow> bool" where
  "disjoint_flags [] = True"
| "disjoint_flags (v # vs) = (v \<noteq> 0 \<and> (\<forall>w \<in> set vs. v AND w = 0) \<and> disjoint_flags vs)"

lemma put_flags_disjoint:
  assumes "\<forall>e \<in> set t. v AND snd e = 0"
  shows "v AND put_flags t S = 0"
  using assms by (induction t) (auto simp: bit.conj_disj_distrib)

lemma get_put_flags:
  assumes "disjoint_flags (map snd t)" "distinct (map fst t)" "\<forall>e \<in> set t. snd e AND x = 0"
  shows "filter (\<lambda>e. (put_flags t S OR x) AND snd e = snd e) t = filter (\<lambda>e. fst e \<in> set S) t"
  using assms
proof (induction t arbitrary: x)
  case (Cons e t)
  let ?v = "if fst e \<in> set S then snd e else 0"
  have vt: "\<forall>f \<in> set t. snd e AND snd f = 0" using Cons.prems(1) by auto
  have "(put_flags (e # t) S OR x) AND snd e = ?v AND snd e"
    using put_flags_disjoint [OF vt, of S] Cons.prems(3)
    by (simp add: bit.conj_disj_distrib and.commute [of _ "snd e"])
  moreover have "snd e \<noteq> 0" using Cons.prems(1) by simp
  ultimately have head: "(put_flags (e # t) S OR x) AND snd e = snd e \<longleftrightarrow> fst e \<in> set S" by auto
  have "\<forall>f \<in> set t. snd f AND (?v OR x) = 0"
    using vt Cons.prems(3) by (simp add: bit.conj_disj_distrib and.commute)
  then have "filter (\<lambda>f. (put_flags t S OR (?v OR x)) AND snd f = snd f) t = filter (\<lambda>f. fst f \<in> set S) t"
    using Cons.prems(1,2) by (intro Cons.IH) simp_all
  moreover have "put_flags t S OR (?v OR x) = put_flags (e # t) S OR x"
    by (simp add: or.assoc or.left_commute)
  ultimately show ?case using head by (auto split: if_splits)
qed simp

locale flag_group =
  fixes t :: "(string \<times> dword) list"
  assumes names: "distinct (map fst t)"
    and bits: "disjoint_flags (map snd t)"
begin

text \<open>What was put in is what comes out.\<close>

lemma get_put: "get_flags t (put_flags t S) = filter (\<lambda>n. n \<in> set S) (map fst t)"
proof -
  have "get_flags t (put_flags t S) = map fst (filter (\<lambda>e. fst e \<in> set S) t)"
    unfolding get_flags_def using get_put_flags [OF bits names, where x = 0 and S = S] by simp
  then show ?thesis by (simp add: filter_map comp_def)
qed

lemma put_inj: "set S \<subseteq> set (map fst t) \<Longrightarrow> set S' \<subseteq> set (map fst t) \<Longrightarrow>
    put_flags t S = put_flags t S' \<Longrightarrow> set S = set S'"
  using arg_cong [OF get_put [of S], of set] arg_cong [OF get_put [of S'], of set] by auto

end

definition ha_open_flags :: "(string \<times> dword) list" where
  "ha_open_flags =
    [(''HA_OPEN_WAIT_IF_LOCKED'', 1),
     (''HA_OPEN_IGNORE_IF_LOCKED'', 2),
     (''HA_OPEN_TMP_TABLE'', 4),
     (''HA_OPEN_DELAY_KEY_WRITE'', 8),
     (''HA_OPEN_ABORT_IF_CRASHED'', 16),
     (''HA_OPEN_FOR_REPAIR'', 32),
     (''HA_OPEN_FROM_SQL_LAYER'', 64),
     (''HA_OPEN_MMAP'', 128),
     (''HA_OPEN_COPY'', 256),
     (''HA_OPEN_INTERNAL_TABLE'', 512)]"

definition ha_key_flags :: "(string \<times> dword) list" where
  "ha_key_flags =
    [(''HA_NOSAME'', 1),
     (''HA_PACK_KEY'', 2),
     (''HA_AUTO_KEY'', 16),
     (''HA_BINARY_PACK_KEY'', 32),
     (''HA_FULLTEXT'', 128),
     (''HA_UNIQUE_CHECK'', 256),
     (''HA_SPATIAL'', 1024),
     (''HA_NULL_ARE_EQUAL'', 2048),
     (''HA_GENERATED_KEY'', 8192),
     (''HA_RTREE_INDEX'', 16384)]"

definition ha_key_auto_flags :: "(string \<times> dword) list" where
  "ha_key_auto_flags =
    [(''HA_SPACE_PACK_USED'', 4),
     (''HA_VAR_LENGTH_KEY'', 8),
     (''HA_NULL_PART_KEY'', 64),
     (''HA_USES_COMMENT'', 4096),
     (''HA_USES_PARSER'', 16384),
     (''HA_USES_BLOCK_SIZE'', 32768),
     (''HA_SORT_ALLOWS_SAME'', 512)]"

definition ha_keyseg_flags :: "(string \<times> dword) list" where
  "ha_keyseg_flags =
    [(''HA_SPACE_PACK'', 1),
     (''HA_PART_KEY_SEG'', 4),
     (''HA_VAR_LENGTH_PART'', 8),
     (''HA_NULL_PART'', 16),
     (''HA_BLOB_PART'', 32),
     (''HA_SWAP_KEY'', 64),
     (''HA_REVERSE_SORT'', 128),
     (''HA_NO_SORT'', 256),
     (''HA_END_SPACE_ARE_EQUAL'', 512),
     (''HA_BIT_PART'', 1024)]"

definition ha_option_flags :: "(string \<times> dword) list" where
  "ha_option_flags =
    [(''HA_OPTION_PACK_RECORD'', 1),
     (''HA_OPTION_PACK_KEYS'', 2),
     (''HA_OPTION_COMPRESS_RECORD'', 4),
     (''HA_OPTION_LONG_BLOB_PTR'', 8),
     (''HA_OPTION_TMP_TABLE'', 16),
     (''HA_OPTION_CHECKSUM'', 32),
     (''HA_OPTION_DELAY_KEY_WRITE'', 64),
     (''HA_OPTION_NO_PACK_KEYS'', 128),
     (''HA_OPTION_CREATE_FROM_ENGINE'', 256),
     (''HA_OPTION_RELIES_ON_SQL_LAYER'', 512),
     (''HA_OPTION_NULL_FIELDS'', 1024),
     (''HA_OPTION_PAGE_CHECKSUM'', 2048),
     (''HA_OPTION_TEMP_COMPRESS_RECORD'', 32768),
     (''HA_OPTION_READ_ONLY_DATA'', 65536),
     (''HA_OPTION_NO_CHECKSUM'', 131072),
     (''HA_OPTION_NO_DELAY_KEY_WRITE'', 262144)]"

definition ha_create_flags :: "(string \<times> dword) list" where
  "ha_create_flags =
    [(''HA_DONT_TOUCH_DATA'', 1),
     (''HA_PACK_RECORD'', 2),
     (''HA_CREATE_TMP_TABLE'', 4),
     (''HA_CREATE_CHECKSUM'', 8),
     (''HA_CREATE_KEEP_FILES'', 16),
     (''HA_CREATE_PAGE_CHECKSUM'', 32),
     (''HA_CREATE_DELAY_KEY_WRITE'', 64),
     (''HA_CREATE_RELIES_ON_SQL_LAYER'', 128)]"

definition ha_status_flags :: "(string \<times> dword) list" where
  "ha_status_flags =
    [(''HA_STATUS_POS'', 1),
     (''HA_STATUS_NO_LOCK'', 2),
     (''HA_STATUS_TIME'', 4),
     (''HA_STATUS_CONST'', 8),
     (''HA_STATUS_VARIABLE'', 16),
     (''HA_STATUS_ERRKEY'', 32),
     (''HA_STATUS_AUTO'', 64)]"

definition search_flags :: "(string \<times> dword) list" where
  "search_flags =
    [(''SEARCH_FIND'', 1),
     (''SEARCH_NO_FIND'', 2),
     (''SEARCH_SAME'', 4),
     (''SEARCH_BIGGER'', 8),
     (''SEARCH_SMALLER'', 16),
     (''SEARCH_SAVE_BUFF'', 32),
     (''SEARCH_UPDATE'', 64),
     (''SEARCH_PREFIX'', 128),
     (''SEARCH_LAST'', 256),
     (''MBR_CONTAIN'', 512),
     (''MBR_INTERSECT'', 1024),
     (''MBR_WITHIN'', 2048),
     (''MBR_DISJOINT'', 4096),
     (''MBR_EQUAL'', 8192),
     (''MBR_DATA'', 16384),
     (''SEARCH_NULL_ARE_EQUAL'', 32768),
     (''SEARCH_NULL_ARE_NOT_EQUAL'', 65536),
     (''SEARCH_INSERT'', 131072),
     (''SEARCH_PART_KEY'', 262144),
     (''SEARCH_USER_KEY_HAS_TRANSID'', 524288),
     (''SEARCH_PAGE_KEY_HAS_TRANSID'', 1048576)]"

definition opt_flags :: "(string \<times> dword) list" where
  "opt_flags =
    [(''QUICK_USED'', 1),
     (''READ_CACHE_USED'', 2),
     (''READ_CHECK_USED'', 4),
     (''KEY_READ_USED'', 8),
     (''WRITE_CACHE_USED'', 16),
     (''OPT_NO_ROWS'', 32)]"

definition ha_state_flags :: "(string \<times> dword) list" where
  "ha_state_flags =
    [(''HA_STATE_CHANGED'', 1),
     (''HA_STATE_AKTIV'', 2),
     (''HA_STATE_WRITTEN'', 4),
     (''HA_STATE_DELETED'', 8),
     (''HA_STATE_NEXT_FOUND'', 16),
     (''HA_STATE_PREV_FOUND'', 32),
     (''HA_STATE_NO_KEY'', 64),
     (''HA_STATE_KEY_CHANGED'', 128),
     (''HA_STATE_WRITE_AT_END'', 256),
     (''HA_STATE_BUFF_SAVED'', 512),
     (''HA_STATE_ROW_CHANGED'', 1024),
     (''HA_STATE_EXTEND_BLOCK'', 2048),
     (''HA_STATE_RNEXT_SAME'', 4096)]"

definition range_flags :: "(string \<times> dword) list" where
  "range_flags =
    [(''NO_MIN_RANGE'', 1),
     (''NO_MAX_RANGE'', 2),
     (''NEAR_MIN'', 4),
     (''NEAR_MAX'', 8),
     (''UNIQUE_RANGE'', 16),
     (''EQ_RANGE'', 32),
     (''NULL_RANGE'', 64),
     (''GEOM_FLAG'', 128),
     (''SKIP_RANGE'', 256),
     (''EMPTY_RANGE'', 512)]"

definition fn_format_flags :: "(string \<times> dword) list" where
  "fn_format_flags =
    [(''MY_REPLACE_DIR'', 1),
     (''MY_REPLACE_EXT'', 2),
     (''MY_UNPACK_FILENAME'', 4),
     (''MY_PACK_FILENAME'', 8),
     (''MY_RESOLVE_SYMLINKS'', 16),
     (''MY_RETURN_REAL_PATH'', 32),
     (''MY_SAFE_PATH'', 64),
     (''MY_RELATIVE_PATH'', 128),
     (''MY_APPEND_EXT'', 256)]"

definition my_end_flags :: "(string \<times> dword) list" where
  "my_end_flags =
    [(''MY_CHECK_ERROR'', 1),
     (''MY_GIVE_INFO'', 2),
     (''MY_DONT_FREE_DBUG'', 4)]"

definition alloc_root_flags :: "(string \<times> dword) list" where
  "alloc_root_flags =
    [(''MY_KEEP_PREALLOC'', 1),
     (''MY_MARK_BLOCKS_FREE'', 2)]"

lemmas flag_tables =
  ha_open_flags_def
  ha_key_flags_def
  ha_key_auto_flags_def
  ha_keyseg_flags_def
  ha_option_flags_def
  ha_create_flags_def
  ha_status_flags_def
  search_flags_def
  opt_flags_def
  ha_state_flags_def
  range_flags_def
  fn_format_flags_def
  my_end_flags_def
  alloc_root_flags_def

interpretation ha_open_bits: flag_group ha_open_flags
  by unfold_locales (simp_all add: ha_open_flags_def)

interpretation ha_key_bits: flag_group ha_key_flags
  by unfold_locales (simp_all add: ha_key_flags_def)

interpretation ha_key_auto_bits: flag_group ha_key_auto_flags
  by unfold_locales (simp_all add: ha_key_auto_flags_def)

interpretation ha_keyseg_bits: flag_group ha_keyseg_flags
  by unfold_locales (simp_all add: ha_keyseg_flags_def)

interpretation ha_option_bits: flag_group ha_option_flags
  by unfold_locales (simp_all add: ha_option_flags_def)

interpretation ha_create_bits: flag_group ha_create_flags
  by unfold_locales (simp_all add: ha_create_flags_def)

interpretation ha_status_bits: flag_group ha_status_flags
  by unfold_locales (simp_all add: ha_status_flags_def)

interpretation search_bits: flag_group search_flags
  by unfold_locales (simp_all add: search_flags_def)

interpretation opt_bits: flag_group opt_flags
  by unfold_locales (simp_all add: opt_flags_def)

interpretation ha_state_bits: flag_group ha_state_flags
  by unfold_locales (simp_all add: ha_state_flags_def)

interpretation range_bits: flag_group range_flags
  by unfold_locales (simp_all add: range_flags_def)

interpretation fn_format_bits: flag_group fn_format_flags
  by unfold_locales (simp_all add: fn_format_flags_def)

interpretation my_end_bits: flag_group my_end_flags
  by unfold_locales (simp_all add: my_end_flags_def)

interpretation alloc_root_bits: flag_group alloc_root_flags
  by unfold_locales (simp_all add: alloc_root_flags_def)

section \<open>The flags of the library functions\<close>

text \<open>
  The bits of \<open>my_sys.h\<close> are shared: the first five are for every function, the others mean
  something else for each function their comments name.
\<close>

definition my_func_flags :: "(string \<times> dword) list" where
  "my_func_flags =
    [(''MY_FFNF'', 1),
     (''MY_FNABP'', 2),
     (''MY_NABP'', 4),
     (''MY_FAE'', 8),
     (''MY_WME'', 16),
     (''MY_WAIT_IF_FULL'', 32),
     (''MY_IGNORE_BADFD'', 32),
     (''MY_SYNC_DIR'', 1024),
     (''MY_RAID'', 64),
     (''MY_FULL_IO'', 512),
     (''MY_DONT_CHECK_FILESIZE'', 128),
     (''MY_LINK_WARNING'', 32),
     (''MY_COPYTIME'', 64),
     (''MY_DELETE_OLD'', 256),
     (''MY_RESOLVE_LINK'', 128),
     (''MY_HOLD_ORIGINAL_MODES'', 128),
     (''MY_REDEL_MAKE_BACKUP'', 256),
     (''MY_SEEK_NOT_DONE'', 32),
     (''MY_SHORT_WAIT'', 64),
     (''MY_FORCE_LOCK'', 128),
     (''MY_NO_WAIT'', 256),
     (''MY_ZEROFILL'', 32),
     (''MY_ALLOW_ZERO_PTR'', 64),
     (''MY_FREE_ON_ERROR'', 128),
     (''MY_HOLD_ON_ERROR'', 256),
     (''MY_DONT_OVERWRITE_FILE'', 2048),
     (''MY_THREADSAFE'', 2048)]"

definition common_flags :: "string list" where
  "common_flags = [''MY_FFNF'', ''MY_FNABP'', ''MY_NABP'', ''MY_FAE'', ''MY_WME'']"

definition own_flags :: "(string \<times> string list) list" where
  "own_flags =
    [(''my_sync'', [''MY_IGNORE_BADFD'']),
     (''my_redel'', [''MY_LINK_WARNING'', ''MY_COPYTIME'', ''MY_REDEL_MAKE_BACKUP'']),
     (''my_lock'', [''MY_SEEK_NOT_DONE'', ''MY_SHORT_WAIT'', ''MY_FORCE_LOCK'', ''MY_NO_WAIT'']),
     (''my_malloc, my_realloc'', [''MY_ZEROFILL'', ''MY_ALLOW_ZERO_PTR'', ''MY_FREE_ON_ERROR'', ''MY_HOLD_ON_ERROR'']),
     (''my_copy'', [''MY_HOLD_ORIGINAL_MODES'', ''MY_DONT_OVERWRITE_FILE'']),
     (''my_realpath'', [''MY_RESOLVE_LINK'']),
     (''my_create_with_symlink'', [''MY_DELETE_OLD''])]"

definition flags_of :: "string list \<Rightarrow> (string \<times> dword) list" where
  "flags_of ns = filter (\<lambda>e. fst e \<in> set ns) my_func_flags"

section \<open>Enumerations\<close>

text \<open>The number of an enumeration constant: its position, counted from the first value.\<close>

fun enum_code :: "int \<Rightarrow> 'a list \<Rightarrow> 'a \<Rightarrow> int option" where
  "enum_code k [] c = None"
| "enum_code k (d # ds) c = (if c = d then Some k else enum_code (k + 1) ds c)"

lemma enum_code_nth: "distinct cs \<Longrightarrow> i < length cs \<Longrightarrow> enum_code k cs (cs ! i) = Some (k + int i)"
proof (induction cs arbitrary: i k)
  case (Cons c cs)
  then show ?case by (cases i) (auto simp: add.assoc)
qed simp

locale enumeration =
  fixes first :: int
    and cs :: "'a list"
  assumes once: "distinct cs"
    and all: "set cs = UNIV"
begin

lemma code_total: "\<exists>n. enum_code first cs c = Some n \<and> first \<le> n \<and> n < first + int (length cs)"
proof -
  obtain i where "i < length cs" "cs ! i = c" using all in_set_conv_nth [of c cs] by auto
  then show ?thesis using enum_code_nth [OF once, of i first] by auto
qed

lemma code_inj: "enum_code first cs c = enum_code first cs d \<Longrightarrow> c = d"
proof -
  assume e: "enum_code first cs c = enum_code first cs d"
  obtain i where i: "i < length cs" "cs ! i = c" using all in_set_conv_nth [of c cs] by auto
  obtain j where j: "j < length cs" "cs ! j = d" using all in_set_conv_nth [of d cs] by auto
  have "i = j" using e enum_code_nth [OF once i(1), of first] enum_code_nth [OF once j(1), of first] i j by simp
  then show "c = d" using i j by simp
qed

end

datatype ha_rkey_function =
    HA_READ_KEY_EXACT
  | HA_READ_KEY_OR_NEXT
  | HA_READ_KEY_OR_PREV
  | HA_READ_AFTER_KEY
  | HA_READ_BEFORE_KEY
  | HA_READ_PREFIX
  | HA_READ_PREFIX_LAST
  | HA_READ_PREFIX_LAST_OR_PREV
  | HA_READ_MBR_CONTAIN
  | HA_READ_MBR_INTERSECT
  | HA_READ_MBR_WITHIN
  | HA_READ_MBR_DISJOINT
  | HA_READ_MBR_EQUAL

definition ha_rkey_function_list :: "ha_rkey_function list" where
  "ha_rkey_function_list =
    [HA_READ_KEY_EXACT, HA_READ_KEY_OR_NEXT, HA_READ_KEY_OR_PREV, HA_READ_AFTER_KEY,
     HA_READ_BEFORE_KEY, HA_READ_PREFIX, HA_READ_PREFIX_LAST, HA_READ_PREFIX_LAST_OR_PREV,
     HA_READ_MBR_CONTAIN, HA_READ_MBR_INTERSECT, HA_READ_MBR_WITHIN, HA_READ_MBR_DISJOINT,
     HA_READ_MBR_EQUAL]"

datatype ha_key_alg =
    HA_KEY_ALG_UNDEF
  | HA_KEY_ALG_BTREE
  | HA_KEY_ALG_RTREE
  | HA_KEY_ALG_HASH
  | HA_KEY_ALG_FULLTEXT

definition ha_key_alg_list :: "ha_key_alg list" where
  "ha_key_alg_list =
    [HA_KEY_ALG_UNDEF, HA_KEY_ALG_BTREE, HA_KEY_ALG_RTREE, HA_KEY_ALG_HASH,
     HA_KEY_ALG_FULLTEXT]"

datatype ha_build_method =
    HA_BUILD_DEFAULT
  | HA_BUILD_ONLINE
  | HA_BUILD_OFFLINE

definition ha_build_method_list :: "ha_build_method list" where
  "ha_build_method_list =
    [HA_BUILD_DEFAULT, HA_BUILD_ONLINE, HA_BUILD_OFFLINE]"

datatype ha_storage_media =
    HA_SM_DEFAULT
  | HA_SM_DISK
  | HA_SM_MEMORY

definition ha_storage_media_list :: "ha_storage_media list" where
  "ha_storage_media_list =
    [HA_SM_DEFAULT, HA_SM_DISK, HA_SM_MEMORY]"

datatype ha_extra_function =
    HA_EXTRA_NORMAL
  | HA_EXTRA_QUICK
  | HA_EXTRA_NOT_USED
  | HA_EXTRA_CACHE
  | HA_EXTRA_NO_CACHE
  | HA_EXTRA_NO_READCHECK
  | HA_EXTRA_READCHECK
  | HA_EXTRA_KEYREAD
  | HA_EXTRA_NO_KEYREAD
  | HA_EXTRA_NO_USER_CHANGE
  | HA_EXTRA_KEY_CACHE
  | HA_EXTRA_NO_KEY_CACHE
  | HA_EXTRA_WAIT_LOCK
  | HA_EXTRA_NO_WAIT_LOCK
  | HA_EXTRA_WRITE_CACHE
  | HA_EXTRA_FLUSH_CACHE
  | HA_EXTRA_NO_KEYS
  | HA_EXTRA_KEYREAD_CHANGE_POS
  | HA_EXTRA_REMEMBER_POS
  | HA_EXTRA_RESTORE_POS
  | HA_EXTRA_REINIT_CACHE
  | HA_EXTRA_FORCE_REOPEN
  | HA_EXTRA_FLUSH
  | HA_EXTRA_NO_ROWS
  | HA_EXTRA_RESET_STATE
  | HA_EXTRA_IGNORE_DUP_KEY
  | HA_EXTRA_NO_IGNORE_DUP_KEY
  | HA_EXTRA_PREPARE_FOR_DROP
  | HA_EXTRA_PREPARE_FOR_UPDATE
  | HA_EXTRA_PRELOAD_BUFFER_SIZE
  | HA_EXTRA_CHANGE_KEY_TO_UNIQUE
  | HA_EXTRA_CHANGE_KEY_TO_DUP
  | HA_EXTRA_KEYREAD_PRESERVE_FIELDS
  | HA_EXTRA_MMAP
  | HA_EXTRA_IGNORE_NO_KEY
  | HA_EXTRA_NO_IGNORE_NO_KEY
  | HA_EXTRA_MARK_AS_LOG_TABLE
  | HA_EXTRA_WRITE_CAN_REPLACE
  | HA_EXTRA_WRITE_CANNOT_REPLACE
  | HA_EXTRA_DELETE_CANNOT_BATCH
  | HA_EXTRA_UPDATE_CANNOT_BATCH
  | HA_EXTRA_INSERT_WITH_UPDATE
  | HA_EXTRA_PREPARE_FOR_RENAME
  | HA_EXTRA_ADD_CHILDREN_LIST
  | HA_EXTRA_ATTACH_CHILDREN
  | HA_EXTRA_IS_ATTACHED_CHILDREN
  | HA_EXTRA_DETACH_CHILDREN
  | HA_EXTRA_ORDERBY_LIMIT
  | HA_EXTRA_NO_ORDERBY_LIMIT
  | HA_EXTRA_PREPARE_FOR_FORCED_CLOSE
  | HA_EXTRA_ALLOW_LOG_DELETE

definition ha_extra_function_list :: "ha_extra_function list" where
  "ha_extra_function_list =
    [HA_EXTRA_NORMAL, HA_EXTRA_QUICK, HA_EXTRA_NOT_USED, HA_EXTRA_CACHE,
     HA_EXTRA_NO_CACHE, HA_EXTRA_NO_READCHECK, HA_EXTRA_READCHECK, HA_EXTRA_KEYREAD,
     HA_EXTRA_NO_KEYREAD, HA_EXTRA_NO_USER_CHANGE, HA_EXTRA_KEY_CACHE, HA_EXTRA_NO_KEY_CACHE,
     HA_EXTRA_WAIT_LOCK, HA_EXTRA_NO_WAIT_LOCK, HA_EXTRA_WRITE_CACHE, HA_EXTRA_FLUSH_CACHE,
     HA_EXTRA_NO_KEYS, HA_EXTRA_KEYREAD_CHANGE_POS, HA_EXTRA_REMEMBER_POS, HA_EXTRA_RESTORE_POS,
     HA_EXTRA_REINIT_CACHE, HA_EXTRA_FORCE_REOPEN, HA_EXTRA_FLUSH, HA_EXTRA_NO_ROWS,
     HA_EXTRA_RESET_STATE, HA_EXTRA_IGNORE_DUP_KEY, HA_EXTRA_NO_IGNORE_DUP_KEY, HA_EXTRA_PREPARE_FOR_DROP,
     HA_EXTRA_PREPARE_FOR_UPDATE, HA_EXTRA_PRELOAD_BUFFER_SIZE, HA_EXTRA_CHANGE_KEY_TO_UNIQUE, HA_EXTRA_CHANGE_KEY_TO_DUP,
     HA_EXTRA_KEYREAD_PRESERVE_FIELDS, HA_EXTRA_MMAP, HA_EXTRA_IGNORE_NO_KEY, HA_EXTRA_NO_IGNORE_NO_KEY,
     HA_EXTRA_MARK_AS_LOG_TABLE, HA_EXTRA_WRITE_CAN_REPLACE, HA_EXTRA_WRITE_CANNOT_REPLACE, HA_EXTRA_DELETE_CANNOT_BATCH,
     HA_EXTRA_UPDATE_CANNOT_BATCH, HA_EXTRA_INSERT_WITH_UPDATE, HA_EXTRA_PREPARE_FOR_RENAME, HA_EXTRA_ADD_CHILDREN_LIST,
     HA_EXTRA_ATTACH_CHILDREN, HA_EXTRA_IS_ATTACHED_CHILDREN, HA_EXTRA_DETACH_CHILDREN, HA_EXTRA_ORDERBY_LIMIT,
     HA_EXTRA_NO_ORDERBY_LIMIT, HA_EXTRA_PREPARE_FOR_FORCED_CLOSE, HA_EXTRA_ALLOW_LOG_DELETE]"

datatype ha_panic_function =
    HA_PANIC_CLOSE
  | HA_PANIC_WRITE
  | HA_PANIC_READ

definition ha_panic_function_list :: "ha_panic_function list" where
  "ha_panic_function_list =
    [HA_PANIC_CLOSE, HA_PANIC_WRITE, HA_PANIC_READ]"

datatype ha_base_keytype =
    HA_KEYTYPE_END
  | HA_KEYTYPE_TEXT
  | HA_KEYTYPE_BINARY
  | HA_KEYTYPE_SHORT_INT
  | HA_KEYTYPE_LONG_INT
  | HA_KEYTYPE_FLOAT
  | HA_KEYTYPE_DOUBLE
  | HA_KEYTYPE_NUM
  | HA_KEYTYPE_USHORT_INT
  | HA_KEYTYPE_ULONG_INT
  | HA_KEYTYPE_LONGLONG
  | HA_KEYTYPE_ULONGLONG
  | HA_KEYTYPE_INT24
  | HA_KEYTYPE_UINT24
  | HA_KEYTYPE_INT8
  | HA_KEYTYPE_VARTEXT1
  | HA_KEYTYPE_VARBINARY1
  | HA_KEYTYPE_VARTEXT2
  | HA_KEYTYPE_VARBINARY2
  | HA_KEYTYPE_BIT

definition ha_base_keytype_list :: "ha_base_keytype list" where
  "ha_base_keytype_list =
    [HA_KEYTYPE_END, HA_KEYTYPE_TEXT, HA_KEYTYPE_BINARY, HA_KEYTYPE_SHORT_INT,
     HA_KEYTYPE_LONG_INT, HA_KEYTYPE_FLOAT, HA_KEYTYPE_DOUBLE, HA_KEYTYPE_NUM,
     HA_KEYTYPE_USHORT_INT, HA_KEYTYPE_ULONG_INT, HA_KEYTYPE_LONGLONG, HA_KEYTYPE_ULONGLONG,
     HA_KEYTYPE_INT24, HA_KEYTYPE_UINT24, HA_KEYTYPE_INT8, HA_KEYTYPE_VARTEXT1,
     HA_KEYTYPE_VARBINARY1, HA_KEYTYPE_VARTEXT2, HA_KEYTYPE_VARBINARY2, HA_KEYTYPE_BIT]"

datatype en_fieldtype =
    FIELD_LAST
  | FIELD_NORMAL
  | FIELD_SKIP_ENDSPACE
  | FIELD_SKIP_PRESPACE
  | FIELD_SKIP_ZERO
  | FIELD_BLOB
  | FIELD_CONSTANT
  | FIELD_INTERVALL
  | FIELD_ZERO
  | FIELD_VARCHAR
  | FIELD_CHECK
  | FIELD_enum_val_count

definition en_fieldtype_list :: "en_fieldtype list" where
  "en_fieldtype_list =
    [FIELD_LAST, FIELD_NORMAL, FIELD_SKIP_ENDSPACE, FIELD_SKIP_PRESPACE,
     FIELD_SKIP_ZERO, FIELD_BLOB, FIELD_CONSTANT, FIELD_INTERVALL,
     FIELD_ZERO, FIELD_VARCHAR, FIELD_CHECK, FIELD_enum_val_count]"

datatype data_file_type =
    STATIC_RECORD
  | DYNAMIC_RECORD
  | COMPRESSED_RECORD
  | BLOCK_RECORD

definition data_file_type_list :: "data_file_type list" where
  "data_file_type_list =
    [STATIC_RECORD, DYNAMIC_RECORD, COMPRESSED_RECORD, BLOCK_RECORD]"

datatype thr_lock_type =
    TL_IGNORE
  | TL_UNLOCK
  | TL_READ_DEFAULT
  | TL_READ
  | TL_READ_WITH_SHARED_LOCKS
  | TL_READ_HIGH_PRIORITY
  | TL_READ_NO_INSERT
  | TL_WRITE_ALLOW_WRITE
  | TL_WRITE_ALLOW_READ
  | TL_WRITE_CONCURRENT_INSERT
  | TL_WRITE_DELAYED
  | TL_WRITE_DEFAULT
  | TL_WRITE_LOW_PRIORITY
  | TL_WRITE
  | TL_WRITE_ONLY

definition thr_lock_type_list :: "thr_lock_type list" where
  "thr_lock_type_list =
    [TL_IGNORE, TL_UNLOCK, TL_READ_DEFAULT, TL_READ,
     TL_READ_WITH_SHARED_LOCKS, TL_READ_HIGH_PRIORITY, TL_READ_NO_INSERT, TL_WRITE_ALLOW_WRITE,
     TL_WRITE_ALLOW_READ, TL_WRITE_CONCURRENT_INSERT, TL_WRITE_DELAYED, TL_WRITE_DEFAULT,
     TL_WRITE_LOW_PRIORITY, TL_WRITE, TL_WRITE_ONLY]"

datatype enum_thr_lock_result =
    THR_LOCK_SUCCESS
  | THR_LOCK_ABORTED
  | THR_LOCK_WAIT_TIMEOUT
  | THR_LOCK_DEADLOCK

definition enum_thr_lock_result_list :: "enum_thr_lock_result list" where
  "enum_thr_lock_result_list =
    [THR_LOCK_SUCCESS, THR_LOCK_ABORTED, THR_LOCK_WAIT_TIMEOUT, THR_LOCK_DEADLOCK]"

datatype get_opt_arg_type =
    NO_ARG
  | OPT_ARG
  | REQUIRED_ARG

definition get_opt_arg_type_list :: "get_opt_arg_type list" where
  "get_opt_arg_type_list =
    [NO_ARG, OPT_ARG, REQUIRED_ARG]"

lemmas enum_lists =
  ha_rkey_function_list_def
  ha_key_alg_list_def
  ha_build_method_list_def
  ha_storage_media_list_def
  ha_extra_function_list_def
  ha_panic_function_list_def
  ha_base_keytype_list_def
  en_fieldtype_list_def
  data_file_type_list_def
  thr_lock_type_list_def
  enum_thr_lock_result_list_def
  get_opt_arg_type_list_def

text \<open>Every constant is in its list once, so it has a number, and different constants have different ones.\<close>

lemma ha_rkey_function_all: "distinct ha_rkey_function_list \<and> set ha_rkey_function_list = UNIV \<and> length ha_rkey_function_list = 13"
proof -
  have "x \<in> set ha_rkey_function_list" for x by (cases x) (simp_all add: ha_rkey_function_list_def)
  then show ?thesis by (auto simp: ha_rkey_function_list_def)
qed

lemma ha_key_alg_all: "distinct ha_key_alg_list \<and> set ha_key_alg_list = UNIV \<and> length ha_key_alg_list = 5"
proof -
  have "x \<in> set ha_key_alg_list" for x by (cases x) (simp_all add: ha_key_alg_list_def)
  then show ?thesis by (auto simp: ha_key_alg_list_def)
qed

lemma ha_build_method_all: "distinct ha_build_method_list \<and> set ha_build_method_list = UNIV \<and> length ha_build_method_list = 3"
proof -
  have "x \<in> set ha_build_method_list" for x by (cases x) (simp_all add: ha_build_method_list_def)
  then show ?thesis by (auto simp: ha_build_method_list_def)
qed

lemma ha_storage_media_all: "distinct ha_storage_media_list \<and> set ha_storage_media_list = UNIV \<and> length ha_storage_media_list = 3"
proof -
  have "x \<in> set ha_storage_media_list" for x by (cases x) (simp_all add: ha_storage_media_list_def)
  then show ?thesis by (auto simp: ha_storage_media_list_def)
qed

lemma ha_extra_function_all: "distinct ha_extra_function_list \<and> set ha_extra_function_list = UNIV \<and> length ha_extra_function_list = 51"
proof -
  have "x \<in> set ha_extra_function_list" for x by (cases x) (simp_all add: ha_extra_function_list_def)
  then show ?thesis by (auto simp: ha_extra_function_list_def)
qed

lemma ha_panic_function_all: "distinct ha_panic_function_list \<and> set ha_panic_function_list = UNIV \<and> length ha_panic_function_list = 3"
proof -
  have "x \<in> set ha_panic_function_list" for x by (cases x) (simp_all add: ha_panic_function_list_def)
  then show ?thesis by (auto simp: ha_panic_function_list_def)
qed

lemma ha_base_keytype_all: "distinct ha_base_keytype_list \<and> set ha_base_keytype_list = UNIV \<and> length ha_base_keytype_list = 20"
proof -
  have "x \<in> set ha_base_keytype_list" for x by (cases x) (simp_all add: ha_base_keytype_list_def)
  then show ?thesis by (auto simp: ha_base_keytype_list_def)
qed

lemma en_fieldtype_all: "distinct en_fieldtype_list \<and> set en_fieldtype_list = UNIV \<and> length en_fieldtype_list = 12"
proof -
  have "x \<in> set en_fieldtype_list" for x by (cases x) (simp_all add: en_fieldtype_list_def)
  then show ?thesis by (auto simp: en_fieldtype_list_def)
qed

lemma data_file_type_all: "distinct data_file_type_list \<and> set data_file_type_list = UNIV \<and> length data_file_type_list = 4"
proof -
  have "x \<in> set data_file_type_list" for x by (cases x) (simp_all add: data_file_type_list_def)
  then show ?thesis by (auto simp: data_file_type_list_def)
qed

lemma thr_lock_type_all: "distinct thr_lock_type_list \<and> set thr_lock_type_list = UNIV \<and> length thr_lock_type_list = 15"
proof -
  have "x \<in> set thr_lock_type_list" for x by (cases x) (simp_all add: thr_lock_type_list_def)
  then show ?thesis by (auto simp: thr_lock_type_list_def)
qed

lemma enum_thr_lock_result_all: "distinct enum_thr_lock_result_list \<and> set enum_thr_lock_result_list = UNIV \<and> length enum_thr_lock_result_list = 4"
proof -
  have "x \<in> set enum_thr_lock_result_list" for x by (cases x) (simp_all add: enum_thr_lock_result_list_def)
  then show ?thesis by (auto simp: enum_thr_lock_result_list_def)
qed

lemma get_opt_arg_type_all: "distinct get_opt_arg_type_list \<and> set get_opt_arg_type_list = UNIV \<and> length get_opt_arg_type_list = 3"
proof -
  have "x \<in> set get_opt_arg_type_list" for x by (cases x) (simp_all add: get_opt_arg_type_list_def)
  then show ?thesis by (auto simp: get_opt_arg_type_list_def)
qed

text \<open>The numbers C gives the constants: from 0, or from the value of the first.\<close>

definition ha_rkey_function_val :: "ha_rkey_function \<Rightarrow> int option" where
  "ha_rkey_function_val = enum_code 0 ha_rkey_function_list"

definition ha_key_alg_val :: "ha_key_alg \<Rightarrow> int option" where
  "ha_key_alg_val = enum_code 0 ha_key_alg_list"

definition ha_build_method_val :: "ha_build_method \<Rightarrow> int option" where
  "ha_build_method_val = enum_code 0 ha_build_method_list"

definition ha_storage_media_val :: "ha_storage_media \<Rightarrow> int option" where
  "ha_storage_media_val = enum_code 0 ha_storage_media_list"

definition ha_extra_function_val :: "ha_extra_function \<Rightarrow> int option" where
  "ha_extra_function_val = enum_code 0 ha_extra_function_list"

definition ha_panic_function_val :: "ha_panic_function \<Rightarrow> int option" where
  "ha_panic_function_val = enum_code 0 ha_panic_function_list"

definition ha_base_keytype_val :: "ha_base_keytype \<Rightarrow> int option" where
  "ha_base_keytype_val = enum_code 0 ha_base_keytype_list"

definition en_fieldtype_val :: "en_fieldtype \<Rightarrow> int option" where
  "en_fieldtype_val = enum_code (- 1) en_fieldtype_list"

definition data_file_type_val :: "data_file_type \<Rightarrow> int option" where
  "data_file_type_val = enum_code 0 data_file_type_list"

definition thr_lock_type_val :: "thr_lock_type \<Rightarrow> int option" where
  "thr_lock_type_val = enum_code (- 1) thr_lock_type_list"

definition enum_thr_lock_result_val :: "enum_thr_lock_result \<Rightarrow> int option" where
  "enum_thr_lock_result_val = enum_code 0 enum_thr_lock_result_list"

definition get_opt_arg_type_val :: "get_opt_arg_type \<Rightarrow> int option" where
  "get_opt_arg_type_val = enum_code 0 get_opt_arg_type_list"

interpretation ha_rkey_function_enum: enumeration "0" ha_rkey_function_list
  using ha_rkey_function_all by unfold_locales simp_all

interpretation ha_key_alg_enum: enumeration "0" ha_key_alg_list
  using ha_key_alg_all by unfold_locales simp_all

interpretation ha_build_method_enum: enumeration "0" ha_build_method_list
  using ha_build_method_all by unfold_locales simp_all

interpretation ha_storage_media_enum: enumeration "0" ha_storage_media_list
  using ha_storage_media_all by unfold_locales simp_all

interpretation ha_extra_function_enum: enumeration "0" ha_extra_function_list
  using ha_extra_function_all by unfold_locales simp_all

interpretation ha_panic_function_enum: enumeration "0" ha_panic_function_list
  using ha_panic_function_all by unfold_locales simp_all

interpretation ha_base_keytype_enum: enumeration "0" ha_base_keytype_list
  using ha_base_keytype_all by unfold_locales simp_all

interpretation en_fieldtype_enum: enumeration "- 1" en_fieldtype_list
  using en_fieldtype_all by unfold_locales simp_all

interpretation data_file_type_enum: enumeration "0" data_file_type_list
  using data_file_type_all by unfold_locales simp_all

interpretation thr_lock_type_enum: enumeration "- 1" thr_lock_type_list
  using thr_lock_type_all by unfold_locales simp_all

interpretation enum_thr_lock_result_enum: enumeration "0" enum_thr_lock_result_list
  using enum_thr_lock_result_all by unfold_locales simp_all

interpretation get_opt_arg_type_enum: enumeration "0" get_opt_arg_type_list
  using get_opt_arg_type_all by unfold_locales simp_all

text \<open>
  The lock types are in order: nothing, then the read locks, then the write locks, with \<open>TL_READ_NO_INSERT\<close> the last read lock and \<open>TL_WRITE_ALLOW_WRITE\<close> the first
  write lock.
\<close>

lemma thr_lock_type_order:
  "thr_lock_type_val TL_IGNORE = Some (- 1)" "thr_lock_type_val TL_UNLOCK = Some 0"
  "thr_lock_type_val TL_READ_NO_INSERT = Some 5" "thr_lock_type_val TL_WRITE_ALLOW_WRITE = Some 6"
  "thr_lock_type_val TL_WRITE_ONLY = Some 13"
  by (simp_all add: thr_lock_type_val_def thr_lock_type_list_def)

section \<open>Handler errors\<close>

definition ha_err_table :: "(string \<times> nat) list" where
  "ha_err_table =
    [(''HA_ERR_KEY_NOT_FOUND'', 120),
     (''HA_ERR_FOUND_DUPP_KEY'', 121),
     (''HA_ERR_INTERNAL_ERROR'', 122),
     (''HA_ERR_RECORD_CHANGED'', 123),
     (''HA_ERR_WRONG_INDEX'', 124),
     (''HA_ERR_CRASHED'', 126),
     (''HA_ERR_WRONG_IN_RECORD'', 127),
     (''HA_ERR_OUT_OF_MEM'', 128),
     (''HA_ERR_NOT_A_TABLE'', 130),
     (''HA_ERR_WRONG_COMMAND'', 131),
     (''HA_ERR_OLD_FILE'', 132),
     (''HA_ERR_NO_ACTIVE_RECORD'', 133),
     (''HA_ERR_RECORD_DELETED'', 134),
     (''HA_ERR_RECORD_FILE_FULL'', 135),
     (''HA_ERR_INDEX_FILE_FULL'', 136),
     (''HA_ERR_END_OF_FILE'', 137),
     (''HA_ERR_UNSUPPORTED'', 138),
     (''HA_ERR_TO_BIG_ROW'', 139),
     (''HA_WRONG_CREATE_OPTION'', 140),
     (''HA_ERR_FOUND_DUPP_UNIQUE'', 141),
     (''HA_ERR_UNKNOWN_CHARSET'', 142),
     (''HA_ERR_WRONG_MRG_TABLE_DEF'', 143),
     (''HA_ERR_CRASHED_ON_REPAIR'', 144),
     (''HA_ERR_CRASHED_ON_USAGE'', 145),
     (''HA_ERR_LOCK_WAIT_TIMEOUT'', 146),
     (''HA_ERR_LOCK_TABLE_FULL'', 147),
     (''HA_ERR_READ_ONLY_TRANSACTION'', 148),
     (''HA_ERR_LOCK_DEADLOCK'', 149),
     (''HA_ERR_CANNOT_ADD_FOREIGN'', 150),
     (''HA_ERR_NO_REFERENCED_ROW'', 151),
     (''HA_ERR_ROW_IS_REFERENCED'', 152),
     (''HA_ERR_NO_SAVEPOINT'', 153),
     (''HA_ERR_NON_UNIQUE_BLOCK_SIZE'', 154),
     (''HA_ERR_NO_SUCH_TABLE'', 155),
     (''HA_ERR_TABLE_EXIST'', 156),
     (''HA_ERR_NO_CONNECTION'', 157),
     (''HA_ERR_NULL_IN_SPATIAL'', 158),
     (''HA_ERR_TABLE_DEF_CHANGED'', 159),
     (''HA_ERR_NO_PARTITION_FOUND'', 160),
     (''HA_ERR_RBR_LOGGING_FAILED'', 161),
     (''HA_ERR_DROP_INDEX_FK'', 162),
     (''HA_ERR_FOREIGN_DUPLICATE_KEY'', 163),
     (''HA_ERR_TABLE_NEEDS_UPGRADE'', 164),
     (''HA_ERR_TABLE_READONLY'', 165),
     (''HA_ERR_AUTOINC_READ_FAILED'', 166),
     (''HA_ERR_AUTOINC_ERANGE'', 167),
     (''HA_ERR_GENERIC'', 168),
     (''HA_ERR_RECORD_IS_THE_SAME'', 169),
     (''HA_ERR_LOGGING_IMPOSSIBLE'', 170),
     (''HA_ERR_TABLESPACE_EXIST'', 171),
     (''HA_ERR_CORRUPT_EVENT'', 172),
     (''HA_ERR_NEW_FILE'', 173),
     (''HA_ERR_ROWS_EVENT_APPLY'', 174),
     (''HA_ERR_INITIALIZATION'', 175),
     (''HA_ERR_FILE_TOO_SHORT'', 176),
     (''HA_ERR_WRONG_CRC'', 177),
     (''HA_ERR_LOCK_OR_ACTIVE_TRANSACTION'', 178),
     (''HA_ERR_NO_SUCH_TABLESPACE'', 179),
     (''HA_ERR_TABLESPACE_NOT_EMPTY'', 180),
     (''HA_ERR_TABLESPACE_DATAFILE_EXIST'', 181),
     (''HA_ERR_ROW_NOT_VISIBLE'', 182)]"

definition HA_ERR_FIRST :: nat where "HA_ERR_FIRST = 120"

definition HA_ERR_LAST :: nat where "HA_ERR_LAST = 182"

definition HA_ERR_ERRORS :: nat where
  "HA_ERR_ERRORS = HA_ERR_LAST - HA_ERR_FIRST + 1"

definition HA_VARCHAR_PACKLENGTH :: "nat \<Rightarrow> nat" where
  "HA_VARCHAR_PACKLENGTH field_length = (if field_length < 256 then 1 else 2)"

section \<open>Option types\<close>

definition get_types :: "(string \<times> dword) list" where
  "get_types =
    [(''GET_NO_ARG'', 1),
     (''GET_BOOL'', 2),
     (''GET_INT'', 3),
     (''GET_UINT'', 4),
     (''GET_LONG'', 5),
     (''GET_ULONG'', 6),
     (''GET_LL'', 7),
     (''GET_ULL'', 8),
     (''GET_STR'', 9),
     (''GET_STR_ALLOC'', 10),
     (''GET_DISABLED'', 11),
     (''GET_ENUM'', 12),
     (''GET_SET'', 13),
     (''GET_DOUBLE'', 14)]"

definition GET_ASK_ADDR :: dword where "GET_ASK_ADDR = 128"
definition GET_TYPE_MASK :: dword where "GET_TYPE_MASK = 127"

section \<open>Properties\<close>

text \<open>
  The errors are in ascending order between the first and the last, without 125 and 129:
  \<open>HA_ERR_ERRORS\<close>, \<open>number of different errors\<close> in its comment, is the size of a table indexed by
  error and two more than there are.
\<close>

theorem ha_errors_fit:
  "sorted (map snd ha_err_table) \<and> distinct (map snd ha_err_table) \<and>
   (\<forall>e \<in> set ha_err_table. HA_ERR_FIRST \<le> snd e \<and> snd e - HA_ERR_FIRST < HA_ERR_ERRORS) \<and>
   set [HA_ERR_FIRST..<HA_ERR_LAST + 1] - set (map snd ha_err_table) = {125, 129} \<and>
   HA_ERR_ERRORS = length ha_err_table + 2"
  by (simp add: ha_err_table_def HA_ERR_FIRST_def HA_ERR_LAST_def HA_ERR_ERRORS_def upt_rec insert_Diff_if)

text \<open>The length of a packed string fits in the bytes reserved for it.\<close>

lemma packlength_fits: "n < 65536 \<Longrightarrow> n < 256 ^ HA_VARCHAR_PACKLENGTH n"
  by (simp add: HA_VARCHAR_PACKLENGTH_def)

text \<open>The address flag of an option type is removed by the mask and nothing else is.\<close>

lemma get_type_mask:
  "\<forall>e \<in> set get_types. (snd e OR GET_ASK_ADDR) AND GET_TYPE_MASK = snd e \<and> (snd e OR GET_ASK_ADDR) AND GET_ASK_ADDR \<noteq> 0"
  by (simp add: get_types_def GET_ASK_ADDR_def GET_TYPE_MASK_def)

text \<open>The mask of the key flags is the OR of the group and stays within 16 bits.\<close>

definition HA_KEYFLAG_MASK :: dword where
  "HA_KEYFLAG_MASK = fold (OR) (map snd ha_key_flags) 0"

lemma keyflag_mask_16: "HA_KEYFLAG_MASK AND mask 16 = HA_KEYFLAG_MASK"
  by (simp add: HA_KEYFLAG_MASK_def ha_key_flags_def mask_eq_exp_minus_1)

text \<open>
  The key flags a table is created with and the automatic ones share a word, but not its bits:
  an R-tree index and a full-text parser are the same bit.
\<close>

lemma key_flags_share_bit: "\<not> disjoint_flags (map snd (ha_key_flags @ ha_key_auto_flags))"
  by (simp add: ha_key_flags_def ha_key_auto_flags_def)

text \<open>
  A set of options survives being passed as one word: in every group of option bits, and for
  every library function with the common flags and its own, the options read back from the
  OR of a selection are the selected ones.
\<close>

theorem options_roundtrip:
  "\<forall>t \<in> {ha_open_flags, ha_key_flags, ha_key_auto_flags, ha_keyseg_flags, ha_option_flags, ha_create_flags, ha_status_flags, search_flags, opt_flags, ha_state_flags, range_flags, fn_format_flags, my_end_flags, alloc_root_flags}. get_flags t (put_flags t S) = filter (\<lambda>n. n \<in> set S) (map fst t)"
  by (auto simp: ha_open_bits.get_put ha_key_bits.get_put ha_key_auto_bits.get_put ha_keyseg_bits.get_put ha_option_bits.get_put ha_create_bits.get_put ha_status_bits.get_put search_bits.get_put opt_bits.get_put ha_state_bits.get_put range_bits.get_put fn_format_bits.get_put my_end_bits.get_put alloc_root_bits.get_put)

lemma own_flags_disjoint:
  "list_all (\<lambda>(f, ns). disjoint_flags (map snd (flags_of (common_flags @ ns)))) own_flags"
  by code_simp

lemma my_func_flags_distinct: "distinct (map fst my_func_flags)"
  by code_simp

lemma own_flag_groups:
  assumes "(f, ns) \<in> set own_flags"
  shows "flag_group (flags_of (common_flags @ ns))"
proof
  show "distinct (map fst (flags_of (common_flags @ ns)))"
    unfolding flags_of_def by (rule distinct_map_filter [OF my_func_flags_distinct])
  show "disjoint_flags (map snd (flags_of (common_flags @ ns)))"
    using own_flags_disjoint assms by (auto simp: list_all_iff)
qed

theorem function_options_roundtrip:
  assumes "(f, ns) \<in> set own_flags"
  shows "get_flags (flags_of (common_flags @ ns)) (put_flags (flags_of (common_flags @ ns)) S) =
    filter (\<lambda>n. n \<in> set S) (map fst (flags_of (common_flags @ ns)))"
  by (rule flag_group.get_put [OF own_flag_groups [OF assms]])

end
