(* ===== verification/Debug.thy ===== *)
theory Debug
  imports Prelude
begin

text \<open>
  The debug output of \<open>libdhcp/debug.cpp\<close> and \<open>include/debug.h\<close>: the two printing functions with their
  stack buffers, the \<open>LOG\<close>/\<open>DEBUG\<close> macros of the Unicode build, and the macros that print the last
  Windows error. The formatters and \<open>FormatMessage\<close> are parameters. The other theories leave out
  the debug calls of the code; \<open>debug_w_returns\<close> below is why they can: in the Unicode build
  a debug call returns and changes nothing but the two output streams.
\<close>

section \<open>Parameters and state\<close>

text \<open>
  \<open>vsprintf\<close> and \<open>wvsprintf\<close> give the characters they write before the terminating NUL for a format
  and its arguments; \<open>str_arg\<close> passes a wide string as an argument. \<open>FormatMessage\<close> gives the text
  for an error code, or fails.
\<close>

record 'arg debug_api =
  vsprintf :: "string \<Rightarrow> 'arg list \<Rightarrow> string"
  wvsprintf :: "wchar list \<Rightarrow> 'arg list \<Rightarrow> wchar list"
  str_arg :: "wchar list \<Rightarrow> 'arg"
  GetLastError :: dword
  FormatMessage :: "dword \<Rightarrow> wchar list option"

text \<open>
  What the functions change: the text sent to the debugger and to the standard output, and
  the blocks of the local heap.
\<close>

record debug_state =
  debugger_a :: "string list"
  stdout_a :: "string list"
  debugger_w :: "wchar list list"
  stdout_w :: "wchar list list"
  local_heap :: "ptr \<Rightarrow> wchar list option"
  next_block :: ptr

section \<open>The printing functions\<close>

text \<open>The size of the stack buffers, in characters.\<close>

definition DEBUG_BUF :: nat where "DEBUG_BUF = 65536"

text \<open>
  Writing a text and its NUL into a buffer of that size without a check; the value is the
  string the buffer then holds.
\<close>

definition format_into :: "nat \<Rightarrow> 'c \<Rightarrow> 'c list \<Rightarrow> 'c list result" where
  "format_into n nul txt =
     (if n < length txt + 1 then Inl Buffer_Overflow else Inr (takeWhile (\<lambda>c. c \<noteq> nul) txt))"

definition debug_printf_a :: "'arg debug_api \<Rightarrow> string \<Rightarrow> 'arg list \<Rightarrow> debug_state \<Rightarrow> debug_state result" where
  "debug_printf_a D fmt args s =
     res_bind (format_into DEBUG_BUF (CHR 0x00) (vsprintf D fmt args)) (\<lambda>buf.
       Inr (s\<lparr>debugger_a := debugger_a s @ [buf], stdout_a := stdout_a s @ [buf]\<rparr>))"

definition debug_printf_w :: "'arg debug_api \<Rightarrow> wchar list \<Rightarrow> 'arg list \<Rightarrow> debug_state \<Rightarrow> debug_state result" where
  "debug_printf_w D fmt args s =
     res_bind (format_into DEBUG_BUF 0 (wvsprintf D fmt args)) (\<lambda>buf.
       Inr (s\<lparr>debugger_w := debugger_w s @ [buf], stdout_w := stdout_w s @ [buf]\<rparr>))"

text \<open>\<open>_T(fmt)\<close> of the Unicode build widens the literal; \<open>LOG\<close> is \<open>DEBUG\<close> is \<open>DEBUG_W\<close>.\<close>

definition T_lit :: "string \<Rightarrow> wchar list" where
  "T_lit s = map (\<lambda>c. of_nat (of_char c)) s"

definition DEBUG :: "'arg debug_api \<Rightarrow> string \<Rightarrow> 'arg list \<Rightarrow> debug_state \<Rightarrow> debug_state result" where
  "DEBUG D fmt args s = debug_printf_w D (T_lit fmt) args s"

definition LOG :: "'arg debug_api \<Rightarrow> string \<Rightarrow> 'arg list \<Rightarrow> debug_state \<Rightarrow> debug_state result" where
  "LOG = DEBUG"

section \<open>The last error\<close>

text \<open>
  \<open>FormatMessage\<close> with \<open>FORMAT_MESSAGE_ALLOCATE_BUFFER\<close> stores a new block in the pointer. When it
  fails the pointer keeps the indeterminate value it was declared with (\<open>None\<close>): using it is a
  read outside every object.
\<close>

definition format_message :: "'arg debug_api \<Rightarrow> debug_state \<Rightarrow> ptr option \<times> debug_state" where
  "format_message D s =
     (case FormatMessage D (GetLastError D) of
        None \<Rightarrow> (None, s)
      | Some txt \<Rightarrow>
          (Some (next_block s),
           s\<lparr>local_heap := (local_heap s)(next_block s \<mapsto> txt), next_block := next_block s + 1\<rparr>))"

definition local_text :: "ptr option \<Rightarrow> debug_state \<Rightarrow> wchar list result" where
  "local_text p s =
     (case p of
        None \<Rightarrow> Inl Read_Out_Of_Bounds
      | Some b \<Rightarrow> (case local_heap s b of None \<Rightarrow> Inl Use_After_Free | Some txt \<Rightarrow> Inr txt))"

definition LocalFree :: "ptr option \<Rightarrow> debug_state \<Rightarrow> debug_state result" where
  "LocalFree p s =
     (case p of
        None \<Rightarrow> Inl Use_After_Free
      | Some b \<Rightarrow>
          (if local_heap s b = None then Inl Use_After_Free
           else Inr (s\<lparr>local_heap := (local_heap s)(b := None)\<rparr>)))"

definition DEBUG_PRINT_LASTERROR_API :: "'arg debug_api \<Rightarrow> string \<Rightarrow> debug_state \<Rightarrow> debug_state result" where
  "DEBUG_PRINT_LASTERROR_API D txt s =
     (case format_message D s of
        (buf, s1) \<Rightarrow>
          res_bind (local_text buf s1) (\<lambda>msg.
          res_bind (DEBUG D txt [str_arg D msg] s1) (\<lambda>s2.
          LocalFree buf s2)))"

definition DEBUG_PRINT_LASTERROR :: "'arg debug_api \<Rightarrow> string \<Rightarrow> debug_state \<Rightarrow> debug_state result" where
  "DEBUG_PRINT_LASTERROR D txt s = DEBUG_PRINT_LASTERROR_API D txt s"

text \<open>The variant that prints to a stream: nothing happens on a null stream.\<close>

definition DEBUG_PRINT_LASTERROR_STREAM ::
    "'arg debug_api \<Rightarrow> (wchar list \<Rightarrow> 'arg list \<Rightarrow> debug_state \<Rightarrow> debug_state) \<Rightarrow> ptr \<Rightarrow> string \<Rightarrow> debug_state \<Rightarrow> debug_state result" where
  "DEBUG_PRINT_LASTERROR_STREAM D ftprintf stream txt s =
     (if stream \<noteq> NULL then
        (case format_message D s of
           (buf, s1) \<Rightarrow>
             res_bind (local_text buf s1) (\<lambda>msg.
             LocalFree buf (ftprintf (T_lit txt) [str_arg D msg] s1)))
      else Inr s)"

section \<open>Properties\<close>

lemma format_into_iff: "(\<exists>b. format_into n z t = Inr b) \<longleftrightarrow> length t < n"
  by (auto simp: format_into_def)

lemma format_into_clean: "z \<notin> set t \<Longrightarrow> length t < n \<Longrightarrow> format_into n z t = Inr t"
  by (auto simp: format_into_def)

text \<open>
  The ANSI function returns exactly when the formatted text is shorter than its buffer;
  \<open>vsprintf\<close> has no bound, so a longer text overruns the stack.
\<close>

theorem debug_printf_a_returns_iff:
  "(\<exists>s'. debug_printf_a D fmt args s = Inr s') \<longleftrightarrow> length (vsprintf D fmt args) < 65536"
  by (auto simp: debug_printf_a_def res_simps format_into_def DEBUG_BUF_def)

text \<open>
  The documented limit of \<open>wvsprintf\<close>: at most 1024 characters. With it the wide function always
  returns.
\<close>

definition wvsprintf_bounded :: "'arg debug_api \<Rightarrow> bool" where
  "wvsprintf_bounded D \<longleftrightarrow> (\<forall>fmt args. length (wvsprintf D fmt args) \<le> 1024)"

lemma format_into_wide:
  assumes "wvsprintf_bounded D"
  shows "format_into DEBUG_BUF 0 (wvsprintf D fmt args) = Inr (takeWhile (\<lambda>c. c \<noteq> 0) (wvsprintf D fmt args))"
proof -
  have "length (wvsprintf D fmt args) \<le> 1024"
    using assms by (simp add: wvsprintf_bounded_def)
  then show ?thesis by (simp add: format_into_def DEBUG_BUF_def)
qed

theorem debug_w_returns:
  assumes "wvsprintf_bounded D"
  shows "LOG D fmt args s =
    Inr (s\<lparr>debugger_w := debugger_w s @ [takeWhile (\<lambda>c. c \<noteq> 0) (wvsprintf D (T_lit fmt) args)],
           stdout_w := stdout_w s @ [takeWhile (\<lambda>c. c \<noteq> 0) (wvsprintf D (T_lit fmt) args)]\<rparr>)"
  by (simp add: LOG_def DEBUG_def debug_printf_w_def format_into_wide [OF assms])

text \<open>
  Printing the last error returns exactly when Windows has a text for it, and then the text
  is released: the local heap is as before.
\<close>

definition wf_debug :: "debug_state \<Rightarrow> bool" where
  "wf_debug s \<longleftrightarrow> (\<forall>b \<ge> next_block s. local_heap s b = None)"

theorem last_error_released:
  assumes "wvsprintf_bounded D" and "wf_debug s"
  shows "(case FormatMessage D (GetLastError D) of
       None \<Rightarrow> DEBUG_PRINT_LASTERROR D txt s = Inl Read_Out_Of_Bounds
     | Some msg \<Rightarrow> \<exists>s'. DEBUG_PRINT_LASTERROR D txt s = Inr s' \<and> local_heap s' = local_heap s \<and> wf_debug s' \<and>
         debugger_w s' = debugger_w s @ [takeWhile (\<lambda>c. c \<noteq> 0) (wvsprintf D (T_lit txt) [str_arg D msg])])"
  using assms(2)
  by (auto simp: DEBUG_PRINT_LASTERROR_def DEBUG_PRINT_LASTERROR_API_def format_message_def
      local_text_def LocalFree_def DEBUG_def debug_printf_w_def format_into_wide [OF assms(1)]
      wf_debug_def fun_eq_iff split: option.splits)

end
