(* ===== verification/Channel.thy ===== *)
theory Channel
  imports Shm
begin

text \<open>
  The shared slot under concurrency: any number of server threads run \<open>shm_write\<close>
  (\<open>libdhcp/src/shm.cpp\<close>) while the main thread of the monitor runs its receive loop
  (\<open>Monitor/main.cpp\<close>). The two functions are cut into the steps another thread can come
  between: taking the mutex, copying one byte, releasing the mutex, signalling, waiting. A
  schedule is a list of events, so every interleaving is a value the model evaluates. The
  services are those of \<open>Win32\<close>, one record for each thread, because the owner of a mutex is a
  thread.
\<close>

section \<open>Threads and steps\<close>

text \<open>Where a call of \<open>shm_write\<close> stands; \<open>S_Ret\<close> is its return value.\<close>

datatype send_pc =
    S_Idle
  | S_Lock "byte list"
  | S_Copy "byte list" nat nat
  | S_Unlock nat
  | S_Signal nat
  | S_Ret dword
  | S_Fault

text \<open>Where the loop of \<open>_tmain\<close> stands.\<close>

datatype recv_pc = R_Wait | R_Lock | R_Copy nat | R_Add | R_Unlock | R_Fault

text \<open>
  The kernel, the data area of the view, the server threads, the monitor and its message
  buffer. The last four fields are histories: the copies handed to \<open>buffer_add_tail\<close>, how many
  messages the slot had received at each of them, the messages copied completely into the
  slot, and whether the monitor ever failed to get the mutex. The copies are recorded by value;
  that the program queues the address of one and the same buffer is the subject of \<open>Monitor\<close>.
\<close>

record 'k chan =
  c_k :: 'k
  c_slot :: "byte list"
  c_send :: "nat \<Rightarrow> send_pc"
  c_recv :: recv_pc
  c_buf :: "byte list"
  c_got :: "byte list list"
  c_seen :: "nat list"
  c_log :: "byte list list"
  c_missed :: bool

text \<open>
  Kernel thread 0 is the main thread of the monitor, thread \<open>Suc i\<close> the server thread \<open>i\<close>. Every
  thread has its own view of the services and its own \<open>SHM_BLOCK\<close>, since handles differ
  between processes.
\<close>

definition send_turn ::
    "(nat \<Rightarrow> 'k win32) \<Rightarrow> (nat \<Rightarrow> shm_block) \<Rightarrow> nat \<Rightarrow> 'k chan \<Rightarrow> 'k chan" where
  "send_turn W B i s =
     (let shm = B (Suc i); X = W (Suc i); goto = (\<lambda>p s. s\<lparr>c_send := (c_send s)(i := p)\<rparr>) in
      case c_send s i of
        S_Lock data \<Rightarrow>
          (case shm_lock X (Some shm) 2500 (c_k s) of
             Inl _ \<Rightarrow> goto S_Fault s
           | Inr (ok, k1) \<Rightarrow>
               goto (if \<not> ok then S_Ret SHM_LOCK_FAILED
                     else S_Copy data (min (length data) (sb_len shm)) 0) (s\<lparr>c_k := k1\<rparr>))
      | S_Copy data n j \<Rightarrow>
          (if j < n then
             (if length (c_slot s) \<le> j \<or> length data \<le> j then goto S_Fault s
              else goto (S_Copy data n (j + 1)) (s\<lparr>c_slot := (c_slot s)[j := data ! j]\<rparr>))
           else goto (S_Unlock n) (s\<lparr>c_log := c_log s @ [take n data]\<rparr>))
      | S_Unlock n \<Rightarrow>
          (case shm_unlock X (Some shm) (c_k s) of
             Inl _ \<Rightarrow> goto S_Fault s
           | Inr (_, k1) \<Rightarrow> goto (S_Signal n) (s\<lparr>c_k := k1\<rparr>))
      | S_Signal n \<Rightarrow>
          goto (S_Ret (of_nat n))
            (s\<lparr>c_k := (if esnd shm \<noteq> NULL then snd (SetEvent X (esnd shm) (c_k s)) else c_k s)\<rparr>)
      | _ \<Rightarrow> s)"

definition recv_turn ::
    "(nat \<Rightarrow> 'k win32) \<Rightarrow> (nat \<Rightarrow> shm_block) \<Rightarrow> 'k chan \<Rightarrow> 'k chan" where
  "recv_turn W B s =
     (let shm = B 0; X = W 0 in
      case c_recv s of
        R_Wait \<Rightarrow>
          (let (r, k1) = WaitForSingleObject X (esnd shm) 1000 (c_k s)
           in s\<lparr>c_k := k1, c_recv := (if r = WAIT_OBJECT_0 then R_Lock else R_Wait)\<rparr>)
      | R_Lock \<Rightarrow>
          (case shm_lock X (Some shm) 1500 (c_k s) of
             Inl _ \<Rightarrow> s\<lparr>c_recv := R_Fault\<rparr>
           | Inr (ok, k1) \<Rightarrow>
               s\<lparr>c_k := k1, c_recv := (if ok then R_Copy 0 else R_Wait), c_missed := c_missed s \<or> \<not> ok\<rparr>)
      | R_Copy j \<Rightarrow>
          (if j < 2048 then
             (if length (c_slot s) \<le> j \<or> length (c_buf s) \<le> j then s\<lparr>c_recv := R_Fault\<rparr>
              else s\<lparr>c_buf := (c_buf s)[j := c_slot s ! j], c_recv := R_Copy (j + 1)\<rparr>)
           else s\<lparr>c_recv := R_Add\<rparr>)
      | R_Add \<Rightarrow> s\<lparr>c_got := c_got s @ [c_buf s], c_seen := c_seen s @ [length (c_log s)], c_recv := R_Unlock\<rparr>
      | R_Unlock \<Rightarrow>
          (case shm_unlock X (Some shm) (c_k s) of
             Inl _ \<Rightarrow> s\<lparr>c_recv := R_Fault\<rparr>
           | Inr (_, k1) \<Rightarrow> s\<lparr>c_k := k1, c_recv := R_Wait\<rparr>)
      | R_Fault \<Rightarrow> s)"

text \<open>A hook calls \<open>shm_write\<close> with a whole message structure when the thread is not in a call.\<close>

definition call_turn :: "nat \<Rightarrow> byte list \<Rightarrow> 'k chan \<Rightarrow> 'k chan" where
  "call_turn i data s =
     (case c_send s i of
        S_Idle \<Rightarrow> s\<lparr>c_send := (c_send s)(i := S_Lock data)\<rparr>
      | S_Ret _ \<Rightarrow> s\<lparr>c_send := (c_send s)(i := S_Lock data)\<rparr>
      | _ \<Rightarrow> s)"

datatype chan_event = Call nat "byte list" | Send nat | Recv

fun chan_step :: "(nat \<Rightarrow> 'k win32) \<Rightarrow> (nat \<Rightarrow> shm_block) \<Rightarrow> chan_event \<Rightarrow> 'k chan \<Rightarrow> 'k chan" where
  "chan_step W B (Call i data) s = call_turn i data s"
| "chan_step W B (Send i) s = send_turn W B i s"
| "chan_step W B Recv s = recv_turn W B s"

definition chan_run :: "(nat \<Rightarrow> 'k win32) \<Rightarrow> (nat \<Rightarrow> shm_block) \<Rightarrow> chan_event list \<Rightarrow> 'k chan \<Rightarrow> 'k chan" where
  "chan_run W B es s = fold (chan_step W B) es s"

definition chan_start :: "'k \<Rightarrow> byte list \<Rightarrow> byte list \<Rightarrow> 'k chan" where
  "chan_start k slot buf =
     \<lparr>c_k = k, c_slot = slot, c_send = (\<lambda>_. S_Idle), c_recv = R_Wait, c_buf = buf, c_got = [],
      c_seen = [], c_log = [], c_missed = False\<rparr>"

section \<open>What the kernel and the blocks promise\<close>

text \<open>
  The documented behaviour of a mutex: \<open>holds k u\<close> is the number of times thread \<open>u\<close> owns it. A
  wait that returns \<open>WAIT_OBJECT_0\<close> or \<open>WAIT_ABANDONED\<close> means that no other thread owned it and
  adds one for the caller, any other result changes nothing; a release by an owner takes one
  away; the event is another object.
\<close>

definition slot_mutex :: "(nat \<Rightarrow> 'k win32) \<Rightarrow> (nat \<Rightarrow> shm_block) \<Rightarrow> ('k \<Rightarrow> nat \<Rightarrow> nat) \<Rightarrow> bool" where
  "slot_mutex W B holds \<longleftrightarrow>
     (\<forall>u t k r k1. WaitForSingleObject (W u) (l_lock (sb_lock (B u))) t k = (r, k1) \<longrightarrow>
        (if r = WAIT_OBJECT_0 \<or> r = WAIT_ABANDONED
         then (\<forall>v. v \<noteq> u \<longrightarrow> holds k v = 0) \<and> holds k1 = (holds k)(u := holds k u + 1)
         else holds k1 = holds k)) \<and>
     (\<forall>u k. 0 < holds k u \<longrightarrow>
        holds (snd (ReleaseMutex (W u) (l_lock (sb_lock (B u))) k)) = (holds k)(u := holds k u - 1)) \<and>
     (\<forall>u k. holds (snd (SetEvent (W u) (esnd (B u)) k)) = holds k) \<and>
     (\<forall>u t k. holds (snd (WaitForSingleObject (W u) (esnd (B u)) t k)) = holds k)"

text \<open>The send event: setting it signals it, a successful wait resets it, the mutex leaves it alone.\<close>

definition slot_event :: "(nat \<Rightarrow> 'k win32) \<Rightarrow> (nat \<Rightarrow> shm_block) \<Rightarrow> ('k \<Rightarrow> bool) \<Rightarrow> bool" where
  "slot_event W B sig \<longleftrightarrow>
     (\<forall>u k. sig (snd (SetEvent (W u) (esnd (B u)) k))) \<and>
     (\<forall>u t k r k1. WaitForSingleObject (W u) (esnd (B u)) t k = (r, k1) \<longrightarrow> r = WAIT_OBJECT_0 \<or> sig k1 = sig k) \<and>
     (\<forall>u t k. sig (snd (WaitForSingleObject (W u) (l_lock (sb_lock (B u))) t k)) = sig k) \<and>
     (\<forall>u k. sig (snd (ReleaseMutex (W u) (l_lock (sb_lock (B u))) k)) = sig k)"

text \<open>Blocks as \<open>shm_init\<close> leaves them: a mutex, an event, and 2048 bytes of data.\<close>

definition slot_blocks :: "(nat \<Rightarrow> shm_block) \<Rightarrow> bool" where
  "slot_blocks B \<longleftrightarrow> (\<forall>u. l_init (sb_lock (B u)) \<and> esnd (B u) \<noteq> NULL \<and> sb_len (B u) \<le> 2048)"

section \<open>The outcomes of a turn\<close>

lemma shm_lock_total: obtains ok k1 where "shm_lock X (Some b) t k = Inr (ok, k1)"
  using shm_lock_Some [of X b t k] by blast

lemma shm_unlock_total: obtains r k1 where "shm_unlock X (Some b) k = Inr (r, k1)"
  using shm_unlock_Some [of X b k] by blast

lemma send_turn_elim:
  obtains
    (idle) "send_turn W B i s = s"
      "c_send s i = S_Idle \<or> (\<exists>r. c_send s i = S_Ret r) \<or> c_send s i = S_Fault"
  | (lock) data k1 where "c_send s i = S_Lock data"
      "shm_lock (W (Suc i)) (Some (B (Suc i))) 2500 (c_k s) = Inr (True, k1)"
      "send_turn W B i s =
        s\<lparr>c_k := k1, c_send := (c_send s)(i := S_Copy data (min (length data) (sb_len (B (Suc i)))) 0)\<rparr>"
  | (fail) data k1 where "c_send s i = S_Lock data"
      "shm_lock (W (Suc i)) (Some (B (Suc i))) 2500 (c_k s) = Inr (False, k1)"
      "send_turn W B i s = s\<lparr>c_k := k1, c_send := (c_send s)(i := S_Ret SHM_LOCK_FAILED)\<rparr>"
  | (copy) data n j where "c_send s i = S_Copy data n j" "j < n" "j < length (c_slot s)" "j < length data"
      "send_turn W B i s =
        s\<lparr>c_slot := (c_slot s)[j := data ! j], c_send := (c_send s)(i := S_Copy data n (j + 1))\<rparr>"
  | (copied) data n j where "c_send s i = S_Copy data n j" "n \<le> j"
      "send_turn W B i s = s\<lparr>c_log := c_log s @ [take n data], c_send := (c_send s)(i := S_Unlock n)\<rparr>"
  | (overrun) data n j where "c_send s i = S_Copy data n j" "j < n" "length (c_slot s) \<le> j \<or> length data \<le> j"
      "send_turn W B i s = s\<lparr>c_send := (c_send s)(i := S_Fault)\<rparr>"
  | (unlock) n r k1 where "c_send s i = S_Unlock n"
      "shm_unlock (W (Suc i)) (Some (B (Suc i))) (c_k s) = Inr (r, k1)"
      "send_turn W B i s = s\<lparr>c_k := k1, c_send := (c_send s)(i := S_Signal n)\<rparr>"
  | (signal) n k1 where "c_send s i = S_Signal n"
      "k1 = (if esnd (B (Suc i)) \<noteq> NULL then snd (SetEvent (W (Suc i)) (esnd (B (Suc i))) (c_k s)) else c_k s)"
      "send_turn W B i s = s\<lparr>c_k := k1, c_send := (c_send s)(i := S_Ret (of_nat n))\<rparr>"
proof (cases "c_send s i")
  case (S_Lock data)
  obtain ok k1 where l: "shm_lock (W (Suc i)) (Some (B (Suc i))) 2500 (c_k s) = Inr (ok, k1)"
    by (rule shm_lock_total)
  show thesis
  proof (cases ok)
    case True
    then show thesis using l S_Lock by (intro lock) (simp_all add: send_turn_def Let_def)
  next
    case False
    then show thesis using l S_Lock by (intro fail) (simp_all add: send_turn_def Let_def)
  qed
next
  case (S_Copy data n j)
  consider "n \<le> j" | "j < n" "length (c_slot s) \<le> j \<or> length data \<le> j"
    | "j < n" "j < length (c_slot s)" "j < length data" by linarith
  then show thesis
  proof cases
    case 1
    then show thesis using S_Copy by (intro copied) (simp_all add: send_turn_def)
  next
    case 2
    then show thesis using S_Copy by (intro overrun) (auto simp: send_turn_def)
  next
    case 3
    then show thesis using S_Copy by (intro copy) (simp_all add: send_turn_def)
  qed
next
  case (S_Unlock n)
  obtain r k1 where u: "shm_unlock (W (Suc i)) (Some (B (Suc i))) (c_k s) = Inr (r, k1)"
    by (rule shm_unlock_total)
  then show thesis using S_Unlock by (intro unlock) (simp_all add: send_turn_def)
next
  case (S_Signal n)
  then show thesis by (intro signal [OF _ refl]) (simp_all add: send_turn_def Let_def)
qed (auto simp: send_turn_def intro: idle)

lemma recv_turn_elim:
  obtains
    (woken) k1 where "c_recv s = R_Wait" "WaitForSingleObject (W 0) (esnd (B 0)) 1000 (c_k s) = (WAIT_OBJECT_0, k1)"
      "recv_turn W B s = s\<lparr>c_k := k1, c_recv := R_Lock\<rparr>"
  | (waits) r k1 where "c_recv s = R_Wait" "r \<noteq> WAIT_OBJECT_0"
      "WaitForSingleObject (W 0) (esnd (B 0)) 1000 (c_k s) = (r, k1)"
      "recv_turn W B s = s\<lparr>c_k := k1, c_recv := R_Wait\<rparr>"
  | (lock) k1 where "c_recv s = R_Lock" "shm_lock (W 0) (Some (B 0)) 1500 (c_k s) = Inr (True, k1)"
      "recv_turn W B s = s\<lparr>c_k := k1, c_recv := R_Copy 0\<rparr>"
  | (fail) k1 where "c_recv s = R_Lock" "shm_lock (W 0) (Some (B 0)) 1500 (c_k s) = Inr (False, k1)"
      "recv_turn W B s = s\<lparr>c_k := k1, c_recv := R_Wait, c_missed := True\<rparr>"
  | (copy) j where "c_recv s = R_Copy j" "j < 2048" "j < length (c_slot s)" "j < length (c_buf s)"
      "recv_turn W B s = s\<lparr>c_buf := (c_buf s)[j := c_slot s ! j], c_recv := R_Copy (j + 1)\<rparr>"
  | (copied) j where "c_recv s = R_Copy j" "2048 \<le> j" "recv_turn W B s = s\<lparr>c_recv := R_Add\<rparr>"
  | (overrun) j where "c_recv s = R_Copy j" "j < 2048" "length (c_slot s) \<le> j \<or> length (c_buf s) \<le> j"
      "recv_turn W B s = s\<lparr>c_recv := R_Fault\<rparr>"
  | (add) "c_recv s = R_Add"
      "recv_turn W B s = s\<lparr>c_got := c_got s @ [c_buf s], c_seen := c_seen s @ [length (c_log s)], c_recv := R_Unlock\<rparr>"
  | (unlock) r k1 where "c_recv s = R_Unlock" "shm_unlock (W 0) (Some (B 0)) (c_k s) = Inr (r, k1)"
      "recv_turn W B s = s\<lparr>c_k := k1, c_recv := R_Wait\<rparr>"
  | (fault) "c_recv s = R_Fault" "recv_turn W B s = s"
proof (cases "c_recv s")
  case R_Wait
  obtain r k1 where w: "WaitForSingleObject (W 0) (esnd (B 0)) 1000 (c_k s) = (r, k1)" by fastforce
  show thesis
  proof (cases "r = WAIT_OBJECT_0")
    case True
    then show thesis using w R_Wait by (intro woken) (simp_all add: recv_turn_def)
  next
    case False
    then show thesis using w R_Wait by (intro waits) (simp_all add: recv_turn_def)
  qed
next
  case R_Lock
  obtain ok k1 where l: "shm_lock (W 0) (Some (B 0)) 1500 (c_k s) = Inr (ok, k1)"
    by (rule shm_lock_total)
  show thesis
  proof (cases ok)
    case True
    then show thesis using l R_Lock by (intro lock) (simp_all add: recv_turn_def)
  next
    case False
    then show thesis using l R_Lock by (intro fail) (simp_all add: recv_turn_def)
  qed
next
  case (R_Copy j)
  consider "2048 \<le> j" | "j < 2048" "length (c_slot s) \<le> j \<or> length (c_buf s) \<le> j"
    | "j < 2048" "j < length (c_slot s)" "j < length (c_buf s)" by linarith
  then show thesis
  proof cases
    case 1
    then show thesis using R_Copy by (intro copied) (simp_all add: recv_turn_def)
  next
    case 2
    then show thesis using R_Copy by (intro overrun) (auto simp: recv_turn_def)
  next
    case 3
    then show thesis using R_Copy by (intro copy) (simp_all add: recv_turn_def)
  qed
next
  case R_Unlock
  obtain r k1 where u: "shm_unlock (W 0) (Some (B 0)) (c_k s) = Inr (r, k1)"
    by (rule shm_unlock_total)
  then show thesis using R_Unlock by (intro unlock) (simp_all add: recv_turn_def)
qed (auto simp: recv_turn_def intro: add fault)

lemma call_turn_elim:
  obtains (idle) "call_turn i data s = s"
  | (call) "c_send s i = S_Idle \<or> (\<exists>r. c_send s i = S_Ret r)"
      "call_turn i data s = s\<lparr>c_send := (c_send s)(i := S_Lock data)\<rparr>"
  by (cases "c_send s i") (auto simp: call_turn_def intro: idle call)

section \<open>Mutual exclusion\<close>

definition send_crit :: "send_pc \<Rightarrow> bool" where
  "send_crit p = (case p of S_Copy _ _ _ \<Rightarrow> True | S_Unlock _ \<Rightarrow> True | _ \<Rightarrow> False)"

definition recv_crit :: "recv_pc \<Rightarrow> bool" where
  "recv_crit p = (case p of R_Copy _ \<Rightarrow> True | R_Add \<Rightarrow> True | R_Unlock \<Rightarrow> True | _ \<Rightarrow> False)"

text \<open>The threads between taking and releasing the mutex.\<close>

definition crit :: "'k chan \<Rightarrow> nat \<Rightarrow> bool" where
  "crit s u = (case u of 0 \<Rightarrow> recv_crit (c_recv s) | Suc i \<Rightarrow> send_crit (c_send s i))"

lemma send_crit_simps [simp]:
  "send_crit (S_Copy d n j)" "send_crit (S_Unlock n)" "\<not> send_crit S_Idle" "\<not> send_crit (S_Lock d)"
  "\<not> send_crit (S_Signal n)" "\<not> send_crit (S_Ret r)" "\<not> send_crit S_Fault"
  by (simp_all add: send_crit_def)

lemma recv_crit_simps [simp]:
  "recv_crit (R_Copy j)" "recv_crit R_Add" "recv_crit R_Unlock" "\<not> recv_crit R_Wait" "\<not> recv_crit R_Lock"
  "\<not> recv_crit R_Fault"
  by (simp_all add: recv_crit_def)

lemma crit_simps [simp]: "crit s 0 = recv_crit (c_recv s)" "crit s (Suc i) = send_crit (c_send s i)"
  by (simp_all add: crit_def)

text \<open>What taking and releasing do to the ownership counts.\<close>

lemma wait_granted:
  assumes "slot_mutex W B holds" "WaitForSingleObject (W u) (l_lock (sb_lock (B u))) t k = (r, k1)"
    and "r = WAIT_OBJECT_0 \<or> r = WAIT_ABANDONED"
  shows "(\<forall>v. v \<noteq> u \<longrightarrow> holds k v = 0) \<and> holds k1 = (holds k)(u := holds k u + 1)"
  using assms unfolding slot_mutex_def by (metis (full_types))

lemma lock_taken:
  assumes "slot_mutex W B holds" "slot_blocks B" "shm_lock (W u) (Some (B u)) t k = Inr (True, k1)"
  shows "(\<forall>v. v \<noteq> u \<longrightarrow> holds k v = 0) \<and> holds k1 = (holds k)(u := holds k u + 1)"
proof -
  have "WaitForSingleObject (W u) (l_lock (sb_lock (B u))) t k = (WAIT_OBJECT_0, k1)"
    using assms(2,3) by (auto simp: slot_blocks_def shm_lock_def lock_wait_def split: prod.splits)
  then show ?thesis using wait_granted [OF assms(1)] by blast
qed

lemma lock_refused:
  assumes "slot_mutex W B holds" "slot_blocks B" "shm_lock (W u) (Some (B u)) t k = Inr (False, k1)"
  shows "holds k1 = holds k \<or>
    (\<forall>v. v \<noteq> u \<longrightarrow> holds k v = 0) \<and> holds k1 = (holds k)(u := holds k u + 1)"
proof -
  obtain r where "WaitForSingleObject (W u) (l_lock (sb_lock (B u))) t k = (r, k1)"
    using assms(2,3) by (auto simp: slot_blocks_def shm_lock_def lock_wait_def split: prod.splits)
  then show ?thesis using assms(1) unfolding slot_mutex_def by (metis (full_types))
qed

lemma lock_given_back:
  assumes "slot_mutex W B holds" "slot_blocks B" "shm_unlock (W u) (Some (B u)) k = Inr (r, k1)" "0 < holds k u"
  shows "holds k1 = (holds k)(u := holds k u - 1)"
proof -
  have "k1 = snd (ReleaseMutex (W u) (l_lock (sb_lock (B u))) k)"
    using assms(2,3) by (simp add: slot_blocks_def shm_unlock_def lock_release_def)
  then show ?thesis using assms(1,4) unfolding slot_mutex_def by blast
qed

lemma event_keeps_holds:
  assumes "slot_mutex W B holds"
  shows "holds (snd (SetEvent (W u) (esnd (B u)) k)) = holds k"
    and "WaitForSingleObject (W u) (esnd (B u)) t k = (r, k1) \<Longrightarrow> holds k1 = holds k"
  using assms unfolding slot_mutex_def by (blast, metis snd_conv)

text \<open>
  The ownership invariant, with \<open>x u\<close> ownerships of thread \<open>u\<close> that it will never give back: a
  thread owns the mutex once more in its critical section, and no two threads own it.
\<close>

definition owned :: "('k \<Rightarrow> nat \<Rightarrow> nat) \<Rightarrow> (nat \<Rightarrow> nat) \<Rightarrow> 'k chan \<Rightarrow> bool" where
  "owned holds x s \<longleftrightarrow>
     (\<forall>u. x u \<le> holds (c_k s) u) \<and> (\<forall>u. crit s u \<longrightarrow> x u < holds (c_k s) u) \<and>
     (\<forall>u v. 0 < holds (c_k s) u \<longrightarrow> 0 < holds (c_k s) v \<longrightarrow> u = v)"

lemma owned_crit:
  assumes "owned holds x s" "crit s u"
  shows "0 < holds (c_k s) u"
proof -
  have "x u < holds (c_k s) u" using assms by (simp add: owned_def)
  then show ?thesis by simp
qed

lemma owned_exclusive: "owned holds x s \<Longrightarrow> crit s u \<Longrightarrow> crit s v \<Longrightarrow> u = v"
  using owned_crit [of holds x s u] owned_crit [of holds x s v] by (simp add: owned_def)

text \<open>The ways a step can change the counts and the critical sections.\<close>

lemma owned_same:
  assumes "owned holds x s" "holds (c_k s') = holds (c_k s)" "\<And>u. crit s' u \<Longrightarrow> crit s u"
  shows "owned holds x s'"
  using assms by (simp add: owned_def)

lemma owned_more:
  assumes "owned holds x s" "holds (c_k s') = (holds (c_k s))(u := holds (c_k s) u + 1)"
    and "\<forall>v. v \<noteq> u \<longrightarrow> holds (c_k s) v = 0" "\<And>v. v \<noteq> u \<Longrightarrow> crit s' v \<Longrightarrow> crit s v"
  shows "owned holds x s'"
proof -
  have "x v = 0 \<and> \<not> crit s' v" if "v \<noteq> u" for v
  proof -
    have "x v \<le> holds (c_k s) v" "crit s v \<longrightarrow> x v < holds (c_k s) v" using assms(1) by (simp_all add: owned_def)
    then show ?thesis using that assms(3,4) by auto
  qed
  moreover have "x u \<le> holds (c_k s) u" using assms(1) by (simp add: owned_def)
  ultimately show ?thesis
    unfolding owned_def assms(2) using assms(3) by (auto split: if_splits)
qed

lemma owned_less:
  assumes "owned holds x s" "holds (c_k s') = (holds (c_k s))(u := holds (c_k s) u - 1)"
    and "\<And>v. v \<noteq> u \<Longrightarrow> crit s' v \<Longrightarrow> crit s v" "crit s u" "\<not> crit s' u"
  shows "owned holds x s'"
proof -
  have "x u < holds (c_k s) u" using assms(1,4) by (simp add: owned_def)
  then have "x u \<le> holds (c_k s) u - 1" by simp
  then show ?thesis using assms(1,2,3,5) unfolding owned_def by (auto split: if_splits)
qed

text \<open>Every event keeps the invariant.\<close>

lemma owned_send:
  assumes ml: "slot_mutex W B holds" and bl: "slot_blocks B" and inv: "owned holds x s"
  shows "owned holds x (send_turn W B i s)"
proof (cases rule: send_turn_elim [of W B i s])
  case idle
  then show ?thesis using inv by simp
next
  case (lock data k1)
  show ?thesis
    using lock_taken [OF ml bl lock(2)]
    by (intro owned_more [OF inv, where u = "Suc i"]) (auto simp: lock(3) crit_def split: nat.splits if_splits)
next
  case (fail data k1)
  show ?thesis
    using lock_refused [OF ml bl fail(2)]
  proof
    assume "holds k1 = holds (c_k s)"
    then show ?thesis
      by (intro owned_same [OF inv]) (auto simp: fail(3) crit_def split: nat.splits if_splits)
  next
    assume "(\<forall>v. v \<noteq> Suc i \<longrightarrow> holds (c_k s) v = 0) \<and> holds k1 = (holds (c_k s))(Suc i := holds (c_k s) (Suc i) + 1)"
    then show ?thesis
      by (intro owned_more [OF inv, where u = "Suc i"]) (auto simp: fail(3) crit_def split: nat.splits if_splits)
  qed
next
  case (unlock n r k1)
  then have "crit s (Suc i)" by simp
  then show ?thesis
    using lock_given_back [OF ml bl unlock(2)] owned_crit [OF inv]
    by (intro owned_less [OF inv, where u = "Suc i"]) (auto simp: unlock(3) crit_def split: nat.splits if_splits)
next
  case (signal n k1)
  show ?thesis
    using event_keeps_holds(1) [OF ml] signal(1)
    by (intro owned_same [OF inv]) (auto simp: signal crit_def split: nat.splits if_splits)
qed (intro owned_same [OF inv]; auto simp: crit_def split: nat.splits if_splits)+

lemma owned_recv:
  assumes ml: "slot_mutex W B holds" and bl: "slot_blocks B" and inv: "owned holds x s"
  shows "owned holds x (recv_turn W B s)"
proof (cases rule: recv_turn_elim [of s W B])
  case (woken k1)
  show ?thesis
    using event_keeps_holds(2) [OF ml woken(2)]
    by (intro owned_same [OF inv]) (auto simp: woken(3) crit_def split: nat.splits)
next
  case (waits r k1)
  show ?thesis
    using event_keeps_holds(2) [OF ml waits(3)]
    by (intro owned_same [OF inv]) (auto simp: waits(4) crit_def split: nat.splits)
next
  case (lock k1)
  show ?thesis
    using lock_taken [OF ml bl lock(2)]
    by (intro owned_more [OF inv, where u = 0]) (auto simp: lock(3) crit_def split: nat.splits)
next
  case (fail k1)
  show ?thesis
    using lock_refused [OF ml bl fail(2)]
  proof
    assume "holds k1 = holds (c_k s)"
    then show ?thesis
      by (intro owned_same [OF inv]) (auto simp: fail(3) crit_def split: nat.splits)
  next
    assume "(\<forall>v. v \<noteq> 0 \<longrightarrow> holds (c_k s) v = 0) \<and> holds k1 = (holds (c_k s))(0 := holds (c_k s) 0 + 1)"
    then show ?thesis
      by (intro owned_more [OF inv, where u = 0]) (auto simp: fail(3) crit_def split: nat.splits)
  qed
next
  case (unlock r k1)
  then have "crit s 0" by simp
  then show ?thesis
    using lock_given_back [OF ml bl unlock(2)] owned_crit [OF inv]
    by (intro owned_less [OF inv, where u = 0]) (auto simp: unlock(3) crit_def split: nat.splits)
qed (intro owned_same [OF inv]; auto simp: crit_def split: nat.splits)+

lemma owned_call: "owned holds x s \<Longrightarrow> owned holds x (call_turn i data s)"
  by (cases rule: call_turn_elim [of i data s])
     (auto intro!: owned_same [of holds x s] simp: crit_def split: nat.splits if_splits)

lemma owned_step:
  assumes "slot_mutex W B holds" "slot_blocks B" "owned holds x s"
  shows "owned holds x (chan_step W B e s)"
  using assms by (cases e) (simp_all add: owned_send owned_recv owned_call)

section \<open>The slot holds whole messages\<close>

text \<open>Writing a whole message, and the slot after a sequence of whole messages.\<close>

definition overlay :: "byte list \<Rightarrow> byte list \<Rightarrow> byte list" where
  "overlay w slot = w @ drop (length w) slot"

definition serial :: "byte list \<Rightarrow> byte list list \<Rightarrow> byte list" where
  "serial slot0 ws = fold overlay ws slot0"

lemma serial_Nil [simp]: "serial slot0 [] = slot0"
  by (simp add: serial_def)

lemma serial_snoc [simp]: "serial slot0 (ws @ [w]) = overlay w (serial slot0 ws)"
  by (simp add: serial_def)

lemma length_serial: "\<forall>w \<in> set ws. length w \<le> length slot0 \<Longrightarrow> length (serial slot0 ws) = length slot0"
  by (induction ws rule: rev_induct) (auto simp: overlay_def)

definition send_ok :: "shm_block \<Rightarrow> byte list \<Rightarrow> byte list \<Rightarrow> send_pc \<Rightarrow> bool" where
  "send_ok shm slot S p =
     (case p of
        S_Copy data n j \<Rightarrow>
          n = min (length data) (sb_len shm) \<and> j \<le> n \<and> slot = take j data @ drop j S
      | S_Fault \<Rightarrow> False
      | _ \<Rightarrow> True)"

definition recv_ok :: "byte list \<Rightarrow> byte list \<Rightarrow> recv_pc \<Rightarrow> bool" where
  "recv_ok buf S p =
     (case p of
        R_Copy j \<Rightarrow> j \<le> 2048 \<and> take j buf = take j S
      | R_Add \<Rightarrow> buf = S
      | R_Fault \<Rightarrow> False
      | _ \<Rightarrow> True)"

lemma send_ok_simps [simp]:
  "send_ok shm slot S (S_Copy data n j) \<longleftrightarrow>
     n = min (length data) (sb_len shm) \<and> j \<le> n \<and> slot = take j data @ drop j S"
  "send_ok shm slot S S_Idle" "send_ok shm slot S (S_Lock d)" "send_ok shm slot S (S_Unlock n)"
  "send_ok shm slot S (S_Signal n)" "send_ok shm slot S (S_Ret r)" "\<not> send_ok shm slot S S_Fault"
  by (simp_all add: send_ok_def)

lemma recv_ok_simps [simp]:
  "recv_ok buf S (R_Copy j) \<longleftrightarrow> j \<le> 2048 \<and> take j buf = take j S" "recv_ok buf S R_Add \<longleftrightarrow> buf = S"
  "recv_ok buf S R_Wait" "recv_ok buf S R_Lock" "recv_ok buf S R_Unlock" "\<not> recv_ok buf S R_Fault"
  by (simp_all add: recv_ok_def)

lemma send_ok_not_crit: "\<not> send_crit p \<Longrightarrow> send_ok shm slot S p \<longleftrightarrow> p \<noteq> S_Fault"
  by (cases p) simp_all

lemma recv_ok_not_crit: "\<not> recv_crit p \<Longrightarrow> recv_ok buf S p \<longleftrightarrow> p \<noteq> R_Fault"
  by (cases p) simp_all

definition copying :: "send_pc \<Rightarrow> bool" where
  "copying p = (case p of S_Copy _ _ _ \<Rightarrow> True | _ \<Rightarrow> False)"

lemma copying_simps [simp]:
  "copying (S_Copy d n j)" "\<not> copying (S_Unlock n)" "\<not> copying S_Idle" "\<not> copying (S_Lock d)"
  "\<not> copying (S_Signal n)" "\<not> copying (S_Ret r)" "\<not> copying S_Fault"
  by (simp_all add: copying_def)

lemma copying_crit: "copying p \<Longrightarrow> send_crit p"
  by (cases p) simp_all

definition slot_inv :: "(nat \<Rightarrow> shm_block) \<Rightarrow> byte list \<Rightarrow> 'k chan \<Rightarrow> bool" where
  "slot_inv B slot0 s \<longleftrightarrow>
     (let S = serial slot0 (c_log s) in
      (\<forall>w \<in> set (c_log s). length w \<le> 2048) \<and> length (c_slot s) = 2048 \<and> length (c_buf s) = 2048 \<and>
      (\<forall>i. send_ok (B (Suc i)) (c_slot s) S (c_send s i)) \<and>
      ((\<forall>i. \<not> copying (c_send s i)) \<longrightarrow> c_slot s = S) \<and>
      recv_ok (c_buf s) S (c_recv s) \<and>
      c_got s = map (\<lambda>j. serial slot0 (take j (c_log s))) (c_seen s) \<and>
      sorted (c_seen s) \<and> (\<forall>j \<in> set (c_seen s). j \<le> length (c_log s)))"

lemma slot_inv_start:
  "length slot = 2048 \<Longrightarrow> length buf = 2048 \<Longrightarrow> slot_inv B slot (chan_start k slot buf)"
  by (simp add: slot_inv_def chan_start_def Let_def)

lemma others_idle:
  assumes "owned holds x s" "send_crit (c_send s i)"
  shows "\<forall>u. u \<noteq> i \<longrightarrow> \<not> send_crit (c_send s u)" "\<not> recv_crit (c_recv s)"
proof -
  have "send_crit (c_send s u) \<Longrightarrow> u = i" for u
    using owned_exclusive [OF assms(1), of "Suc i" "Suc u"] assms(2) by simp
  then show "\<forall>u. u \<noteq> i \<longrightarrow> \<not> send_crit (c_send s u)" by blast
  show "\<not> recv_crit (c_recv s)"
    using owned_exclusive [OF assms(1), of "Suc i" 0] assms(2) by auto
qed

lemma senders_idle:
  assumes "owned holds x s" "recv_crit (c_recv s)"
  shows "\<not> send_crit (c_send s i)"
  using owned_exclusive [OF assms(1), of 0 "Suc i"] assms(2) by auto

lemma others_ok:
  assumes "owned holds x s" "slot_inv B slot0 s" "send_crit (c_send s i)" "u \<noteq> i"
  shows "send_ok shm slot S (c_send s u)"
proof -
  have "send_ok (B (Suc u)) (c_slot s) (serial slot0 (c_log s)) (c_send s u)"
    using assms(2) by (simp add: slot_inv_def Let_def)
  then show ?thesis
    using others_idle(1) [OF assms(1,3)] assms(4) by (simp add: send_ok_not_crit)
qed

lemma slot_inv_copying:
  assumes "slot_inv B slot0 s" "c_send s i = S_Copy data n j"
  shows "n = min (length data) (sb_len (B (Suc i)))" "j \<le> n"
    "c_slot s = take j data @ drop j (serial slot0 (c_log s))"
proof -
  have "send_ok (B (Suc i)) (c_slot s) (serial slot0 (c_log s)) (c_send s i)"
    using assms(1) by (simp add: slot_inv_def Let_def)
  then show "n = min (length data) (sb_len (B (Suc i)))" "j \<le> n"
      "c_slot s = take j data @ drop j (serial slot0 (c_log s))"
    unfolding assms(2) send_ok_simps by blast+
qed

text \<open>A step of a sender that neither copies nor stops copying.\<close>

lemma slot_inv_frame:
  assumes "slot_inv B slot0 s" "\<not> copying (c_send s i)" "\<not> copying p" "p \<noteq> S_Fault"
  shows "slot_inv B slot0 (s\<lparr>c_k := k1, c_send := (c_send s)(i := p)\<rparr>)"
proof -
  have "send_ok shm slot S p" for shm slot S using assms(3,4) by (cases p) simp_all
  moreover have "(\<forall>u. \<not> copying (((c_send s)(i := p)) u)) \<longleftrightarrow> (\<forall>u. \<not> copying (c_send s u))"
    using assms(2,3) by (metis fun_upd_apply)
  ultimately show ?thesis using assms(1) by (simp add: slot_inv_def Let_def del: fun_upd_apply) simp
qed

lemma take_update: "j < length d \<Longrightarrow> j < length S \<Longrightarrow>
    (take j d @ drop j S)[j := d ! j] = take (Suc j) d @ drop (Suc j) S"
  by (simp add: list_update_append take_Suc_conv_app_nth Cons_nth_drop_Suc [symmetric])

lemma slot_inv_send:
  assumes ml: "slot_mutex W B holds" and bl: "slot_blocks B" and own: "owned holds x s"
    and l0: "length slot0 = 2048" and inv: "slot_inv B slot0 s"
  shows "slot_inv B slot0 (send_turn W B i s)"
proof (cases rule: send_turn_elim [of W B i s])
  case idle
  then show ?thesis using inv by simp
next
  case (lock data k1)
  have "holds (c_k s) v = 0" if "v \<noteq> Suc i" for v using lock_taken [OF ml bl lock(2)] that by simp
  then have "\<not> crit s (Suc u)" for u
    using owned_crit [OF own] lock(1) by (cases "u = i") fastforce+
  then have "\<forall>u. \<not> copying (c_send s u)" using copying_crit by auto
  then show ?thesis using inv by (auto simp: slot_inv_def lock(3) Let_def)
next
  case (copy data n j)
  note S = slot_inv_copying(3,1) [OF inv copy(1)]
  have "length (serial slot0 (c_log s)) = 2048"
    using inv l0 by (simp add: length_serial slot_inv_def Let_def)
  then have new: "(c_slot s)[j := data ! j] = take (Suc j) data @ drop (Suc j) (serial slot0 (c_log s))"
    using copy(3,4) inv unfolding S(1) by (intro take_update) (auto simp: slot_inv_def Let_def S(1))
  have "length ((c_slot s)[j := data ! j]) = 2048" using inv by (simp add: slot_inv_def Let_def)
  then show ?thesis
    using inv others_ok [OF own inv, of i] copy(1,2) S(2) unfolding copy(5) new
    by (auto simp: slot_inv_def Let_def)
next
  case (copied data n j)
  note idle = others_idle [OF own, of i]
  note S = slot_inv_copying [OF inv copied(1)]
  have n: "length (take n data) = n" "n \<le> 2048"
    using S(1) bl by (auto simp: slot_blocks_def min_le_iff_disj)
  have "j = n" using S(2) copied(2) by simp
  then have slot: "c_slot s = overlay (take n data) (serial slot0 (c_log s))"
    using S(3) n(1) by (simp add: overlay_def)
  have seen: "take k (c_log s @ [take n data]) = take k (c_log s)" if "k \<in> set (c_seen s)" for k
    using that inv by (simp add: slot_inv_def Let_def)
  show ?thesis
    using inv others_ok [OF own inv, of i] idle copied(1) n slot seen
    by (auto simp: slot_inv_def copied(3) Let_def recv_ok_not_crit le_SucI)
next
  case (overrun data n j)
  have "sb_len (B (Suc i)) \<le> 2048" using bl by (simp add: slot_blocks_def)
  then have "j < length data" "j < 2048"
    using slot_inv_copying(1) [OF inv overrun(1)] overrun(2) by simp_all
  then show ?thesis using overrun(3) inv by (simp add: slot_inv_def Let_def)
next
  case (fail data k1)
  then show ?thesis using slot_inv_frame [OF inv] by simp
next
  case (unlock n r k1)
  then show ?thesis using slot_inv_frame [OF inv] by simp
next
  case (signal n k1)
  then show ?thesis using slot_inv_frame [OF inv] by simp
qed

lemma slot_inv_recv:
  assumes ml: "slot_mutex W B holds" and own: "owned holds x s"
    and l0: "length slot0 = 2048" and inv: "slot_inv B slot0 s"
  shows "slot_inv B slot0 (recv_turn W B s)"
proof -
  let ?S = "serial slot0 (c_log s)"
  have len: "length ?S = 2048" using inv l0 by (simp add: length_serial slot_inv_def Let_def)
  have slot: "c_slot s = ?S" if "recv_crit (c_recv s)"
    using senders_idle [OF own that] inv copying_crit by (auto simp: slot_inv_def Let_def)
  show ?thesis
  proof (cases rule: recv_turn_elim [of s W B])
    case (copy j)
    have "take j (c_buf s) = take j ?S" using inv copy(1) by (simp add: slot_inv_def Let_def)
    then have "take (Suc j) ((c_buf s)[j := ?S ! j]) = take (Suc j) ?S"
      using copy(2,4) len by (simp add: take_Suc_conv_app_nth)
    then show ?thesis
      using inv copy(2) slot copy(1) by (auto simp: slot_inv_def copy(5) Let_def)
  next
    case (copied j)
    then have "j = 2048" "take j (c_buf s) = take j ?S" using inv by (auto simp: slot_inv_def Let_def)
    then have "c_buf s = ?S" using inv len by (simp add: slot_inv_def Let_def)
    then show ?thesis using inv by (auto simp: slot_inv_def copied(3) Let_def)
  next
    case (overrun j)
    then show ?thesis using inv by (auto simp: slot_inv_def Let_def)
  next
    case add
    then have "c_buf s = ?S" using inv by (simp add: slot_inv_def Let_def)
    then show ?thesis
      using inv by (auto simp: slot_inv_def add(2) Let_def sorted_append)
  next
    case fault
    then show ?thesis using inv by simp
  qed (use inv in \<open>auto simp: slot_inv_def Let_def\<close>)
qed

lemma slot_inv_call: "slot_inv B slot0 s \<Longrightarrow> slot_inv B slot0 (call_turn i data s)"
  using slot_inv_frame [of B slot0 s i "S_Lock data" "c_k s"]
  by (cases rule: call_turn_elim [of i data s]) auto

text \<open>Both invariants hold throughout every schedule.\<close>

lemma chan_run_snoc: "chan_run W B (es @ [e]) s = chan_step W B e (chan_run W B es s)"
  by (simp add: chan_run_def)

lemma chan_run_append: "chan_run W B (es @ es') s = chan_run W B es' (chan_run W B es s)"
  by (simp add: chan_run_def)

lemma owned_run:
  assumes "slot_mutex W B holds" "slot_blocks B" "owned holds x s"
  shows "owned holds x (chan_run W B es s)"
proof (induction es rule: rev_induct)
  case Nil
  then show ?case using assms(3) by (simp add: chan_run_def)
next
  case (snoc e es)
  then show ?case using owned_step [OF assms(1,2)] by (simp add: chan_run_snoc)
qed

lemma owned_start: "holds k = (\<lambda>_. 0) \<Longrightarrow> owned holds (\<lambda>_. 0) (chan_start k slot buf)"
  by (auto simp: owned_def chan_start_def crit_def split: nat.splits)

lemma slot_inv_run:
  assumes "slot_mutex W B holds" "slot_blocks B" "holds k = (\<lambda>_. 0)" "length slot = 2048" "length buf = 2048"
  shows "slot_inv B slot (chan_run W B es (chan_start k slot buf))"
proof (induction es rule: rev_induct)
  case Nil
  then show ?case using assms(4,5) by (simp add: chan_run_def slot_inv_start)
next
  case (snoc e es)
  note own = owned_run [OF assms(1,2) owned_start [of holds k, OF assms(3)], of es slot buf]
  show ?case
    using snoc slot_inv_send [OF assms(1,2) own assms(4)] slot_inv_recv [OF assms(1) own assms(4)] slot_inv_call
    by (cases e) (simp_all add: chan_run_snoc)
qed

section \<open>Where the messages come from, and when they are announced\<close>

text \<open>Every message in the slot was passed to \<open>shm_write\<close>, clipped to the length of the block.\<close>

definition pc_called :: "shm_block \<Rightarrow> chan_event list \<Rightarrow> nat \<Rightarrow> send_pc \<Rightarrow> bool" where
  "pc_called shm es i p =
     (case p of
        S_Lock data \<Rightarrow> Call i data \<in> set es
      | S_Copy data n _ \<Rightarrow> Call i data \<in> set es \<and> n = min (length data) (sb_len shm)
      | _ \<Rightarrow> True)"

definition called :: "(nat \<Rightarrow> shm_block) \<Rightarrow> chan_event list \<Rightarrow> 'k chan \<Rightarrow> bool" where
  "called B es s \<longleftrightarrow>
     (\<forall>i. pc_called (B (Suc i)) es i (c_send s i)) \<and>
     (\<forall>w \<in> set (c_log s). \<exists>i data. Call i data \<in> set es \<and> w = take (min (length data) (sb_len (B (Suc i)))) data)"

lemma pc_called_simps [simp]:
  "pc_called shm es i (S_Lock data) \<longleftrightarrow> Call i data \<in> set es"
  "pc_called shm es i (S_Copy data n j) \<longleftrightarrow> Call i data \<in> set es \<and> n = min (length data) (sb_len shm)"
  "pc_called shm es i S_Idle" "pc_called shm es i (S_Unlock n)" "pc_called shm es i (S_Signal n)"
  "pc_called shm es i (S_Ret r)" "pc_called shm es i S_Fault"
  by (simp_all add: pc_called_def)

lemma pc_called_more: "pc_called shm es i p \<Longrightarrow> pc_called shm (es @ [e]) i p"
  by (cases p) simp_all

lemma called_more: "called B es s \<Longrightarrow> called B (es @ [e]) s"
  unfolding called_def using pc_called_more by (metis Un_iff set_append)

lemma called_pc:
  assumes "called B es s" "pc_called (B (Suc i)) es i p"
  shows "called B es (s\<lparr>c_k := kk, c_slot := sl, c_send := (c_send s)(i := p)\<rparr>)"
  using assms by (simp add: called_def)

lemma called_send:
  assumes "called B es s"
  shows "called B es (send_turn W B i s)"
proof -
  have pc: "pc_called (B (Suc i)) es i (c_send s i)" using assms by (simp add: called_def)
  note frame = called_pc [OF assms, where sl = "c_slot s"]
  show ?thesis
  proof (cases rule: send_turn_elim [of W B i s])
    case (copied data n j)
    then show ?thesis using assms pc by (auto simp: called_def)
  next
    case (copy data n j)
    then show ?thesis using called_pc [OF assms, where kk = "c_k s"] pc by simp
  next
    case (overrun data n j)
    then show ?thesis using frame [where kk = "c_k s"] by simp
  qed (use assms frame pc in simp_all)
qed

lemma called_recv: "called B es s \<Longrightarrow> called B es (recv_turn W B s)"
  by (cases rule: recv_turn_elim [of s W B]) (simp_all add: called_def)

lemma called_call: "called B es s \<Longrightarrow> called B (es @ [Call i data]) (call_turn i data s)"
  using called_more [of B es s "Call i data"]
    called_pc [of B "es @ [Call i data]" s i "S_Lock data", where kk = "c_k s" and sl = "c_slot s"]
  by (cases rule: call_turn_elim [of i data s]) auto

lemma called_run: "called B es (chan_run W B es (chan_start k slot buf))"
proof (induction es rule: rev_induct)
  case Nil
  show ?case by (simp add: called_def chan_run_def chan_start_def)
next
  case (snoc e es)
  then show ?case
    by (cases e) (simp_all add: chan_run_snoc called_call called_more called_send called_recv)
qed

text \<open>
  A message the monitor has not copied yet is announced: the event is set, or the sender is
  still on its way to setting it, or the monitor is on its way to the slot.
\<close>

definition last_seen :: "'k chan \<Rightarrow> nat" where
  "last_seen s = (if c_seen s = [] then 0 else last (c_seen s))"

definition announcing :: "send_pc \<Rightarrow> bool" where
  "announcing p = (case p of S_Unlock _ \<Rightarrow> True | S_Signal _ \<Rightarrow> True | _ \<Rightarrow> False)"

definition fetching :: "recv_pc \<Rightarrow> bool" where
  "fetching p = (case p of R_Wait \<Rightarrow> False | R_Unlock \<Rightarrow> False | _ \<Rightarrow> True)"

definition announced :: "('k \<Rightarrow> bool) \<Rightarrow> 'k chan \<Rightarrow> bool" where
  "announced sig s \<longleftrightarrow>
     c_missed s \<or> last_seen s = length (c_log s) \<or> sig (c_k s) \<or> (\<exists>i. announcing (c_send s i)) \<or>
     fetching (c_recv s)"

lemma announcing_simps [simp]:
  "announcing (S_Unlock n)" "announcing (S_Signal n)" "\<not> announcing (S_Copy d n j)" "\<not> announcing S_Idle"
  "\<not> announcing (S_Lock d)" "\<not> announcing (S_Ret r)" "\<not> announcing S_Fault"
  by (simp_all add: announcing_def)

lemma fetching_simps [simp]:
  "fetching R_Lock" "fetching (R_Copy j)" "fetching R_Add" "\<not> fetching R_Wait" "\<not> fetching R_Unlock"
  "fetching R_Fault"
  by (simp_all add: fetching_def)

lemma lock_keeps_sig:
  assumes "slot_event W B sig" "slot_blocks B"
  shows "shm_lock (W u) (Some (B u)) t k = Inr (ok, k1) \<Longrightarrow> sig k1 = sig k"
    and "shm_unlock (W u) (Some (B u)) k = Inr (r, k1) \<Longrightarrow> sig k1 = sig k"
proof -
  assume "shm_lock (W u) (Some (B u)) t k = Inr (ok, k1)"
  then have "k1 = snd (WaitForSingleObject (W u) (l_lock (sb_lock (B u))) t k)"
    using assms(2) by (auto simp: slot_blocks_def shm_lock_def lock_wait_def split: prod.splits)
  then show "sig k1 = sig k" using assms(1) by (simp add: slot_event_def)
next
  assume "shm_unlock (W u) (Some (B u)) k = Inr (r, k1)"
  then have "k1 = snd (ReleaseMutex (W u) (l_lock (sb_lock (B u))) k)"
    using assms(2) by (simp add: slot_blocks_def shm_unlock_def lock_release_def)
  then show "sig k1 = sig k" using assms(1) by (simp add: slot_event_def)
qed

lemma announced_frame:
  assumes "announced sig s" "\<not> announcing (c_send s i)" "sig k1 = sig (c_k s)"
  shows "announced sig (s\<lparr>c_k := k1, c_slot := sl, c_send := (c_send s)(i := p)\<rparr>)"
proof -
  have "\<exists>u. announcing (((c_send s)(i := p)) u)" if "\<exists>u. announcing (c_send s u)"
    using that assms(2) by (metis fun_upd_other)
  moreover have "last_seen (s\<lparr>c_k := k1, c_slot := sl, c_send := (c_send s)(i := p)\<rparr>) = last_seen s"
    by (simp add: last_seen_def)
  ultimately show ?thesis
    using assms(1,3) by (simp add: announced_def del: fun_upd_apply) blast
qed

lemma announced_send:
  assumes "slot_event W B sig" "slot_blocks B" "announced sig s"
  shows "announced sig (send_turn W B i s)"
proof (cases rule: send_turn_elim [of W B i s])
  case idle
  then show ?thesis using assms(3) by simp
next
  case (lock data k1)
  then show ?thesis
    using announced_frame [OF assms(3) _ lock_keeps_sig(1) [OF assms(1,2) lock(2)], where sl = "c_slot s"] by simp
next
  case (fail data k1)
  then show ?thesis
    using announced_frame [OF assms(3) _ lock_keeps_sig(1) [OF assms(1,2) fail(2)], where sl = "c_slot s"] by simp
next
  case (unlock n r k1)
  then show ?thesis by (auto simp: announced_def)
next
  case (signal n k1)
  have "esnd (B (Suc i)) \<noteq> NULL" using assms(2) by (simp add: slot_blocks_def)
  then have "sig k1" using assms(1) signal(2) by (simp add: slot_event_def)
  then show ?thesis using signal(3) by (simp add: announced_def)
next
  case (copied data n j)
  then show ?thesis by (auto simp: announced_def)
next
  case (copy data n j)
  then show ?thesis using announced_frame [OF assms(3) _ refl] by simp
next
  case (overrun data n j)
  then show ?thesis using announced_frame [OF assms(3) _ refl, where sl = "c_slot s"] by simp
qed

lemma announced_recv:
  assumes "slot_event W B sig" "slot_blocks B" "announced sig s"
  shows "announced sig (recv_turn W B s)"
proof (cases rule: recv_turn_elim [of s W B])
  case (waits r k1)
  have "sig k1 = sig (c_k s)" using assms(1) waits(2,3) unfolding slot_event_def by blast
  then show ?thesis using assms(3) waits(1,4) by (auto simp: announced_def last_seen_def)
next
  case (unlock r k1)
  then show ?thesis
    using assms(3) lock_keeps_sig(2) [OF assms(1,2) unlock(2)] by (auto simp: announced_def last_seen_def)
qed (use assms(3) in \<open>auto simp: announced_def last_seen_def\<close>)

lemma announced_call: "announced sig s \<Longrightarrow> announced sig (call_turn i data s)"
  using announced_frame [of sig s i "c_k s", where p = "S_Lock data" and sl = "c_slot s"]
  by (cases rule: call_turn_elim [of i data s]) auto

lemma announced_run:
  assumes "slot_event W B sig" "slot_blocks B"
  shows "announced sig (chan_run W B es (chan_start k slot buf))"
proof (induction es rule: rev_induct)
  case Nil
  show ?case by (simp add: announced_def chan_run_def chan_start_def last_seen_def)
next
  case (snoc e es)
  then show ?case
    using announced_send [OF assms] announced_recv [OF assms] announced_call
    by (cases e) (simp_all add: chan_run_snoc)
qed

end
