(* ===== verification/Channel_Props.thy ===== *)
theory Channel_Props
  imports Channel
begin

text \<open>
  What holds of the shared slot in every interleaving (theory \<open>Channel\<close>): uninterrupted, the steps
  of a sender are \<open>shm_write\<close>; the copies of the monitor are whole messages; the last message is
  not lost; and two things that do go wrong, an abandoned mutex and a message queued twice in
  the place of another.
\<close>

section \<open>A call with nobody in between\<close>

lemma chan_run_Cons: "chan_run W B (e # es) s = chan_run W B es (chan_step W B e s)"
  by (simp add: chan_run_def)

lemma chan_run_Nil [simp]: "chan_run W B [] s = s"
  by (simp add: chan_run_def)

lemma send_copy_run:
  assumes "c_send s i = S_Copy data n j" "j \<le> n" "n \<le> length data" "n \<le> length (c_slot s)"
  shows "chan_run W B (replicate (n - j) (Send i)) s =
    s\<lparr>c_slot := take j (c_slot s) @ drop j (take n data) @ drop n (c_slot s),
      c_send := (c_send s)(i := S_Copy data n n)\<rparr>"
  using assms
proof (induction "n - j" arbitrary: j s)
  case 0
  then have "j = n" by simp
  then show ?case using "0.prems"(1) by (simp add: fun_upd_idem)
next
  case (Suc m)
  let ?t = "s\<lparr>c_slot := (c_slot s)[j := data ! j], c_send := (c_send s)(i := S_Copy data n (j + 1))\<rparr>"
  have j: "j < n" using Suc.hyps(2) by simp
  have step: "send_turn W B i s = ?t" using Suc.prems j by (simp add: send_turn_def)
  have n: "n - j = Suc (n - Suc j)" using j by simp
  have "drop j (take n data) = data ! j # drop (Suc j) (take n data)"
    using j Suc.prems(3) by (simp add: Cons_nth_drop_Suc [symmetric])
  moreover have "take (Suc j) ((c_slot s)[j := data ! j]) = take j (c_slot s) @ [data ! j]"
    using j Suc.prems(4) by (simp add: take_Suc_conv_app_nth)
  moreover have "chan_run W B (replicate (n - Suc j) (Send i)) ?t =
      ?t\<lparr>c_slot := take (Suc j) (c_slot ?t) @ drop (Suc j) (take n data) @ drop n (c_slot ?t),
        c_send := (c_send ?t)(i := S_Copy data n n)\<rparr>"
    using Suc.prems j Suc.hyps(2) by (intro Suc.hyps(1)) simp_all
  ultimately show ?case using j unfolding n by (simp add: chan_run_Cons step)
qed

lemma send_alone:
  assumes "c_send s i = S_Lock data" "shm_lock (W (Suc i)) (Some (B (Suc i))) 2500 (c_k s) = Inr (True, k1)"
    and "n = min (length data) (sb_len (B (Suc i)))" "n \<le> length (c_slot s)"
  shows "chan_run W B (replicate (n + 4) (Send i)) s =
    s\<lparr>c_k := shm_after (W (Suc i)) (B (Suc i)) k1, c_slot := take n data @ drop n (c_slot s),
      c_send := (c_send s)(i := S_Ret (of_nat n)), c_log := c_log s @ [take n data]\<rparr>"
proof -
  let ?s1 = "s\<lparr>c_k := k1, c_send := (c_send s)(i := S_Copy data n 0)\<rparr>"
  have "replicate (n + 4) (Send i) = replicate 1 (Send i) @ replicate n (Send i) @ replicate 3 (Send i)"
    unfolding replicate_add [symmetric] by simp
  then have es: "replicate (n + 4) (Send i) = Send i # replicate n (Send i) @ [Send i, Send i, Send i]"
    by (simp add: numeral_eq_Suc)
  have s1: "send_turn W B i s = ?s1" using assms(1,2,3) by (simp add: send_turn_def)
  have copy: "chan_run W B (replicate n (Send i)) ?s1 =
      ?s1\<lparr>c_slot := take n data @ drop n (c_slot s), c_send := (c_send s)(i := S_Copy data n n)\<rparr>"
    using send_copy_run [of ?s1 i data n 0 W B] assms(3,4) by simp
  obtain r k2 where u: "shm_unlock (W (Suc i)) (Some (B (Suc i))) k1 = Inr (r, k2)"
    by (rule shm_unlock_total)
  then have "shm_after (W (Suc i)) (B (Suc i)) k1 =
      (if esnd (B (Suc i)) \<noteq> NULL then snd (SetEvent (W (Suc i)) (esnd (B (Suc i))) k2) else k2)"
    by (auto simp: shm_after_def shm_unlock_def lock_release_def split: if_splits)
  then show ?thesis
    unfolding es chan_run_Cons chan_step.simps s1 chan_run_append copy
    by (simp add: chan_run_Cons send_turn_def u)
qed

lemma recv_copy_run:
  assumes "c_recv s = R_Copy j" "j \<le> 2048" "length (c_slot s) = 2048" "length (c_buf s) = 2048"
  shows "chan_run W B (replicate (2048 - j) Recv) s =
    s\<lparr>c_buf := take j (c_buf s) @ drop j (c_slot s), c_recv := R_Copy 2048\<rparr>"
  using assms
proof (induction "2048 - j" arbitrary: j s)
  case 0
  then have "j = 2048" by simp
  then show ?case using "0.prems" by simp
next
  case (Suc m)
  let ?t = "s\<lparr>c_buf := (c_buf s)[j := c_slot s ! j], c_recv := R_Copy (j + 1)\<rparr>"
  have j: "j < 2048" using Suc.hyps(2) by simp
  have step: "recv_turn W B s = ?t" using Suc.prems j by (simp add: recv_turn_def)
  have n: "2048 - j = Suc (2048 - Suc j)" using j by simp
  have "drop j (c_slot s) = c_slot s ! j # drop (Suc j) (c_slot s)"
    using j Suc.prems(3) by (simp add: Cons_nth_drop_Suc [symmetric])
  moreover have "take (Suc j) ((c_buf s)[j := c_slot s ! j]) = take j (c_buf s) @ [c_slot s ! j]"
    using j Suc.prems(4) by (simp add: take_Suc_conv_app_nth)
  moreover have "chan_run W B (replicate (2048 - Suc j) Recv) ?t =
      ?t\<lparr>c_buf := take (Suc j) (c_buf ?t) @ drop (Suc j) (c_slot ?t), c_recv := R_Copy 2048\<rparr>"
    using Suc.prems j Suc.hyps(2) by (intro Suc.hyps(1)) simp_all
  ultimately show ?case unfolding n by (simp add: chan_run_Cons step)
qed

lemma recv_alone:
  assumes "c_recv s = R_Lock" "shm_lock (W 0) (Some (B 0)) 1500 (c_k s) = Inr (True, k1)"
    and "shm_unlock (W 0) (Some (B 0)) k1 = Inr (r, k2)" "length (c_slot s) = 2048" "length (c_buf s) = 2048"
  shows "chan_run W B (Recv # replicate 2048 Recv @ [Recv, Recv, Recv]) s =
    s\<lparr>c_k := k2, c_buf := c_slot s, c_recv := R_Wait, c_got := c_got s @ [c_slot s],
      c_seen := c_seen s @ [length (c_log s)]\<rparr>"
proof -
  let ?s1 = "s\<lparr>c_k := k1, c_recv := R_Copy 0\<rparr>"
  have s1: "recv_turn W B s = ?s1" using assms(1,2) by (simp add: recv_turn_def)
  have copy: "chan_run W B (replicate 2048 Recv) ?s1 = ?s1\<lparr>c_buf := c_slot s, c_recv := R_Copy 2048\<rparr>"
    using recv_copy_run [of ?s1 0 W B] assms(4,5) by simp
  show ?thesis
    unfolding chan_run_Cons chan_step.simps s1 chan_run_append copy
    using assms(3-5) by (simp add: chan_run_Cons recv_turn_def)
qed

section \<open>A kernel with a mutex and an event\<close>

text \<open>
  For evaluation: handle 1 is a mutex with owner and count, handle 2 an auto-reset event. A
  mutex whose owner died is free and marked; the next wait gets it with \<open>WAIT_ABANDONED\<close>.
\<close>

record race_kernel =
  rk_owner :: "nat option"
  rk_count :: nat
  rk_dead :: bool
  rk_event :: bool

definition race_wait :: "nat \<Rightarrow> handle \<Rightarrow> dword \<Rightarrow> race_kernel \<Rightarrow> dword \<times> race_kernel" where
  "race_wait u h t k =
     (if h = 1 then
        (case rk_owner k of
           None \<Rightarrow> (if rk_dead k then WAIT_ABANDONED else WAIT_OBJECT_0,
                    k\<lparr>rk_owner := Some u, rk_count := 1, rk_dead := False\<rparr>)
         | Some v \<Rightarrow> (if v = u then (WAIT_OBJECT_0, k\<lparr>rk_count := rk_count k + 1\<rparr>) else (WAIT_TIMEOUT, k)))
      else if rk_event k then (WAIT_OBJECT_0, k\<lparr>rk_event := False\<rparr>) else (WAIT_TIMEOUT, k))"

definition race_release :: "nat \<Rightarrow> handle \<Rightarrow> race_kernel \<Rightarrow> bool \<times> race_kernel" where
  "race_release u h k =
     (if rk_owner k = Some u then
        (True, k\<lparr>rk_owner := (if rk_count k \<le> 1 then None else Some u), rk_count := rk_count k - 1\<rparr>)
      else (False, k))"

definition race_win32 :: "nat \<Rightarrow> race_kernel win32" where
  "race_win32 u = \<lparr>
     WaitForSingleObject = race_wait u,
     CreateMutex = (\<lambda>_ k. (1, k)), CreateMutexEx = (\<lambda>_ _ k. (1, k)),
     ReleaseMutex = race_release u, CloseHandle = (\<lambda>_ k. k),
     CreateEvent = (\<lambda>k. (2, k)), CreateEventEx = (\<lambda>_ _ k. (2, k)),
     SetEvent = (\<lambda>_ k. (True, k\<lparr>rk_event := True\<rparr>)),
     InitializeSRWLock = (\<lambda>_ k. k), AcquireSRWLockShared = (\<lambda>_ k. k), ReleaseSRWLockShared = (\<lambda>_ k. k),
     AcquireSRWLockExclusive = (\<lambda>_ k. k), ReleaseSRWLockExclusive = (\<lambda>_ k. k),
     OpenProcessToken = (\<lambda>k. (None, k)), LookupPrivilegeValue = (\<lambda>k. k), AdjustTokenPrivileges = (\<lambda>_ k. (True, k)),
     AllocateAndInitializeSid = (\<lambda>_ _ k. (None, k)), SetEntriesInAcl = (\<lambda>_ k. ((ERROR_SUCCESS, NULL), k)),
     LocalAlloc = (\<lambda>k. (NULL, k)), InitializeSecurityDescriptor = (\<lambda>_ k. (True, k)),
     SetSecurityDescriptorDacl = (\<lambda>_ _ k. (True, k)), FreeSid = (\<lambda>_ k. k), LocalFree = (\<lambda>_ k. k),
     CreateFileMapping = (\<lambda>_ _ _ k. (NULL, k)), OpenFileMapping = (\<lambda>_ k. (NULL, k)),
     MapViewOfFile = (\<lambda>_ _ k. (NULL, k)), UnmapViewOfFile = (\<lambda>_ k. k) \<rparr>"

definition race_block :: "nat \<Rightarrow> shm_block" where
  "race_block u = shm_zero\<lparr>sb_len := 2048, sb_lock := \<lparr>l_init = True, l_lock = 1\<rparr>, esnd := 2, sb_data := 3\<rparr>"

definition race_holds :: "race_kernel \<Rightarrow> nat \<Rightarrow> nat" where
  "race_holds k u = (if rk_owner k = Some u then rk_count k else 0)"

definition race_free :: race_kernel where
  "race_free = \<lparr>rk_owner = None, rk_count = 0, rk_dead = False, rk_event = False\<rparr>"

lemmas race_defs = race_wait_def race_release_def race_win32_def race_block_def race_holds_def race_free_def
  WAIT_OBJECT_0_def WAIT_ABANDONED_def WAIT_TIMEOUT_def

lemma race_mutex: "slot_mutex race_win32 race_block race_holds"
  by (auto simp: slot_mutex_def race_defs fun_eq_iff split: option.splits if_splits)

lemma race_event: "slot_event race_win32 race_block rk_event"
  by (auto simp: slot_event_def race_defs split: option.splits if_splits)

lemma race_blocks: "slot_blocks race_block"
  by (simp add: slot_blocks_def race_block_def)

lemma race_unowned: "race_holds race_free = (\<lambda>_. 0)"
  by (simp add: race_defs fun_eq_iff)

text \<open>One uninterrupted call of server thread \<open>i\<close>, and one uninterrupted round of the monitor.\<close>

definition send_round :: "nat \<Rightarrow> byte list \<Rightarrow> chan_event list" where
  "send_round i data = replicate (length data + 4) (Send i)"

definition recv_round :: "chan_event list" where
  "recv_round = Recv # replicate 2048 Recv @ [Recv, Recv, Recv]"

lemma race_send:
  assumes "c_send s i = S_Lock data" "rk_owner (c_k s) = None" "\<not> rk_dead (c_k s)" "length data \<le> 2048"
    and "length (c_slot s) = 2048"
  shows "chan_run race_win32 race_block (send_round i data) s =
    s\<lparr>c_k := (c_k s)\<lparr>rk_count := 0, rk_dead := False, rk_event := True\<rparr>, c_slot := overlay data (c_slot s),
      c_send := (c_send s)(i := S_Ret (of_nat (length data))), c_log := c_log s @ [data]\<rparr>"
proof -
  have "shm_lock (race_win32 (Suc i)) (Some (race_block (Suc i))) 2500 (c_k s) =
      Inr (True, (c_k s)\<lparr>rk_owner := Some (Suc i), rk_count := 1, rk_dead := False\<rparr>)"
    using assms(2,3) by (simp add: shm_lock_def lock_wait_def race_defs)
  moreover have "shm_after (race_win32 (Suc i)) (race_block (Suc i))
      ((c_k s)\<lparr>rk_owner := Some (Suc i), rk_count := 1, rk_dead := False\<rparr>) =
      (c_k s)\<lparr>rk_count := 0, rk_dead := False, rk_event := True\<rparr>"
    using assms(2) by (cases "c_k s") (simp add: shm_after_def race_defs)
  moreover have "min (length data) (sb_len (race_block (Suc i))) = length data"
    using assms(4) by (simp add: race_block_def)
  ultimately show ?thesis
    using send_alone [of s i data race_win32 race_block _ "length data"] assms(1,4,5)
    by (simp add: send_round_def overlay_def)
qed

lemma race_recv:
  assumes "c_recv s = R_Lock" "rk_owner (c_k s) = None" "\<not> rk_dead (c_k s)"
    and "length (c_slot s) = 2048" "length (c_buf s) = 2048"
  shows "chan_run race_win32 race_block recv_round s =
    s\<lparr>c_k := (c_k s)\<lparr>rk_count := 0, rk_dead := False\<rparr>, c_buf := c_slot s, c_recv := R_Wait,
      c_got := c_got s @ [c_slot s], c_seen := c_seen s @ [length (c_log s)]\<rparr>"
proof -
  have "shm_lock (race_win32 0) (Some (race_block 0)) 1500 (c_k s) =
      Inr (True, (c_k s)\<lparr>rk_owner := Some 0, rk_count := 1, rk_dead := False\<rparr>)"
    using assms(2,3) by (simp add: shm_lock_def lock_wait_def race_defs)
  moreover have "shm_unlock (race_win32 0) (Some (race_block 0)) ((c_k s)\<lparr>rk_owner := Some 0, rk_count := 1, rk_dead := False\<rparr>) =
      Inr (True, (c_k s)\<lparr>rk_count := 0, rk_dead := False\<rparr>)"
    using assms(2) by (cases "c_k s") (simp add: shm_unlock_def lock_release_def race_defs)
  ultimately show ?thesis
    using recv_alone [of s race_win32 race_block] assms(1,4,5) unfolding recv_round_def by blast
qed

section \<open>Properties\<close>

text \<open>C10. The steps are those of \<open>shm_write\<close>: a call that is not interrupted comes to its end, whether it gets
  the mutex or not, and its return value, the slot and the kernel it leaves are those of the
  function \<open>shm_write\<close> on the view that holds the slot.\<close>

theorem send_steps_are_shm_write:
  assumes "c_send s i = S_Lock data" "m (sb_data (B (Suc i))) = Some vw" "v_data vw = c_slot s"
    and "sb_len (B (Suc i)) \<le> length (c_slot s)"
  shows "\<exists>n r. let s' = chan_run W B (replicate n (Send i)) s in c_send s' i = S_Ret r \<and>
    shm_write (W (Suc i)) (Some (B (Suc i))) data (length data) m (c_k s) =
      Inr (r, m(sb_data (B (Suc i)) \<mapsto> vw\<lparr>v_data := c_slot s'\<rparr>), c_k s')"
proof -
  obtain ok k1 where l: "shm_lock (W (Suc i)) (Some (B (Suc i))) 2500 (c_k s) = Inr (ok, k1)"
    by (rule shm_lock_total)
  show ?thesis
  proof (cases ok)
    case True
    let ?n = "min (length data) (sb_len (B (Suc i)))"
    have lk: "shm_lock (W (Suc i)) (Some (B (Suc i))) 2500 (c_k s) = Inr (True, k1)" using l True by simp
    have n: "?n \<le> length (c_slot s)" using assms(4) by simp
    show ?thesis
      using send_alone [where W = W and B = B and n = ?n, OF assms(1) lk refl n] shm_write_ok [where m = m, OF lk assms(2), of "length data" data] assms(3,4)
      by (intro exI [of _ "?n + 4"] exI [of _ "of_nat ?n"]) (simp add: Let_def)
  next
    case False
    have "m(sb_data (B (Suc i)) \<mapsto> vw\<lparr>v_data := c_slot s\<rparr>) = m"
      using assms(2,3) by (auto simp: fun_eq_iff)
    then show ?thesis
      using l False assms(1)
      by (intro exI [of _ 1] exI [of _ SHM_LOCK_FAILED])
         (simp add: chan_run_Cons send_turn_def shm_write_lock_failed)
  qed
qed

definition race_view :: "byte list \<Rightarrow> view" where
  "race_view slot = \<lparr>v_lockdef = \<lparr>lockname = [], esndname = [], eackname = []\<rparr>, v_data = slot\<rparr>"

definition zero_slot :: "byte list" where
  "zero_slot = replicate 2048 0"

lemma length_zero_slot [simp]: "length zero_slot = 2048"
  by (simp add: zero_slot_def)

theorem send_steps_are_shm_write_witness:
  "\<exists>n r. let s' = chan_run race_win32 race_block (replicate n (Send 0))
       (call_turn 0 [7] (chan_start race_free zero_slot zero_slot)) in c_send s' 0 = S_Ret r \<and>
     shm_write (race_win32 1) (Some (race_block 1)) [7] 1 [3 \<mapsto> race_view zero_slot] race_free =
       Inr (r, [3 \<mapsto> race_view (c_slot s')], c_k s')"
  using send_steps_are_shm_write [of "call_turn 0 [7] (chan_start race_free zero_slot zero_slot)" 0 "[7]"
      "[3 \<mapsto> race_view zero_slot]" race_block "race_view zero_slot" race_win32]
  by (simp add: call_turn_def chan_start_def race_block_def race_view_def)

text \<open>C6. No torn message: however the byte copies of any number of senders and of the monitor are
  interleaved, no thread leaves its buffer, at most one thread is between taking and
  releasing the mutex, and every copy the monitor queues is the slot after a sequence of whole
  messages that were passed to \<open>shm_write\<close> (clipped to the block), each copy at least as late in
  that sequence as the one before.\<close>

theorem slot_copies_are_whole:
  assumes "slot_mutex W B holds" "slot_blocks B" "holds k = (\<lambda>_. 0)" "length slot = 2048" "length buf = 2048"
    and "s = chan_run W B es (chan_start k slot buf)"
  shows "c_recv s \<noteq> R_Fault \<and> (\<forall>i. c_send s i \<noteq> S_Fault) \<and> (\<forall>u v. crit s u \<longrightarrow> crit s v \<longrightarrow> u = v) \<and>
    (\<forall>w \<in> set (c_log s). \<exists>i data. Call i data \<in> set es \<and> w = take (min (length data) (sb_len (B (Suc i)))) data) \<and>
    c_got s = map (\<lambda>j. serial slot (take j (c_log s))) (c_seen s) \<and>
    sorted (c_seen s) \<and> (\<forall>j \<in> set (c_seen s). j \<le> length (c_log s))"
proof -
  have inv: "slot_inv B slot s" using slot_inv_run [where holds = holds, OF assms(1-5)] assms(6) by simp
  have "owned holds (\<lambda>_. 0) s"
    using owned_run [OF assms(1,2) owned_start [where holds = holds, OF assms(3)]] assms(6) by simp
  then have "\<forall>u v. crit s u \<longrightarrow> crit s v \<longrightarrow> u = v" using owned_exclusive by blast
  moreover have "called B es s" unfolding assms(6) by (rule called_run)
  moreover have "c_send s i \<noteq> S_Fault" for i
    using inv by (auto simp: slot_inv_def Let_def dest!: spec [of _ i])
  moreover have "c_recv s \<noteq> R_Fault" using inv by (auto simp: slot_inv_def Let_def)
  ultimately show ?thesis
    using inv by (simp add: slot_inv_def called_def Let_def)
qed

text \<open>
  Two senders: both call, the first writes and signals, the monitor wakes, and before it takes
  the mutex the second one gets in between.
\<close>

definition overtaking :: "chan_event list" where
  "overtaking = [Call 0 [7], Call 1 [8, 9]] @ send_round 0 [7] @ [Recv] @
     replicate 3 (Send 1) @ [Recv]"

theorem slot_copies_are_whole_witness:
  "\<exists>s. s = chan_run race_win32 race_block overtaking (chan_start race_free zero_slot zero_slot) \<and>
     c_recv s \<noteq> R_Fault \<and> (\<forall>u v. crit s u \<longrightarrow> crit s v \<longrightarrow> u = v) \<and>
     c_got s = map (\<lambda>j. serial zero_slot (take j (c_log s))) (c_seen s)"
  using slot_copies_are_whole [OF race_mutex race_blocks race_unowned length_zero_slot length_zero_slot refl, of overtaking]
  by blast

text \<open>C7. The last message is not lost: when every sender has finished, the event is reset and the monitor is back at
  its wait, without ever having failed to get the mutex, then its last copy starts with the
  last message written.\<close>

theorem last_message_arrives:
  assumes "slot_mutex W B holds" "slot_event W B sig" "slot_blocks B" "holds k = (\<lambda>_. 0)"
    and "length slot = 2048" "length buf = 2048"
    and "s = chan_run W B es (chan_start k slot buf)"
    and "\<not> c_missed s" "\<not> sig (c_k s)" "c_recv s = R_Wait" "\<forall>i. \<not> announcing (c_send s i)" "c_log s \<noteq> []"
  shows "c_got s \<noteq> [] \<and> take (length (last (c_log s))) (last (c_got s)) = last (c_log s)"
proof -
  have inv: "slot_inv B slot s" using slot_inv_run [where holds = holds, OF assms(1,3-6)] assms(7) by simp
  have "announced sig s" using announced_run [OF assms(2,3)] assms(7) by blast
  then have seen: "last_seen s = length (c_log s)" using assms(8-11) by (simp add: announced_def)
  then have ne: "c_seen s \<noteq> []" using assms(12) by (auto simp: last_seen_def)
  have got: "c_got s = map (\<lambda>j. serial slot (take j (c_log s))) (c_seen s)"
    using inv by (simp add: slot_inv_def Let_def)
  then have "last (c_got s) = serial slot (c_log s)"
    using ne seen by (simp add: last_map last_seen_def)
  also have "\<dots> = overlay (last (c_log s)) (serial slot (butlast (c_log s)))"
    using assms(12) by (metis append_butlast_last_id serial_snoc)
  finally show ?thesis using ne got by (simp add: overlay_def)
qed

definition one_message :: "chan_event list" where
  "one_message = Call 0 [7] # send_round 0 [7] @ Recv # recv_round"

lemma one_message_run:
  "chan_run race_win32 race_block one_message (chan_start race_free zero_slot zero_slot) =
    \<lparr>c_k = race_free, c_slot = overlay [7] zero_slot, c_send = (\<lambda>_. S_Idle)(0 := S_Ret 1), c_recv = R_Wait,
     c_buf = overlay [7] zero_slot, c_got = [overlay [7] zero_slot], c_seen = [1], c_log = [[7]], c_missed = False\<rparr>"
proof -
  let ?c = "\<lparr>c_k = race_free, c_slot = zero_slot, c_send = (\<lambda>_. S_Idle)(0 := S_Lock [7]), c_recv = R_Wait,
     c_buf = zero_slot, c_got = [], c_seen = [], c_log = [], c_missed = False\<rparr>"
  have call: "chan_step race_win32 race_block (Call 0 [7]) (chan_start race_free zero_slot zero_slot) = ?c"
    by (simp add: call_turn_def chan_start_def)
  have send: "chan_run race_win32 race_block (send_round 0 [7]) ?c =
      ?c\<lparr>c_k := race_free\<lparr>rk_event := True\<rparr>, c_slot := overlay [7] zero_slot,
        c_send := (\<lambda>_. S_Idle)(0 := S_Ret 1), c_log := [[7]]\<rparr>"
    using race_send [of ?c 0 "[7]"] by (simp add: race_free_def)
  show ?thesis
    unfolding one_message_def chan_run_Cons call chan_run_append send
    by (simp add: recv_turn_def race_defs race_recv overlay_def del: of_nat_numeral)
qed

theorem last_message_arrives_witness:
  "\<exists>s. s = chan_run race_win32 race_block one_message (chan_start race_free zero_slot zero_slot) \<and>
     c_log s = [[7]] \<and> c_got s \<noteq> [] \<and> take 1 (last (c_got s)) = [7]"
  using last_message_arrives [OF race_mutex race_event race_blocks race_unowned length_zero_slot length_zero_slot
      one_message_run [symmetric]]
  unfolding one_message_run by (simp add: race_free_def)

text \<open>A thread that holds the mutex for good keeps every other thread out.\<close>

lemma kept_out:
  assumes "slot_mutex W B holds" "slot_blocks B" "owned holds x s" "0 < x u" "v \<noteq> u"
  shows "\<not> crit s v" "shm_lock (W v) (Some (B v)) t (c_k s) \<noteq> Inr (True, k1)"
proof -
  have "x u \<le> holds (c_k s) u" using assms(3) by (simp add: owned_def)
  then have h: "0 < holds (c_k s) u" using assms(4) by simp
  then have "holds (c_k s) v = 0"
    using assms(3,5) unfolding owned_def by (metis gr0I)
  then show "\<not> crit s v" using owned_crit [OF assms(3), of v] by auto
  show "shm_lock (W v) (Some (B v)) t (c_k s) \<noteq> Inr (True, k1)"
    using lock_taken [OF assms(1,2), of v t "c_k s" k1] h assms(5) by fastforce
qed

lemma slot_frozen:
  assumes ml: "slot_mutex W B holds" and bl: "slot_blocks B" and own: "owned holds x s" and x: "0 < x 0"
  shows "c_slot (chan_step W B e s) = c_slot s \<and> c_log (chan_step W B e s) = c_log s"
proof (cases e)
  case (Call i data)
  then show ?thesis by (cases rule: call_turn_elim [of i data s]) simp_all
next
  case (Send i)
  have nc: "\<not> crit s (Suc i)" by (rule kept_out(1) [OF ml bl own x]) simp
  have nl: "shm_lock (W (Suc i)) (Some (B (Suc i))) t (c_k s) \<noteq> Inr (True, k1)" for t k1
    by (rule kept_out(2) [OF ml bl own x]) simp
  show ?thesis
    using nc nl by (cases rule: send_turn_elim [of W B i s]) (simp_all add: Send)
next
  case Recv
  then show ?thesis by (cases rule: recv_turn_elim [of s W B]) simp_all
qed

lemma slot_frozen_run:
  assumes "slot_mutex W B holds" "slot_blocks B" "owned holds x s" "0 < x 0"
  shows "c_slot (chan_run W B es s) = c_slot s \<and> c_log (chan_run W B es s) = c_log s"
proof (induction es rule: rev_induct)
  case (snoc e es)
  then show ?case
    using slot_frozen [OF assms(1,2) owned_run [OF assms(1-3)] assms(4), of e es] by (simp add: chan_run_snoc)
qed simp

text \<open>C8. A dead owner closes the channel: when the wait of the monitor for the mutex ends with
  \<open>WAIT_ABANDONED\<close>, because a sender died holding it, \<open>shm_lock\<close> reports failure although the monitor now
  owns the mutex, and nothing gives that ownership back. From then on, whatever happens, no
  sender gets the mutex: every \<open>shm_write\<close> returns \<open>SHM_LOCK_FAILED\<close> and the slot keeps its contents.\<close>

theorem abandoned_mutex_closes_channel:
  assumes "slot_mutex W B holds" "slot_blocks B" "holds k = (\<lambda>_. 0)"
    and "s = chan_run W B es (chan_start k slot buf)" "c_recv s = R_Lock"
    and "WaitForSingleObject (W 0) (l_lock (sb_lock (B 0))) 1500 (c_k s) = (WAIT_ABANDONED, k1)"
    and "s2 = chan_run W B later (recv_turn W B s)"
  shows "c_slot s2 = c_slot s \<and> c_log s2 = c_log s \<and>
    (\<forall>i data. c_send s2 i = S_Lock data \<longrightarrow> c_send (send_turn W B i s2) i = S_Ret SHM_LOCK_FAILED)"
proof -
  let ?s1 = "s\<lparr>c_k := k1, c_recv := R_Wait, c_missed := True\<rparr>" and ?x = "(\<lambda>_. 0)(0 := 1) :: nat \<Rightarrow> nat"
  have own: "owned holds (\<lambda>_. 0) s"
    unfolding assms(4) by (rule owned_run [OF assms(1,2) owned_start [where holds = holds, OF assms(3)]])
  have "l_init (sb_lock (B 0))" using assms(2) by (simp add: slot_blocks_def)
  then have "shm_lock (W 0) (Some (B 0)) 1500 (c_k s) = Inr (False, k1)"
    using assms(6) by (simp add: shm_lock_def lock_wait_def WAIT_OBJECT_0_def WAIT_ABANDONED_def)
  then have s1: "recv_turn W B s = ?s1" using assms(5) by (simp add: recv_turn_def)
  have k1: "\<forall>v. v \<noteq> 0 \<longrightarrow> holds (c_k s) v = 0" "holds k1 = (holds (c_k s))(0 := holds (c_k s) 0 + 1)"
    using wait_granted [OF assms(1,6)] by simp_all
  have "\<not> crit s (Suc i)" for i
    using owned_crit [OF own, of "Suc i"] k1(1) by auto
  then have "\<not> crit ?s1 u" for u by (cases u) simp_all
  moreover have "u = 0" if "0 < holds k1 u" for u
    using that k1(1) unfolding k1(2) by (cases "u = 0") simp_all
  moreover have "?x u \<le> holds k1 u" for u unfolding k1(2) by simp
  ultimately have own1: "owned holds ?x ?s1" 
    unfolding owned_def by (simp del: fun_upd_apply) blast
  have own2: "owned holds ?x s2" unfolding assms(7) s1 by (rule owned_run [OF assms(1,2) own1])
  have "c_send (send_turn W B i s2) i = S_Ret SHM_LOCK_FAILED" if "c_send s2 i = S_Lock data" for i data
    using kept_out(2) [OF assms(1,2) own2, of 0 "Suc i" 2500] that
    by (cases rule: send_turn_elim [of W B i s2]) (simp_all, blast)
  moreover have "c_slot s2 = c_slot ?s1 \<and> c_log s2 = c_log ?s1"
    unfolding assms(7) s1 by (rule slot_frozen_run [OF assms(1,2) own1]) simp
  ultimately show ?thesis by simp
qed

text \<open>The mutex of a sender that died, with the event it had set.\<close>

definition race_orphan :: race_kernel where
  "race_orphan = race_free\<lparr>rk_dead := True, rk_event := True\<rparr>"

theorem abandoned_mutex_closes_channel_witness:
  "\<exists>s2. s2 = chan_run race_win32 race_block [Recv, Call 0 [7]]
       (recv_turn race_win32 race_block (chan_run race_win32 race_block [Recv] (chan_start race_orphan zero_slot zero_slot))) \<and>
     c_slot s2 = zero_slot \<and> c_send s2 0 = S_Lock [7] \<and>
     c_send (send_turn race_win32 race_block 0 s2) 0 = S_Ret SHM_LOCK_FAILED"
proof -
  let ?s = "chan_run race_win32 race_block [Recv] (chan_start race_orphan zero_slot zero_slot)"
  let ?s2 = "chan_run race_win32 race_block [Recv, Call 0 [7]] (recv_turn race_win32 race_block ?s)"
  have h: "race_holds race_orphan = (\<lambda>_. 0)" by (simp add: race_orphan_def race_defs fun_eq_iff)
  have s: "?s = (chan_start race_orphan zero_slot zero_slot)\<lparr>c_k := race_orphan\<lparr>rk_event := False\<rparr>, c_recv := R_Lock\<rparr>"
    by (simp add: chan_run_Cons recv_turn_def chan_start_def race_orphan_def race_defs)
  have w: "WaitForSingleObject (race_win32 0) (l_lock (sb_lock (race_block 0))) 1500 (c_k ?s) =
      (WAIT_ABANDONED, race_orphan\<lparr>rk_event := False, rk_owner := Some 0, rk_count := 1, rk_dead := False\<rparr>)"
    unfolding s by (simp add: chan_start_def race_orphan_def race_defs)
  have r: "c_recv ?s = R_Lock" unfolding s by simp
  have "c_send ?s2 0 = S_Lock [7]"
    unfolding s by (simp add: chan_run_Cons recv_turn_def call_turn_def chan_start_def race_orphan_def race_defs
        shm_lock_def lock_wait_def)
  then show ?thesis
    using abandoned_mutex_closes_channel [OF race_mutex race_blocks h refl r w refl, of "[Recv, Call 0 [7]]"]
    unfolding s by (simp add: chan_start_def)
qed

text \<open>Two senders, the second between the wake-up of the monitor and its turn at the mutex.\<close>

definition overtaken :: "chan_event list" where
  "overtaken = [Call 0 [7], Call 1 [8, 9]] @ send_round 0 [7] @ [Recv] @ send_round 1 [8, 9] @ recv_round @
     [Recv] @ recv_round"

text \<open>C9. A message can be lost and another one queued twice, without any error: when a second sender
  comes in after the monitor woke for the first one but before it took the mutex, the
  monitor copies the second message, and again when that sender's signal wakes it. The first
  message is in no copy.\<close>

theorem message_lost_and_duplicated:
  "let s = chan_run race_win32 race_block overtaken (chan_start race_free zero_slot zero_slot) in
   c_log s = [[7], [8, 9]] \<and> c_send s 0 = S_Ret 1 \<and> c_send s 1 = S_Ret 2 \<and> \<not> c_missed s \<and>
   c_got s = [[8, 9] @ drop 2 zero_slot, [8, 9] @ drop 2 zero_slot]"
proof -
  let ?c = "\<lparr>c_k = race_free, c_slot = zero_slot, c_send = (\<lambda>_. S_Idle)(0 := S_Lock [7], 1 := S_Lock [8, 9]),
     c_recv = R_Wait, c_buf = zero_slot, c_got = [], c_seen = [], c_log = [], c_missed = False\<rparr>"
  let ?d = "?c\<lparr>c_k := race_free\<lparr>rk_event := True\<rparr>, c_slot := overlay [7] zero_slot,
     c_send := (\<lambda>_. S_Idle)(0 := S_Ret 1, 1 := S_Lock [8, 9]), c_log := [[7]]\<rparr>"
  let ?e = "?d\<lparr>c_k := race_free, c_recv := R_Lock\<rparr>"
  let ?f = "?e\<lparr>c_k := race_free\<lparr>rk_event := True\<rparr>, c_slot := [8, 9] @ drop 2 zero_slot,
     c_send := (\<lambda>_. S_Idle)(0 := S_Ret 1, 1 := S_Ret 2), c_log := [[7], [8, 9]]\<rparr>"
  have c: "chan_run race_win32 race_block [Call 0 [7], Call 1 [8, 9]] (chan_start race_free zero_slot zero_slot) = ?c"
    by (simp add: chan_run_Cons call_turn_def chan_start_def)
  have d: "chan_run race_win32 race_block (send_round 0 [7]) ?c = ?d"
    using race_send [of ?c 0 "[7]"] by (simp add: race_free_def fun_upd_twist)
  have e: "chan_run race_win32 race_block [Recv] ?d = ?e"
    by (simp add: chan_run_Cons recv_turn_def race_defs)
  have "overlay [8, 9] (overlay [7] zero_slot) = [8, 9] @ drop 2 zero_slot"
    by (simp add: overlay_def numeral_eq_Suc drop_Suc tl_drop)
  then have f: "chan_run race_win32 race_block (send_round 1 [8, 9]) ?e = ?f"
    using race_send [of ?e 1 "[8, 9]"] by (simp add: race_free_def overlay_def)
  have g: "chan_run race_win32 race_block recv_round ?f =
      ?f\<lparr>c_buf := c_slot ?f, c_recv := R_Wait, c_got := [c_slot ?f], c_seen := [2]\<rparr>"
    using race_recv [of ?f] by (simp add: race_free_def)
  have h: "chan_run race_win32 race_block recv_round
      (?f\<lparr>c_k := race_free, c_buf := c_slot ?f, c_recv := R_Lock, c_got := [c_slot ?f], c_seen := [2]\<rparr>) =
      ?f\<lparr>c_k := race_free, c_buf := c_slot ?f, c_recv := R_Wait, c_got := [c_slot ?f, c_slot ?f], c_seen := [2, 2]\<rparr>"
    using race_recv [of "?f\<lparr>c_k := race_free, c_buf := c_slot ?f, c_recv := R_Lock, c_got := [c_slot ?f], c_seen := [2]\<rparr>"]
    by (simp add: race_free_def)
  have i: "chan_run race_win32 race_block [Recv]
      (?f\<lparr>c_buf := c_slot ?f, c_recv := R_Wait, c_got := [c_slot ?f], c_seen := [2]\<rparr>) =
      ?f\<lparr>c_k := race_free, c_buf := c_slot ?f, c_recv := R_Lock, c_got := [c_slot ?f], c_seen := [2]\<rparr>"
    by (simp add: chan_run_Cons recv_turn_def race_defs)
  show ?thesis
    unfolding overtaken_def chan_run_append c d e f g i h by simp
qed

end
