(* ===== verification/Acl_Access.thy ===== *)
theory Acl_Access
  imports Acl_Update
begin

text \<open>
  The access list under concurrency: any number of server threads run \<open>acl_filter\<close>
  (\<open>libdhcp/src/acl.cpp\<close>) while the update thread of the monitor runs \<open>acl_do_update\<close>
  (\<open>Monitor/acl_update.cpp\<close>). Both are cut into the steps another thread can come between: taking
  the lock, one read of the list, the write of the length, the copy of one entry, releasing the
  lock. A schedule is a list of events, so every interleaving is a value the model evaluates.
\<close>

section \<open>Threads and steps\<close>

text \<open>The arguments of a call of \<open>acl_filter\<close>.\<close>

record filter_args =
  fa_type :: byte
  fa_addr :: "byte list"
  fa_len :: byte

text \<open>
  Where a call of \<open>acl_filter\<close> stands: at the lock, at the debug output, before the read of the
  length, at the type of entry \<open>i\<close>, at byte \<open>j\<close> of entry \<open>i\<close>, at the access field of entry \<open>i\<close>, in
  the \<open>__finally\<close> block, returned.
\<close>

datatype filter_pc =
    F_Idle
  | F_Lock
  | F_Debug
  | F_Length
  | F_Type nat nat
  | F_Byte nat nat nat
  | F_Access nat
  | F_Unlock dword
  | F_Ret dword
  | F_Fault

text \<open>
  Where the update stands: at the parsing of the rows, at the lock, before the write of the
  length, at the copy of entry \<open>j\<close> of the sorted local array, in the \<open>__finally\<close> block.
\<close>

datatype update_pc =
    U_Idle
  | U_Load "mysql_row list"
  | U_Lock "acl_entry list" nat
  | U_Length "acl_entry list" nat
  | U_Copy "acl_entry list" nat nat
  | U_Unlock
  | U_Fault

text \<open>
  The kernel, the shared list, the filters and the update thread. The last two fields are
  histories: the lists that were installed, the first one included, and the finished calls, each
  with its arguments, the number of lists installed when it returned, and its result.
\<close>

record 'k acl_sys =
  y_k :: 'k
  y_list :: acl_list
  y_args :: "nat \<Rightarrow> filter_args"
  y_filt :: "nat \<Rightarrow> filter_pc"
  y_upd :: update_pc
  y_lists :: "acl_entry list list"
  y_done :: "(filter_args \<times> nat \<times> dword) list"

text \<open>
  Kernel thread 0 is the update thread, thread \<open>Suc i\<close> the server thread \<open>i\<close>. \<open>AcquireSRWLock\<close>
  returns only when the lock is granted: \<open>ready u x k\<close> says whether it is for thread \<open>u\<close>, exclusively
  if \<open>x\<close>; a step that is not granted changes nothing.
\<close>

definition filter_turn ::
    "(nat \<Rightarrow> 'k win32) \<Rightarrow> (nat \<Rightarrow> bool \<Rightarrow> 'k \<Rightarrow> bool) \<Rightarrow> nat \<Rightarrow> 'k acl_sys \<Rightarrow> 'k acl_sys" where
  "filter_turn W ready i s =
     (let X = W (Suc i); goto = (\<lambda>p s. s\<lparr>y_filt := (y_filt s)(i := p)\<rparr>);
          HwType' = fa_type (y_args s i); HwAddr' = fa_addr (y_args s i); HwAddrLen = fa_len (y_args s i);
          entries = acl_entry_mem (y_list s) in
      case y_filt s i of
        F_Lock \<Rightarrow>
          (if ready (Suc i) False (y_k s)
           then goto F_Debug (s\<lparr>y_k := AcquireSRWLockShared X Acl_SRW (y_k s)\<rparr>) else s)
      | F_Debug \<Rightarrow>
          (case dhcp_hw_addr_unicode acl_filter_buf HwAddr' (uint HwAddrLen) of
             Inl _ \<Rightarrow> goto F_Fault s | Inr _ \<Rightarrow> goto F_Length s)
      | F_Length \<Rightarrow> goto (F_Type (unat (acl_length (y_list s))) 0) s
      | F_Type len n \<Rightarrow>
          (if n < len then
             (case rd entries (int n) of
                Inl _ \<Rightarrow> goto F_Fault s
              | Inr e \<Rightarrow> goto (if HwType e \<noteq> HwType' then F_Type len (Suc n) else F_Byte len n 0) s)
           else goto (F_Unlock ACCESS_PERMIT) s)
      | F_Byte len n j \<Rightarrow>
          (if j < unat HwAddrLen then
             (case res_bind (rd HwAddr' (int j)) (\<lambda>a. res_bind (rd entries (int n)) (\<lambda>e.
                     res_bind (rd (HwMask e) (int j)) (\<lambda>m. res_bind (rd (HwAddr e) (int j)) (\<lambda>h. Inr (a AND m = h))))) of
                Inl _ \<Rightarrow> goto F_Fault s
              | Inr b \<Rightarrow> goto (if b then F_Byte len n (Suc j) else F_Type len (Suc n)) s)
           else goto (F_Access n) s)
      | F_Access n \<Rightarrow>
          (case rd entries (int n) of Inl _ \<Rightarrow> goto F_Fault s | Inr e \<Rightarrow> goto (F_Unlock (access e)) s)
      | F_Unlock r \<Rightarrow>
          goto (F_Ret r) (s\<lparr>y_k := ReleaseSRWLockShared X Acl_SRW (y_k s),
            y_done := y_done s @ [(y_args s i, length (y_lists s), r)]\<rparr>)
      | _ \<Rightarrow> s)"

definition update_turn ::
    "(nat \<Rightarrow> 'k win32) \<Rightarrow> (nat \<Rightarrow> bool \<Rightarrow> 'k \<Rightarrow> bool) \<Rightarrow> 'k acl_sys \<Rightarrow> 'k acl_sys" where
  "update_turn W ready s =
     (case y_upd s of
        U_Load rows \<Rightarrow>
          (case acl_load_loop (replicate 2048 zero_entry) rows 0 of
             Inl _ \<Rightarrow> s\<lparr>y_upd := U_Fault\<rparr>
           | Inr (buff, cnt) \<Rightarrow>
               (let sorted = acl_sort_entry buff cnt in
                case acl_debug_loop hwbuff_init hwbuff_init (take cnt sorted) of
                  Inl _ \<Rightarrow> s\<lparr>y_upd := U_Fault\<rparr> | Inr _ \<Rightarrow> s\<lparr>y_upd := U_Lock sorted cnt\<rparr>))
      | U_Lock buff cnt \<Rightarrow>
          (if ready 0 True (y_k s)
           then s\<lparr>y_k := acl_write_lock (W 0) (y_k s), y_upd := U_Length buff cnt\<rparr> else s)
      | U_Length buff cnt \<Rightarrow>
          s\<lparr>y_list := (y_list s)\<lparr>acl_length := of_nat cnt\<rparr>, y_upd := U_Copy buff cnt 0\<rparr>
      | U_Copy buff cnt j \<Rightarrow>
          (if j < cnt then
             (case res_bind (rd buff (int j)) (\<lambda>e. wr (acl_entry_mem (y_list s)) (int j) e) of
                Inl _ \<Rightarrow> s\<lparr>y_upd := U_Fault\<rparr>
              | Inr m \<Rightarrow> s\<lparr>y_list := (y_list s)\<lparr>acl_entry_mem := m\<rparr>, y_upd := U_Copy buff cnt (Suc j)\<rparr>)
           else s\<lparr>y_upd := U_Unlock, y_lists := y_lists s @ [take cnt buff]\<rparr>)
      | U_Unlock \<Rightarrow> s\<lparr>y_k := acl_write_unlock (W 0) (y_k s), y_upd := U_Idle\<rparr>
      | _ \<Rightarrow> s)"

text \<open>
  A hook calls the filter, and the update thread begins a reload with the rows of a result
  set, when the thread is not in a call.
\<close>

definition filter_call :: "nat \<Rightarrow> filter_args \<Rightarrow> 'k acl_sys \<Rightarrow> 'k acl_sys" where
  "filter_call i a s =
     (let called = s\<lparr>y_args := (y_args s)(i := a), y_filt := (y_filt s)(i := F_Lock)\<rparr> in
      case y_filt s i of F_Idle \<Rightarrow> called | F_Ret _ \<Rightarrow> called | _ \<Rightarrow> s)"

definition update_call :: "mysql_row list \<Rightarrow> 'k acl_sys \<Rightarrow> 'k acl_sys" where
  "update_call rows s = (if y_upd s = U_Idle then s\<lparr>y_upd := U_Load rows\<rparr> else s)"

datatype acl_event = Ask nat filter_args | Filter nat | Reload "mysql_row list" | Update

fun acl_step ::
    "(nat \<Rightarrow> 'k win32) \<Rightarrow> (nat \<Rightarrow> bool \<Rightarrow> 'k \<Rightarrow> bool) \<Rightarrow> acl_event \<Rightarrow> 'k acl_sys \<Rightarrow> 'k acl_sys" where
  "acl_step W ready (Ask i a) s = filter_call i a s"
| "acl_step W ready (Filter i) s = filter_turn W ready i s"
| "acl_step W ready (Reload rows) s = update_call rows s"
| "acl_step W ready Update s = update_turn W ready s"

definition acl_run ::
    "(nat \<Rightarrow> 'k win32) \<Rightarrow> (nat \<Rightarrow> bool \<Rightarrow> 'k \<Rightarrow> bool) \<Rightarrow> acl_event list \<Rightarrow> 'k acl_sys \<Rightarrow> 'k acl_sys" where
  "acl_run W ready es s = fold (acl_step W ready) es s"

definition acl_start :: "'k \<Rightarrow> acl_list \<Rightarrow> 'k acl_sys" where
  "acl_start k acl =
     \<lparr>y_k = k, y_list = acl, y_args = (\<lambda>_. \<lparr>fa_type = 0, fa_addr = [], fa_len = 0\<rparr>), y_filt = (\<lambda>_. F_Idle),
      y_upd = U_Idle, y_lists = [take (unat (acl_length acl)) (acl_entry_mem acl)], y_done = []\<rparr>"

section \<open>The turns by cases\<close>

lemma filter_turn_moves:
  assumes "y_filt s i \<noteq> F_Lock" "\<nexists>r. y_filt s i = F_Unlock r"
  shows "\<exists>p. filter_turn W ready i s = s\<lparr>y_filt := (y_filt s)(i := p)\<rparr> \<and> (y_filt s i \<noteq> F_Idle \<longrightarrow> p \<noteq> F_Idle)"
proof -
  have "\<exists>p. s = s\<lparr>y_filt := (y_filt s)(i := p)\<rparr> \<and> (y_filt s i \<noteq> F_Idle \<longrightarrow> p \<noteq> F_Idle)"
    by (rule exI [of _ "y_filt s i"]) simp
  then show ?thesis
    using assms by (cases "y_filt s i") (auto simp: filter_turn_def Let_def split: sum.split)
qed

lemma filter_turn_elim:
  obtains
    (stay) "filter_turn W ready i s = s"
  | (lock) "y_filt s i = F_Lock"
      "filter_turn W ready i s =
        s\<lparr>y_k := AcquireSRWLockShared (W (Suc i)) Acl_SRW (y_k s), y_filt := (y_filt s)(i := F_Debug)\<rparr>"
  | (move) p where "\<nexists>r. y_filt s i = F_Unlock r" "y_filt s i \<noteq> F_Idle \<Longrightarrow> p \<noteq> F_Idle"
      "filter_turn W ready i s = s\<lparr>y_filt := (y_filt s)(i := p)\<rparr>"
  | (unlock) r where "y_filt s i = F_Unlock r"
      "filter_turn W ready i s =
        s\<lparr>y_k := ReleaseSRWLockShared (W (Suc i)) Acl_SRW (y_k s),
          y_done := y_done s @ [(y_args s i, length (y_lists s), r)], y_filt := (y_filt s)(i := F_Ret r)\<rparr>"
proof -
  consider "y_filt s i = F_Lock" | r where "y_filt s i = F_Unlock r"
    | "y_filt s i \<noteq> F_Lock" "\<nexists>r. y_filt s i = F_Unlock r" by blast
  then show thesis
  proof cases
    case 1
    then show thesis by (cases "ready (Suc i) False (y_k s)") (auto intro: stay lock simp: filter_turn_def)
  next
    case (2 r)
    then show thesis by (intro unlock) (simp_all add: filter_turn_def Let_def)
  next
    case 3
    then show thesis using filter_turn_moves [of s i W ready] move by blast
  qed
qed

lemma update_turn_elim:
  obtains
    (stay) "update_turn W ready s = s"
  | (load) rows p where "y_upd s = U_Load rows" "update_turn W ready s = s\<lparr>y_upd := p\<rparr>"
      "p = (case acl_load_loop (replicate 2048 zero_entry) rows 0 of
              Inl _ \<Rightarrow> U_Fault
            | Inr (buff, cnt) \<Rightarrow>
                (case acl_debug_loop hwbuff_init hwbuff_init (take cnt (acl_sort_entry buff cnt)) of
                   Inl _ \<Rightarrow> U_Fault | Inr _ \<Rightarrow> U_Lock (acl_sort_entry buff cnt) cnt))"
  | (lock) buff cnt where "y_upd s = U_Lock buff cnt" "ready 0 True (y_k s)"
      "update_turn W ready s =
        s\<lparr>y_k := AcquireSRWLockExclusive (W 0) Acl_SRW (y_k s), y_upd := U_Length buff cnt\<rparr>"
  | (len) buff cnt where "y_upd s = U_Length buff cnt"
      "update_turn W ready s =
        s\<lparr>y_list := (y_list s)\<lparr>acl_length := of_nat cnt\<rparr>, y_upd := U_Copy buff cnt 0\<rparr>"
  | (copy) buff cnt j where "y_upd s = U_Copy buff cnt j" "j < cnt" "j < length buff" "j < length (acl_entry_mem (y_list s))"
      "update_turn W ready s =
        s\<lparr>y_list := (y_list s)\<lparr>acl_entry_mem := (acl_entry_mem (y_list s))[j := buff ! j]\<rparr>, y_upd := U_Copy buff cnt (Suc j)\<rparr>"
  | (overrun) buff cnt j where "y_upd s = U_Copy buff cnt j" "j < cnt"
      "length buff \<le> j \<or> length (acl_entry_mem (y_list s)) \<le> j" "update_turn W ready s = s\<lparr>y_upd := U_Fault\<rparr>"
  | (copied) buff cnt j where "y_upd s = U_Copy buff cnt j" "cnt \<le> j"
      "update_turn W ready s = s\<lparr>y_upd := U_Unlock, y_lists := y_lists s @ [take cnt buff]\<rparr>"
  | (unlock) "y_upd s = U_Unlock"
      "update_turn W ready s = s\<lparr>y_k := ReleaseSRWLockExclusive (W 0) Acl_SRW (y_k s), y_upd := U_Idle\<rparr>"
proof (cases "y_upd s")
  case (U_Load rows)
  then show thesis
    by (intro load [OF _ _ refl]) (auto simp: update_turn_def Let_def split: sum.split)
next
  case (U_Lock buff cnt)
  then show thesis
    by (cases "ready 0 True (y_k s)") (auto intro: stay lock simp: update_turn_def acl_write_lock_def)
next
  case (U_Length buff cnt)
  then show thesis by (intro len) (simp_all add: update_turn_def)
next
  case (U_Copy buff cnt j)
  consider "cnt \<le> j" | "j < cnt" "length buff \<le> j \<or> length (acl_entry_mem (y_list s)) \<le> j"
    | "j < cnt" "j < length buff" "j < length (acl_entry_mem (y_list s))" by linarith
  then show thesis
  proof cases
    case 1
    then show thesis using U_Copy by (intro copied) (simp_all add: update_turn_def)
  next
    case 2
    then show thesis using U_Copy by (intro overrun) (auto simp: update_turn_def rd_def wr_def)
  next
    case 3
    then show thesis using U_Copy by (intro copy) (simp_all add: update_turn_def)
  qed
next
  case U_Unlock
  then show thesis by (intro unlock) (simp_all add: update_turn_def acl_write_unlock_def)
qed (auto intro: stay simp: update_turn_def)

section \<open>What the threads have established\<close>

text \<open>A call the debug output survives, and the decision of a list on it.\<close>

definition args_ok :: "filter_args \<Rightarrow> bool" where
  "args_ok a \<longleftrightarrow> 0 < unat (fa_len a) \<and> unat (fa_len a) \<le> 5 \<and> unat (fa_len a) \<le> length (fa_addr a)"

definition decision :: "acl_entry list \<Rightarrow> filter_args \<Rightarrow> dword" where
  "decision L a = acl_decide L (fa_type a) (take (unat (fa_len a)) (fa_addr a))"

text \<open>The filter has seen the entries of \<open>L\<close> before \<open>n\<close>, and the bytes before \<open>j\<close> of entry \<open>n\<close>.\<close>

definition filter_ok :: "acl_entry list \<Rightarrow> filter_args \<Rightarrow> filter_pc \<Rightarrow> bool" where
  "filter_ok L a p =
     (case p of
        F_Type len n \<Rightarrow> len = length L \<and> n \<le> len \<and> decision L a = decision (drop n L) a
      | F_Byte len n j \<Rightarrow>
          len = length L \<and> n < len \<and> decision L a = decision (drop n L) a \<and> HwType (L ! n) = fa_type a \<and>
          j \<le> unat (fa_len a) \<and> (\<forall>i < j. fa_addr a ! i AND HwMask (L ! n) ! i = HwAddr (L ! n) ! i)
      | F_Access n \<Rightarrow> n < length L \<and> decision L a = access (L ! n)
      | F_Unlock r \<Rightarrow> r = decision L a
      | F_Fault \<Rightarrow> False
      | _ \<Rightarrow> True)"

lemma filter_ok_simps [simp]:
  "filter_ok L a F_Idle" "filter_ok L a F_Lock" "filter_ok L a F_Debug" "filter_ok L a F_Length" "filter_ok L a (F_Ret r)"
  "\<not> filter_ok L a F_Fault" "filter_ok L a (F_Unlock r) \<longleftrightarrow> r = decision L a"
  "filter_ok L a (F_Access n) \<longleftrightarrow> n < length L \<and> decision L a = access (L ! n)"
  "filter_ok L a (F_Type len n) \<longleftrightarrow> len = length L \<and> n \<le> len \<and> decision L a = decision (drop n L) a"
  "filter_ok L a (F_Byte len n j) \<longleftrightarrow>
     len = length L \<and> n < len \<and> decision L a = decision (drop n L) a \<and> HwType (L ! n) = fa_type a \<and>
     j \<le> unat (fa_len a) \<and> (\<forall>i < j. fa_addr a ! i AND HwMask (L ! n) ! i = HwAddr (L ! n) ! i)"
  by (simp_all add: filter_ok_def)

lemma decision_drop:
  assumes "n < length L"
  shows "decision (drop n L) a =
    (if acl_matches (fa_type a) (take (unat (fa_len a)) (fa_addr a)) (L ! n) then access (L ! n) else decision (drop (Suc n) L) a)"
proof -
  have "drop n L = L ! n # drop (Suc n) L" using assms by (simp add: Cons_nth_drop_Suc)
  then show ?thesis by (simp add: decision_def acl_decide_def)
qed

lemma decision_Nil [simp]: "decision [] a = ACCESS_PERMIT"
  by (simp add: decision_def acl_decide_def)

text \<open>One turn of a filter over an unchanging list.\<close>

lemma filter_ok_turn:
  assumes "list_all wf_entry L" "take (unat (acl_length (y_list s))) (acl_entry_mem (y_list s)) = L"
    and "length L = unat (acl_length (y_list s))" "args_ok (y_args s i)" "filter_ok L (y_args s i) (y_filt s i)"
  shows "filter_ok L (y_args s i) (y_filt (filter_turn W ready i s) i)"
proof -
  let ?a = "y_args s i" and ?mem = "acl_entry_mem (y_list s)"
  have mem: "rd ?mem (int n) = Inr (L ! n) \<and> wf_entry (L ! n)" if "n < length L" for n
  proof -
    have "n < length ?mem" "?mem ! n = L ! n" using assms(2) that by auto
    then show ?thesis using assms(1) that by (simp add: list_all_length)
  qed
  have len: "unat (fa_len ?a) \<le> 16" "unat (fa_len ?a) \<le> length (fa_addr ?a)" using assms(4) by (simp_all add: args_ok_def)
  show ?thesis
  proof (cases "y_filt s i")
    case F_Debug
    obtain b where "dhcp_hw_addr_unicode acl_filter_buf (fa_addr ?a) (uint (fa_len ?a)) = Inr b"
      using acl_filter_debug_ok [of "fa_addr ?a" "fa_len ?a"] assms(4) by (auto simp: args_ok_def)
    then show ?thesis using F_Debug by (simp add: filter_turn_def)
  next
    case F_Length
    then show ?thesis using assms(3) by (simp add: filter_turn_def)
  next
    case (F_Type l n)
    then show ?thesis
      using assms(5) mem [of n]
      by (auto simp: filter_turn_def decision_drop acl_matches_def)
  next
    case (F_Byte l n j)
    then have n: "n < length L" "l = length L" "HwType (L ! n) = fa_type ?a" "decision L ?a = decision (drop n L) ?a"
      and j: "j \<le> unat (fa_len ?a)" "\<forall>i < j. fa_addr ?a ! i AND HwMask (L ! n) ! i = HwAddr (L ! n) ! i"
      using assms(5) by simp_all
    note iff = acl_matches_iff [OF conjunct2 [OF mem [OF n(1)]] len, of "fa_type ?a"]
    show ?thesis
    proof (cases "j < unat (fa_len ?a)")
      case True
      then have "j < length (HwMask (L ! n))" "j < length (HwAddr (L ! n))" "j < length (fa_addr ?a)"
        using len mem [OF n(1)] by (simp_all add: wf_entry_def)
      then show ?thesis
        using F_Byte True n j mem [OF n(1)] iff
        by (auto simp: filter_turn_def decision_drop less_Suc_eq)
    next
      case False
      then show ?thesis
        using F_Byte n j iff by (auto simp: filter_turn_def decision_drop)
    qed
  next
    case (F_Access n)
    then show ?thesis using assms(5) mem [of n] by (simp add: filter_turn_def)
  qed (use assms(5) in \<open>simp_all add: filter_turn_def Let_def\<close>)
qed

text \<open>Rows that parse and fit into the block, and the sorted local array made of them.\<close>

definition rows_ok :: "nat \<Rightarrow> mysql_row list \<Rightarrow> bool" where
  "rows_ok N rows = (case acl_rows (take 2048 rows) of Inl _ \<Rightarrow> False | Inr es \<Rightarrow> length es \<le> N)"

definition buff_ok :: "nat \<Rightarrow> acl_entry list \<Rightarrow> nat \<Rightarrow> bool" where
  "buff_ok N buff cnt \<longleftrightarrow> list_all wf_entry buff \<and> cnt \<le> length buff \<and> cnt \<le> N \<and> cnt \<le> 2048"

definition update_ok :: "nat \<Rightarrow> acl_list \<Rightarrow> update_pc \<Rightarrow> bool" where
  "update_ok N acl p =
     (case p of
        U_Load rows \<Rightarrow> rows_ok N rows
      | U_Lock buff cnt \<Rightarrow> buff_ok N buff cnt
      | U_Length buff cnt \<Rightarrow> buff_ok N buff cnt
      | U_Copy buff cnt j \<Rightarrow>
          buff_ok N buff cnt \<and> j \<le> cnt \<and> acl_length acl = of_nat cnt \<and> take j (acl_entry_mem acl) = take j buff
      | U_Fault \<Rightarrow> False
      | _ \<Rightarrow> True)"

definition writing :: "update_pc \<Rightarrow> bool" where
  "writing p = (case p of U_Copy _ _ _ \<Rightarrow> True | _ \<Rightarrow> False)"

lemma update_ok_simps [simp]:
  "update_ok N acl U_Idle" "update_ok N acl U_Unlock" "\<not> update_ok N acl U_Fault"
  "update_ok N acl (U_Load rows) \<longleftrightarrow> rows_ok N rows" "update_ok N acl (U_Lock buff cnt) \<longleftrightarrow> buff_ok N buff cnt"
  "update_ok N acl (U_Length buff cnt) \<longleftrightarrow> buff_ok N buff cnt"
  "update_ok N acl (U_Copy buff cnt j) \<longleftrightarrow>
     buff_ok N buff cnt \<and> j \<le> cnt \<and> acl_length acl = of_nat cnt \<and> take j (acl_entry_mem acl) = take j buff"
  "\<not> writing U_Idle" "\<not> writing (U_Load rows)" "\<not> writing (U_Lock buff cnt)" "\<not> writing (U_Length buff cnt)"
  "writing (U_Copy buff cnt j)" "\<not> writing U_Unlock" "\<not> writing U_Fault"
  by (simp_all add: update_ok_def writing_def)

lemma load_ok:
  assumes "rows_ok N rows"
  shows "\<exists>buff cnt. acl_load_loop (replicate 2048 zero_entry) rows 0 = Inr (buff, cnt) \<and>
    acl_debug_loop hwbuff_init hwbuff_init (take cnt (acl_sort_entry buff cnt)) = Inr () \<and>
    buff_ok N (acl_sort_entry buff cnt) cnt"
proof -
  obtain es where es: "acl_rows (take 2048 rows) = Inr es" "length es \<le> N"
    using assms by (auto simp: rows_ok_def split: sum.splits)
  let ?buff = "es @ replicate (2048 - length es) zero_entry"
  have wf: "list_all wf_entry es" "length es \<le> 2048" using acl_rows_wf [OF es(1)] by auto
  have s: "acl_sort_entry ?buff (length es) = c_qsort acl_compartor es @ replicate (2048 - length es) zero_entry"
    by (simp add: acl_sort_entry_def)
  have "list_all wf_entry (c_qsort acl_compartor es)" using wf(1) by (simp add: list_all_iff)
  then have "acl_debug_loop hwbuff_init hwbuff_init (take (length es) (acl_sort_entry ?buff (length es))) = Inr ()"
    unfolding s by (simp add: acl_debug_loop_ok hwbuff_init_def)
  moreover have "buff_ok N (acl_sort_entry ?buff (length es)) (length es)"
    unfolding s buff_ok_def using wf es(2) by (auto simp: list_all_iff wf_zero_entry)
  ultimately show ?thesis using acl_load_table [OF es(1)] by blast
qed

section \<open>The invariant of the system\<close>

text \<open>
  What a filter relies on whatever is written meanwhile: the length it has read is at most the
  number \<open>N\<close> of entries in the block, and it stays below it.
\<close>

definition filter_safe :: "nat \<Rightarrow> filter_pc \<Rightarrow> bool" where
  "filter_safe N p =
     (case p of
        F_Type len n \<Rightarrow> len \<le> N
      | F_Byte len n j \<Rightarrow> len \<le> N \<and> n < len
      | F_Access n \<Rightarrow> n < N
      | F_Fault \<Rightarrow> False
      | _ \<Rightarrow> True)"

lemma filter_safe_simps [simp]:
  "filter_safe N F_Idle" "filter_safe N F_Lock" "filter_safe N F_Debug" "filter_safe N F_Length"
  "filter_safe N (F_Unlock r)" "filter_safe N (F_Ret r)" "\<not> filter_safe N F_Fault"
  "filter_safe N (F_Type len n) \<longleftrightarrow> len \<le> N" "filter_safe N (F_Byte len n j) \<longleftrightarrow> len \<le> N \<and> n < len"
  "filter_safe N (F_Access n) \<longleftrightarrow> n < N"
  by (simp_all add: filter_safe_def)

lemma filter_safe_turn:
  assumes "list_all wf_entry (acl_entry_mem (y_list s))" "length (acl_entry_mem (y_list s)) = N"
    and "unat (acl_length (y_list s)) \<le> N" "y_filt s i \<noteq> F_Idle \<Longrightarrow> args_ok (y_args s i)" "filter_safe N (y_filt s i)"
  shows "filter_safe N (y_filt (filter_turn W ready i s) i)"
proof -
  let ?a = "y_args s i" and ?mem = "acl_entry_mem (y_list s)"
  have mem: "rd ?mem (int n) = Inr (?mem ! n) \<and> wf_entry (?mem ! n)" if "n < N" for n
    using that assms(1,2) by (simp add: list_all_length)
  show ?thesis
  proof (cases "y_filt s i")
    case F_Debug
    then obtain b where "dhcp_hw_addr_unicode acl_filter_buf (fa_addr ?a) (uint (fa_len ?a)) = Inr b"
      using acl_filter_debug_ok [of "fa_addr ?a" "fa_len ?a"] assms(4) by (auto simp: args_ok_def)
    then show ?thesis using F_Debug by (simp add: filter_turn_def)
  next
    case (F_Type l n)
    then show ?thesis using assms(5) mem [of n] by (auto simp: filter_turn_def)
  next
    case (F_Byte l n j)
    then have a: "args_ok ?a" and n: "n < N" "l \<le> N" "n < l" using assms(4,5) by simp_all
    then show ?thesis
      using F_Byte mem [OF n(1)] by (auto simp: filter_turn_def args_ok_def wf_entry_def)
  next
    case (F_Access n)
    then show ?thesis using assms(5) mem [of n] by (simp add: filter_turn_def)
  qed (use assms(3,5) in \<open>simp_all add: filter_turn_def Let_def\<close>)
qed

definition acl_inv :: "nat \<Rightarrow> 'k acl_sys \<Rightarrow> bool" where
  "acl_inv N s \<longleftrightarrow>
     (length (acl_entry_mem (y_list s)) = N \<and> list_all wf_entry (acl_entry_mem (y_list s)) \<and> unat (acl_length (y_list s)) \<le> N) \<and>
     (y_lists s \<noteq> [] \<and> list_all (list_all wf_entry) (y_lists s)) \<and>
     update_ok N (y_list s) (y_upd s) \<and>
     (\<not> writing (y_upd s) \<longrightarrow> length (last (y_lists s)) = unat (acl_length (y_list s)) \<and>
        take (unat (acl_length (y_list s))) (acl_entry_mem (y_list s)) = last (y_lists s)) \<and>
     (\<forall>i. filter_safe N (y_filt s i)) \<and>
     (\<forall>i. y_filt s i \<noteq> F_Idle \<longrightarrow> args_ok (y_args s i))"

lemma acl_inv_start:
  assumes "list_all wf_entry (acl_entry_mem acl)" "unat (acl_length acl) \<le> length (acl_entry_mem acl)"
  shows "acl_inv (length (acl_entry_mem acl)) (acl_start k acl)"
  using assms by (auto simp: acl_inv_def acl_start_def list_all_iff dest: in_set_takeD)

lemma acl_inv_filter:
  assumes "acl_inv N s"
  shows "acl_inv N (filter_turn W ready i s)"
proof -
  let ?s = "filter_turn W ready i s"
  have safe: "filter_safe N (y_filt ?s i)"
    using assms by (intro filter_safe_turn) (simp_all add: acl_inv_def)
  have idle: "y_filt s i \<noteq> F_Idle" if "y_filt ?s i \<noteq> F_Idle" using that by (auto simp: filter_turn_def)
  show ?thesis
    by (cases rule: filter_turn_elim [of W ready i s])
       (use assms safe idle in \<open>auto simp: acl_inv_def split: if_splits\<close>)
qed

lemma acl_inv_update:
  assumes "acl_inv N s"
  shows "acl_inv N (update_turn W ready s)"
proof (cases rule: update_turn_elim [of W ready s])
  case (load rows p)
  have "rows_ok N rows" using assms load(1) by (simp add: acl_inv_def)
  then obtain buff cnt where "p = U_Lock (acl_sort_entry buff cnt) cnt" "buff_ok N (acl_sort_entry buff cnt) cnt"
    using load_ok [of N rows] load(3) by auto
  then show ?thesis using assms load(1) by (simp add: load(2) acl_inv_def)
next
  case (len buff cnt)
  have b: "buff_ok N buff cnt" using assms len(1) by (simp add: acl_inv_def)
  then have "unat (of_nat cnt :: dword) = cnt" by (simp add: buff_ok_def unat_of_nat)
  then show ?thesis using assms len b by (simp add: acl_inv_def) (simp add: buff_ok_def)
next
  case (copy buff cnt j)
  have b: "buff_ok N buff cnt" "take j (acl_entry_mem (y_list s)) = take j buff"
    using assms copy(1) by (simp_all add: acl_inv_def)
  have "take (Suc j) ((acl_entry_mem (y_list s))[j := buff ! j]) = take (Suc j) buff"
    using b(2) copy(3,4) by (simp add: take_Suc_conv_app_nth)
  moreover have "list_all wf_entry ((acl_entry_mem (y_list s))[j := buff ! j])"
    using assms b(1) copy(3) set_update_subset_insert [of "acl_entry_mem (y_list s)" j "buff ! j"]
    by (fastforce simp: acl_inv_def buff_ok_def list_all_iff)
  moreover have "unat (acl_length (y_list s)) \<le> N" using assms by (simp add: acl_inv_def)
  ultimately show ?thesis using assms copy(1,2) by (simp add: copy(5) acl_inv_def)
next
  case (overrun buff cnt j)
  then show ?thesis using assms by (auto simp: acl_inv_def buff_ok_def)
next
  case (copied buff cnt j)
  have b: "buff_ok N buff cnt" "take cnt (acl_entry_mem (y_list s)) = take cnt buff" "acl_length (y_list s) = of_nat cnt"
    using assms copied(1,2) by (auto simp: acl_inv_def)
  have "unat (of_nat cnt :: dword) = cnt" using b(1) by (simp add: buff_ok_def unat_of_nat)
  moreover have "list_all wf_entry (take cnt buff)" "length (take cnt buff) = cnt"
    using b(1) by (auto simp: buff_ok_def list_all_iff dest: in_set_takeD)
  ultimately show ?thesis using assms b by (simp add: copied(3) acl_inv_def)
qed (use assms in \<open>simp_all add: acl_inv_def\<close>)

text \<open>The calls of a schedule: addresses the debug output survives, tables that parse and fit.\<close>

definition event_ok :: "nat \<Rightarrow> acl_event \<Rightarrow> bool" where
  "event_ok N e = (case e of Ask i a \<Rightarrow> args_ok a | Reload rows \<Rightarrow> rows_ok N rows | _ \<Rightarrow> True)"

lemma acl_inv_step:
  assumes "acl_inv N s" "event_ok N e"
  shows "acl_inv N (acl_step W ready e s)"
proof (cases e)
  case (Ask i a)
  have "filter_call i a s = s \<or>
      filter_call i a s = s\<lparr>y_args := (y_args s)(i := a), y_filt := (y_filt s)(i := F_Lock)\<rparr>"
    by (auto simp: filter_call_def Let_def split: filter_pc.split)
  then show ?thesis
    using assms unfolding Ask by (auto simp: acl_inv_def event_ok_def)
next
  case (Reload rows)
  then show ?thesis
    using assms by (auto simp: update_call_def acl_inv_def event_ok_def)
qed (simp_all add: acl_inv_filter [OF assms(1)] acl_inv_update [OF assms(1)])

lemma acl_run_Nil [simp]: "acl_run W ready [] s = s"
  by (simp add: acl_run_def)

lemma acl_run_Cons: "acl_run W ready (e # es) s = acl_run W ready es (acl_step W ready e s)"
  by (simp add: acl_run_def)

lemma acl_run_append: "acl_run W ready (es @ es') s = acl_run W ready es' (acl_run W ready es s)"
  by (simp add: acl_run_def)

lemma acl_inv_run: "acl_inv N s \<Longrightarrow> list_all (event_ok N) es \<Longrightarrow> acl_inv N (acl_run W ready es s)"
  by (induction es arbitrary: s) (simp_all add: acl_run_Cons acl_inv_step)

section \<open>A call while the list is not written\<close>

text \<open>
  Events that leave the list and the call of thread \<open>i\<close> alone: turns of any filter, calls of other
  threads, the beginning of a reload.
\<close>

definition undisturbed :: "nat \<Rightarrow> acl_event \<Rightarrow> bool" where
  "undisturbed i e = (case e of Update \<Rightarrow> False | Ask j _ \<Rightarrow> j \<noteq> i | _ \<Rightarrow> True)"

text \<open>What the call has established, its result included.\<close>

definition deciding :: "acl_entry list \<Rightarrow> 'k acl_sys \<Rightarrow> nat \<Rightarrow> bool" where
  "deciding L s i \<longleftrightarrow> filter_ok L (y_args s i) (y_filt s i) \<and> (\<forall>r. y_filt s i = F_Ret r \<longrightarrow> r = decision L (y_args s i))"

lemma filter_turn_other: "j \<noteq> i \<Longrightarrow> y_filt (filter_turn W ready j s) i = y_filt s i"
  by (cases rule: filter_turn_elim [of W ready j s]) simp_all

lemma filter_turn_keeps:
  "y_args (filter_turn W ready j s) = y_args s \<and> y_list (filter_turn W ready j s) = y_list s \<and>
   y_lists (filter_turn W ready j s) = y_lists s \<and> y_upd (filter_turn W ready j s) = y_upd s"
  by (cases rule: filter_turn_elim [of W ready j s]) simp_all

lemma deciding_turn:
  assumes "acl_inv N s" "\<not> writing (y_upd s)" "y_filt s i \<noteq> F_Idle" "deciding (last (y_lists s)) s i"
  shows "deciding (last (y_lists s)) (filter_turn W ready i s) i"
proof -
  let ?L = "last (y_lists s)" and ?s = "filter_turn W ready i s"
  have "filter_ok ?L (y_args s i) (y_filt ?s i)"
    using assms by (intro filter_ok_turn) (auto simp: acl_inv_def deciding_def list_all_iff)
  moreover have "r = decision ?L (y_args s i)" if "y_filt ?s i = F_Ret r" for r
    using assms(3,4) that unfolding deciding_def
    by (cases "y_filt s i") (auto simp: filter_turn_def Let_def split: sum.splits if_splits)
  ultimately show ?thesis using filter_turn_keeps [of W ready i s] by (simp add: deciding_def)
qed

lemma deciding_step:
  assumes "acl_inv N s" "\<not> writing (y_upd s)" "y_filt s i \<noteq> F_Idle" "deciding (last (y_lists s)) s i" "undisturbed i e"
    and s': "s' = acl_step W ready e s"
  shows "deciding (last (y_lists s)) s' i \<and> y_args s' i = y_args s i \<and> y_lists s' = y_lists s \<and>
    \<not> writing (y_upd s') \<and> y_filt s' i \<noteq> F_Idle"
proof (cases e)
  case (Filter j)
  have "y_filt (filter_turn W ready i s) i \<noteq> F_Idle"
    by (cases rule: filter_turn_elim [of W ready i s]) (use assms(3) in simp_all)
  then show ?thesis
    using assms(2-4) deciding_turn [OF assms(1-4), of W ready] filter_turn_keeps [of W ready j s] filter_turn_other [of j i W ready s]
    unfolding s' Filter acl_step.simps by (cases "j = i") (simp_all add: deciding_def)
next
  case (Ask j a)
  then show ?thesis
    using assms by (auto simp: undisturbed_def filter_call_def Let_def deciding_def split: filter_pc.split)
next
  case (Reload rows)
  then show ?thesis using assms by (auto simp: update_call_def deciding_def)
next
  case Update
  then show ?thesis using assms(5) by (simp add: undisturbed_def)
qed

lemma undisturbed_call:
  assumes "acl_inv N s" "\<not> writing (y_upd s)" "y_filt s i \<noteq> F_Idle" "deciding (last (y_lists s)) s i"
    and "list_all (event_ok N) es" "list_all (undisturbed i) es"
  shows "deciding (last (y_lists s)) (acl_run W ready es s) i \<and> y_args (acl_run W ready es s) i = y_args s i"
  using assms
proof (induction es arbitrary: s)
  case (Cons e es)
  then show ?case
    using deciding_step [OF Cons.prems(1-4) _ refl, of e W ready] acl_inv_step [OF Cons.prems(1), of e W ready]
      Cons.IH [of "acl_step W ready e s"] by (simp add: acl_run_Cons)
qed simp

section \<open>A call with nobody in between\<close>

lemma filter_byte_run:
  assumes "y_filt s i = F_Byte len n j" "n < length (acl_entry_mem (y_list s))"
    and "acl_match_loop (acl_entry_mem (y_list s) ! n) (fa_addr (y_args s i)) (unat (fa_len (y_args s i))) j = Inr b"
  shows "\<exists>m. acl_run W ready (replicate m (Filter i)) s =
    s\<lparr>y_filt := (y_filt s)(i := if b then F_Access n else F_Type len (Suc n))\<rparr>"
  using assms
proof (induction "unat (fa_len (y_args s i)) - j" arbitrary: j s)
  case 0
  then have "b" by (subst (asm) acl_match_loop.simps) simp
  moreover have "filter_turn W ready i s = s\<lparr>y_filt := (y_filt s)(i := F_Access n)\<rparr>"
    using 0 by (simp add: filter_turn_def)
  ultimately show ?case by (intro exI [of _ 1]) (simp add: acl_run_Cons fun_upd_def)
next
  case (Suc m)
  let ?e = "acl_entry_mem (y_list s) ! n" and ?a = "y_args s i"
  have j: "j < unat (fa_len ?a)" using Suc.hyps(2) by simp
  then obtain x mk h where r: "rd (fa_addr ?a) (int j) = Inr x" "rd (HwMask ?e) (int j) = Inr mk" "rd (HwAddr ?e) (int j) = Inr h"
    and l: "(if x AND mk \<noteq> h then Inr False else acl_match_loop ?e (fa_addr ?a) (unat (fa_len ?a)) (Suc j)) = Inr b"
    using Suc.prems(3) by (subst (asm) acl_match_loop.simps) (auto simp only: res_bind_eq_Inr if_True)
  show ?case
  proof (cases "x AND mk = h")
    case True
    let ?t = "s\<lparr>y_filt := (y_filt s)(i := F_Byte len n (Suc j))\<rparr>"
    have step: "filter_turn W ready i s = ?t" using Suc.prems(1,2) j r True by (simp add: filter_turn_def)
    have "m = unat (fa_len (y_args ?t i)) - Suc j" using Suc.hyps(2) by simp
    from Suc.hyps(1) [OF this] Suc.prems(2) l True obtain m where "acl_run W ready (replicate m (Filter i)) ?t =
        ?t\<lparr>y_filt := (y_filt ?t)(i := if b then F_Access n else F_Type len (Suc n))\<rparr>"
      by auto
    then show ?thesis by (intro exI [of _ "Suc m"]) (simp add: acl_run_Cons step)
  next
    case False
    then have "\<not> b" "filter_turn W ready i s = s\<lparr>y_filt := (y_filt s)(i := F_Type len (Suc n))\<rparr>"
      using Suc.prems(1,2) j r l by (simp_all add: filter_turn_def)
    then show ?thesis by (intro exI [of _ 1]) (simp add: acl_run_Cons)
  qed
qed

lemma run_more:
  assumes "acl_run W ready (replicate m e) s = t" "\<exists>m. acl_run W ready (replicate m e) t = u"
  shows "\<exists>m. acl_run W ready (replicate m e) s = u"
proof -
  obtain m' where "acl_run W ready (replicate m' e) t = u" using assms(2) by blast
  then have "acl_run W ready (replicate (m + m') e) s = u" using assms(1) by (simp add: replicate_add acl_run_append)
  then show ?thesis by blast
qed

lemma run_stepI: "acl_step W ready e s = t \<Longrightarrow> \<exists>m. acl_run W ready (replicate m e) s = t"
  by (rule exI [of _ 1]) (simp add: acl_run_Cons)

lemma run_step_more:
  assumes "acl_step W ready e s = t" "\<exists>m. acl_run W ready (replicate m e) t = u"
  shows "\<exists>m. acl_run W ready (replicate m e) s = u"
proof -
  have "acl_run W ready (replicate 1 e) s = t" using assms(1) by (simp add: acl_run_Cons)
  from run_more [OF this assms(2)] show ?thesis .
qed

text \<open>What the steps do with one entry: return its access field, or go on to the next one.\<close>

lemma filter_entry_run:
  assumes "y_filt s i = F_Type len n" "n < len" "n < length (acl_entry_mem (y_list s))" "e = acl_entry_mem (y_list s) ! n"
    and "HwType e = fa_type (y_args s i) \<Longrightarrow> acl_match_loop e (fa_addr (y_args s i)) (unat (fa_len (y_args s i))) 0 = Inr b"
  shows "\<exists>m. acl_run W ready (replicate m (Filter i)) s =
    s\<lparr>y_filt := (y_filt s)(i := if HwType e = fa_type (y_args s i) \<and> b then F_Unlock (access e) else F_Type len (Suc n))\<rparr>"
proof (cases "HwType e = fa_type (y_args s i)")
  case False
  then show ?thesis using assms(1-4) by (intro run_stepI) (simp add: filter_turn_def)
next
  case True
  let ?t = "s\<lparr>y_filt := (y_filt s)(i := F_Byte len n 0)\<rparr>" and ?u = "s\<lparr>y_filt := (y_filt s)(i := F_Access n)\<rparr>"
  have step: "acl_step W ready (Filter i) s = ?t" using assms(1-4) True by (simp add: filter_turn_def)
  obtain m where bytes: "acl_run W ready (replicate m (Filter i)) ?t =
      s\<lparr>y_filt := (y_filt s)(i := if b then F_Access n else F_Type len (Suc n))\<rparr>"
    using filter_byte_run [of ?t i len n 0 b W ready] assms(3,4) assms(5) [OF True] by auto
  have "\<exists>m. acl_run W ready (replicate m (Filter i)) ?u = s\<lparr>y_filt := (y_filt s)(i := F_Unlock (access e))\<rparr>"
    using assms(3,4) by (intro run_stepI) (simp add: filter_turn_def)
  then have "\<exists>m. acl_run W ready (replicate m (Filter i)) ?t =
      s\<lparr>y_filt := (y_filt s)(i := if b then F_Unlock (access e) else F_Type len (Suc n))\<rparr>"
    using bytes by (cases b) (auto intro: run_more)
  then show ?thesis using run_step_more [OF step] True by simp
qed

lemma filter_type_run:
  assumes "y_filt s i = F_Type len n"
    and "acl_filter_loop (acl_entry_mem (y_list s)) len (fa_type (y_args s i)) (fa_addr (y_args s i))
           (unat (fa_len (y_args s i))) n = Inr r"
  shows "\<exists>m. acl_run W ready (replicate m (Filter i)) s = s\<lparr>y_filt := (y_filt s)(i := F_Unlock r)\<rparr>"
  using assms
proof (induction "len - n" arbitrary: n s)
  case 0
  then have "r = ACCESS_PERMIT" by (subst (asm) acl_filter_loop.simps) simp
  then have "acl_step W ready (Filter i) s = s\<lparr>y_filt := (y_filt s)(i := F_Unlock r)\<rparr>"
    using 0 by (simp add: filter_turn_def)
  then show ?case by (rule run_stepI)
next
  case (Suc m)
  let ?a = "y_args s i" and ?next = "s\<lparr>y_filt := (y_filt s)(i := F_Type len (Suc n))\<rparr>"
  let ?e = "acl_entry_mem (y_list s) ! n"
  let ?rest = "acl_filter_loop (acl_entry_mem (y_list s)) len (fa_type ?a) (fa_addr ?a) (unat (fa_len ?a)) (Suc n)"
  have n: "n < len" and m: "m = len - Suc n" using Suc.hyps(2) by simp_all
  have e: "n < length (acl_entry_mem (y_list s))"
    using Suc.prems(2) n by (subst (asm) acl_filter_loop.simps) (simp add: rd_def split: if_splits)
  have l: "(if HwType ?e \<noteq> fa_type ?a then ?rest
      else res_bind (acl_match_loop ?e (fa_addr ?a) (unat (fa_len ?a)) 0) (\<lambda>b. if b then Inr (access ?e) else ?rest)) = Inr r"
    using Suc.prems(2) n e by (subst (asm) acl_filter_loop.simps) simp
  then obtain b where b: "HwType ?e = fa_type ?a \<Longrightarrow> acl_match_loop ?e (fa_addr ?a) (unat (fa_len ?a)) 0 = Inr b"
    and r: "(if HwType ?e = fa_type ?a \<and> b then Inr (access ?e) else ?rest) = Inr r"
    by (auto simp: res_bind_eq_Inr split: if_splits)
  obtain q where q: "acl_run W ready (replicate q (Filter i)) s =
      s\<lparr>y_filt := (y_filt s)(i := if HwType ?e = fa_type ?a \<and> b then F_Unlock (access ?e) else F_Type len (Suc n))\<rparr>"
    using filter_entry_run [OF Suc.prems(1) n e refl b] by blast
  show ?case
  proof (cases "HwType ?e = fa_type ?a \<and> b")
    case True
    then show ?thesis using q r by auto
  next
    case False
    then have "\<exists>m. acl_run W ready (replicate m (Filter i)) ?next = s\<lparr>y_filt := (y_filt s)(i := F_Unlock r)\<rparr>"
      using Suc.hyps(1) [OF m, of ?next] r by auto
    then show ?thesis using run_more [OF q] False by simp
  qed
qed

lemma filter_alone:
  assumes "y_filt s i = F_Lock" "ready (Suc i) False (y_k s)"
    and "acl_filter (W (Suc i)) (Some (y_list s)) (fa_type (y_args s i)) (fa_addr (y_args s i)) (fa_len (y_args s i)) (y_k s) = Inr (r, k')"
  shows "\<exists>m. acl_run W ready (replicate m (Filter i)) s =
    s\<lparr>y_k := k', y_done := y_done s @ [(y_args s i, length (y_lists s), r)], y_filt := (y_filt s)(i := F_Ret r)\<rparr>"
proof -
  let ?k = "AcquireSRWLockShared (W (Suc i)) Acl_SRW (y_k s)" and ?a = "y_args s i"
  obtain b where b: "dhcp_hw_addr_unicode acl_filter_buf (fa_addr ?a) (uint (fa_len ?a)) = Inr b"
    and l: "acl_filter_loop (acl_entry_mem (y_list s)) (unat (acl_length (y_list s))) (fa_type ?a) (fa_addr ?a) (unat (fa_len ?a)) 0 = Inr r"
    and k': "k' = ReleaseSRWLockShared (W (Suc i)) Acl_SRW ?k"
    using assms(3) by (auto simp: acl_filter_def Let_def res_bind_eq_Inr)
  let ?at = "\<lambda>p. s\<lparr>y_k := ?k, y_filt := (y_filt s)(i := p)\<rparr>"
  have s1: "acl_step W ready (Filter i) s = ?at F_Debug" using assms(1,2) by (simp add: filter_turn_def)
  have s2: "acl_step W ready (Filter i) (?at F_Debug) = ?at F_Length" using b by (simp add: filter_turn_def)
  have s3: "acl_step W ready (Filter i) (?at F_Length) = ?at (F_Type (unat (acl_length (y_list s))) 0)"
    by (simp add: filter_turn_def)
  have s4: "\<exists>m. acl_run W ready (replicate m (Filter i)) (?at (F_Type (unat (acl_length (y_list s))) 0)) = ?at (F_Unlock r)"
    using filter_type_run [of "?at (F_Type (unat (acl_length (y_list s))) 0)" i _ 0 r W ready] l by simp
  have s5: "acl_step W ready (Filter i) (?at (F_Unlock r)) =
      s\<lparr>y_k := k', y_done := y_done s @ [(?a, length (y_lists s), r)], y_filt := (y_filt s)(i := F_Ret r)\<rparr>"
    by (simp add: filter_turn_def k')
  obtain m where "acl_run W ready (replicate m (Filter i)) (?at (F_Type (unat (acl_length (y_list s))) 0)) = ?at (F_Unlock r)"
    using s4 by blast
  from run_step_more [OF s1 run_step_more [OF s2 run_step_more [OF s3 run_more [OF this run_stepI [OF s5]]]]]
  show ?thesis .
qed

lemma load_count: "acl_load_loop buff rows c = Inr (b, n) \<Longrightarrow> c \<le> 2048 \<Longrightarrow> n \<le> 2048"
  by (induction buff rows c rule: acl_load_loop.induct) (auto simp: res_bind_eq_Inr split: if_splits)

lemma update_copy_run:
  assumes "y_upd s = U_Copy buff cnt j" "j \<le> cnt" "cnt \<le> length buff" "cnt \<le> length (acl_entry_mem (y_list s))"
  shows "\<exists>m. acl_run W ready (replicate m Update) s =
    s\<lparr>y_list := (y_list s)\<lparr>acl_entry_mem := take j (acl_entry_mem (y_list s)) @ drop j (take cnt buff) @ drop cnt (acl_entry_mem (y_list s))\<rparr>,
      y_upd := U_Copy buff cnt cnt\<rparr>"
  using assms
proof (induction "cnt - j" arbitrary: j s)
  case 0
  then have "j = cnt" by simp
  then show ?case using "0.prems" by (intro exI [of _ 0]) simp
next
  case (Suc m)
  let ?mem = "acl_entry_mem (y_list s)"
  let ?t = "s\<lparr>y_list := (y_list s)\<lparr>acl_entry_mem := ?mem[j := buff ! j]\<rparr>, y_upd := U_Copy buff cnt (Suc j)\<rparr>"
  have j: "j < cnt" "m = cnt - Suc j" using Suc.hyps(2) by simp_all
  have step: "acl_step W ready Update s = ?t" using Suc.prems j by (simp add: update_turn_def)
  have "drop j (take cnt buff) = buff ! j # drop (Suc j) (take cnt buff)"
    using j Suc.prems(3) by (simp add: Cons_nth_drop_Suc [symmetric])
  moreover have "take (Suc j) (?mem[j := buff ! j]) = take j ?mem @ [buff ! j]"
    using j Suc.prems(4) by (simp add: take_Suc_conv_app_nth)
  ultimately have "\<exists>m. acl_run W ready (replicate m Update) ?t =
      s\<lparr>y_list := (y_list s)\<lparr>acl_entry_mem := take j ?mem @ drop j (take cnt buff) @ drop cnt ?mem\<rparr>, y_upd := U_Copy buff cnt cnt\<rparr>"
    using Suc.hyps(1) [OF j(2), of ?t] Suc.prems(3,4) j(1) by simp
  then show ?case by (rule run_step_more [OF step])
qed

lemma update_alone:
  assumes "y_upd s = U_Load rows" "ready 0 True (y_k s)"
    and "mysql_store_result Q conn (snd (mysql_query Q conn acl_select_query d)) = (Some rows, d2)"
    and "acl_do_update (W 0) Q conn (y_list s) d (y_k s) = Inr (acl', d', k')"
  shows "\<exists>m. acl_run W ready (replicate m Update) s =
    s\<lparr>y_k := k', y_list := acl', y_upd := U_Idle,
      y_lists := y_lists s @ [take (unat (acl_length acl')) (acl_entry_mem acl')]\<rparr>"
proof -
  let ?k = "acl_write_lock (W 0) (y_k s)" and ?mem = "acl_entry_mem (y_list s)"
  obtain buff cnt where l: "acl_load_loop (replicate 2048 zero_entry) rows 0 = Inr (buff, cnt)"
    and dbg: "acl_debug_loop hwbuff_init hwbuff_init (take cnt (acl_sort_entry buff cnt)) = Inr ()"
    and cp: "memcpy_at ?mem 0 (acl_sort_entry buff cnt) cnt = Inr (acl_entry_mem acl')"
    and a': "acl_length acl' = of_nat cnt" and k': "k' = acl_write_unlock (W 0) ?k"
    using assms(3,4) by (auto simp: acl_do_update_def Let_def res_bind_eq_Inr)
  let ?b = "acl_sort_entry buff cnt"
  have cnt: "cnt \<le> length ?b" "cnt \<le> length ?mem" "acl_entry_mem acl' = take cnt ?b @ drop cnt ?mem"
    using cp by (auto simp: res_simps)
  have "unat (of_nat cnt :: dword) = cnt" using load_count [OF l] by (simp add: unat_of_nat)
  then have L: "take (unat (acl_length acl')) (acl_entry_mem acl') = take cnt ?b" using a' cnt by simp
  let ?at = "\<lambda>p. s\<lparr>y_k := ?k, y_list := (y_list s)\<lparr>acl_length := of_nat cnt\<rparr>, y_upd := p\<rparr>"
  have s1: "acl_step W ready Update s = s\<lparr>y_upd := U_Lock ?b cnt\<rparr>" using assms(1) l dbg by (simp add: update_turn_def)
  have s2: "acl_step W ready Update (s\<lparr>y_upd := U_Lock ?b cnt\<rparr>) = s\<lparr>y_k := ?k, y_upd := U_Length ?b cnt\<rparr>"
    using assms(2) by (simp add: update_turn_def)
  have s3: "acl_step W ready Update (s\<lparr>y_k := ?k, y_upd := U_Length ?b cnt\<rparr>) = ?at (U_Copy ?b cnt 0)"
    by (simp add: update_turn_def)
  have acl': "(y_list s)\<lparr>acl_length := of_nat cnt, acl_entry_mem := take cnt ?b @ drop cnt ?mem\<rparr> = acl'"
    using a' cnt(3) by (cases acl', cases "y_list s") simp
  obtain m where s4: "acl_run W ready (replicate m Update) (?at (U_Copy ?b cnt 0)) =
      s\<lparr>y_k := ?k, y_list := acl', y_upd := U_Copy ?b cnt cnt\<rparr>"
    using update_copy_run [of "?at (U_Copy ?b cnt 0)" ?b cnt 0 W ready] cnt acl' by auto
  have s5: "acl_step W ready Update (s\<lparr>y_k := ?k, y_list := acl', y_upd := U_Copy ?b cnt cnt\<rparr>) =
      s\<lparr>y_k := ?k, y_list := acl', y_upd := U_Unlock, y_lists := y_lists s @ [take cnt ?b]\<rparr>"
    by (simp add: update_turn_def)
  have s6: "acl_step W ready Update (s\<lparr>y_k := ?k, y_list := acl', y_upd := U_Unlock, y_lists := y_lists s @ [take cnt ?b]\<rparr>) =
      s\<lparr>y_k := k', y_list := acl', y_upd := U_Idle, y_lists := y_lists s @ [take cnt ?b]\<rparr>"
    by (simp add: update_turn_def k')
  from run_step_more [OF s1 run_step_more [OF s2 run_step_more [OF s3 run_more [OF s4 run_step_more [OF s5 run_stepI [OF s6]]]]]]
  show ?thesis unfolding L .
qed

section \<open>Where the installed lists come from\<close>

definition reloaded :: "acl_event set \<Rightarrow> acl_entry list \<Rightarrow> bool" where
  "reloaded E L \<longleftrightarrow>
     (\<exists>rows es. Reload rows \<in> E \<and> acl_rows (take 2048 rows) = Inr es \<and> L = c_qsort acl_compartor es)"

definition reload_inv :: "acl_event set \<Rightarrow> 'k acl_sys \<Rightarrow> bool" where
  "reload_inv E s \<longleftrightarrow> y_lists s \<noteq> [] \<and> list_all (reloaded E) (tl (y_lists s)) \<and>
     (case y_upd s of
        U_Load rows \<Rightarrow> Reload rows \<in> E
      | U_Lock buff cnt \<Rightarrow> reloaded E (take cnt buff)
      | U_Length buff cnt \<Rightarrow> reloaded E (take cnt buff)
      | U_Copy buff cnt j \<Rightarrow> reloaded E (take cnt buff)
      | _ \<Rightarrow> True)"

lemma load_reloaded:
  assumes "rows_ok N rows" "Reload rows \<in> E" "acl_load_loop (replicate 2048 zero_entry) rows 0 = Inr (buff, cnt)"
  shows "reloaded E (take cnt (acl_sort_entry buff cnt))"
proof -
  obtain es where es: "acl_rows (take 2048 rows) = Inr es"
    using assms(1) by (auto simp: rows_ok_def split: sum.splits)
  have "take cnt (acl_sort_entry buff cnt) = c_qsort acl_compartor es"
    using acl_load_table [OF es] assms(3) by (auto simp: acl_sort_entry_def)
  then show ?thesis using es assms(2) unfolding reloaded_def by blast
qed

lemma reload_inv_update:
  assumes "acl_inv N s" "reload_inv E s"
  shows "reload_inv E (update_turn W ready s)"
proof (cases rule: update_turn_elim [of W ready s])
  case (load rows p)
  have r: "rows_ok N rows" "Reload rows \<in> E" using assms load(1) by (simp_all add: acl_inv_def reload_inv_def)
  obtain buff cnt where l: "acl_load_loop (replicate 2048 zero_entry) rows 0 = Inr (buff, cnt)"
    "p = U_Lock (acl_sort_entry buff cnt) cnt" using load_ok [OF r(1)] load(3) by auto
  then show ?thesis using load_reloaded [OF r l(1)] assms(2) by (simp add: load(2) reload_inv_def)
qed (use assms(2) in \<open>simp_all add: reload_inv_def\<close>)

lemma reload_inv_step:
  assumes "acl_inv N s" "reload_inv E s" "e \<in> E"
  shows "reload_inv E (acl_step W ready e s)"
proof (cases e)
  case (Ask i a)
  then show ?thesis
    using assms(2) by (auto simp: filter_call_def Let_def reload_inv_def split: filter_pc.split)
next
  case (Filter i)
  show ?thesis unfolding Filter acl_step.simps
    by (cases rule: filter_turn_elim [of W ready i s]) (use assms(2) in \<open>simp_all add: reload_inv_def\<close>)
next
  case (Reload rows)
  then show ?thesis using assms(2,3) by (auto simp: update_call_def reload_inv_def)
next
  case Update
  then show ?thesis using reload_inv_update [OF assms(1,2)] by simp
qed

lemma reload_inv_run:
  assumes "acl_inv N s" "reload_inv E s" "list_all (event_ok N) es" "set es \<subseteq> E"
  shows "reload_inv E (acl_run W ready es s)"
  using assms
proof (induction es arbitrary: s)
  case (Cons e es)
  then show ?case
    using acl_inv_step [OF Cons.prems(1)] reload_inv_step [OF Cons.prems(1,2)] by (simp add: acl_run_Cons)
qed simp

end
