(* ===== verification/Acl_Access_Props.thy ===== *)
theory Acl_Access_Props
  imports Acl_Access
begin

text \<open>
  What holds of the access list in every interleaving (theory \<open>Acl_Access\<close>): uninterrupted, the
  steps are \<open>acl_filter\<close> and \<open>acl_do_update\<close>; whatever the lock grants, nobody leaves the list or a
  buffer, and a call that meets no write decides on one whole list; and between two processes,
  where the lock promises nothing, a call may meet a write and decide on no list at all.
\<close>

section \<open>A kernel with a reader/writer lock\<close>

text \<open>
  For evaluation: the threads that hold the lock shared and exclusively. \<open>same u v\<close> says that the
  threads \<open>u\<close> and \<open>v\<close> exclude each other.
\<close>

record srw_kernel =
  sk_shared :: "nat list"
  sk_excl :: "nat list"

definition srw_ready :: "(nat \<Rightarrow> nat \<Rightarrow> bool) \<Rightarrow> nat \<Rightarrow> bool \<Rightarrow> srw_kernel \<Rightarrow> bool" where
  "srw_ready same u x k \<longleftrightarrow>
     (\<forall>v \<in> set (sk_excl k). \<not> same u v) \<and> (x \<longrightarrow> (\<forall>v \<in> set (sk_shared k). \<not> same u v))"

definition srw_win32 :: "nat \<Rightarrow> srw_kernel win32" where
  "srw_win32 u = \<lparr>
     WaitForSingleObject = (\<lambda>_ _ k. (WAIT_TIMEOUT, k)),
     CreateMutex = (\<lambda>_ k. (1, k)), CreateMutexEx = (\<lambda>_ _ k. (1, k)),
     ReleaseMutex = (\<lambda>_ k. (False, k)), CloseHandle = (\<lambda>_ k. k),
     CreateEvent = (\<lambda>k. (2, k)), CreateEventEx = (\<lambda>_ _ k. (2, k)), SetEvent = (\<lambda>_ k. (True, k)),
     InitializeSRWLock = (\<lambda>_ k. k\<lparr>sk_shared := [], sk_excl := []\<rparr>),
     AcquireSRWLockShared = (\<lambda>_ k. k\<lparr>sk_shared := u # sk_shared k\<rparr>),
     ReleaseSRWLockShared = (\<lambda>_ k. k\<lparr>sk_shared := removeAll u (sk_shared k)\<rparr>),
     AcquireSRWLockExclusive = (\<lambda>_ k. k\<lparr>sk_excl := u # sk_excl k\<rparr>),
     ReleaseSRWLockExclusive = (\<lambda>_ k. k\<lparr>sk_excl := removeAll u (sk_excl k)\<rparr>),
     OpenProcessToken = (\<lambda>k. (None, k)), LookupPrivilegeValue = (\<lambda>k. k), AdjustTokenPrivileges = (\<lambda>_ k. (True, k)),
     AllocateAndInitializeSid = (\<lambda>_ _ k. (None, k)), SetEntriesInAcl = (\<lambda>_ k. ((ERROR_SUCCESS, NULL), k)),
     LocalAlloc = (\<lambda>k. (NULL, k)), InitializeSecurityDescriptor = (\<lambda>_ k. (True, k)),
     SetSecurityDescriptorDacl = (\<lambda>_ _ k. (True, k)), FreeSid = (\<lambda>_ k. k), LocalFree = (\<lambda>_ k. k),
     CreateFileMapping = (\<lambda>_ _ _ k. (NULL, k)), OpenFileMapping = (\<lambda>_ k. (NULL, k)),
     MapViewOfFile = (\<lambda>_ _ k. (NULL, k)), UnmapViewOfFile = (\<lambda>_ k. k) \<rparr>"

definition srw_free :: srw_kernel where
  "srw_free = \<lparr>sk_shared = [], sk_excl = []\<rparr>"

definition every_thread :: "nat \<Rightarrow> nat \<Rightarrow> bool" where
  "every_thread u v = True"

definition same_process :: "nat \<Rightarrow> nat \<Rightarrow> bool" where
  "same_process u v \<longleftrightarrow> (u = 0) = (v = 0)"

lemmas srw_defs = srw_ready_def srw_win32_def srw_free_def every_thread_def same_process_def

section \<open>Two tables\<close>

text \<open>
  The list before permits the client by its second entry; the table loaded permits it by its
  first, and denies it in its second, which the first hides.
\<close>

definition old_list :: "acl_entry list" where
  "old_list =
     [\<lparr>HwType = 1, HwAddr = 1 # replicate 15 0, HwMask = 0xFF # replicate 15 0, access = 0\<rparr>,
      \<lparr>HwType = 1, HwAddr = 5 # replicate 15 0, HwMask = 0xFF # replicate 15 0, access = 1\<rparr>]"

definition new_list :: "acl_entry list" where
  "new_list =
     [\<lparr>HwType = 1, HwAddr = 5 # replicate 15 0, HwMask = 0x0F # replicate 15 0, access = 1\<rparr>,
      \<lparr>HwType = 1, HwAddr = 5 # replicate 15 0, HwMask = 0xFF # replicate 15 0, access = 0\<rparr>]"

definition old_acl :: acl_list where
  "old_acl = \<lparr>acl_length = 2, acl_entry_mem = old_list\<rparr>"

definition client :: filter_args where
  "client = \<lparr>fa_type = 1, fa_addr = [5, 1, 7], fa_len = 2\<rparr>"

lemma new_list_rows: "acl_rows (take 2048 (map row_text new_list)) = Inr new_list"
  using acl_rows_text [of new_list] by (simp add: new_list_def wf_entry_def)

lemma new_list_sorted: "c_qsort acl_compartor new_list = new_list"
  by (simp add: new_list_def acl_compartor_def)

lemma client_ok: "args_ok client"
  by (simp add: args_ok_def client_def)

lemma old_acl_ok: "list_all wf_entry (acl_entry_mem old_acl)" "unat (acl_length old_acl) \<le> length (acl_entry_mem old_acl)"
  by (simp_all add: old_acl_def old_list_def wf_entry_def)

lemma new_rows_ok: "rows_ok 2 (map row_text new_list)"
  using new_list_rows by (simp add: rows_ok_def) (simp add: new_list_def)

lemma client_filtered:
  "\<exists>k'. acl_filter (srw_win32 (Suc 0)) (Some old_acl) (fa_type client) (fa_addr client) (fa_len client) srw_free =
     Inr (decision old_list client, k')"
  using acl_filter_debug_ok [of "fa_addr client" "fa_len client"] client_ok
    acl_filter_loop_correct [OF old_acl_ok(1), of "unat (fa_len client)" "fa_addr client" 2 0 "fa_type client"]
  by (auto simp: acl_filter_def decision_def args_ok_def old_acl_def old_list_def)

section \<open>Properties\<close>

text \<open>C11. The filters are safe in every interleaving, whatever the lock grants: the lock lies in
  memory shared by the server and the monitor and is documented for the threads of one process, so
  no exclusion is assumed. Let any number of server threads ask about clients with an address of
  one to five bytes (an Ethernet address has six and overruns the debug buffer) while the update
  thread reloads tables that parse and fit, in any interleaving of their steps. Then nobody reads
  or writes outside the list or a buffer; every installed list is the sorted table of one reload;
  at every moment without a write in progress the shared block holds the newest list, whole; and a
  call that stands at the lock at such a moment and meets no step of the update thread until it
  returns, whatever the other filters do, returns the first-match decision of that list.\<close>

theorem filters_safe_in_every_interleaving:
  assumes "list_all wf_entry (acl_entry_mem acl)" "unat (acl_length acl) \<le> length (acl_entry_mem acl)"
    and "list_all (event_ok (length (acl_entry_mem acl))) es" "s = acl_run W ready es (acl_start k acl)"
  shows "y_upd s \<noteq> U_Fault \<and> (\<forall>i. y_filt s i \<noteq> F_Fault) \<and>
    list_all (reloaded (set es)) (tl (y_lists s)) \<and>
    (\<not> writing (y_upd s) \<longrightarrow>
       take (unat (acl_length (y_list s))) (acl_entry_mem (y_list s)) = last (y_lists s)) \<and>
    (\<forall>i es' r. y_filt s i = F_Lock \<and> \<not> writing (y_upd s) \<and>
       list_all (event_ok (length (acl_entry_mem acl))) es' \<and> list_all (undisturbed i) es' \<and>
       y_filt (acl_run W ready es' s) i = F_Ret r \<longrightarrow>
       r = acl_decide (last (y_lists s)) (fa_type (y_args s i)) (take (unat (fa_len (y_args s i))) (fa_addr (y_args s i))))"
proof -
  let ?N = "length (acl_entry_mem acl)"
  note start = acl_inv_start [OF assms(1,2), of k]
  have i: "acl_inv ?N s" using acl_inv_run [OF start assms(3)] assms(4) by simp
  have "reload_inv (set es) (acl_start k acl)" by (simp add: reload_inv_def acl_start_def)
  then have "reload_inv (set es) s" using reload_inv_run [OF start _ assms(3)] assms(4) by simp
  then have r: "list_all (reloaded (set es)) (tl (y_lists s))" by (simp add: reload_inv_def)
  have u: "y_upd s \<noteq> U_Fault" using i by (auto simp: acl_inv_def)
  have f: "y_filt s j \<noteq> F_Fault" for j
  proof -
    have "filter_safe ?N (y_filt s j)" using i by (simp add: acl_inv_def)
    then show ?thesis by auto
  qed
  have d: "r = decision (last (y_lists s)) (y_args s j)"
    if "y_filt s j = F_Lock" "\<not> writing (y_upd s)" "list_all (event_ok ?N) es'" "list_all (undisturbed j) es'"
      "y_filt (acl_run W ready es' s) j = F_Ret r" for j es' r
    using undisturbed_call [OF i that(2) _ _ that(3,4), of W ready] that(1,5) by (auto simp: deciding_def)
  have "\<not> writing (y_upd s) \<longrightarrow> take (unat (acl_length (y_list s))) (acl_entry_mem (y_list s)) = last (y_lists s)"
    using i by (simp add: acl_inv_def)
  then show ?thesis using u f r d unfolding decision_def by blast
qed

text \<open>C16. The steps are the functions: with nobody in between and the lock granted, a thread in
  \<open>acl_filter\<close> ends with exactly the result and the kernel state of the function, and the update
  thread with the list and the kernel state of \<open>acl_do_update\<close> on the rows of its result set.\<close>

theorem acl_steps_are_functions:
  assumes "y_filt s i = F_Lock" "ready (Suc i) False (y_k s)"
    and "acl_filter (W (Suc i)) (Some (y_list s)) (fa_type (y_args s i)) (fa_addr (y_args s i)) (fa_len (y_args s i)) (y_k s) = Inr (r, k1)"
    and "y_upd t = U_Load rows" "ready 0 True (y_k t)"
    and "mysql_store_result Q conn (snd (mysql_query Q conn acl_select_query d)) = (Some rows, d2)"
    and "acl_do_update (W 0) Q conn (y_list t) d (y_k t) = Inr (acl', d', k2)"
  shows "(\<exists>m. acl_run W ready (replicate m (Filter i)) s =
       s\<lparr>y_k := k1, y_done := y_done s @ [(y_args s i, length (y_lists s), r)], y_filt := (y_filt s)(i := F_Ret r)\<rparr>) \<and>
    (\<exists>m. acl_run W ready (replicate m Update) t =
       t\<lparr>y_k := k2, y_list := acl', y_upd := U_Idle,
         y_lists := y_lists t @ [take (unat (acl_length acl')) (acl_entry_mem acl')]\<rparr>)"
proof
  show "\<exists>m. acl_run W ready (replicate m (Filter i)) s =
       s\<lparr>y_k := k1, y_done := y_done s @ [(y_args s i, length (y_lists s), r)], y_filt := (y_filt s)(i := F_Ret r)\<rparr>"
    by (rule filter_alone [where W = W and ready = ready, OF assms(1-3)])
  show "\<exists>m. acl_run W ready (replicate m Update) t =
       t\<lparr>y_k := k2, y_list := acl', y_upd := U_Idle,
         y_lists := y_lists t @ [take (unat (acl_length acl')) (acl_entry_mem acl')]\<rparr>"
    by (rule update_alone [where W = W and ready = ready, OF assms(4-7)])
qed

theorem acl_steps_are_functions_witness:
  "(\<exists>m k1. acl_run srw_win32 (srw_ready every_thread) (replicate m (Filter 0)) (filter_call 0 client (acl_start srw_free old_acl)) =
       (filter_call 0 client (acl_start srw_free old_acl))\<lparr>y_k := k1, y_done := [(client, 1, decision old_list client)],
         y_filt := (\<lambda>_. F_Idle)(0 := F_Ret (decision old_list client))\<rparr>) \<and>
   (\<exists>m k2. acl_run srw_win32 (srw_ready every_thread) (replicate m Update) (update_call (map row_text new_list) (acl_start srw_free old_acl)) =
       (acl_start srw_free old_acl)\<lparr>y_k := k2, y_list := \<lparr>acl_length = 2, acl_entry_mem = new_list\<rparr>, y_lists := [old_list, new_list]\<rparr>)"
proof -
  let ?s = "filter_call 0 client (acl_start srw_free old_acl)"
  let ?t = "update_call (map row_text new_list) (acl_start srw_free old_acl)"
  let ?d = "\<lparr>db_log = [], db_result = Some (map row_text new_list)\<rparr>"
  have start: "acl_start srw_free old_acl = \<lparr>y_k = srw_free, y_list = old_acl, y_args = (\<lambda>_. \<lparr>fa_type = 0, fa_addr = [], fa_len = 0\<rparr>),
      y_filt = (\<lambda>_. F_Idle), y_upd = U_Idle, y_lists = [old_list], y_done = []\<rparr>"
    by (simp add: acl_start_def old_acl_def old_list_def)
  have s: "y_filt ?s 0 = F_Lock" "srw_ready every_thread (Suc 0) False (y_k ?s)" "y_list ?s = old_acl" "y_args ?s 0 = client"
    "y_done ?s = []" "y_lists ?s = [old_list]" "y_filt ?s = (\<lambda>_. F_Idle)(0 := F_Lock)"
    unfolding start by (simp_all add: filter_call_def srw_defs)
  have t: "y_upd ?t = U_Load (map row_text new_list)" "srw_ready every_thread 0 True (y_k ?t)" "y_list ?t = old_acl"
    "y_lists ?t = [old_list]" "?t = (acl_start srw_free old_acl)\<lparr>y_upd := U_Load (map row_text new_list)\<rparr>"
    unfolding start by (simp_all add: update_call_def srw_defs)
  obtain k1 where f: "acl_filter (srw_win32 (Suc 0)) (Some (y_list ?s)) (fa_type (y_args ?s 0)) (fa_addr (y_args ?s 0))
      (fa_len (y_args ?s 0)) (y_k ?s) = Inr (decision old_list client, k1)"
    using client_filtered unfolding s by (auto simp: filter_call_def acl_start_def)
  obtain k2 where u: "acl_do_update (srw_win32 0) sim_mysql 1 (y_list ?t) ?d (y_k ?t) =
      Inr (\<lparr>acl_length = 2, acl_entry_mem = new_list\<rparr>, ?d\<lparr>db_log := [acl_select_query]\<rparr>, k2)"
    using acl_do_update_ok [of sim_mysql 1 ?d "map row_text new_list" "?d\<lparr>db_log := [acl_select_query]\<rparr>" new_list old_acl
        "srw_win32 0" "y_k ?t"] new_list_rows new_list_sorted
    unfolding t(3) by (simp add: sim_mysql_def old_acl_def old_list_def) (simp add: new_list_def)
  have "mysql_store_result sim_mysql 1 (snd (mysql_query sim_mysql 1 acl_select_query ?d)) =
      (Some (map row_text new_list), ?d\<lparr>db_log := [acl_select_query]\<rparr>)"
    by (simp add: sim_mysql_def)
  from acl_steps_are_functions [where ready = "srw_ready every_thread", OF s(1,2) f t(1,2) this u]
  show ?thesis unfolding s t by (auto simp: start new_list_def)
qed

text \<open>
  The lock is documented for the threads of one process. The server has read the first entry
  of the old list when the monitor, another process, installs the new one; then it goes on.
\<close>

definition torn_schedule :: "acl_event list" where
  "torn_schedule =
     [Ask 0 client, Filter 0, Filter 0, Filter 0, Filter 0, Filter 0] @
     [Reload (map row_text new_list), Update, Update, Update, Update, Update, Update, Update] @
     [Filter 0, Filter 0, Filter 0, Filter 0, Filter 0, Filter 0]"

lemma same_process_lock:
  "srw_ready same_process u True k \<Longrightarrow> same_process u v \<Longrightarrow> v \<notin> set (sk_excl k) \<and> v \<notin> set (sk_shared k)"
  "srw_ready same_process u False k \<Longrightarrow> same_process u v \<Longrightarrow> v \<notin> set (sk_excl k)"
  by (auto simp: srw_ready_def)

lemma debug_new: "acl_debug_loop hwbuff_init hwbuff_init new_list = Inr ()"
  by (rule acl_debug_loop_ok) (simp_all add: new_list_def wf_entry_def hwbuff_init_def)

lemma torn_schedule_ok: "list_all (event_ok (length (acl_entry_mem old_acl))) torn_schedule"
  using client_ok new_rows_ok
  by (simp add: torn_schedule_def event_ok_def old_acl_def old_list_def flip: numeral_2_eq_2)

theorem filters_safe_in_every_interleaving_witness:
  "(let s = acl_run srw_win32 (srw_ready same_process) torn_schedule (acl_start srw_free old_acl) in
      y_upd s \<noteq> U_Fault \<and> (\<forall>i. y_filt s i \<noteq> F_Fault) \<and> list_all (reloaded (set torn_schedule)) (tl (y_lists s))) \<and>
   (let s = acl_run srw_win32 (srw_ready same_process) [Ask 0 client] (acl_start srw_free old_acl) in
      \<exists>m. y_filt (acl_run srw_win32 (srw_ready same_process) (replicate m (Filter 0)) s) 0 = F_Ret (acl_decide old_list 1 [5, 1]))"
proof -
  let ?run = "acl_run srw_win32 (srw_ready same_process)"
  let ?s = "?run [Ask 0 client] (acl_start srw_free old_acl)"
  have s: "y_filt ?s 0 = F_Lock" "y_args ?s 0 = client" "y_list ?s = old_acl" "y_k ?s = srw_free" "\<not> writing (y_upd ?s)"
    "y_lists ?s = [old_list]"
    by (simp_all add: acl_run_Cons filter_call_def acl_start_def old_acl_def old_list_def)
  have ok: "list_all (event_ok (length (acl_entry_mem old_acl))) [Ask 0 client]"
    "list_all (event_ok (length (acl_entry_mem old_acl))) (replicate m (Filter 0))"
    "list_all (undisturbed 0) (replicate m (Filter 0))" for m
    using client_ok by (simp_all add: event_ok_def undisturbed_def list_all_iff)
  have ready: "srw_ready same_process (Suc 0) False (y_k ?s)" unfolding s by (simp add: srw_ready_def srw_free_def)
  obtain r k' where "acl_filter (srw_win32 (Suc 0)) (Some (y_list ?s)) (fa_type (y_args ?s 0)) (fa_addr (y_args ?s 0))
      (fa_len (y_args ?s 0)) (y_k ?s) = Inr (r, k')" using client_filtered unfolding s by blast
  from filter_alone [where W = srw_win32 and ready = "srw_ready same_process", OF s(1) ready this]
  obtain m where "?run (replicate m (Filter 0)) ?s =
      ?s\<lparr>y_k := k', y_done := y_done ?s @ [(y_args ?s 0, length (y_lists ?s), r)], y_filt := (y_filt ?s)(0 := F_Ret r)\<rparr>" by blast
  then have m: "y_filt (?run (replicate m (Filter 0)) ?s) 0 = F_Ret r" by simp
  then have "r = acl_decide (last (y_lists ?s)) (fa_type (y_args ?s 0)) (take (unat (fa_len (y_args ?s 0))) (fa_addr (y_args ?s 0)))"
    using filters_safe_in_every_interleaving [OF old_acl_ok ok(1) refl, of srw_win32 "srw_ready same_process" srw_free,
        THEN conjunct2, THEN conjunct2, THEN conjunct2, THEN conjunct2, rule_format, of 0 "replicate m (Filter 0)" r]
      s(1,5) ok(2,3) by blast
  then have "r = acl_decide old_list 1 [5, 1]" unfolding s by (simp add: client_def)
  then show ?thesis
    using m filters_safe_in_every_interleaving [OF old_acl_ok torn_schedule_ok refl, of srw_win32 "srw_ready same_process" srw_free]
    unfolding Let_def by blast
qed

text \<open>C13. Across processes the list can be torn: with a lock that excludes threads of the same
  process only, which is all that is documented for the lock in \<open>ACL_LIST\<close>, there is a schedule in
  which the server denies a client that both the list before and the list after the reload permit.\<close>

theorem list_torn_between_processes:
  "let s = acl_run srw_win32 (srw_ready same_process) torn_schedule (acl_start srw_free old_acl) in
   y_done s = [(client, 2, ACCESS_DENY)] \<and> y_lists s = [old_list, new_list] \<and>
   decision old_list client = ACCESS_PERMIT \<and> decision new_list client = ACCESS_PERMIT"
proof -
  obtain b where dbg: "dhcp_hw_addr_unicode acl_filter_buf [5, 1, 7] (uint (2 :: byte)) = Inr b"
    using acl_filter_debug_ok [of "[5, 1, 7]" 2] by auto
  let ?s = "\<lambda>k upd l p Ls D. \<lparr>y_k = k, y_list = l, y_args = (\<lambda>_. \<lparr>fa_type = 0, fa_addr = [], fa_len = 0\<rparr>)(0 := client),
      y_filt = (\<lambda>_. F_Idle)(0 := p), y_upd = upd, y_lists = Ls, y_done = D\<rparr>"
  let ?k = "\<lparr>sk_shared = [Suc 0], sk_excl = []\<rparr>" and ?new = "\<lparr>acl_length = 2, acl_entry_mem = new_list\<rparr>"
  have 1: "acl_run srw_win32 (srw_ready same_process) [Ask 0 client, Filter 0, Filter 0, Filter 0, Filter 0, Filter 0] (acl_start srw_free old_acl) =
      ?s ?k U_Idle old_acl (F_Type 2 1) [old_list] []"
    using dbg by (simp add: acl_run_Cons filter_call_def filter_turn_def acl_start_def old_acl_def srw_defs client_def
        old_list_def rd_def Let_def)
  have load: "update_turn srw_win32 (srw_ready same_process) (?s ?k (U_Load (map row_text new_list)) old_acl (F_Type 2 1) [old_list] []) =
      ?s ?k (U_Lock (new_list @ replicate 2046 zero_entry) 2) old_acl (F_Type 2 1) [old_list] []"
    using acl_load_table [OF new_list_rows] new_list_sorted debug_new
    by (simp add: update_turn_def acl_sort_entry_def) (simp add: new_list_def)
  have 2: "acl_run srw_win32 (srw_ready same_process) [Reload (map row_text new_list), Update, Update, Update, Update, Update, Update, Update]
      (?s ?k U_Idle old_acl (F_Type 2 1) [old_list] []) = ?s ?k U_Idle ?new (F_Type 2 1) [old_list, new_list] []"
    using load by (simp add: acl_run_Cons update_call_def update_turn_def acl_write_lock_def acl_write_unlock_def old_acl_def
        srw_defs new_list_def old_list_def rd_def wr_def)
  have 3: "acl_run srw_win32 (srw_ready same_process) [Filter 0, Filter 0, Filter 0, Filter 0, Filter 0, Filter 0] (?s ?k U_Idle ?new (F_Type 2 1) [old_list, new_list] []) =
      ?s srw_free U_Idle ?new (F_Ret 0) [old_list, new_list] [(client, 2, 0)]"
    by (simp add: acl_run_Cons filter_turn_def srw_defs client_def new_list_def rd_def Let_def)
  have "decision old_list client = ACCESS_PERMIT" "decision new_list client = ACCESS_PERMIT"
    by (simp_all add: decision_def acl_decide_def acl_matches_def old_list_def new_list_def client_def ACCESS_PERMIT_def)
  then show ?thesis unfolding torn_schedule_def acl_run_append 1 2 3 by (simp add: ACCESS_DENY_def)
qed

end
