(* ===== verification/Init_Race.thy ===== *)
theory Init_Race
  imports Callout_Hook
begin

text \<open>
  \<open>InitSHM\<close> of \<open>CalloutHook/CalloutHook.cpp\<close> under concurrency: the threads of the server run the
  hooks at the same time, and all of them open the channel through the same global. The function
  is cut into its statements. The global \<open>shm\<close> is a pointer here and the blocks live in a heap,
  because a thread can meet a block that is not filled in yet or has been freed. A schedule is a
  list of events, so every interleaving is a value the model evaluates. \<open>shm_init_client\<close> and the
  \<open>shm_write\<close> of a hook are one step each; how the copies of writers interleave is the subject of
  \<open>Channel\<close>.
\<close>

section \<open>Threads and steps\<close>

text \<open>
  Where a hook stands: at the first test, at the lock, at the second test, at \<open>malloc\<close>, at
  \<open>ZeroMemory\<close>, at the length, at the name, at \<open>shm_init_client\<close>, at \<open>free\<close>, at the reset of the
  global, at the release of the lock, at \<open>shm_write\<close>, at its end with what \<open>InitSHM\<close> returned.
\<close>

datatype init_pc =
    I_Idle
  | I_Test
  | I_Lock
  | I_Again
  | I_Alloc
  | I_Zero
  | I_Len
  | I_Name
  | I_Open
  | I_Free
  | I_Clear
  | I_Release
  | I_Write
  | I_Done bool
  | I_Fault fault

text \<open>
  The kernel, the views, the global, the heap of blocks, the lock, the threads with the message
  each is to write. The last two fields are histories: how often a block was opened, and the
  messages that were written.
\<close>

record 'k dll =
  g_k :: 'k
  g_mem :: mem
  g_shm :: ptr
  g_blocks :: "ptr \<rightharpoonup> shm_block"
  g_lock :: lock
  g_pc :: "nat \<Rightarrow> init_pc"
  g_data :: "nat \<Rightarrow> byte list"
  g_opened :: nat
  g_sent :: "byte list list"

text \<open>Dereferencing the global: the block it points to, or the fault.\<close>

definition block_at :: "'k dll \<Rightarrow> shm_block result" where
  "block_at s = (case g_blocks s (g_shm s) of
     None \<Rightarrow> Inl (if g_shm s = NULL then Null_Dereference else Use_After_Free) | Some b \<Rightarrow> Inr b)"

text \<open>
  One statement of thread \<open>i\<close>. \<open>p\<close> and \<open>junk\<close> are the address and the contents of the memory that
  \<open>malloc\<close> returns if this is the turn that calls it; it never returns the address of a block
  that is still allocated.
\<close>

definition init_turn :: "(nat \<Rightarrow> 'k win32) \<Rightarrow> nat \<Rightarrow> ptr \<Rightarrow> shm_block \<Rightarrow> 'k dll \<Rightarrow> 'k dll" where
  "init_turn W i p junk s =
     (let X = W i; goto = (\<lambda>q s. s\<lparr>g_pc := (g_pc s)(i := q)\<rparr>);
          store = (\<lambda>f q. case block_at s of
             Inl e \<Rightarrow> goto (I_Fault e) s
           | Inr b \<Rightarrow> goto q (s\<lparr>g_blocks := (g_blocks s)(g_shm s \<mapsto> f b)\<rparr>)) in
      case g_pc s i of
        I_Test \<Rightarrow> goto (if g_shm s \<noteq> NULL then I_Write else I_Lock) s
      | I_Lock \<Rightarrow>
          (case lock_wait X (Some (g_lock s)) 50000 (g_k s) of
             Inl e \<Rightarrow> goto (I_Fault e) s
           | Inr (ok, k1) \<Rightarrow> goto (if ok then I_Again else I_Done False) (s\<lparr>g_k := k1\<rparr>))
      | I_Again \<Rightarrow> goto (if g_shm s \<noteq> NULL then I_Write else I_Alloc) s
      | I_Alloc \<Rightarrow>
          (if p = NULL then goto I_Zero (s\<lparr>g_shm := NULL\<rparr>)
           else if p \<in> dom (g_blocks s) then s
           else goto I_Zero (s\<lparr>g_shm := p, g_blocks := (g_blocks s)(p \<mapsto> junk)\<rparr>))
      | I_Zero \<Rightarrow> store (\<lambda>_. shm_zero) I_Len
      | I_Len \<Rightarrow> store (\<lambda>b. b\<lparr>sb_len := 2048\<rparr>) I_Name
      | I_Name \<Rightarrow> store (\<lambda>b. b\<lparr>filename := SHM_CALLOUT_NAME\<rparr>) I_Open
      | I_Open \<Rightarrow>
          (case res_bind (block_at s) (\<lambda>b. shm_init X b None (g_mem s) (g_k s)) of
             Inl e \<Rightarrow> goto (I_Fault e) s
           | Inr (r, b, m, k1) \<Rightarrow>
               goto (if FAILED r then I_Free else I_Release)
                 (s\<lparr>g_k := k1, g_mem := m, g_blocks := (g_blocks s)(g_shm s \<mapsto> b),
                    g_opened := g_opened s + (if FAILED r then 0 else 1)\<rparr>))
      | I_Free \<Rightarrow> goto I_Clear (s\<lparr>g_blocks := (g_blocks s)(g_shm s := None)\<rparr>)
      | I_Clear \<Rightarrow> goto I_Release (s\<lparr>g_shm := NULL\<rparr>)
      | I_Release \<Rightarrow> goto I_Write (s\<lparr>g_k := snd (lock_release X (Some (g_lock s)) (g_k s))\<rparr>)
      | I_Write \<Rightarrow>
          (case res_bind (block_at s) (\<lambda>b. shm_write X (Some b) (g_data s i) (length (g_data s i)) (g_mem s) (g_k s)) of
             Inl e \<Rightarrow> goto (I_Fault e) s
           | Inr (r, m, k1) \<Rightarrow>
               goto (I_Done True) (s\<lparr>g_k := k1, g_mem := m, g_sent := g_sent s @ (if FAILED r then [] else [g_data s i])\<rparr>))
      | _ \<Rightarrow> s)"

text \<open>The server calls a hook, which calls \<open>InitSHM\<close> and then writes the message \<open>d\<close>.\<close>

definition hook_call :: "nat \<Rightarrow> byte list \<Rightarrow> 'k dll \<Rightarrow> 'k dll" where
  "hook_call i d s =
     (let called = s\<lparr>g_pc := (g_pc s)(i := I_Test), g_data := (g_data s)(i := d)\<rparr> in
      case g_pc s i of I_Idle \<Rightarrow> called | I_Done _ \<Rightarrow> called | _ \<Rightarrow> s)"

datatype dll_event = Hook nat "byte list" | Turn nat ptr shm_block

fun dll_step :: "(nat \<Rightarrow> 'k win32) \<Rightarrow> dll_event \<Rightarrow> 'k dll \<Rightarrow> 'k dll" where
  "dll_step W (Hook i d) s = hook_call i d s"
| "dll_step W (Turn i p junk) s = init_turn W i p junk s"

definition dll_run :: "(nat \<Rightarrow> 'k win32) \<Rightarrow> dll_event list \<Rightarrow> 'k dll \<Rightarrow> 'k dll" where
  "dll_run W es s = fold (dll_step W) es s"

text \<open>After \<open>DHCP_CONTROL_START\<close>: the lock exists, the channel is not open.\<close>

definition dll_start :: "'k \<Rightarrow> mem \<Rightarrow> lock \<Rightarrow> 'k dll" where
  "dll_start k m lk =
     \<lparr>g_k = k, g_mem = m, g_shm = NULL, g_blocks = Map.empty, g_lock = lk, g_pc = (\<lambda>_. I_Idle),
      g_data = (\<lambda>_. []), g_opened = 0, g_sent = []\<rparr>"

section \<open>The initialisation lock\<close>

text \<open>
  The documented behaviour of the mutex with the handle \<open>h\<close>: \<open>holds k u\<close> is the number of times
  thread \<open>u\<close> owns it. A wait that returns \<open>WAIT_OBJECT_0\<close> or \<open>WAIT_ABANDONED\<close> means that no other thread
  owned it and adds one for the caller, any other result changes nothing; a release takes one
  away from an owner and does nothing for others. Calls about other objects leave it alone.
\<close>

definition init_mutex :: "(nat \<Rightarrow> 'k win32) \<Rightarrow> handle \<Rightarrow> ('k \<Rightarrow> nat \<Rightarrow> nat) \<Rightarrow> bool" where
  "init_mutex W h holds \<longleftrightarrow>
     (\<forall>u t k r k1. WaitForSingleObject (W u) h t k = (r, k1) \<longrightarrow>
        (if r = WAIT_OBJECT_0 \<or> r = WAIT_ABANDONED
         then (\<forall>v. v \<noteq> u \<longrightarrow> holds k v = 0) \<and> holds k1 = (holds k)(u := holds k u + 1)
         else holds k1 = holds k)) \<and>
     (\<forall>u k. holds (snd (ReleaseMutex (W u) h k)) = (holds k)(u := holds k u - 1)) \<and>
     (\<forall>u h' t k. h' \<noteq> h \<longrightarrow> holds (snd (WaitForSingleObject (W u) h' t k)) = holds k) \<and>
     (\<forall>u h' k. h' \<noteq> h \<longrightarrow> holds (snd (ReleaseMutex (W u) h' k)) = holds k) \<and>
     (\<forall>u h' k. holds (snd (SetEvent (W u) h' k)) = holds k) \<and>
     (\<forall>u k. holds (snd (OpenProcessToken (W u) k)) = holds k \<and> holds (LookupPrivilegeValue (W u) k) = holds k) \<and>
     (\<forall>u tok k. holds (snd (AdjustTokenPrivileges (W u) tok k)) = holds k) \<and>
     (\<forall>u n k. holds (snd (OpenFileMapping (W u) n k)) = holds k) \<and>
     (\<forall>u f n k. holds (snd (MapViewOfFile (W u) f n k)) = holds k) \<and>
     (\<forall>u a n k. holds (snd (CreateMutexEx (W u) a n k)) = holds k \<and> holds (snd (CreateEventEx (W u) a n k)) = holds k)"

lemma init_mutex_wait:
  assumes "init_mutex W h holds" "WaitForSingleObject (W u) h t k = (r, k1)"
  shows "if r = WAIT_OBJECT_0 \<or> r = WAIT_ABANDONED
    then (\<forall>v. v \<noteq> u \<longrightarrow> holds k v = 0) \<and> holds k1 = (holds k)(u := holds k u + 1) else holds k1 = holds k"
  using conjunct1 [OF assms(1) [unfolded init_mutex_def], rule_format, OF assms(2)] .

lemma init_mutex_other:
  assumes "init_mutex W h holds"
  shows "holds (snd (ReleaseMutex (W u) h k)) = (holds k)(u := holds k u - 1)"
    "h' \<noteq> h \<Longrightarrow> holds (snd (WaitForSingleObject (W u) h' t k)) = holds k"
    "h' \<noteq> h \<Longrightarrow> holds (snd (ReleaseMutex (W u) h' k)) = holds k"
    "holds (snd (SetEvent (W u) h' k)) = holds k"
    "holds (snd (OpenProcessToken (W u) k)) = holds k" "holds (LookupPrivilegeValue (W u) k) = holds k"
    "holds (snd (AdjustTokenPrivileges (W u) tok k)) = holds k" "holds (snd (OpenFileMapping (W u) n k)) = holds k"
    "holds (snd (MapViewOfFile (W u) f n' k)) = holds k"
    "holds (snd (CreateMutexEx (W u) a n k)) = holds k" "holds (snd (CreateEventEx (W u) a n k)) = holds k"
  using conjunct2 [OF assms [unfolded init_mutex_def]] by simp_all

text \<open>What a call of thread \<open>u\<close> may do to the ownership: nothing, or take it when it was free.\<close>

definition takes :: "('k \<Rightarrow> nat \<Rightarrow> nat) \<Rightarrow> nat \<Rightarrow> 'k \<Rightarrow> 'k \<Rightarrow> bool" where
  "takes holds u k k1 \<longleftrightarrow> holds k1 = holds k \<or>
     (\<forall>v. v \<noteq> u \<longrightarrow> holds k v = 0) \<and> holds k1 = (holds k)(u := holds k u + 1)"

lemma wait_takes:
  assumes "init_mutex W h holds" "WaitForSingleObject (W u) h' t k = (r, k1)"
  shows "takes holds u k k1"
proof (cases "h' = h")
  case True
  then show ?thesis using init_mutex_wait [OF assms(1), of u t k r k1] assms(2) by (auto simp: takes_def split: if_splits)
next
  case False
  then show ?thesis using init_mutex_other(2) [OF assms(1), of h' u t k] assms(2) by (simp add: takes_def)
qed

lemma lock_wait_takes:
  assumes "init_mutex W h holds" "lock_wait (W u) (Some lk) t k = Inr (ok, k1)"
  shows "takes holds u k k1"
proof (cases "l_init lk")
  case True
  then obtain r where "WaitForSingleObject (W u) (l_lock lk) t k = (r, k1)"
    using assms(2) by (auto simp: lock_wait_def split: prod.splits)
  then show ?thesis by (rule wait_takes [OF assms(1)])
next
  case False
  then show ?thesis using assms(2) by (simp add: lock_wait_def takes_def)
qed

lemma lock_wait_total: obtains ok k1 where "lock_wait W (Some lk) t k = Inr (ok, k1)"
  by (cases "WaitForSingleObject W (l_lock lk) t k"; cases "l_init lk") (simp_all add: lock_wait_def)

lemma lock_wait_granted:
  assumes "init_mutex W (l_lock lk) holds" "lock_wait (W u) (Some lk) t k = Inr (True, k1)"
  shows "(\<forall>v. v \<noteq> u \<longrightarrow> holds k v = 0) \<and> holds k1 = (holds k)(u := holds k u + 1)"
  using init_mutex_wait [OF assms(1), of u t k WAIT_OBJECT_0 k1] assms(2) by (simp add: lock_wait_True)

lemma shm_enable_privileges_holds:
  assumes "init_mutex W h holds"
  shows "holds (snd (shm_enable_privileges (W u) k)) = holds k"
proof -
  obtain tok k1 where t: "OpenProcessToken (W u) k = (tok, k1)" by fastforce
  then have "holds k1 = holds k" using init_mutex_other(5) [OF assms, of u k] by simp
  moreover have "holds (snd (AdjustTokenPrivileges (W u) x (LookupPrivilegeValue (W u) k1))) = holds k1" for x
    using init_mutex_other(6,7) [OF assms, of u] by simp
  ultimately show ?thesis using t by (simp add: shm_enable_privileges_def split: option.split) (simp add: split_beta)
qed

lemma shm_init_objects_holds:
  assumes "init_mutex W h holds" "shm_init_objects (W u) a ld b k = (r, b', k1)"
  shows "holds k1 = holds k"
proof -
  note mx = init_mutex_other(10) [OF assms(1), of u a] and ev = init_mutex_other(11) [OF assms(1), of u a]
  have "holds (snd (snd (shm_init_objects (W u) a ld b k))) = holds k"
    by (simp add: shm_init_objects_def Let_def split_beta mx ev)
  then show ?thesis using assms(2) by simp
qed

lemma shm_init_holds:
  assumes "init_mutex W h holds" "shm_init (W u) b None m k = Inr (r, b', m', k1)"
  shows "holds k1 = holds k"
proof -
  let ?k = "snd (shm_enable_privileges (W u) k)" and ?n = "sb_len b + sizeof_SHM_LOCKDEF"
  obtain f k3 where f: "OpenFileMapping (W u) (filename b) ?k = (f, k3)" by fastforce
  obtain v k4 where v: "MapViewOfFile (W u) f ?n k3 = (v, k4)" by fastforce
  have k3: "holds k3 = holds k"
    using init_mutex_other(8) [OF assms(1), of u "filename b" ?k] shm_enable_privileges_holds [OF assms(1), of u k] f by simp
  have k4: "holds k4 = holds k" using init_mutex_other(9) [OF assms(1), of u f ?n k3] v k3 by simp
  show ?thesis
  proof (cases "f = NULL \<or> v = NULL")
    case True
    then show ?thesis using assms(2) f v k3 k4 by (auto simp: shm_init_def Let_def split: if_splits)
  next
    case False
    then obtain vw where "view_at m v = Inr vw"
      using assms(2) f v by (auto simp: shm_init_def Let_def res_bind_eq_Inr)
    then have "shm_init_objects (W u) None (v_lockdef vw) (b\<lparr>mapfile := f, sb_lockdef := v, sb_data := v\<rparr>) k4 = (r, b', k1)"
      using assms(2) f v False by (auto simp: shm_init_def split: prod.splits)
    from shm_init_objects_holds [OF assms(1) this] show ?thesis using k4 by simp
  qed
qed

lemma shm_write_takes:
  assumes "init_mutex W h holds" "shm_write (W u) (Some b) d n m k = Inr (r, m', k1)"
  shows "takes holds u k k1"
proof -
  obtain ok q where l: "shm_lock (W u) (Some b) 2500 k = Inr (ok, q)" using shm_lock_Some [of "W u" b 2500 k] by blast
  show ?thesis
  proof (cases "ok \<and> l_init (sb_lock b)")
    case True
    let ?h = "l_lock (sb_lock b)"
    have w: "WaitForSingleObject (W u) ?h 2500 k = (WAIT_OBJECT_0, q)"
      using l True by (simp add: shm_lock_def lock_wait_True)
    have "k1 = shm_after (W u) b q" using assms(2) l True by (auto simp: shm_write_locked res_bind_eq_Inr)
    then have "holds k1 = holds (snd (ReleaseMutex (W u) ?h q))"
      using True init_mutex_other(4) [OF assms(1)] by (simp add: shm_after_def Let_def)
    moreover have "holds (snd (ReleaseMutex (W u) ?h q)) = holds k"
    proof (cases "?h = h")
      case True
      then show ?thesis
        using init_mutex_wait [OF assms(1), of u 2500 k WAIT_OBJECT_0 q] w init_mutex_other(1) [OF assms(1), of u q]
        by (simp add: fun_upd_idem)
    next
      case False
      then show ?thesis
        using init_mutex_other(2,3) [OF assms(1) False] w by (metis snd_conv)
    qed
    ultimately show ?thesis by (simp add: takes_def)
  next
    case False
    have q: "takes holds u k q"
    proof (cases "l_init (sb_lock b)")
      case True
      then have "lock_wait (W u) (Some (sb_lock b)) 2500 k = Inr (ok, q)" using l by (simp add: shm_lock_def)
      then show ?thesis by (rule lock_wait_takes [OF assms(1)])
    qed (use l in \<open>simp add: shm_lock_def takes_def\<close>)
    have "k1 = q \<or> ok \<and> k1 = shm_after (W u) b q"
      using assms(2) l by (cases ok) (auto simp: shm_write_locked shm_write_lock_failed res_bind_eq_Inr)
    moreover have "holds (shm_after (W u) b q) = holds q" if ok
      using False that init_mutex_other(4) [OF assms(1)] by (simp add: shm_after_def Let_def)
    ultimately show ?thesis using q by (auto simp: takes_def)
  qed
qed

section \<open>Mutual exclusion and the life of the block\<close>

text \<open>The threads that own the lock, and those among them that replace the block.\<close>

definition init_crit :: "init_pc \<Rightarrow> bool" where
  "init_crit p \<longleftrightarrow> p \<in> {I_Again, I_Alloc, I_Zero, I_Len, I_Name, I_Open, I_Free, I_Clear, I_Release}"

definition replacing :: "init_pc \<Rightarrow> bool" where
  "replacing p \<longleftrightarrow> p \<in> {I_Alloc, I_Zero, I_Len, I_Name, I_Open, I_Free, I_Clear}"

lemma init_crit_simps [simp]:
  "\<not> init_crit I_Idle" "\<not> init_crit I_Test" "\<not> init_crit I_Lock" "\<not> init_crit I_Write" "\<not> init_crit (I_Done b)"
  "\<not> init_crit (I_Fault e)" "init_crit I_Again" "init_crit I_Alloc" "init_crit I_Zero" "init_crit I_Len" "init_crit I_Name"
  "init_crit I_Open" "init_crit I_Free" "init_crit I_Clear" "init_crit I_Release"
  "\<not> replacing I_Idle" "\<not> replacing I_Test" "\<not> replacing I_Lock" "\<not> replacing I_Write" "\<not> replacing (I_Done b)"
  "\<not> replacing (I_Fault e)" "\<not> replacing I_Again" "replacing I_Alloc" "replacing I_Zero" "replacing I_Len" "replacing I_Name"
  "replacing I_Open" "replacing I_Free" "replacing I_Clear" "\<not> replacing I_Release"
  by (simp_all add: init_crit_def replacing_def)

lemma replacing_crit: "replacing p \<Longrightarrow> init_crit p"
  by (cases p) simp_all

definition init_owned :: "('k \<Rightarrow> nat \<Rightarrow> nat) \<Rightarrow> 'k dll \<Rightarrow> bool" where
  "init_owned holds s \<longleftrightarrow>
     (\<forall>i. init_crit (g_pc s i) \<longrightarrow> 0 < holds (g_k s) i) \<and>
     (\<forall>i j. 0 < holds (g_k s) i \<longrightarrow> 0 < holds (g_k s) j \<longrightarrow> i = j)"

lemma init_owned_unique: "init_owned holds s \<Longrightarrow> init_crit (g_pc s i) \<Longrightarrow> init_crit (g_pc s j) \<Longrightarrow> i = j"
  unfolding init_owned_def by blast

text \<open>The ways a turn of thread \<open>i\<close> can change the ownership.\<close>

lemma init_owned_takes:
  assumes "init_owned holds s" "takes holds i (g_k s) (g_k s')"
    and "\<And>j. init_crit (g_pc s' j) \<Longrightarrow> init_crit (g_pc s j)"
  shows "init_owned holds s'"
proof -
  have le: "holds (g_k s) j \<le> holds (g_k s') j" for j using assms(2) by (auto simp: takes_def)
  have "init_crit (g_pc s' j) \<Longrightarrow> 0 < holds (g_k s') j" for j
    using assms(1,3) le [of j] by (auto simp: init_owned_def intro: less_le_trans)
  moreover have "0 < holds (g_k s') j \<Longrightarrow> 0 < holds (g_k s') l \<Longrightarrow> j = l" for j l
    using assms(1,2) by (auto simp: init_owned_def takes_def split: if_splits)
  ultimately show ?thesis by (auto simp: init_owned_def)
qed

lemma init_owned_grant:
  assumes "init_owned holds s" "(\<forall>j. j \<noteq> i \<longrightarrow> holds (g_k s) j = 0) \<and> holds (g_k s') = (holds (g_k s))(i := holds (g_k s) i + 1)"
    and "\<And>j. j \<noteq> i \<Longrightarrow> g_pc s' j = g_pc s j"
  shows "init_owned holds s'"
proof -
  have "init_crit (g_pc s' j) \<Longrightarrow> 0 < holds (g_k s') j" for j
    using assms by (cases "j = i") (auto simp: init_owned_def)
  then show ?thesis using assms(2) by (auto simp: init_owned_def split: if_splits)
qed

lemma init_owned_release:
  assumes "init_owned holds s" "holds (g_k s') = (holds (g_k s))(i := holds (g_k s) i - 1)"
    and "\<And>j. j \<noteq> i \<Longrightarrow> g_pc s' j = g_pc s j" "\<not> init_crit (g_pc s' i)"
  shows "init_owned holds s'"
proof -
  have "init_crit (g_pc s' j) \<Longrightarrow> 0 < holds (g_k s') j" for j
    using assms by (cases "j = i") (auto simp: init_owned_def)
  then show ?thesis using assms(1,2) by (auto simp: init_owned_def split: if_splits)
qed

text \<open>Other threads stay where they are; only five statements touch the kernel.\<close>

lemma init_turn_others: "j \<noteq> i \<Longrightarrow> g_pc (init_turn W i p junk s) j = g_pc s j"
  by (cases "g_pc s i") (auto simp: init_turn_def Let_def split: sum.split if_splits)

lemma init_turn_lock_fixed: "g_lock (init_turn W i p junk s) = g_lock s"
  by (cases "g_pc s i") (auto simp: init_turn_def Let_def split: sum.split if_splits)

lemma init_turn_kernel:
  assumes "g_pc s i \<notin> {I_Lock, I_Open, I_Release, I_Write}"
  shows "g_k (init_turn W i p junk s) = g_k s"
  using assms by (cases "g_pc s i") (auto simp: init_turn_def Let_def split: sum.split if_splits)

lemma init_turn_crit:
  assumes "init_crit (g_pc (init_turn W i p junk s) i)" "g_pc s i \<noteq> I_Lock"
  shows "init_crit (g_pc s i)"
  using assms by (cases "g_pc s i") (auto simp: init_turn_def Let_def split: sum.splits if_splits)

lemma init_turn_takes:
  assumes "init_mutex W (l_lock (g_lock s)) holds" "g_pc s j \<noteq> I_Release"
  shows "takes holds j (g_k s) (g_k (init_turn W j p junk s))"
proof (cases "g_pc s j \<in> {I_Lock, I_Open, I_Release, I_Write}")
  case False
  then show ?thesis using init_turn_kernel [OF False] by (simp add: takes_def)
next
  case True
  then consider "g_pc s j = I_Lock" | "g_pc s j = I_Open" | "g_pc s j = I_Write" using assms(2) by auto
  then show ?thesis
  proof cases
    case 1
    obtain ok k1 where w: "lock_wait (W j) (Some (g_lock s)) 50000 (g_k s) = Inr (ok, k1)" by (rule lock_wait_total)
    then show ?thesis using 1 lock_wait_takes [OF assms(1) w] by (simp add: init_turn_def)
  next
    case 2
    then show ?thesis
      using shm_init_holds [OF assms(1), of j]
      by (auto simp: init_turn_def Let_def takes_def res_bind_eq_Inr split: sum.split prod.split)
  next
    case 3
    then show ?thesis
      using shm_write_takes [OF assms(1), of j]
      by (auto simp: init_turn_def Let_def res_bind_eq_Inr split: sum.split prod.split) (simp add: takes_def)
  qed
qed

lemma init_owned_turn:
  assumes "init_mutex W (l_lock (g_lock s)) holds" "l_init (g_lock s)" "init_owned holds s"
  shows "init_owned holds (init_turn W i p junk s)"
proof -
  let ?s = "init_turn W i p junk s"
  consider "g_pc s i = I_Lock" | "g_pc s i = I_Release" | "g_pc s i \<noteq> I_Lock" "g_pc s i \<noteq> I_Release" by blast
  then show ?thesis
  proof cases
    case 1
    obtain ok k1 where w: "lock_wait (W i) (Some (g_lock s)) 50000 (g_k s) = Inr (ok, k1)" by (rule lock_wait_total)
    then have s': "?s = s\<lparr>g_k := k1, g_pc := (g_pc s)(i := if ok then I_Again else I_Done False)\<rparr>"
      using 1 by (simp add: init_turn_def)
    show ?thesis
    proof (cases ok)
      case True
      then show ?thesis
        using w lock_wait_granted [OF assms(1), of i 50000 "g_k s" k1] unfolding s'
        by (intro init_owned_grant [OF assms(3), of i]) simp_all
    next
      case False
      then show ?thesis
        using lock_wait_takes [OF assms(1) w] unfolding s'
        by (intro init_owned_takes [OF assms(3), of i]) (auto split: if_splits)
    qed
  next
    case 2
    then have "?s = s\<lparr>g_k := snd (ReleaseMutex (W i) (l_lock (g_lock s)) (g_k s)), g_pc := (g_pc s)(i := I_Write)\<rparr>"
      using assms(2) by (simp add: init_turn_def lock_release_def)
    then show ?thesis
      using init_mutex_other(1) [OF assms(1)] by (intro init_owned_release [OF assms(3), of _ i]) simp_all
  next
    case 3
    have "init_crit (g_pc s j)" if "init_crit (g_pc ?s j)" for j
      using that 3(1) init_turn_crit [of W i p junk s] init_turn_others [of j i W p junk s] by (cases "j = i") auto
    then show ?thesis by (intro init_owned_takes [OF assms(3) init_turn_takes [OF assms(1) 3(2)]])
  qed
qed

definition dll_inv :: "'k dll \<Rightarrow> bool" where
  "dll_inv s \<longleftrightarrow>
     (dom (g_blocks s) \<subseteq> {g_shm s} \<and> NULL \<notin> dom (g_blocks s)) \<and>
     g_opened s \<le> 1 \<and> (g_opened s = 1 \<longrightarrow> g_shm s \<in> dom (g_blocks s)) \<and>
     (\<forall>i. replacing (g_pc s i) \<longrightarrow> g_opened s = 0) \<and>
     (\<forall>i. g_pc s i = I_Alloc \<longrightarrow> g_shm s = NULL) \<and>
     (\<forall>i. g_pc s i = I_Clear \<longrightarrow> g_blocks s = Map.empty)"

lemma dll_invI:
  assumes "dom (g_blocks s) \<subseteq> {g_shm s}" "NULL \<notin> dom (g_blocks s)" "g_opened s \<le> 1"
    and "g_opened s = 1 \<Longrightarrow> g_shm s \<in> dom (g_blocks s)" "\<And>i. replacing (g_pc s i) \<Longrightarrow> g_opened s = 0"
    and "\<And>i. g_pc s i = I_Alloc \<Longrightarrow> g_shm s = NULL" "\<And>i. g_pc s i = I_Clear \<Longrightarrow> g_blocks s = Map.empty"
  shows "dll_inv s"
  using assms by (simp add: dll_inv_def)

lemma dll_invD:
  assumes "dll_inv s"
  shows "dom (g_blocks s) \<subseteq> {g_shm s}" "NULL \<notin> dom (g_blocks s)" "g_opened s \<le> 1"
    "g_opened s = 1 \<Longrightarrow> g_shm s \<in> dom (g_blocks s)" "replacing (g_pc s i) \<Longrightarrow> g_opened s = 0"
    "g_pc s i = I_Alloc \<Longrightarrow> g_shm s = NULL" "g_pc s i = I_Clear \<Longrightarrow> g_blocks s = Map.empty"
  using assms unfolding dll_inv_def by blast+

text \<open>What a turn of a thread does to the global and the blocks.\<close>

lemma init_turn_blocks:
  assumes "\<not> replacing (g_pc s i)"
  shows "g_shm (init_turn W i p junk s) = g_shm s" "g_blocks (init_turn W i p junk s) = g_blocks s"
    "g_opened (init_turn W i p junk s) = g_opened s"
  using assms by (cases "g_pc s i"; auto simp: init_turn_def Let_def split: sum.split if_splits)+

lemma init_turn_becomes:
  assumes "\<not> replacing (g_pc s i)" "replacing (g_pc (init_turn W i p junk s) i)"
  shows "g_pc s i = I_Again \<and> g_shm s = NULL \<and> g_pc (init_turn W i p junk s) i = I_Alloc"
  using assms by (cases "g_pc s i") (auto simp: init_turn_def Let_def split: sum.splits if_splits)

lemma dll_inv_turn_other:
  assumes "dll_inv s" "\<not> replacing (g_pc s i)"
  shows "dll_inv (init_turn W i p junk s)"
proof -
  let ?s = "init_turn W i p junk s"
  note same = init_turn_blocks [OF assms(2), of W p junk] and D = dll_invD [OF assms(1)]
  have opened: "g_opened s = 0" if "g_shm s = NULL" using D(2,3,4) that by (cases "g_opened s = 1") auto
  have R: "g_opened s = 0 \<and> (g_pc ?s j = I_Alloc \<longrightarrow> g_shm s = NULL) \<and> (g_pc ?s j = I_Clear \<longrightarrow> g_blocks s = Map.empty)"
    if "replacing (g_pc ?s j)" for j
  proof (cases "j = i")
    case True
    then show ?thesis using init_turn_becomes [OF assms(2), of W p junk] that opened by simp
  next
    case False
    then show ?thesis using that D(5-7) [of j] init_turn_others [OF False, of W p junk s] by simp
  qed
  show ?thesis
  proof (rule dll_invI)
    show "g_shm ?s = NULL" if "g_pc ?s j = I_Alloc" for j using R [of j] that same by simp
    show "g_blocks ?s = Map.empty" if "g_pc ?s j = I_Clear" for j using R [of j] that same by simp
    show "g_opened ?s = 0" if "replacing (g_pc ?s j)" for j using R [OF that] same by simp
  qed (unfold same, fact D(1), fact D(2), fact D(3), rule D(4))
qed

text \<open>The turns of the thread that replaces the block; nobody else is in the section.\<close>

lemma dll_inv_one:
  assumes "\<And>j. j \<noteq> i \<Longrightarrow> \<not> replacing (g_pc s j)"
    and "dom (g_blocks s) \<subseteq> {g_shm s}" "NULL \<notin> dom (g_blocks s)"
    and "g_opened s = 0 \<or> g_opened s = 1 \<and> g_shm s \<in> dom (g_blocks s) \<and> \<not> replacing (g_pc s i)"
    and "g_pc s i \<noteq> I_Alloc" "g_pc s i = I_Clear \<longrightarrow> g_blocks s = Map.empty"
  shows "dll_inv s"
proof (rule dll_invI)
  show "g_opened s = 0" if "replacing (g_pc s j)" for j
    using that assms(1) [of j] assms(4) by (cases "j = i") auto
  show "g_shm s = NULL" if "g_pc s j = I_Alloc" for j
    using that assms(1) [of j] assms(5) by (cases "j = i") auto
  show "g_blocks s = Map.empty" if "g_pc s j = I_Clear" for j
    using that assms(1) [of j] assms(6) by (cases "j = i") auto
qed (use assms(2-4) in auto)

lemma store_turn:
  assumes "g_pc s i = I_Zero \<and> f = (\<lambda>_. shm_zero) \<and> q = I_Len \<or> g_pc s i = I_Len \<and> f = (\<lambda>b. b\<lparr>sb_len := 2048\<rparr>) \<and> q = I_Name \<or>
    g_pc s i = I_Name \<and> f = (\<lambda>b. b\<lparr>filename := SHM_CALLOUT_NAME\<rparr>) \<and> q = I_Open"
  shows "init_turn W i p junk s =
    (case block_at s of
       Inl e \<Rightarrow> s\<lparr>g_pc := (g_pc s)(i := I_Fault e)\<rparr>
     | Inr b \<Rightarrow> s\<lparr>g_blocks := (g_blocks s)(g_shm s \<mapsto> f b), g_pc := (g_pc s)(i := q)\<rparr>)"
  using assms by (elim disjE conjE) (simp_all add: init_turn_def split: sum.split)

lemma block_at_live: "NULL \<notin> dom (g_blocks s) \<Longrightarrow> block_at s = Inr b \<Longrightarrow> g_shm s \<noteq> NULL"
  by (auto simp: block_at_def split: option.splits)

lemma dll_inv_store:
  assumes "dll_inv s" "g_opened s = 0" "\<And>j. j \<noteq> i \<Longrightarrow> \<not> replacing (g_pc s j)" "q \<noteq> I_Alloc" "q \<noteq> I_Clear"
  shows "dll_inv (case block_at s of
       Inl e \<Rightarrow> s\<lparr>g_pc := (g_pc s)(i := I_Fault e)\<rparr>
     | Inr b \<Rightarrow> s\<lparr>g_blocks := (g_blocks s)(g_shm s \<mapsto> f b), g_pc := (g_pc s)(i := q)\<rparr>)"
proof (cases "block_at s")
  case (Inl e)
  then show ?thesis using assms(2,3) dll_invD(1,2) [OF assms(1)] by (simp add: dll_inv_one [of i])
next
  case (Inr b)
  then have "g_shm s \<noteq> NULL" by (rule block_at_live [OF dll_invD(2) [OF assms(1)]])
  then show ?thesis using Inr assms(2-5) dll_invD(1,2) [OF assms(1)] by (simp add: dll_inv_one [of i])
qed

lemma dll_inv_turn_replacing:
  assumes "dll_inv s" "replacing (g_pc s i)" "\<And>j. j \<noteq> i \<Longrightarrow> \<not> replacing (g_pc s j)"
  shows "dll_inv (init_turn W i p junk s)"
proof -
  note D = dll_invD [OF assms(1)]
  have zero: "g_opened s = 0" by (rule D(5) [OF assms(2)])
  note stored = dll_inv_store [OF assms(1) zero assms(3)]
  show ?thesis
  proof (cases "g_pc s i")
    case I_Alloc
    then have "g_shm s = NULL" by (rule D(6))
    then have "dom (g_blocks s) = {}" using subset_singletonD [OF D(1)] D(2) by (elim disjE) simp_all
    then have "g_blocks s = Map.empty" by simp
    then show ?thesis
      using I_Alloc zero assms(3) by (simp add: init_turn_def dll_inv_one [of i])
  next
    case I_Zero
    then show ?thesis by (subst store_turn [of s i "\<lambda>_. shm_zero" I_Len]) (simp, rule stored, simp_all)
  next
    case I_Len
    then show ?thesis by (subst store_turn [of s i "\<lambda>b. b\<lparr>sb_len := 2048\<rparr>" I_Name]) (simp, rule stored, simp_all)
  next
    case I_Name
    then show ?thesis
      by (subst store_turn [of s i "\<lambda>b. b\<lparr>filename := SHM_CALLOUT_NAME\<rparr>" I_Open]) (simp, rule stored, simp_all)
  next
    case I_Open
    show ?thesis
    proof (cases "res_bind (block_at s) (\<lambda>b. shm_init (W i) b None (g_mem s) (g_k s))")
      case (Inl e)
      then show ?thesis using I_Open zero D(1,2) assms(3) by (simp add: init_turn_def dll_inv_one [of i])
    next
      case (Inr x)
      then have "g_shm s \<noteq> NULL" using block_at_live [OF D(2)] by (auto simp: res_bind_eq_Inr)
      then show ?thesis using I_Open Inr zero D(1,2) assms(3) by (cases x) (simp add: init_turn_def dll_inv_one [of i])
    qed
  next
    case I_Free
    have "(g_blocks s)(g_shm s := None) = Map.empty"
    proof
      show "((g_blocks s)(g_shm s := None)) q = None" for q using D(1) by (cases "q = g_shm s") auto
    qed
    then show ?thesis using I_Free zero assms(3) by (simp add: init_turn_def dll_inv_one [of i])
  next
    case I_Clear
    then show ?thesis using zero D(7) [of i] assms(3) by (simp add: init_turn_def dll_inv_one [of i])
  qed (use assms(2) in simp_all)
qed

lemma dll_inv_turn:
  assumes "init_owned holds s" "dll_inv s"
  shows "dll_inv (init_turn W i p junk s)"
proof (cases "replacing (g_pc s i)")
  case True
  have "\<not> replacing (g_pc s j)" if "j \<noteq> i" for j
    using init_owned_unique [OF assms(1), of i j] replacing_crit True that by blast
  then show ?thesis by (rule dll_inv_turn_replacing [OF assms(2) True])
next
  case False
  then show ?thesis by (rule dll_inv_turn_other [OF assms(2)])
qed

lemma hook_call_cases:
  "hook_call i d s = s \<or> \<not> init_crit (g_pc s i) \<and>
     hook_call i d s = s\<lparr>g_pc := (g_pc s)(i := I_Test), g_data := (g_data s)(i := d)\<rparr>"
  by (cases "g_pc s i") (simp_all add: hook_call_def)

lemma dll_step_keeps:
  assumes "init_mutex W (l_lock (g_lock s)) holds" "l_init (g_lock s)" "init_owned holds s" "dll_inv s"
  shows "g_lock (dll_step W e s) = g_lock s" "init_owned holds (dll_step W e s)" "dll_inv (dll_step W e s)"
proof -
  have call: "g_lock (hook_call i d s) = g_lock s \<and> init_owned holds (hook_call i d s) \<and> dll_inv (hook_call i d s)" for i d
    using hook_call_cases [of i d s]
  proof
    assume c: "\<not> init_crit (g_pc s i) \<and> hook_call i d s = s\<lparr>g_pc := (g_pc s)(i := I_Test), g_data := (g_data s)(i := d)\<rparr>"
    have "dll_inv (hook_call i d s)"
      using dll_invD [OF assms(4)] by (intro dll_invI) (auto simp: c split: if_splits)
    moreover have "init_owned holds (hook_call i d s)"
      by (rule init_owned_takes [OF assms(3), of i]) (auto simp: c takes_def split: if_splits)
    ultimately show ?thesis using c by simp
  qed (use assms in simp)
  show "g_lock (dll_step W e s) = g_lock s" using call by (cases e) (simp_all add: init_turn_lock_fixed)
  show "init_owned holds (dll_step W e s)"
    using call init_owned_turn [OF assms(1-3)] by (cases e) simp_all
  show "dll_inv (dll_step W e s)" using call dll_inv_turn [OF assms(3,4)] by (cases e) simp_all
qed

lemma dll_run_Nil [simp]: "dll_run W [] s = s"
  by (simp add: dll_run_def)

lemma dll_run_Cons: "dll_run W (e # es) s = dll_run W es (dll_step W e s)"
  by (simp add: dll_run_def)

lemma dll_run_append: "dll_run W (es @ es') s = dll_run W es' (dll_run W es s)"
  by (simp add: dll_run_def)

lemma dll_run_keeps:
  assumes "init_mutex W (l_lock (g_lock s)) holds" "l_init (g_lock s)" "init_owned holds s" "dll_inv s"
  shows "g_lock (dll_run W es s) = g_lock s \<and> init_owned holds (dll_run W es s) \<and> dll_inv (dll_run W es s)"
  using assms
proof (induction es arbitrary: s)
  case (Cons e es)
  note k = dll_step_keeps [OF Cons.prems, of e]
  show ?case unfolding dll_run_Cons using Cons.IH [of "dll_step W e s"] Cons.prems k by simp
qed simp

text \<open>Once a block is open, nobody replaces it.\<close>

lemma opened_step:
  assumes "dll_inv s" "g_opened s = 1"
  shows "g_shm (dll_step W e s) = g_shm s \<and> g_blocks (dll_step W e s) = g_blocks s \<and> g_opened (dll_step W e s) = 1"
proof (cases e)
  case (Hook i d)
  then show ?thesis using hook_call_cases [of i d s] assms(2) by auto
next
  case (Turn i p junk)
  have "\<not> replacing (g_pc s i)" using dll_invD(5) [OF assms(1), of i] assms(2) by auto
  then show ?thesis using init_turn_blocks [of s i W p junk] assms(2) Turn by simp
qed

lemma opened_run:
  assumes "init_mutex W (l_lock (g_lock s)) holds" "l_init (g_lock s)" "init_owned holds s" "dll_inv s" "g_opened s = 1"
  shows "g_shm (dll_run W es s) = g_shm s \<and> g_blocks (dll_run W es s) = g_blocks s \<and> g_opened (dll_run W es s) = 1"
  using assms
proof (induction es arbitrary: s)
  case (Cons e es)
  note k = dll_step_keeps [OF Cons.prems(1-4), of e] and o = opened_step [OF Cons.prems(4,5), of W e]
  show ?case unfolding dll_run_Cons using Cons.IH [of "dll_step W e s"] Cons.prems k o by simp
qed simp

lemma dll_start_inv:
  assumes "holds k = (\<lambda>_. 0)"
  shows "init_owned holds (dll_start k m lk)" "dll_inv (dll_start k m lk)"
  using assms by (simp_all add: init_owned_def dll_inv_def dll_start_def)

end
