(* ===== verification/Init_Race_Props.thy ===== *)
theory Init_Race_Props
  imports Init_Race
begin

text \<open>
  What holds of the initialisation in every interleaving (theory \<open>Init_Race\<close>): uninterrupted, the
  steps are \<open>InitSHM\<close>; the lock keeps two threads from opening the channel at the same time or
  twice; and what the lock does not prevent, because the global is tested and used outside it.
\<close>

section \<open>A call with nobody in between\<close>

text \<open>The global of \<open>Callout_Hook\<close> read off the pointer and the heap.\<close>

definition the_shm :: "'k dll \<Rightarrow> shm_block option" where
  "the_shm s = (if g_shm s = NULL then None else g_blocks s (g_shm s))"

text \<open>What \<open>InitSHM\<close> leaves behind: where thread \<open>i\<close> goes on, the kernel, the views, the global.\<close>

definition init_result :: "'k dll \<Rightarrow> nat \<Rightarrow> bool \<Rightarrow> shm_block option \<Rightarrow> mem \<Rightarrow> 'k \<Rightarrow> 'k dll \<Rightarrow> bool" where
  "init_result s i ok b m k s' \<longleftrightarrow>
     g_pc s' = (g_pc s)(i := if ok then I_Write else I_Done False) \<and> the_shm s' = b \<and> g_mem s' = m \<and> g_k s' = k"

lemma run_Suc: "dll_run W (replicate (Suc n) e) s = dll_run W (replicate n e) (dll_step W e s)"
  by (simp add: dll_run_Cons)

text \<open>The statements from \<open>malloc\<close> to \<open>shm_init_client\<close> build the block of \<open>Callout_Hook\<close>.\<close>

lemma init_builds:
  assumes "g_pc s i = I_Again" "g_shm s = NULL" "p \<noteq> NULL" "g_blocks s p = None"
  shows "dll_run W (replicate 5 (Turn i p junk)) s =
    s\<lparr>g_shm := p, g_blocks := (g_blocks s)(p \<mapsto> fresh_shm), g_pc := (g_pc s)(i := I_Open)\<rparr>"
proof -
  let ?at = "\<lambda>q x. s\<lparr>g_shm := p, g_blocks := (g_blocks s)(p \<mapsto> x), g_pc := (g_pc s)(i := q)\<rparr>"
  have again: "init_turn W i p junk s = s\<lparr>g_pc := (g_pc s)(i := I_Alloc)\<rparr>" using assms(1,2) by (simp add: init_turn_def)
  have alloc: "init_turn W i p junk (s\<lparr>g_pc := (g_pc s)(i := I_Alloc)\<rparr>) = ?at I_Zero junk"
    using assms(3,4) by (simp add: init_turn_def dom_def)
  have fill: "init_turn W i p junk (?at I_Zero x) = ?at I_Len shm_zero"
    "init_turn W i p junk (?at I_Len x) = ?at I_Name (x\<lparr>sb_len := 2048\<rparr>)"
    "init_turn W i p junk (?at I_Name x) = ?at I_Open (x\<lparr>filename := SHM_CALLOUT_NAME\<rparr>)" for x
    by (simp_all add: init_turn_def block_at_def)
  have five: "(5 :: nat) = Suc (Suc (Suc (Suc (Suc 0))))" by simp
  show ?thesis unfolding five fresh_shm_def by (simp only: run_Suc dll_step.simps again alloc fill) simp
qed

lemma init_finishes:
  assumes "g_pc s i = I_Open" "g_shm s = p" "g_blocks s p = Some fresh_shm" "p \<noteq> NULL"
    and "shm_init (W i) fresh_shm None (g_mem s) (g_k s) = Inr (r, blk, m, k2)"
  shows "\<exists>n s'. dll_run W (replicate n (Turn i p junk)) s = s' \<and>
    init_result s i True (if FAILED r then None else Some blk) m (snd (lock_release (W i) (Some (g_lock s)) k2)) s'"
proof -
  let ?s1 = "init_turn W i p junk s"
  have s1: "?s1 = s\<lparr>g_k := k2, g_mem := m, g_blocks := (g_blocks s)(p \<mapsto> blk),
      g_opened := g_opened s + (if FAILED r then 0 else 1), g_pc := (g_pc s)(i := if FAILED r then I_Free else I_Release)\<rparr>"
    using assms by (simp add: init_turn_def block_at_def)
  show ?thesis
  proof (cases "FAILED r")
    case True
    have "init_result s i True None m (snd (lock_release (W i) (Some (g_lock s)) k2))
        (init_turn W i p junk (init_turn W i p junk (init_turn W i p junk ?s1)))"
      unfolding s1 using True by (simp add: init_turn_def init_result_def the_shm_def)
    then show ?thesis using True
      by (intro exI [of _ "Suc (Suc (Suc (Suc 0)))"] exI conjI [OF refl]) (simp only: run_Suc dll_step.simps, simp)
  next
    case False
    have "init_result s i True (Some blk) m (snd (lock_release (W i) (Some (g_lock s)) k2)) (init_turn W i p junk ?s1)"
      unfolding s1 using False assms(2,4) by (simp add: init_turn_def init_result_def the_shm_def)
    then show ?thesis using False
      by (intro exI [of _ "Suc (Suc 0)"] exI conjI [OF refl]) (simp only: run_Suc dll_step.simps, simp)
  qed
qed

lemma init_alone:
  assumes "g_pc s i = I_Test" "g_shm s = NULL \<or> g_blocks s (g_shm s) \<noteq> None" "p \<noteq> NULL" "g_blocks s p = None"
    and "ch_shm C = the_shm s" "shm_init_lock C = g_lock s"
    and "InitSHM (W i) id C (g_mem s) (g_k s) = Inr (ok, C', m', k')"
  shows "\<exists>n s'. dll_run W (replicate n (Turn i p junk)) s = s' \<and> init_result s i ok (ch_shm C') m' k' s'"
proof (cases "g_shm s = NULL")
  case False
  then have "ch_shm C \<noteq> None" using assms(2,5) by (auto simp: the_shm_def)
  then have r: "ok \<and> C' = C \<and> m' = g_mem s \<and> k' = g_k s" using assms(7) by (auto simp: InitSHM_def)
  have "init_result s i ok (ch_shm C') m' k' (init_turn W i p junk s)"
    using assms(1,5) False r by (simp add: init_turn_def init_result_def the_shm_def)
  then show ?thesis by (intro exI [of _ "Suc 0"] exI conjI [OF refl]) (simp add: dll_run_Cons)
next
  case True
  then have none: "ch_shm C = None" using assms(5) by (simp add: the_shm_def)
  obtain b k1 where w: "lock_wait (W i) (Some (g_lock s)) 50000 (g_k s) = Inr (b, k1)" by (rule lock_wait_total)
  let ?s1 = "s\<lparr>g_k := k1, g_pc := (g_pc s)(i := if b then I_Again else I_Done False)\<rparr>"
  have two: "dll_run W (replicate (Suc (Suc n)) (Turn i p junk)) s = dll_run W (replicate n (Turn i p junk)) ?s1" for n
    using assms(1) True w by (simp only: run_Suc dll_step.simps) (simp add: init_turn_def)
  show ?thesis
  proof (cases b)
    case False
    then have "\<not> ok \<and> C' = C \<and> m' = g_mem s \<and> k' = k1" using assms(6,7) none w by (simp add: InitSHM_def)
    then have "init_result s i ok (ch_shm C') m' k' ?s1" using False True none by (simp add: init_result_def the_shm_def)
    then show ?thesis using two [of 0] by (intro exI [of _ "Suc (Suc 0)"] exI conjI [OF refl]) simp
  next
    case b: True
    obtain r blk k2 where o: "shm_init (W i) fresh_shm None (g_mem s) k1 = Inr (r, blk, m', k2)"
      and C': "C' = (if FAILED r then C\<lparr>ch_shm := None\<rparr> else C\<lparr>ch_shm := Some blk\<rparr>)"
      and k': "k' = snd (lock_release (W i) (Some (g_lock s)) k2)" and ok
      using assms(6,7) none w b by (auto simp: InitSHM_def Let_def res_bind_eq_Inr)
    let ?s2 = "?s1\<lparr>g_shm := p, g_blocks := (g_blocks s)(p \<mapsto> fresh_shm), g_pc := (g_pc s)(i := I_Open)\<rparr>"
    have s2: "dll_run W (replicate 5 (Turn i p junk)) ?s1 = ?s2"
      using init_builds [of ?s1 i p W junk] b True assms(3,4) by simp
    obtain n s' where n: "dll_run W (replicate n (Turn i p junk)) ?s2 = s'"
      "init_result ?s2 i True (if FAILED r then None else Some blk) m' k' s'"
      using init_finishes [of ?s2 i p W r blk m' k2 junk] assms(3) o k' by auto
    have "dll_run W (replicate (Suc (Suc (5 + n))) (Turn i p junk)) s = s'"
      unfolding two using s2 n(1) by (simp only: replicate_add dll_run_append)
    moreover have "init_result s i ok (ch_shm C') m' k' s'" using n(2) \<open>ok\<close> C' by (auto simp: init_result_def)
    ultimately show ?thesis by blast
  qed
qed

section \<open>A lock that is kept\<close>

text \<open>
  A thread that leaves by the second test does not release the lock: it owns it, is outside the
  section, and will not enter it again, because the channel is open.
\<close>

definition leaked :: "('k \<Rightarrow> nat \<Rightarrow> nat) \<Rightarrow> nat \<Rightarrow> 'k dll \<Rightarrow> bool" where
  "leaked holds i s \<longleftrightarrow> 0 < holds (g_k s) i \<and> g_opened s = 1 \<and> g_pc s i \<noteq> I_Lock \<and> \<not> init_crit (g_pc s i)"

lemma takes_keeps: "takes holds j k k1 \<Longrightarrow> 0 < holds k i \<Longrightarrow> 0 < holds k1 i"
  by (cases "i = j") (auto simp: takes_def)

lemma leaked_step:
  assumes "init_mutex W (l_lock (g_lock s)) holds" "l_init (g_lock s)" "init_owned holds s" "dll_inv s" "leaked holds i s"
  shows "leaked holds i (dll_step W e s)"
proof (cases e)
  case (Hook j d)
  then show ?thesis using assms(5) hook_call_cases [of j d s] by (auto simp: leaked_def split: if_splits)
next
  case (Turn j p junk)
  have opn: "g_shm s \<noteq> NULL" "g_opened (dll_step W e s) = 1"
    using assms(4,5) dll_invD(2,4) [OF assms(4)] opened_step [OF assms(4), of W e] by (auto simp: leaked_def)
  have "g_pc s j \<noteq> I_Release"
  proof
    assume "g_pc s j = I_Release"
    then have "init_crit (g_pc s j)" by simp
    then have "j = i" using assms(3,5) unfolding init_owned_def leaked_def by blast
    then show False using assms(5) \<open>init_crit (g_pc s j)\<close> by (simp add: leaked_def)
  qed
  from takes_keeps [OF init_turn_takes [OF assms(1) this]]
  have "0 < holds (g_k (init_turn W j p junk s)) i" using assms(5) by (simp add: leaked_def)
  moreover have "g_pc (init_turn W j p junk s) i \<noteq> I_Lock \<and> \<not> init_crit (g_pc (init_turn W j p junk s) i)"
  proof (cases "j = i")
    case True
    then show ?thesis
      using assms(5) opn(1)
      by (cases "g_pc s i") (auto simp: leaked_def init_turn_def Let_def split: sum.split)
  next
    case False
    then show ?thesis using assms(5) init_turn_others [of i j W p junk s] by (simp add: leaked_def)
  qed
  ultimately show ?thesis using opn(2) Turn by (simp add: leaked_def)
qed

lemma leaked_run:
  assumes "init_mutex W (l_lock (g_lock s)) holds" "l_init (g_lock s)" "init_owned holds s" "dll_inv s" "leaked holds i s"
  shows "leaked holds i (dll_run W es s)"
  using assms
proof (induction es arbitrary: s)
  case (Cons e es)
  note k = dll_step_keeps [OF Cons.prems(1-4), of e]
  show ?case unfolding dll_run_Cons using Cons.IH [of "dll_step W e s"] Cons.prems k leaked_step [OF Cons.prems] by simp
qed simp

section \<open>A kernel with the initialisation lock\<close>

text \<open>
  For evaluation: handle 5 is the initialisation lock with its owner and the
  number of times it was taken again, the other objects
  are always free. \<open>gk_map\<close> says whether the monitor has created its mapping, which is mapped at
  address 9.
\<close>

record gate_kernel =
  gk_owner :: "nat option"
  gk_count :: nat
  gk_map :: bool

definition gate_wait :: "nat \<Rightarrow> handle \<Rightarrow> dword \<Rightarrow> gate_kernel \<Rightarrow> dword \<times> gate_kernel" where
  "gate_wait u h t k =
     (if h = 5 then
        (case gk_owner k of
           None \<Rightarrow> (WAIT_OBJECT_0, k\<lparr>gk_owner := Some u, gk_count := 0\<rparr>)
         | Some v \<Rightarrow> (if v = u then (WAIT_OBJECT_0, k\<lparr>gk_count := gk_count k + 1\<rparr>) else (WAIT_TIMEOUT, k)))
      else (WAIT_OBJECT_0, k))"

definition gate_release :: "nat \<Rightarrow> handle \<Rightarrow> gate_kernel \<Rightarrow> bool \<times> gate_kernel" where
  "gate_release u h k =
     (if h = 5 then
        (if gk_owner k = Some u then
           (True, k\<lparr>gk_owner := (if gk_count k = 0 then None else Some u), gk_count := gk_count k - 1\<rparr>)
         else (False, k))
      else (True, k))"

definition gate_win32 :: "nat \<Rightarrow> gate_kernel win32" where
  "gate_win32 u = \<lparr>
     WaitForSingleObject = gate_wait u,
     CreateMutex = (\<lambda>_ k. (5, k)), CreateMutexEx = (\<lambda>_ _ k. (6, k)),
     ReleaseMutex = gate_release u, CloseHandle = (\<lambda>_ k. k),
     CreateEvent = (\<lambda>k. (7, k)), CreateEventEx = (\<lambda>_ _ k. (7, k)), SetEvent = (\<lambda>_ k. (True, k)),
     InitializeSRWLock = (\<lambda>_ k. k), AcquireSRWLockShared = (\<lambda>_ k. k), ReleaseSRWLockShared = (\<lambda>_ k. k),
     AcquireSRWLockExclusive = (\<lambda>_ k. k), ReleaseSRWLockExclusive = (\<lambda>_ k. k),
     OpenProcessToken = (\<lambda>k. (None, k)), LookupPrivilegeValue = (\<lambda>k. k), AdjustTokenPrivileges = (\<lambda>_ k. (True, k)),
     AllocateAndInitializeSid = (\<lambda>_ _ k. (None, k)), SetEntriesInAcl = (\<lambda>_ k. ((ERROR_SUCCESS, NULL), k)),
     LocalAlloc = (\<lambda>k. (NULL, k)), InitializeSecurityDescriptor = (\<lambda>_ k. (True, k)),
     SetSecurityDescriptorDacl = (\<lambda>_ _ k. (True, k)), FreeSid = (\<lambda>_ k. k), LocalFree = (\<lambda>_ k. k),
     CreateFileMapping = (\<lambda>_ _ _ k. (NULL, k)), OpenFileMapping = (\<lambda>_ k. (if gk_map k then 3 else NULL, k)),
     MapViewOfFile = (\<lambda>_ _ k. (9, k)), UnmapViewOfFile = (\<lambda>_ k. k) \<rparr>"

definition gate_holds :: "gate_kernel \<Rightarrow> nat \<Rightarrow> nat" where
  "gate_holds k u = (if gk_owner k = Some u then gk_count k + 1 else 0)"

definition gate_start :: "bool \<Rightarrow> gate_kernel" where
  "gate_start b = \<lparr>gk_owner = None, gk_count = 0, gk_map = b\<rparr>"

definition gate_lock :: lock where
  "gate_lock = \<lparr>l_init = True, l_lock = 5\<rparr>"

definition gate_mem :: mem where
  "gate_mem = [9 \<mapsto> \<lparr>v_lockdef = \<lparr>lockname = ''m'', esndname = ''s'', eackname = []\<rparr>, v_data = [0, 0, 0, 0]\<rparr>]"

definition gate_init :: "bool \<Rightarrow> gate_kernel dll" where
  "gate_init b = dll_start (gate_start b) gate_mem gate_lock"

lemmas gate_defs = gate_wait_def gate_release_def gate_win32_def gate_start_def gate_lock_def gate_mem_def gate_init_def
  WAIT_OBJECT_0_def WAIT_TIMEOUT_def WAIT_ABANDONED_def

lemma gate_mutex: "init_mutex gate_win32 (l_lock gate_lock) gate_holds"
  unfolding init_mutex_def gate_lock_def lock.simps
proof (intro conjI allI impI)
  fix u t k r k1
  assume "WaitForSingleObject (gate_win32 u) 5 t k = (r, k1)"
  then show "if r = WAIT_OBJECT_0 \<or> r = WAIT_ABANDONED
      then (\<forall>v. v \<noteq> u \<longrightarrow> gate_holds k v = 0) \<and> gate_holds k1 = (gate_holds k)(u := gate_holds k u + 1)
      else gate_holds k1 = gate_holds k"
    by (auto simp: gate_win32_def gate_wait_def gate_holds_def fun_eq_iff WAIT_OBJECT_0_def WAIT_TIMEOUT_def WAIT_ABANDONED_def
        split: option.splits if_splits)
qed (auto simp: gate_win32_def gate_wait_def gate_release_def gate_holds_def fun_eq_iff)

text \<open>The statements one by one, for evaluation.\<close>

lemma init_turn_at:
  "g_pc s i = I_Test \<Longrightarrow> init_turn W i p junk s = s\<lparr>g_pc := (g_pc s)(i := if g_shm s \<noteq> NULL then I_Write else I_Lock)\<rparr>"
  "g_pc s i = I_Lock \<Longrightarrow> init_turn W i p junk s =
     (case lock_wait (W i) (Some (g_lock s)) 50000 (g_k s) of
        Inl e \<Rightarrow> s\<lparr>g_pc := (g_pc s)(i := I_Fault e)\<rparr>
      | Inr (ok, k1) \<Rightarrow> s\<lparr>g_k := k1, g_pc := (g_pc s)(i := if ok then I_Again else I_Done False)\<rparr>)"
  "g_pc s i = I_Again \<Longrightarrow> init_turn W i p junk s = s\<lparr>g_pc := (g_pc s)(i := if g_shm s \<noteq> NULL then I_Write else I_Alloc)\<rparr>"
  "g_pc s i = I_Alloc \<Longrightarrow> p \<noteq> NULL \<Longrightarrow> p \<notin> dom (g_blocks s) \<Longrightarrow> init_turn W i p junk s =
     s\<lparr>g_shm := p, g_blocks := (g_blocks s)(p \<mapsto> junk), g_pc := (g_pc s)(i := I_Zero)\<rparr>"
  "g_pc s i = I_Zero \<Longrightarrow> block_at s = Inr b \<Longrightarrow> init_turn W i p junk s =
     s\<lparr>g_blocks := (g_blocks s)(g_shm s \<mapsto> shm_zero), g_pc := (g_pc s)(i := I_Len)\<rparr>"
  "g_pc s i = I_Len \<Longrightarrow> block_at s = Inr b \<Longrightarrow> init_turn W i p junk s =
     s\<lparr>g_blocks := (g_blocks s)(g_shm s \<mapsto> b\<lparr>sb_len := 2048\<rparr>), g_pc := (g_pc s)(i := I_Name)\<rparr>"
  "g_pc s i = I_Name \<Longrightarrow> block_at s = Inr b \<Longrightarrow> init_turn W i p junk s =
     s\<lparr>g_blocks := (g_blocks s)(g_shm s \<mapsto> b\<lparr>filename := SHM_CALLOUT_NAME\<rparr>), g_pc := (g_pc s)(i := I_Open)\<rparr>"
  "g_pc s i = I_Open \<Longrightarrow> res_bind (block_at s) (\<lambda>b. shm_init (W i) b None (g_mem s) (g_k s)) = Inr (r, c, m, k1) \<Longrightarrow>
     init_turn W i p junk s =
       s\<lparr>g_k := k1, g_mem := m, g_blocks := (g_blocks s)(g_shm s \<mapsto> c), g_opened := g_opened s + (if FAILED r then 0 else 1),
         g_pc := (g_pc s)(i := if FAILED r then I_Free else I_Release)\<rparr>"
  "g_pc s i = I_Free \<Longrightarrow> init_turn W i p junk s =
     s\<lparr>g_blocks := (g_blocks s)(g_shm s := None), g_pc := (g_pc s)(i := I_Clear)\<rparr>"
  "g_pc s i = I_Clear \<Longrightarrow> init_turn W i p junk s = s\<lparr>g_shm := NULL, g_pc := (g_pc s)(i := I_Release)\<rparr>"
  "g_pc s i = I_Release \<Longrightarrow> init_turn W i p junk s =
     s\<lparr>g_k := snd (lock_release (W i) (Some (g_lock s)) (g_k s)), g_pc := (g_pc s)(i := I_Write)\<rparr>"
  by (simp_all add: init_turn_def Let_def split: sum.split)

section \<open>Properties\<close>

text \<open>C12. The channel is opened at most once. Let any number of hooks run \<open>InitSHM\<close> and write, in any
  interleaving of its statements, with a mutex that behaves as documented. Then no two threads
  are between taking and releasing the initialisation lock, at most one block is allocated and
  the global points to it, and at most one block was ever opened; from then on the global and the
  block stay what they are, whatever the threads go on to do.\<close>

theorem channel_opened_once:
  assumes "init_mutex W (l_lock lk) holds" "l_init lk" "holds k = (\<lambda>_. 0)" "s = dll_run W es (dll_start k m lk)"
  shows "(\<forall>i j. init_crit (g_pc s i) \<longrightarrow> init_crit (g_pc s j) \<longrightarrow> i = j) \<and>
    dom (g_blocks s) \<subseteq> {g_shm s} \<and> NULL \<notin> dom (g_blocks s) \<and> g_opened s \<le> 1 \<and>
    (g_opened s = 1 \<longrightarrow> g_shm s \<in> dom (g_blocks s) \<and>
       (\<forall>es'. g_shm (dll_run W es' s) = g_shm s \<and> g_blocks (dll_run W es' s) = g_blocks s \<and> g_opened (dll_run W es' s) = 1))"
proof -
  let ?s = "dll_start k m lk"
  have lk: "g_lock ?s = lk" by (simp add: dll_start_def)
  have k: "g_lock s = lk" "init_owned holds s" "dll_inv s"
    using dll_run_keeps [of W ?s holds es] dll_start_inv [where holds = holds, OF assms(3)] assms(1,2,4) lk by simp_all
  have "\<forall>es'. g_shm (dll_run W es' s) = g_shm s \<and> g_blocks (dll_run W es' s) = g_blocks s \<and> g_opened (dll_run W es' s) = 1"
    if "g_opened s = 1"
    using opened_run [of W s holds] k assms(1,2) that by simp
  then show ?thesis using init_owned_unique [OF k(2)] dll_invD(1-4) [OF k(3)] by blast
qed

theorem channel_opened_once_witness:
  "\<exists>s. s = dll_run gate_win32 [Hook 0 [1], Hook 1 [2], Turn 0 1 shm_zero, Turn 1 1 shm_zero, Turn 0 1 shm_zero, Turn 1 1 shm_zero]
       (dll_start (gate_start True) gate_mem gate_lock) \<and>
     (\<forall>i j. init_crit (g_pc s i) \<longrightarrow> init_crit (g_pc s j) \<longrightarrow> i = j) \<and> g_opened s \<le> 1 \<and>
     g_pc s 0 = I_Again \<and> g_pc s 1 = I_Done False"
proof -
  let ?es = "[Hook 0 [1], Hook 1 [2], Turn 0 1 shm_zero, Turn 1 1 shm_zero, Turn 0 1 shm_zero, Turn 1 1 shm_zero]"
  have free: "gate_holds (gate_start True) = (\<lambda>_. 0)" by (simp add: fun_eq_iff gate_holds_def gate_start_def)
  have init: "l_init gate_lock" by (simp add: gate_lock_def)
  let ?s = "dll_run gate_win32 ?es (dll_start (gate_start True) gate_mem gate_lock)"
  have "(\<forall>i j. init_crit (g_pc ?s i) \<longrightarrow> init_crit (g_pc ?s j) \<longrightarrow> i = j) \<and> g_opened ?s \<le> 1"
    using channel_opened_once [OF gate_mutex init free refl, of ?es gate_mem] by blast
  moreover have "g_pc ?s 0 = I_Again \<and> g_pc ?s 1 = I_Done False"
    by (simp add: dll_run_Cons hook_call_def init_turn_at dll_start_def lock_wait_def gate_defs)
  ultimately show ?thesis by blast
qed

text \<open>C17. The statements are the function: with nobody in between, and with memory from \<open>malloc\<close>, the
  thread goes on as \<open>InitSHM\<close> returns, to the write after \<open>TRUE\<close> and to the end after \<open>FALSE\<close>, and
  leaves the kernel, the views and the global as the function does.\<close>

theorem init_steps_are_InitSHM:
  assumes "g_pc s i = I_Test" "g_shm s = NULL \<or> g_blocks s (g_shm s) \<noteq> None" "p \<noteq> NULL" "g_blocks s p = None"
    and "ch_shm C = the_shm s" "shm_init_lock C = g_lock s"
    and "InitSHM (W i) id C (g_mem s) (g_k s) = Inr (ok, C', m', k')"
  shows "\<exists>n s'. dll_run W (replicate n (Turn i p junk)) s = s' \<and> g_k s' = k' \<and> g_mem s' = m' \<and> the_shm s' = ch_shm C' \<and>
    g_pc s' = (g_pc s)(i := if ok then I_Write else I_Done False)"
  using init_alone [where W = W, OF assms, of junk] by (auto simp: init_result_def)

theorem init_steps_are_InitSHM_witness:
  "\<exists>n s' k'. dll_run gate_win32 (replicate n (Turn 0 1 shm_zero)) (hook_call 0 [1] (gate_init False)) = s' \<and> g_k s' = k' \<and>
    g_mem s' = gate_mem \<and> the_shm s' = None \<and> g_pc s' = (\<lambda>_. I_Idle)(0 := I_Write)"
proof -
  let ?s = "hook_call 0 [1] (gate_init False)"
  let ?C = "\<lparr>ch_shm = None, shm_init_lock = gate_lock, ch_acl = NULL, outfile = NULL\<rparr>"
  have s: "g_pc ?s 0 = I_Test" "g_shm ?s = NULL" "g_blocks ?s 1 = None" "the_shm ?s = None" "g_lock ?s = gate_lock"
    "g_mem ?s = gate_mem" "g_k ?s = gate_start False" "g_pc ?s = (\<lambda>_. I_Idle)(0 := I_Test)"
    by (simp_all add: gate_init_def hook_call_def dll_start_def the_shm_def)
  have "\<exists>k'. InitSHM (gate_win32 0) id ?C gate_mem (gate_start False) = Inr (True, ?C, gate_mem, k')"
    using InitSHM_no_mapping [of ?C "gate_win32 0" "gate_start False" "(gate_start False)\<lparr>gk_owner := Some 0\<rparr>" _ gate_mem]
    by (simp add: gate_defs shm_enable_privileges_def)
  then obtain k' where "InitSHM (gate_win32 0) id ?C (g_mem ?s) (g_k ?s) = Inr (True, ?C, gate_mem, k')" using s by auto
  from init_steps_are_InitSHM [where W = gate_win32, OF s(1) _ _ s(3) _ _ this, of shm_zero] show ?thesis using s(2,4,5,8) by auto
qed

text \<open>C15. The second test keeps the lock: when a thread finds the channel open after it has got the
  lock, then from there on every other thread that is still waiting for the lock gives up when
  its wait ends, and its hook drops the message although the channel is open.\<close>

theorem second_test_blocks_others:
  assumes "init_mutex W (l_lock lk) holds" "l_init lk" "holds k = (\<lambda>_. 0)" "s = dll_run W es (dll_start k m lk)"
    and "g_opened s = 1" "g_pc s i = I_Again" "t = dll_run W (Turn i p junk # es') s" "j \<noteq> i" "g_pc t j = I_Lock"
  shows "g_pc (dll_run W [Turn j p' junk'] t) j = I_Done False \<and> g_sent (dll_run W [Turn j p' junk'] t) = g_sent t \<and>
    g_shm t \<in> dom (g_blocks t)"
proof -
  let ?s = "dll_start k m lk" and ?u = "init_turn W i p junk s"
  have lk: "g_lock ?s = lk" by (simp add: dll_start_def)
  have k: "g_lock s = lk" "init_owned holds s" "dll_inv s"
    using dll_run_keeps [of W ?s holds es] dll_start_inv [where holds = holds, OF assms(3)] assms(1,2,4) lk by simp_all
  have u: "g_lock ?u = lk" "init_owned holds ?u" "dll_inv ?u"
    using dll_step_keeps [of W s holds "Turn i p junk"] k assms(1,2) by simp_all
  have "g_shm s \<noteq> NULL" using dll_invD(2,4) [OF k(3)] assms(5) by auto
  then have "?u = s\<lparr>g_pc := (g_pc s)(i := I_Write)\<rparr>" using assms(6) by (simp add: init_turn_def)
  moreover have "0 < holds (g_k s) i" using k(2) assms(6) unfolding init_owned_def by (metis init_crit_simps(7))
  ultimately have "leaked holds i ?u" using assms(5) by (simp add: leaked_def)
  then have l: "leaked holds i t" and o: "dll_inv t" "g_lock t = lk"
    using leaked_run [of W ?u holds i es'] dll_run_keeps [of W ?u holds es'] u assms(1,2,7) by (simp_all add: dll_run_Cons)
  obtain ok k1 where w: "lock_wait (W j) (Some lk) 50000 (g_k t) = Inr (ok, k1)" by (rule lock_wait_total)
  have "\<not> ok"
    using lock_wait_granted [OF assms(1), of j 50000 "g_k t" k1] w l assms(8) by (auto simp: leaked_def)
  then show ?thesis
    using w o assms(9) dll_invD(4) [OF o(1)] l by (simp add: dll_run_Cons init_turn_def leaked_def)
qed

text \<open>
  Three hooks: all pass the first test, the first one opens the channel, the second one gets the
  lock after it.
\<close>

definition turns :: "nat \<Rightarrow> nat \<Rightarrow> dll_event list" where
  "turns i n = replicate n (Turn i 1 shm_zero)"

definition three_hooks :: "dll_event list" where
  "three_hooks = [Hook 0 [1], Hook 1 [2], Hook 2 [3]] @ turns 0 1 @ turns 1 1 @ turns 2 1 @ turns 0 8 @ turns 1 1"

definition open_block :: shm_block where
  "open_block = fresh_shm\<lparr>mapfile := 3, sb_lockdef := 9, sb_data := 9, sb_lock := \<lparr>l_init = True, l_lock = 6\<rparr>, esnd := 7\<rparr>"

lemma gate_opens:
  "shm_init (gate_win32 i) fresh_shm None gate_mem (k\<lparr>gk_map := True\<rparr>) = Inr (SHM_OK, open_block, gate_mem, k\<lparr>gk_map := True\<rparr>)"
  by (simp add: shm_init_def shm_enable_privileges_def shm_init_objects_def gate_win32_def gate_mem_def view_at_def
      lock_init_ex_def SHM_LOCK_NONE_def open_block_def fresh_shm_def shm_zero_def)

lemma three_hooks_run:
  "dll_run gate_win32 three_hooks (gate_init True) =
     (gate_init True)\<lparr>g_k := (gate_start True)\<lparr>gk_owner := Some 1\<rparr>, g_shm := 1, g_blocks := [1 \<mapsto> open_block],
       g_data := (\<lambda>_. [])(0 := [1], 1 := [2], 2 := [3]), g_opened := 1,
       g_pc := (\<lambda>_. I_Idle)(0 := I_Write, 1 := I_Again, 2 := I_Lock)\<rparr>"
proof -
  let ?at = "\<lambda>w b n p. \<lparr>g_k = \<lparr>gk_owner = w, gk_count = 0, gk_map = True\<rparr>, g_mem = gate_mem, g_shm = (if b = Map.empty then NULL else 1),
      g_blocks = b, g_lock = gate_lock, g_pc = p, g_data = (\<lambda>_. [])(0 := [1], 1 := [2], 2 := [3]), g_opened = n, g_sent = []\<rparr>"
  let ?pc = "\<lambda>p q. (\<lambda>_. I_Idle)(0 := p, 1 := q, 2 := I_Lock)"
  have eight: "turns 0 8 = turns 0 1 @ turns 0 5 @ turns 0 2" unfolding turns_def replicate_add [symmetric] by simp
  have a: "dll_run gate_win32 ([Hook 0 [1], Hook 1 [2], Hook 2 [3]] @ turns 0 1 @ turns 1 1 @ turns 2 1 @ turns 0 1) (gate_init True) =
      ?at (Some 0) Map.empty 0 (?pc I_Again I_Lock)"
    by (simp add: turns_def dll_run_Cons hook_call_def init_turn_at gate_init_def dll_start_def lock_wait_def gate_win32_def
        gate_wait_def gate_lock_def gate_start_def fun_upd_twist)
  have b: "dll_run gate_win32 (turns 0 5) (?at (Some 0) Map.empty 0 (?pc I_Again I_Lock)) =
      ?at (Some 0) [1 \<mapsto> fresh_shm] 0 (?pc I_Open I_Lock)"
    unfolding turns_def by (subst init_builds) (simp_all add: fun_upd_twist)
  have c: "dll_run gate_win32 (turns 0 2) (?at (Some 0) [1 \<mapsto> fresh_shm] 0 (?pc I_Open I_Lock)) =
      ?at None [1 \<mapsto> open_block] 1 (?pc I_Write I_Lock)"
    using gate_opens [of 0 "\<lparr>gk_owner = Some 0, gk_count = 0, gk_map = True\<rparr>"]
    by (simp add: turns_def numeral_2_eq_2 dll_run_Cons init_turn_at block_at_def SHM_OK_def FAILED_def lock_release_def
        gate_win32_def gate_release_def gate_lock_def fun_upd_twist)
  have d: "dll_run gate_win32 (turns 1 1) (?at None [1 \<mapsto> open_block] 1 (?pc I_Write I_Lock)) =
      ?at (Some 1) [1 \<mapsto> open_block] 1 (?pc I_Write I_Again)"
    by (simp add: turns_def dll_run_Cons init_turn_at lock_wait_def gate_win32_def gate_wait_def gate_lock_def fun_upd_twist)
  let ?pre = "[Hook 0 [1], Hook 1 [2], Hook 2 [3]] @ turns 0 1 @ turns 1 1 @ turns 2 1 @ turns 0 1"
  have "dll_run gate_win32 (?pre @ turns 0 5 @ turns 0 2 @ turns 1 1) (gate_init True) =
      ?at (Some 1) [1 \<mapsto> open_block] 1 (?pc I_Write I_Again)"
    unfolding dll_run_append [of _ ?pre] dll_run_append [of _ "turns 0 5"] dll_run_append [of _ "turns 0 2"] a b c d ..
  moreover have "three_hooks = ?pre @ turns 0 5 @ turns 0 2 @ turns 1 1" by (simp add: three_hooks_def eight)
  ultimately show ?thesis by (simp add: gate_init_def dll_start_def gate_start_def)
qed

theorem second_test_blocks_others_witness:
  "let s = dll_run gate_win32 three_hooks (dll_start (gate_start True) gate_mem gate_lock);
       t = dll_run gate_win32 (Turn 1 1 shm_zero # []) s in
   g_pc s 1 = I_Again \<and> g_pc t 2 = I_Lock \<and> g_pc (dll_run gate_win32 [Turn 2 1 shm_zero] t) 2 = I_Done False \<and>
   g_shm t \<in> dom (g_blocks t)"
proof -
  let ?s = "dll_run gate_win32 three_hooks (dll_start (gate_start True) gate_mem gate_lock)"
  have run: "?s = dll_run gate_win32 three_hooks (gate_init True)" by (simp add: gate_init_def)
  have s: "g_opened ?s = 1" "g_pc ?s 1 = I_Again" "g_pc ?s = (\<lambda>_. I_Idle)(0 := I_Write, 1 := I_Again, 2 := I_Lock)" "g_shm ?s = 1"
    unfolding run three_hooks_run by simp_all
  have free: "gate_holds (gate_start True) = (\<lambda>_. 0)" by (simp add: fun_eq_iff gate_holds_def gate_start_def)
  have init: "l_init gate_lock" by (simp add: gate_lock_def)
  have t: "g_pc (dll_run gate_win32 (Turn 1 1 shm_zero # []) ?s) 2 = I_Lock"
    using s by (simp add: dll_run_Cons init_turn_at)
  from second_test_blocks_others [OF gate_mutex init free refl s(1,2) refl _ t, of 1 shm_zero] s(2) t
  show ?thesis by (simp add: Let_def)
qed

text \<open>
  Two hooks while the first one opens the channel: the other one tests the global after it has
  been published and before the block is open. In the second schedule the monitor is not
  running, so the block is freed again.
\<close>

definition early_hook :: "dll_event list" where
  "early_hook = [Hook 0 [1], Hook 1 [2]] @ turns 0 6 @ turns 1 2"

definition late_hook :: "dll_event list" where
  "late_hook = [Hook 0 [1], Hook 1 [2]] @ turns 0 7 @ turns 1 1 @ turns 0 2 @ turns 1 1"

text \<open>C14. The first test is not protected by the lock: there is a schedule in which a hook finds the
  global set while the block behind it is not open yet and writes through its null data pointer,
  and one, without a monitor, in which it writes into the block after it has been freed.\<close>

theorem hook_meets_unfinished_block:
  "g_pc (dll_run gate_win32 early_hook (gate_init True)) 1 = I_Fault Null_Dereference \<and>
   g_pc (dll_run gate_win32 late_hook (gate_init False)) 1 = I_Fault Use_After_Free"
proof
  let ?at = "\<lambda>g b p. \<lparr>g_k = \<lparr>gk_owner = Some 0, gk_count = 0, gk_map = g\<rparr>, g_mem = gate_mem, g_shm = (if b = None then NULL else 1),
      g_blocks = (\<lambda>_. None)(1 := b), g_lock = gate_lock, g_pc = p, g_data = (\<lambda>_. [])(0 := [1], 1 := [2]), g_opened = 0, g_sent = []\<rparr>"
  let ?pc = "\<lambda>p q. (\<lambda>_. I_Idle)(0 := p, 1 := q)"
  let ?pre = "[Hook 0 [1], Hook 1 [2]] @ turns 0 2"
  have a: "dll_run gate_win32 ?pre (gate_init g) = ?at g None (?pc I_Again I_Test)" for g
    by (simp add: turns_def numeral_2_eq_2 dll_run_Cons hook_call_def init_turn_at gate_init_def dll_start_def lock_wait_def gate_win32_def
        gate_wait_def gate_lock_def gate_start_def fun_upd_twist)
  have b: "dll_run gate_win32 (turns 0 4) (?at g None (?pc I_Again I_Test)) =
      ?at g (Some (shm_zero\<lparr>sb_len := 2048\<rparr>)) (?pc I_Name I_Test)" for g
    by (simp add: turns_def eval_nat_numeral dll_run_Cons init_turn_at block_at_def fun_upd_twist)
  have c: "dll_run gate_win32 (turns 0 5) (?at g None (?pc I_Again I_Test)) = ?at g (Some fresh_shm) (?pc I_Open I_Test)" for g
    unfolding turns_def by (subst init_builds) (simp_all add: fun_upd_twist)
  have six: "turns 0 6 = turns 0 2 @ turns 0 4" and seven: "turns 0 7 = turns 0 2 @ turns 0 5"
    unfolding turns_def replicate_add [symmetric] by simp_all
  have early: "early_hook = ?pre @ turns 0 4 @ turns 1 2" by (simp add: early_hook_def six)
  have "dll_run gate_win32 early_hook (gate_init True) =
      dll_run gate_win32 (turns 1 2) (?at True (Some (shm_zero\<lparr>sb_len := 2048\<rparr>)) (?pc I_Name I_Test))"
    unfolding early dll_run_append [of _ ?pre] dll_run_append [of _ "turns 0 4"] a b ..
  then show "g_pc (dll_run gate_win32 early_hook (gate_init True)) 1 = I_Fault Null_Dereference"
    by (simp add: turns_def numeral_2_eq_2 dll_run_Cons init_turn_def block_at_def shm_write_def shm_lock_def view_at_def
        shm_zero_def lock_zero_def gate_mem_def Let_def)
  have fails: "shm_init (gate_win32 0) fresh_shm None gate_mem k = Inr (SHM_MMAP_FAILED, fresh_shm, gate_mem, k)"
    if "\<not> gk_map k" for k
    using that by (simp add: shm_init_def shm_enable_privileges_def gate_win32_def fresh_shm_def shm_zero_def)
  have late: "late_hook = ?pre @ turns 0 5 @ turns 1 1 @ turns 0 2 @ turns 1 1" by (simp add: late_hook_def seven)
  have "dll_run gate_win32 late_hook (gate_init False) =
      dll_run gate_win32 (turns 1 1 @ turns 0 2 @ turns 1 1) (?at False (Some fresh_shm) (?pc I_Open I_Test))"
    unfolding late dll_run_append [of _ ?pre] dll_run_append [of _ "turns 0 5"] a c ..
  then show "g_pc (dll_run gate_win32 late_hook (gate_init False)) 1 = I_Fault Use_After_Free"
    by (simp add: turns_def numeral_2_eq_2 dll_run_Cons init_turn_def block_at_def fails Let_def SHM_MMAP_FAILED_def FAILED_def)
qed

end
