(* ===== verification/Spec2Isabelle.thy ===== *)
theory Spec2Isabelle
  imports Pipeline Fake_Client Acl_Update Utils
    Mysql_Codec Mysql_Bits Mysql_Strings Mysql_Trie Mysql_Ctype Mysql_Thai Mysql_Errors Mysql_Proto
    Mysql_Atomic Mysql_Sys Mysql_Flags Debug Channel_Props
    Acl_Access_Props Init_Race_Props
begin

text \<open>
  A verification development for a DHCP filter and logger for Windows.

  \<^bold>\<open>The program.\<close> Two processes share named memory. The callout DLL (\<open>CalloutHook/\<close>) is loaded by
  the DHCP server; its hooks copy every offer, release and client deletion into a 2048-byte shared
  slot, and a packet hook asks an access list whether a client is served. The monitor (\<open>Monitor/\<close>)
  waits for the slot's event, copies the message, queues it, and a second thread writes a row to
  MySQL; a further thread (\<open>acl_update.cpp\<close>) loads the access list from the database into shared
  memory. Both link \<open>libdhcp/\<close> (packet parsing, shared memory, locks, access list, configuration)
  and \<open>libdb/\<close>; \<open>FakeClient/\<close> is a test sender, \<open>dhcputils/\<close> an older copy of two files. \<open>libdb/\<close> is
  compiled against the MySQL client headers, which are part of the repository
  (\<open>libmysql/include/\<close>), and linked with the client library, which is not.

  \<^bold>\<open>The theories.\<close>
  \<^item> \<open>Prelude\<close>: machine types, memory faults as values of a sum type, checked arrays and \<open>memcpy\<close>,
    little-endian words, C strings.
  \<^item> \<open>Dhcp_Packet\<close>: \<open>include/dhcp.h\<close>; the packet and the three message structures with their memory
    layout; the locale \<open>msg_codec\<close> (what sender and receiver rely on) interpreted for all four.
  \<^item> \<open>Dhcp\<close>: \<open>libdhcp/src/dhcp.c\<close>; name tables, hardware-address text, option search.
  \<^item> \<open>Win32\<close>, \<open>Lock\<close>, \<open>Shm\<close>: the operating-system services as a record of functions over an
    abstract kernel, and \<open>lock.cpp\<close>, \<open>shm.cpp\<close> over it.
  \<^item> \<open>Acl\<close>: \<open>acl.cpp\<close>; the comparator, the sort (locale \<open>acl_sorter\<close>, the contract of \<open>qsort\<close>), the
    first-match filter.
  \<^item> \<open>Linked_Buffer\<close>: \<open>Monitor/linked_buffer.cpp\<close> as a pointer structure in a heap, refined to a
    bounded FIFO (locale \<open>bounded_fifo\<close>).
  \<^item> \<open>C_Stdlib\<close>, \<open>Db\<close>, \<open>Acl_Update\<close>: the C library functions used, the MySQL client as a parameter
    with \<open>libdb/db.cpp\<close>, and \<open>Monitor/acl_update.cpp\<close>.
  \<^item> \<open>Config\<close>, \<open>Utils\<close>: \<open>libdhcp/config.cpp\<close>; \<open>libdhcp/src/utils.cpp\<close> and \<open>dhcputils/\<close>.
  \<^item> \<open>Callout_Hook\<close>: \<open>CalloutHook/CalloutHook.cpp\<close>.
  \<^item> \<open>Monitor_Handlers\<close>, \<open>Monitor\<close>: \<open>Monitor/main.cpp\<close>; the message handlers, the start, the two
    loops, and the threads as a step relation with its invariant, whose steps are whole turns of a
    thread (\<open>Channel\<close> has the finer steps).
  \<^item> \<open>Pipeline\<close>: one message through a hook, the receiving loop and the handler, the kernel state
    handed from one to the next under the documented behaviour of mutexes and events.
  \<^item> \<open>Channel\<close>, \<open>Channel_Props\<close>: \<open>shm_write\<close> and the receive loop of \<open>_tmain\<close> cut into single steps and
    interleaved, any number of senders with the monitor; mutual exclusion, whole messages, and the
    two ways in which the channel fails. The queued copies are kept by value there, the queue is
    taken to have room, and the freeing of the buffer is left to \<open>Monitor\<close>.
  \<^item> \<open>Acl_Access\<close>, \<open>Acl_Access_Props\<close>: \<open>acl_filter\<close> in any number of server threads interleaved with
    \<open>acl_do_update\<close> in the monitor, one read or write of the shared list per step, with nothing
    assumed of the lock, which lies in memory shared by two processes; what is safe all the same,
    and what happens when the lock excludes the threads of one process only.
  \<^item> \<open>Init_Race\<close>, \<open>Init_Race_Props\<close>: \<open>InitSHM\<close> statement by statement in any number of hooks that share
    the global pointer, the heap and the initialisation lock; \<open>shm_init_client\<close> and \<open>shm_write\<close> are
    single steps there, and the stop of \<open>DhcpControlHook\<close> is not among the events.
  \<^item> \<open>Fake_Client\<close>: \<open>FakeClient/FakeClient.cpp\<close>.
  \<^item> \<open>Mysql_Codec\<close>: the integer and floating-point codecs of \<open>libmysql/include/myisampack.h\<close> and
    \<open>my_global.h\<close> against one reference encoding (locale \<open>buf_codec\<close>, interpreted for every width).
  \<^item> \<open>Mysql_Bits\<close>: \<open>my_bit.h\<close> and \<open>my_bitmap.h\<close>; the bitmap as a set (locale \<open>bit_set\<close>).
  \<^item> \<open>Mysql_Strings\<close>, \<open>Mysql_Trie\<close>: the scan of \<open>m_string.h\<close> for trailing spaces against the naive one;
    the trie and the Aho--Corasick step of \<open>my_trie.h\<close>.
  \<^item> \<open>Mysql_Uctype\<close>, \<open>Mysql_Ctype\<close>, \<open>Mysql_Thai\<close>: the Unicode class tables of \<open>my_uctype.h\<close>, the class
    predicates and flags of \<open>m_ctype.h\<close>, the Thai classes of \<open>t_ctype.h\<close>.
  \<^item> \<open>Mysql_Errors\<close>, \<open>Mysql_Proto\<close>: the error numbers of \<open>mysqld_error.h\<close>, \<open>errmsg.h\<close> and \<open>mysys_err.h\<close>;
    commands, flags, field types, dates and decimals of \<open>mysql_com.h\<close>, \<open>mysql.h\<close>, \<open>mysql_time.h\<close>,
    \<open>my_time.h\<close> and \<open>decimal.h\<close>.
  \<^item> \<open>Mysql_Atomic\<close>: \<open>my_atomic.h\<close> with the four back ends under \<open>atomic/\<close>; the contract of a back end is
    the locale \<open>atomic_backend\<close>, in which the operations of any number of interleaved threads are
    shown to be linearizable and to finish.
  \<^item> \<open>Mysql_Sys\<close>: the \<open>IO_CACHE\<close> macros of \<open>my_sys.h\<close> against plain reading and appending, the absolute times
    of \<open>my_pthread.h\<close>, the number macros of \<open>my_global.h\<close>.
  \<^item> \<open>Mysql_Flags\<close>: the option bits of \<open>my_base.h\<close> and \<open>my_sys.h\<close> with the contract of such a group (locale
    \<open>flag_group\<close>), the enumerations (locale \<open>enumeration\<close>), lock and option types and the handler errors of
    \<open>my_base.h\<close>, \<open>thr_lock.h\<close> and \<open>my_getopt.h\<close>.
  \<^item> \<open>Debug\<close>: \<open>libdhcp/debug.cpp\<close> and \<open>include/debug.h\<close>.
  \<^item> This theory: the properties that cross the two processes, over \<open>Pipeline\<close>.

  \<^bold>\<open>Conventions.\<close> The build is the Unicode one on a little-endian machine. A function that may
  touch memory outside an object returns \<open>fault + 'a\<close>; a theorem about a right value therefore says
  that no such access happened. Services outside the repository (Win32, the C runtime's clock, the
  MySQL client library) are record parameters; what a theorem needs of them is a hypothesis, and
  each such theorem has a witness on a concrete kernel or database (\<open>sim_win32\<close>, \<open>pipe_win32\<close>,
  \<open>sim_mysql\<close>).
  Allocation succeeds except where the model takes its result as an argument (\<open>buffer_init\<close>,
  \<open>buffer_add_tail\<close>, the message buffer). A mapped view is identified by its address, so the two
  processes see the same shared memory when their blocks have the same data address. The endless
  loops are modelled by their turns: one function per turn, and either a step relation
  (\<open>monitor_step\<close>), a list of wait results (\<open>acl_update_loop\<close>) or a number of turns (\<open>send_loop\<close>), so
  that no bound hides a behaviour. Recursion is structural or has a termination proof; the loops of
  the trie, which follow pointers, and the compare-and-swap loops are partial functions whose
  theorems prove that they end. There is no fuel elsewhere. A definition of a macro that the headers give in several forms carries the
  form in its name (\<open>x86_\<close> for the one compiled on Win32, \<open>gen_\<close> for the portable one, \<open>be\<close>, \<open>le\<close> and
  \<open>mixed\<close> for byte orders).

  \<^bold>\<open>What is shown.\<close> That a message arrives intact and is logged with the right statement, end to
  end; that no message can inject SQL; that the option search, the address text and the access-list
  decision are right and where exactly they are safe; that the queue is a FIFO; that in every
  interleaving of senders and monitor only whole messages are copied and the last one arrives; that
  in every interleaving with reloads the filters stay inside the list and decide on one whole list
  unless they meet a write, and that the channel is opened at most once, in every interleaving; that
  the loaded access list decides as the database rows say; that the descriptor code leaks nothing; for the
  headers, that what is stored is read back on every width, that the two forms of the codecs agree,
  that optimised scans and searches equal their plain meaning, that the tables are complete, and
  that the atomic operations are atomic and end in every interleaving; and, where the code does not
  do what it means to, theorems that say so: the monitor can handle one message only, the filter overflows for Ethernet addresses, the
  list order prefers the least specific mask, hooks fault without a running monitor, a dead sender
  closes the channel, the access list can be torn between the processes, a hook can use the channel
  before it is open, and others.

  \<^bold>\<open>Not modelled.\<close> The text the components print to the console and through \<open>LOG\<close>, except the calls in
  its arguments that can fault (\<open>Debug\<close> shows that the printing itself returns); the
  precompiled-header and version files; of the MySQL headers, the function prototypes, the structures of the library's own state and the platform switches, since
  the code behind them is not in the repository.
\<close>

section \<open>From the server to the database\<close>

text \<open>
  The receiving loop runs in the memory and the kernel state the hook leaves, and the handler in the
  kernel state the receiving loop leaves (theory \<open>Pipeline\<close>), with no other hook in between: that the
  mutex is free and the events are signalled when they are needed is proved, from the documented
  behaviour of mutexes and events and from what the code before has released and signalled.
\<close>

text \<open>C1. An offer ends up in the database as it was made: when the server calls the offer hook with a
  packet of at most 1500 bytes that has a well-formed option area with a host name and a hardware
  address of 1 to 16 bytes of a known type, while the channel is open and at rest, then the hook
  returns 0, the next turn of the receiving loop is woken by it and queues the message, and the
  handler's next turn is woken by that and runs exactly one statement, which inserts the
  colon-separated hardware address, the offered address, the lease time and the hex text of the
  host name without its trailing NUL. Afterwards the mutex and the lock of the queue are free and
  neither event is signalled. No step touches memory it should not, whatever the uninitialised
  buffers held.\<close>

theorem offer_reaches_database:
  assumes "kernel_objects W obj view" "pipeline_ready obj view S E C m k M al" "length stack = DHCP_MTU_MAX"
    and "unat PacketSize \<le> length Packet" "unat PacketSize \<le> DHCP_MTU_MAX"
    and "take (unat PacketSize) Packet @ drop (unat PacketSize) stack = packet_bytes p @ pad" "wf_packet p"
    and "pkt_options p = DHCP_OPTIONS_COOKIE @ encode_options os @ DHO_END # fill" "fill \<noteq> []" "wf_options os"
    and "request_ok p os" "find (\<lambda>(c, _). c = DHO_HOST_NAME) os = Some (c, name)" "name \<noteq> []"
    and "wf_time_bufs (mon_time M)" "length hb = hwaddr_buf_size"
    and "\<And>bs. length (mysql_hex_string Q bs) = 2 * length bs"
  shows "\<exists>m' k' k2. DhcpAddressOfferHook (W Server_Thread) env C stack Packet PacketSize ControlCode IpAddress AltAddress AddrType
      LeaseTime m k = Inr (0, C, m', k') \<and>
    monitor_logs W Q T hb al M m' k' d k2 (run_query Q (mon_conn M)
      (offer_query (hw_string (take (unat (hlen p)) (chaddr p))) AltAddress LeaseTime
        (mysql_hex_string Q (host_text name))) d) \<and>
    view k2 = (view k)\<lparr>signals := signals (view k) - {S, E}\<rparr>"
proof -
  let ?a = "\<lparr>o_HookType = CALLOUT_ADDRESS_OFFER, o_PacketSize = PacketSize, o_ControlCode = ControlCode,
      o_IpAddress = IpAddress, o_AltAddress = AltAddress, o_AddrType = AddrType, o_LeaseTime = LeaseTime,
      o_Packet = take (unat PacketSize) Packet @ drop (unat PacketSize) stack\<rparr>"
  obtain blk k1 where ready: "ch_shm C = Some blk" "channel_ready (W Server_Thread) blk m k k1" "sb_data (mon_shm M) = sb_data blk"
    "view (shm_after (W Server_Thread) blk k1) = (view k)\<lparr>signals := insert S (signals (view k))\<rparr>"
    using hook_signals [OF assms(1,2)] by blast
  obtain vw rest where hook: "DhcpAddressOfferHook (W Server_Thread) env C stack Packet PacketSize ControlCode IpAddress AltAddress AddrType
      LeaseTime m k = Inr (0, C, m(sb_data blk \<mapsto> vw), shm_after (W Server_Thread) blk k1)"
    "v_data vw = offer_bytes ?a @ rest" "length (v_data vw) = 2048"
    using offer_hook_delivers [OF ready(1,2) assms(3-5)] by blast
  have wf: "wf_offer ?a" using assms(3-5) by (simp add: wf_offer_def)
  then have len: "length (offer_bytes ?a) = sizeof_OFFER_ARGS" by (rule offer_codec.length_enc)
  have msg: "offer_message ?a p os fill pad (v_data vw)"
    using wf len hook(2) assms(6-10) by (simp add: offer_message_def)
  have type: "bytes_dword (slice 0 4 (v_data vw)) = CALLOUT_ADDRESS_OFFER"
    using bytes_dword_head(1) [of "v_data vw"] offer_message_cast(1) [OF msg] by simp
  obtain tb where "handle_offer Q T (mon_conn M) hb (v_data vw) (mon_time M) d = Inr (tb, run_query Q (mon_conn M)
      (offer_query (hw_string (take (unat (hlen p)) (chaddr p))) (o_AltAddress ?a) (o_LeaseTime ?a)
        (mysql_hex_string Q (host_text name))) d)"
    using handle_offer_logs [OF msg assms(11,14,15,12,13,16)] by blast
  then have "handle_message Q T (mon_conn M) hb (v_data vw) (mon_time M) d = Inr (tb, run_query Q (mon_conn M)
      (offer_query (hw_string (take (unat (hlen p)) (chaddr p))) AltAddress LeaseTime
        (mysql_hex_string Q (host_text name))) d)"
    using type hook(3) by (simp add: handle_message_def)
  then show ?thesis
    using hook(1) pipeline_logs [where m' = "m(sb_data blk \<mapsto> vw)" and vw = vw, OF assms(1,2) ready(4) _ hook(3)] ready(3) by auto
qed

theorem offer_reaches_database_witness:
  "\<exists>m' k' k2. DhcpAddressOfferHook (pipe_win32 Server_Thread) id pipe_callout (replicate DHCP_MTU_MAX 0)
      (packet_bytes demo_request @ replicate 28 0) 1500 0 0 0xC0A80001 0 3600 demo_slot pipe_start =
      Inr (0, pipe_callout, m', k') \<and>
    monitor_logs pipe_win32 sim_mysql demo_wtime demo_hb (50, 0) demo_running m' k' monitor_db k2 (run_query sim_mysql (mon_conn demo_running)
      (offer_query (hw_string (take (unat (hlen demo_request)) (chaddr demo_request))) 0xC0A80001 3600
        (mysql_hex_string sim_mysql (host_text [0x70, 0x63, 0]))) monitor_db) \<and>
    id k2 = (id pipe_start)\<lparr>signals := signals (id pipe_start) - {7, 8}\<rparr>"
  by (rule offer_reaches_database [OF pipe_kernel_objects pipe_ready, where p = demo_request and pad = "replicate 28 0"
        and os = demo_options and fill = "replicate 1223 0" and c = DHO_HOST_NAME])
     (use packet_codec.length_enc [OF wf_demo_request(1)] wf_demo_request demo_request_ok in
       \<open>simp_all add: sim_hex_length layout demo_hb_def demo_running_def demo_monitor_def demo_wbufs_def wf_time_bufs_def\<close>,
      simp_all add: demo_request_def demo_options_def DHO_HOST_NAME_def DHO_DHCP_MESSAGE_TYPE_def)

text \<open>C2. A release is logged and nothing else that deletes an address is: for a packet of at most
  1500 bytes with a hardware address of 1 to 16 bytes, the hook returns 0, its signal wakes the
  receiving loop and that one's signal the handler, which inserts the hardware address and the
  address given back, marked as requested, when the control code is \<open>DHCP_PROB_RELEASE\<close>, and leaves
  the database alone otherwise. All locks are free and both events reset afterwards.\<close>

theorem release_reaches_database:
  assumes "kernel_objects W obj view" "pipeline_ready obj view S E C m k M al" "length stack = DHCP_MTU_MAX"
    and "unat PacketSize \<le> length Packet" "unat PacketSize \<le> DHCP_MTU_MAX"
    and "take (unat PacketSize) Packet @ drop (unat PacketSize) stack = packet_bytes p @ pad" "wf_packet p"
    and "0 < unat (hlen p)" "unat (hlen p) \<le> 16" "length hb = hwaddr_buf_size"
  shows "\<exists>m' k' k2. DhcpAddressDelHook (W Server_Thread) env C stack Packet PacketSize ControlCode IpAddress AltAddress m k =
      Inr (0, C, m', k') \<and>
    monitor_logs W Q T hb al M m' k' d k2 (if ControlCode = DHCP_PROB_RELEASE
      then run_query Q (mon_conn M) (lease_query (hw_string (take (unat (hlen p)) (chaddr p))) AltAddress ''requested'') d
      else d) \<and>
    view k2 = (view k)\<lparr>signals := signals (view k) - {S, E}\<rparr>"
proof -
  let ?a = "\<lparr>d_HookType = CALLOUT_ADDRESS_DELETE, d_PacketSize = PacketSize,
      d_Packet = take (unat PacketSize) Packet @ drop (unat PacketSize) stack,
      d_ControlCode = ControlCode, d_IpAddress = IpAddress, d_AltAddress = AltAddress\<rparr>"
  obtain blk k1 where ready: "ch_shm C = Some blk" "channel_ready (W Server_Thread) blk m k k1" "sb_data (mon_shm M) = sb_data blk"
    "view (shm_after (W Server_Thread) blk k1) = (view k)\<lparr>signals := insert S (signals (view k))\<rparr>"
    using hook_signals [OF assms(1,2)] by blast
  obtain vw rest where hook: "DhcpAddressDelHook (W Server_Thread) env C stack Packet PacketSize ControlCode IpAddress AltAddress m k =
      Inr (0, C, m(sb_data blk \<mapsto> vw), shm_after (W Server_Thread) blk k1)"
    "v_data vw = del_bytes ?a @ rest" "length (v_data vw) = 2048"
    using del_hook_delivers [OF ready(1,2) assms(3-5)] by blast
  have wf: "wf_del ?a" using assms(3-5) by (simp add: wf_del_def)
  have packet: "d_Packet ?a = packet_bytes p @ pad" using assms(6) by simp
  have "handle_message Q T (mon_conn M) hb (v_data vw) (mon_time M) d =
      Inr (mon_time M, if d_ControlCode ?a = DHCP_PROB_RELEASE
      then run_query Q (mon_conn M) (lease_query (hw_string (take (unat (hlen p)) (chaddr p))) (d_AltAddress ?a) ''requested'') d
      else d)"
    unfolding hook(2) by (rule handle_lease_logs [OF wf _ assms(7) packet assms(8-10)]) simp
  then have "handle_message Q T (mon_conn M) hb (v_data vw) (mon_time M) d = Inr (mon_time M, if ControlCode = DHCP_PROB_RELEASE
      then run_query Q (mon_conn M) (lease_query (hw_string (take (unat (hlen p)) (chaddr p))) AltAddress ''requested'') d
      else d)" by (simp only: del_args.select_convs)
  then show ?thesis
    using hook(1) pipeline_logs [where m' = "m(sb_data blk \<mapsto> vw)" and vw = vw, OF assms(1,2) ready(4) _ hook(3)] ready(3) by auto
qed

theorem release_reaches_database_witness:
  "\<exists>m' k' k2. DhcpAddressDelHook (pipe_win32 Server_Thread) id pipe_callout (replicate DHCP_MTU_MAX 0)
      (packet_bytes demo_request @ replicate 28 0) 1500 DHCP_PROB_RELEASE 0 0xC0A80001 demo_slot pipe_start =
      Inr (0, pipe_callout, m', k') \<and>
    monitor_logs pipe_win32 sim_mysql demo_wtime demo_hb (50, 0) demo_running m' k' monitor_db k2 (if DHCP_PROB_RELEASE = DHCP_PROB_RELEASE
      then run_query sim_mysql (mon_conn demo_running)
        (lease_query (hw_string (take (unat (hlen demo_request)) (chaddr demo_request))) 0xC0A80001 ''requested'') monitor_db
      else monitor_db) \<and>
    id k2 = (id pipe_start)\<lparr>signals := signals (id pipe_start) - {7, 8}\<rparr>"
  by (rule release_reaches_database [OF pipe_kernel_objects pipe_ready, where p = demo_request and pad = "replicate 28 0"])
     (use packet_codec.length_enc [OF wf_demo_request(1)] wf_demo_request in
       \<open>simp_all add: layout demo_hb_def\<close>, simp_all add: demo_request_def)

text \<open>C3. The deletion of a client with a hardware address of 1 to 16 bytes ends up in the database with
  that address, marked as a timeout: the hook wakes the receiving loop, which wakes the handler,
  and all locks are free and both events reset afterwards.\<close>

theorem client_deletion_reaches_database:
  assumes "kernel_objects W obj view" "pipeline_ready obj view S E C m k M al" "length stack = 16"
    and "HwAddressLength = of_nat n" "0 < n" "n \<le> 16" "n \<le> length HwAddress" "length hb = hwaddr_buf_size"
  shows "\<exists>m' k' k2. DhcpDeleteClientHook (W Server_Thread) env C stack IpAddress HwAddress HwAddressLength ClientType m k =
      Inr (0, C, m', k') \<and>
    monitor_logs W Q T hb al M m' k' d k2
      (run_query Q (mon_conn M) (lease_query (hw_string (take n HwAddress)) IpAddress ''timeout'') d) \<and>
    view k2 = (view k)\<lparr>signals := signals (view k) - {S, E}\<rparr>"
proof -
  have n: "unat HwAddressLength = n" using assms(4,6) by (simp add: unat_of_nat)
  let ?a = "\<lparr>c_HookType = CALLOUT_CLIENT_DELETE, c_IpAddress = IpAddress,
      c_HwAddress = take (unat HwAddressLength) HwAddress @ drop (unat HwAddressLength) stack,
      c_HwAddressLength = HwAddressLength, c_ClientType = ClientType\<rparr>"
  obtain blk k1 where ready: "ch_shm C = Some blk" "channel_ready (W Server_Thread) blk m k k1" "sb_data (mon_shm M) = sb_data blk"
    "view (shm_after (W Server_Thread) blk k1) = (view k)\<lparr>signals := insert S (signals (view k))\<rparr>"
    using hook_signals [OF assms(1,2)] by blast
  obtain vw rest where hook: "DhcpDeleteClientHook (W Server_Thread) env C stack IpAddress HwAddress HwAddressLength ClientType m k =
      Inr (0, C, m(sb_data blk \<mapsto> vw), shm_after (W Server_Thread) blk k1)"
    "v_data vw = client_bytes ?a @ rest" "length (v_data vw) = 2048"
    using client_hook_delivers [OF ready(1,2) assms(3), of HwAddressLength HwAddress] assms(6,7) n by blast
  have "wf_client ?a" using assms(3,6,7) n by (simp add: wf_client_def)
  from handle_delete_run [OF this _ assms(8) _ assms(5,6), where rest = rest] assms(4,7) hook(2) n
  have "handle_message Q T (mon_conn M) hb (v_data vw) (mon_time M) d = Inr (mon_time M,
      run_query Q (mon_conn M) (lease_query (hw_string (take n HwAddress)) IpAddress ''timeout'') d)" by simp
  then show ?thesis
    using hook(1) pipeline_logs [where m' = "m(sb_data blk \<mapsto> vw)" and vw = vw, OF assms(1,2) ready(4) _ hook(3)] ready(3) by auto
qed

theorem client_deletion_reaches_database_witness:
  "\<exists>m' k' k2. DhcpDeleteClientHook (pipe_win32 Server_Thread) id pipe_callout (replicate 16 0) 0xC0A80001 [1, 2, 3, 4, 5, 6] 6 0
      demo_slot pipe_start = Inr (0, pipe_callout, m', k') \<and>
    monitor_logs pipe_win32 sim_mysql demo_wtime demo_hb (50, 0) demo_running m' k' monitor_db k2 (run_query sim_mysql (mon_conn demo_running)
        (lease_query (hw_string (take 6 [1, 2, 3, 4, 5, 6])) 0xC0A80001 ''timeout'') monitor_db) \<and>
    id k2 = (id pipe_start)\<lparr>signals := signals (id pipe_start) - {7, 8}\<rparr>"
  by (rule client_deletion_reaches_database [OF pipe_kernel_objects pipe_ready]) (simp_all add: demo_hb_def)

end
